(* ===== verification/Rep_Prelude.thy ===== *)
theory Rep_Prelude
  imports Main "HOL-Library.Word" "HOL-Library.State_Monad" "HOL-Library.AList"
    "HOL-Library.Multiset"
begin

text \<open>
  Shared vocabulary of the development: the machine integers of Go, its error values and
  the outcome of a Go call, nil-able maps, the iteration over a Go map, and the generic
  lemmas and theorem collections the component theories use.
\<close>

section \<open>Types of the Go language\<close>

type_synonym int32 = "32 word"
type_synonym go_int = "64 word"
type_synonym uint16 = "16 word"
type_synonym uint32 = "32 word"
type_synonym uint64 = "64 word"

text \<open>
  The conversions \<open>int(x)\<close> of an \<open>int32\<close> (sign extension) and \<open>int32(x)\<close> of an
  \<open>int\<close> (truncation to the low 32 bits).
\<close>

definition int_of_int32 :: "int32 \<Rightarrow> go_int" where
  "int_of_int32 x = word_of_int (sint x)"

definition int32_of_int :: "go_int \<Rightarrow> int32" where
  "int32_of_int x = word_of_int (sint x)"

text \<open>
  Error values: the sentinel errors the repository declares or compares with, errors made
  in place with \<open>errors.New\<close> or \<open>fmt.Errorf\<close>, BBS errors with the \<open>Type\<close> of a
  \<open>models.Error\<close> (the types the repository tells apart, and any other) and any other
  error a service returns.
\<close>

datatype error_type =
    Error_ActualLRPCannotBeClaimed
  | Error_ActualLRPCannotBeStarted
  | Error_InvalidStateTransition
  | Error_ResourceNotFound
  | Error_InvalidJSON
  | Error_UnknownError
  | Error_Other nat

datatype go_error =
    ErrContainerMissingTags
  | ErrInvalidProcessIndex
  | ErrPreloadedRootFSNotFound
  | ErrResultFileTooLarge
  | ErrContainerNotFound
  | ErrSignaledWhileWaiting
  | InsufficientResourcesError "(string \<times> unit) list"
  | NewError string
  | WrappedError string go_error
  | ModelsError error_type string
  | KeyNotFoundError string
  | PrefixNotFoundError string
  | ForeignError string

text \<open>The outcome of a Go call that may also panic.\<close>

datatype 'a outcome = Ret 'a | Fail go_error | Panic

definition obind :: "'a outcome \<Rightarrow> ('a \<Rightarrow> 'b outcome) \<Rightarrow> 'b outcome" where
  "obind m f = (case m of Ret x \<Rightarrow> f x | Fail e \<Rightarrow> Fail e | Panic \<Rightarrow> Panic)"

text \<open>
  A \<open>map[string]string\<close> that may be nil; reading a missing key, or any key of a nil map,
  gives the zero value.
\<close>

type_synonym tags = "(string \<rightharpoonup> string) option"

definition tag_get :: "tags \<Rightarrow> string \<Rightarrow> string" where
  "tag_get t k =
     (case t of None \<Rightarrow> '''' | Some m \<Rightarrow> (case m k of None \<Rightarrow> '''' | Some v \<Rightarrow> v))"

text \<open>
  A Go map that the code ranges over is an association list with distinct keys
  (\<open>AList.update\<close> stores a value). The order in which \<open>range\<close> visits the entries is
  unspecified in Go: it is a parameter \<open>ord\<close> of the definitions that range over a map, of
  which only \<open>map_order ord\<close> is known.
\<close>

definition map_order :: "(('k \<times> 'v) list \<Rightarrow> ('k \<times> 'v) list) \<Rightarrow> bool" where
  "map_order ord \<longleftrightarrow> (\<forall>xs. mset (ord xs) = mset xs)"

definition has_key :: "('k \<times> 'v) list \<Rightarrow> 'k \<Rightarrow> bool" where
  "has_key m k \<longleftrightarrow> map_of m k \<noteq> None"

section \<open>Theorem collections\<close>

named_theorems outcome_simps "evaluation of outcomes"
named_theorems world_simps "evaluation of calls to the services"
named_theorems trace_simps "the calls a component makes"

section \<open>Generic lemmas\<close>

lemma obind_simps [simp, outcome_simps]:
  "obind (Ret x) f = f x" "obind (Fail e) f = Fail e" "obind Panic f = Panic"
  by (simp_all add: obind_def)

lemma obind_eq_Ret [outcome_simps]:
  "obind m f = Ret y \<longleftrightarrow> (\<exists>x. m = Ret x \<and> f x = Ret y)"
  by (cases m) auto

lemma tag_get_simps [simp]:
  "tag_get None k = ''''"
  "tag_get (Some m) k = (case m k of None \<Rightarrow> '''' | Some v \<Rightarrow> v)"
  by (simp_all add: tag_get_def)

lemma map_orderD: "map_order ord \<Longrightarrow> mset (ord xs) = mset xs"
  by (simp add: map_order_def)

lemma map_order_set: "map_order ord \<Longrightarrow> set (ord xs) = set xs"
  by (metis map_orderD set_mset_mset)

lemma map_of_fold_entries:
  "distinct (map fst xs) \<Longrightarrow>
     map_of (fold (\<lambda>(k, v). AList.update k v) xs m) = map_of m ++ map_of xs"
proof (induction xs arbitrary: m)
  case (Cons x xs)
  obtain k v where x: "x = (k, v)" by (cases x)
  with Cons have "map_of xs k = None" by (simp add: map_of_eq_None_iff)
  with Cons x show ?case by (auto simp: update_conv' map_add_def fun_eq_iff split: option.splits)
qed simp

lemma map_order_map_of:
  assumes "map_order ord" "distinct (map fst xs)"
  shows "map_of (ord xs) = map_of xs" and "distinct (map fst (ord xs))"
proof -
  have m: "mset (map fst (ord xs)) = mset (map fst xs)"
    using map_orderD [OF assms(1), of xs] by simp
  then show d: "distinct (map fst (ord xs))"
    using assms(2) by (metis distinct_count_atmost_1 set_mset_mset)
  show "map_of (ord xs) = map_of xs"
    using d assms map_order_set [OF assms(1), of xs]
    by (metis map_of_inject_set)
qed

lemma map_order_id [simp]: "map_order id" "map_order (\<lambda>xs. xs)" "map_order rev"
  by (simp_all add: map_order_def)

lemma has_key_iff: "has_key m k \<longleftrightarrow> k \<in> fst ` set m"
  by (simp add: has_key_def map_of_eq_None_iff)

lemma has_key_simps [simp]:
  "\<not> has_key [] k" "has_key ((a, b) # m) k \<longleftrightarrow> k = a \<or> has_key m k"
  by (auto simp: has_key_def)

lemma has_key_update [simp]:
  "has_key (AList.update k v m) k' \<longleftrightarrow> k' = k \<or> has_key m k'"
  by (simp add: has_key_def update_conv')

lemma distinct_fold_update:
  "distinct (map fst m) \<Longrightarrow> distinct (map fst (fold (\<lambda>x. AList.update (f x) (v x)) xs m))"
  by (induction xs arbitrary: m) (auto simp: distinct_update)

lemma has_key_fold_update:
  "has_key (fold (\<lambda>x. AList.update (f x) (v x)) xs m) k \<longleftrightarrow> k \<in> f ` set xs \<or> has_key m k"
  by (induction xs arbitrary: m) auto

lemma sint_go_int_of_int:
  "- (2 ^ 63) \<le> i \<Longrightarrow> i < 2 ^ 63 \<Longrightarrow> sint (word_of_int i :: go_int) = i"
  using sint_sbintrunc' [where 'a = 64, of i]
  by (simp add: signed_take_bit_int_eq_self)

lemma sint_int32_range: "- (2 ^ 31) \<le> sint (x :: int32)" "sint (x :: int32) < 2 ^ 31"
  using sint_ge [of x] sint_lt [of x] by simp_all

lemma sint_go_int_range: "- (2 ^ 63) \<le> sint (x :: go_int)" "sint (x :: go_int) < 2 ^ 63"
  using sint_ge [of x] sint_lt [of x] by simp_all

lemma sint_int_of_int32 [simp]: "sint (int_of_int32 x) = sint x"
  unfolding int_of_int32_def
  using sint_int32_range [of x] by (intro sint_go_int_of_int) simp_all

lemma int32_of_int_of_int32 [simp]: "int32_of_int (int_of_int32 x) = x"
  unfolding int32_of_int_def sint_int_of_int32 by simp

end
