(* ===== verification/Go_Std.thy ===== *)
theory Go_Std
  imports Rep_Prelude "HOL-Library.List_Lexorder" "HOL-Library.Char_ord"
begin

text \<open>
  The parts of Go's standard library the repository computes with: \<open>strconv.Itoa\<close> and
  \<open>strconv.Atoi\<close>, the functions of \<open>strings\<close> it calls, \<open>sort.Strings\<close> (the order of
  strings is the lexicographic order of their bytes) and \<open>url.Parse\<close>. Of a parsed URL the
  repository reads \<open>Scheme\<close>, \<open>Opaque\<close> and \<open>RawQuery\<close>; the other parts are checked
  for errors, as the parser does, and not kept.
\<close>

section \<open>strconv\<close>

fun digits10 :: "nat \<Rightarrow> string" where
  "digits10 n =
     (if n < 10 then [char_of (48 + n)] else digits10 (n div 10) @ [char_of (48 + n mod 10)])"

declare digits10.simps [simp del]

definition Itoa :: "go_int \<Rightarrow> string" where
  "Itoa w =
     (let i = sint w
      in if i < 0 then CHR ''-'' # digits10 (nat (- i)) else digits10 (nat i))"

definition is_digit :: "char \<Rightarrow> bool" where
  "is_digit c \<longleftrightarrow> (48 :: nat) \<le> of_char c \<and> of_char c \<le> (57 :: nat)"

fun digits_value :: "nat \<Rightarrow> string \<Rightarrow> nat option" where
  "digits_value acc [] = Some acc"
| "digits_value acc (c # cs) =
     (if is_digit c then digits_value (10 * acc + (of_char c - 48)) cs else None)"

definition split_sign :: "string \<Rightarrow> bool \<times> string" where
  "split_sign s =
     (case s of [] \<Rightarrow> (False, [])
      | c # cs \<Rightarrow> if c = CHR ''-'' then (True, cs) else if c = CHR ''+'' then (False, cs)
                 else (False, s))"

text \<open>An optional sign and decimal digits within the range of \<open>int\<close>; else an error.\<close>

definition Atoi :: "string \<Rightarrow> go_int option" where
  "Atoi s =
     (case split_sign s of (neg, ds) \<Rightarrow>
        if ds = [] then None
        else case digits_value 0 ds of
               None \<Rightarrow> None
             | Some n \<Rightarrow>
                 let i = (if neg then - int n else int n)
                 in if - (2 ^ 63) \<le> i \<and> i < 2 ^ 63 then Some (word_of_int i) else None)"

section \<open>strings and sort\<close>

text \<open>The index of the first occurrence of a byte splits a string in two.\<close>

fun cut :: "char \<Rightarrow> string \<Rightarrow> (string \<times> string) option" where
  "cut c [] = None"
| "cut c (x # xs) =
     (if x = c then Some ([], xs)
      else case cut c xs of None \<Rightarrow> None | Some (a, b) \<Rightarrow> Some (x # a, b))"

definition SplitN2 :: "string \<Rightarrow> char \<Rightarrow> string list" where
  "SplitN2 s c = (case cut c s of None \<Rightarrow> [s] | Some (a, b) \<Rightarrow> [a, b])"

fun Split :: "string \<Rightarrow> char \<Rightarrow> string list" where
  "Split [] c = [[]]"
| "Split (x # xs) c =
     (if x = c then [] # Split xs c
      else case Split xs c of [] \<Rightarrow> [[x]] | p # ps \<Rightarrow> (x # p) # ps)"

definition ReplaceAll :: "string \<Rightarrow> char \<Rightarrow> char \<Rightarrow> string" where
  "ReplaceAll s old new = map (\<lambda>c. if c = old then new else c) s"

fun Join :: "string list \<Rightarrow> string \<Rightarrow> string" where
  "Join [] sep = []"
| "Join [s] sep = s"
| "Join (s # t # ss) sep = s @ sep @ Join (t # ss) sep"

definition HasPrefix :: "string \<Rightarrow> string \<Rightarrow> bool" where
  "HasPrefix s p \<longleftrightarrow> take (length p) s = p"

definition to_lower :: "char \<Rightarrow> char" where
  "to_lower c =
     (if (65 :: nat) \<le> of_char c \<and> of_char c \<le> (90 :: nat)
      then char_of (of_char c + (32 :: nat)) else c)"

section \<open>net/url\<close>

record URL =
  Scheme :: string
  Opaque :: string
  RawQuery :: string

definition is_alpha :: "char \<Rightarrow> bool" where
  "is_alpha c \<longleftrightarrow>
     ((97 :: nat) \<le> of_char c \<and> of_char c \<le> (122 :: nat)) \<or>
     ((65 :: nat) \<le> of_char c \<and> of_char c \<le> (90 :: nat))"

definition ishex :: "char \<Rightarrow> bool" where
  "ishex c \<longleftrightarrow> is_digit c \<or>
     ((97 :: nat) \<le> of_char c \<and> of_char c \<le> (102 :: nat)) \<or>
     ((65 :: nat) \<le> of_char c \<and> of_char c \<le> (70 :: nat))"

definition unhex :: "char \<Rightarrow> nat" where
  "unhex c =
     (if is_digit c then of_char c - 48
      else if (97 :: nat) \<le> of_char c then of_char c - 97 + 10
      else of_char c - 65 + 10)"

datatype encoding = encodeOther | encodeHost | encodeZone

text \<open>The byte may not stand unescaped in a host name or zone.\<close>

definition host_should_escape :: "char \<Rightarrow> bool" where
  "host_should_escape c \<longleftrightarrow>
     \<not> (is_alpha c \<or> is_digit c \<or> c \<in> set ''!$&()*+,;=:[]<>-_.~'' \<or>
        c = CHR 0x27 \<or> c = CHR 0x22)"

text \<open>Whether \<open>unescape\<close> accepts a string: the percent escapes are well formed and, in
  a host or zone, no byte stands there that may not.\<close>

fun unescape_ok :: "encoding \<Rightarrow> string \<Rightarrow> bool" where
  "unescape_ok m [] = True"
| "unescape_ok m (c # cs) =
     (if c = CHR ''%'' then
        (case cs of
           h1 # h2 # rest \<Rightarrow>
             ishex h1 \<and> ishex h2 \<and>
             (m = encodeHost \<longrightarrow> unhex h1 \<ge> 8 \<or> [h1, h2] = ''25'') \<and>
             (m = encodeZone \<longrightarrow>
                [h1, h2] = ''25'' \<or> 16 * unhex h1 + unhex h2 = 32 \<or>
                \<not> host_should_escape (char_of (16 * unhex h1 + unhex h2))) \<and>
             unescape_ok m rest
         | _ \<Rightarrow> False)
      else (m = encodeOther \<or> (128 :: nat) \<le> of_char c \<or> \<not> host_should_escape c) \<and>
           unescape_ok m cs)"

fun getscheme_from :: "string \<Rightarrow> string \<Rightarrow> string \<Rightarrow> (string \<times> string) option" where
  "getscheme_from raw seen [] = Some ([], raw)"
| "getscheme_from raw seen (c # cs) =
     (if is_alpha c then getscheme_from raw (seen @ [c]) cs
      else if is_digit c \<or> c \<in> set ''+-.'' then
        (if seen = [] then Some ([], raw) else getscheme_from raw (seen @ [c]) cs)
      else if c = CHR '':'' then (if seen = [] then None else Some (seen, cs))
      else Some ([], raw))"

definition getscheme :: "string \<Rightarrow> (string \<times> string) option" where
  "getscheme raw = getscheme_from raw [] raw"

definition validOptionalPort :: "string \<Rightarrow> bool" where
  "validOptionalPort p \<longleftrightarrow>
     (case p of [] \<Rightarrow> True | c # cs \<Rightarrow> c = CHR '':'' \<and> list_all is_digit cs)"

text \<open>The text before and after the last occurrence of a byte.\<close>

definition cut_last :: "char \<Rightarrow> string \<Rightarrow> (string \<times> string) option" where
  "cut_last c s = (case cut c (rev s) of None \<Rightarrow> None | Some (b, a) \<Rightarrow> Some (rev a, rev b))"

fun zone_index :: "string \<Rightarrow> string \<Rightarrow> (string \<times> string) option" where
  "zone_index seen [] = None"
| "zone_index seen (c # cs) =
     (if take 3 (c # cs) = ''%25'' then Some (seen, c # cs) else zone_index (seen @ [c]) cs)"

definition parseHost_ok :: "string \<Rightarrow> bool" where
  "parseHost_ok host \<longleftrightarrow>
     (if HasPrefix host ''['' then
        (case cut_last (CHR '']'') host of
           None \<Rightarrow> False
         | Some (inner, colonPort) \<Rightarrow>
             validOptionalPort colonPort \<and>
             (case zone_index [] inner of
                Some (h1, h2) \<Rightarrow>
                  unescape_ok encodeHost h1 \<and> unescape_ok encodeZone h2 \<and>
                  unescape_ok encodeHost (CHR '']'' # colonPort)
              | None \<Rightarrow> unescape_ok encodeHost host))
      else unescape_ok encodeHost host)"

definition parseAuthority_ok :: "string \<Rightarrow> bool" where
  "parseAuthority_ok a \<longleftrightarrow>
     (case cut_last (CHR ''@'') a of
        None \<Rightarrow> parseHost_ok a
      | Some (userinfo, host) \<Rightarrow>
          parseHost_ok host \<and>
          (case cut (CHR '':'') userinfo of
             None \<Rightarrow> unescape_ok encodeOther userinfo
           | Some (u, p) \<Rightarrow> unescape_ok encodeOther u \<and> unescape_ok encodeOther p))"

definition authority_and_path_ok :: "string \<Rightarrow> string \<Rightarrow> bool" where
  "authority_and_path_ok scheme rest \<longleftrightarrow>
     (if (scheme \<noteq> [] \<or> \<not> HasPrefix rest ''///'') \<and> HasPrefix rest ''//'' then
        (case cut (CHR ''/'') (drop 2 rest) of
           None \<Rightarrow> parseAuthority_ok (drop 2 rest)
         | Some (a, p) \<Rightarrow> parseAuthority_ok a \<and> unescape_ok encodeOther (CHR ''/'' # p))
      else unescape_ok encodeOther rest)"

text \<open>In a relative reference the first path segment holds no colon.\<close>

definition colon_before_slash :: "string \<Rightarrow> bool" where
  "colon_before_slash s \<longleftrightarrow>
     CHR '':'' \<in> set (takeWhile (\<lambda>c. c \<noteq> CHR ''/'') s)"

definition parse_nofrag :: "string \<Rightarrow> URL option" where
  "parse_nofrag raw =
     (if raw = ''*'' then Some \<lparr>Scheme = [], Opaque = [], RawQuery = []\<rparr>
      else case getscheme raw of
        None \<Rightarrow> None
      | Some (sch, rest0) \<Rightarrow>
          let scheme = map to_lower sch;
              (rest, query) =
                (case cut (CHR ''?'') rest0 of None \<Rightarrow> (rest0, []) | Some (a, b) \<Rightarrow> (a, b))
          in if \<not> HasPrefix rest ''/'' \<and> scheme \<noteq> [] then
               Some \<lparr>Scheme = scheme, Opaque = rest, RawQuery = query\<rparr>
             else if \<not> HasPrefix rest ''/'' \<and> colon_before_slash rest then None
             else if authority_and_path_ok scheme rest then
               Some \<lparr>Scheme = scheme, Opaque = [], RawQuery = query\<rparr>
             else None)"

definition url_Parse :: "string \<Rightarrow> go_error + URL" where
  "url_Parse raw =
     (let (u, frag) = (case cut (CHR ''#'') raw of None \<Rightarrow> (raw, []) | Some (a, b) \<Rightarrow> (a, b))
      in case parse_nofrag u of
           None \<Rightarrow> Inl (ForeignError ''parse'')
         | Some r \<Rightarrow>
             if unescape_ok encodeOther frag then Inr r else Inl (ForeignError ''parse''))"

section \<open>Lemmas\<close>

lemma is_digit_char_of: "d < 10 \<Longrightarrow> is_digit (char_of (48 + d :: nat))"
  by (simp add: is_digit_def)

lemma of_char_char_of_digit: "d < 10 \<Longrightarrow> of_char (char_of (48 + d :: nat)) = 48 + d"
  by simp

lemma digits10_nonempty [simp]: "digits10 n \<noteq> []"
  by (subst digits10.simps) simp

lemma digits_value_append:
  "digits_value acc (xs @ [c]) =
     (case digits_value acc xs of
        None \<Rightarrow> None
      | Some n \<Rightarrow> if is_digit c then Some (10 * n + (of_char c - 48)) else None)"
  by (induction xs arbitrary: acc) auto

lemma digits_value_digits10 [simp]: "digits_value 0 (digits10 n) = Some n"
proof (induction n rule: digits10.induct)
  case (1 n)
  show ?case
  proof (cases "n < 10")
    case True
    then show ?thesis
      by (subst digits10.simps) (simp add: is_digit_char_of)
  next
    case False
    with "1.IH" have "digits_value 0 (digits10 (n div 10)) = Some (n div 10)" by simp
    with False show ?thesis
      by (subst digits10.simps) (simp add: digits_value_append is_digit_char_of)
  qed
qed

lemma hd_digits10: "is_digit (hd (digits10 n))"
proof (induction n rule: digits10.induct)
  case (1 n)
  then show ?case
    by (subst digits10.simps) (simp add: is_digit_char_of)
qed

lemma split_sign_digits10 [simp]: "split_sign (digits10 n) = (False, digits10 n)"
  using hd_digits10 [of n]
  by (cases "digits10 n") (auto simp: split_sign_def is_digit_def split: if_splits)

text \<open>Printing an \<open>int\<close> and parsing it again gives it back.\<close>

lemma Atoi_Itoa [simp]: "Atoi (Itoa w) = Some w"
proof -
  have r: "- (2 ^ 63) \<le> sint w" "sint w < 2 ^ 63"
    by (rule sint_go_int_range)+
  have "split_sign (CHR ''-'' # digits10 (nat (- sint w))) = (True, digits10 (nat (- sint w)))"
    by (simp add: split_sign_def)
  with r show ?thesis
    by (cases "sint w < 0") (simp_all add: Itoa_def Atoi_def)
qed

lemma cut_NoneD: "cut c s = None \<Longrightarrow> c \<notin> set s"
  by (induction s) (auto split: if_splits option.splits)

lemma cut_SomeD: "cut c s = Some (a, b) \<Longrightarrow> s = a @ c # b \<and> c \<notin> set a"
  by (induction s arbitrary: a b) (auto split: if_splits option.splits)

lemma cut_append: "c \<notin> set a \<Longrightarrow> cut c (a @ c # b) = Some (a, b)"
  by (induction a) auto

lemma cut_notin: "c \<notin> set s \<Longrightarrow> cut c s = None"
  by (induction s) auto

end
