(* ===== verification/Go_JSON.thy ===== *)
theory Go_JSON
  imports Go_Std
begin

text \<open>
  The data model of \<open>encoding/json\<close>. A payload is a JSON tree; its text syntax is the
  subject of the theory \<open>Go_JSON_Text\<close>. Modelled here is how Go values are decoded from a
  tree: how a struct field finds its key, and how strings, maps and slices are decoded. A
  decoder that meets a value of the wrong kind reports an error.
\<close>

datatype json =
    JNull
  | JBool bool
  | JNumber string
  | JString string
  | JArray "json list"
  | JObject "(string \<times> json) list"

definition json_error :: go_error where
  "json_error = ForeignError ''json''"

text \<open>
  A struct field matches a key that equals its name up to letter case. The fold also
  identifies the long s (bytes C5 BF) and the Kelvin sign (E2 84 AA) with their letters.
\<close>

fun fold_name :: "string \<Rightarrow> string" where
  "fold_name [] = []"
| "fold_name (a # cs) =
     (case cs of
        b # ds \<Rightarrow>
          if a = CHR 0xC5 \<and> b = CHR 0xBF then CHR ''s'' # fold_name ds
          else (case ds of
                  c # es \<Rightarrow>
                    if a = CHR 0xE2 \<and> b = CHR 0x84 \<and> c = CHR 0xAA
                    then CHR ''k'' # fold_name es
                    else to_lower a # fold_name cs
                | [] \<Rightarrow> to_lower a # fold_name cs)
      | [] \<Rightarrow> [to_lower a])"

definition field_matches :: "string \<Rightarrow> string \<Rightarrow> bool" where
  "field_matches name key \<longleftrightarrow> key = name \<or> fold_name key = fold_name name"

text \<open>
  Decoding into a \<open>string\<close> variable: \<open>null\<close> leaves it as it is.
\<close>

definition decode_string :: "json \<Rightarrow> string \<Rightarrow> go_error + string" where
  "decode_string j old =
     (case j of JString s \<Rightarrow> Inr s | JNull \<Rightarrow> Inr old | _ \<Rightarrow> Inl json_error)"

text \<open>
  Decoding an object into a struct with one interesting field: every key that matches the
  field is decoded over the value so far, the other keys are skipped. A type error is
  reported after the rest has been decoded.
\<close>

fun decode_field ::
  "string \<Rightarrow> (json \<Rightarrow> 'a \<Rightarrow> go_error + 'a) \<Rightarrow> (string \<times> json) list \<Rightarrow> 'a \<Rightarrow> go_error + 'a"
where
  "decode_field name dec [] x = Inr x"
| "decode_field name dec ((k, j) # kvs) x =
     (if field_matches name k then
        (case dec j x of
           Inl e \<Rightarrow> Inl e
         | Inr y \<Rightarrow> decode_field name dec kvs y)
      else decode_field name dec kvs x)"

definition decode_struct1 ::
  "string \<Rightarrow> (json \<Rightarrow> 'a \<Rightarrow> go_error + 'a) \<Rightarrow> json \<Rightarrow> 'a \<Rightarrow> go_error + 'a" where
  "decode_struct1 name dec j x =
     (case j of JObject kvs \<Rightarrow> decode_field name dec kvs x | JNull \<Rightarrow> Inr x
      | _ \<Rightarrow> Inl json_error)"

text \<open>Decoding into a \<open>map[string]T\<close>: later keys of an object override earlier ones.\<close>

fun decode_entries ::
  "(json \<Rightarrow> go_error + 'a) \<Rightarrow> (string \<times> json) list \<Rightarrow> (string \<times> 'a) list
     \<Rightarrow> go_error + (string \<times> 'a) list" where
  "decode_entries dec [] m = Inr m"
| "decode_entries dec ((k, j) # kvs) m =
     (case dec j of Inl e \<Rightarrow> Inl e | Inr x \<Rightarrow> decode_entries dec kvs (AList.update k x m))"

text \<open>Decoding into a \<open>[]string\<close>; \<open>null\<close> is the nil slice.\<close>

fun decode_strings :: "json list \<Rightarrow> go_error + string list" where
  "decode_strings [] = Inr []"
| "decode_strings (j # js) =
     (case decode_string j '''' of
        Inl e \<Rightarrow> Inl e
      | Inr s \<Rightarrow> (case decode_strings js of Inl e \<Rightarrow> Inl e | Inr ss \<Rightarrow> Inr (s # ss)))"

text \<open>\<open>json.Marshal\<close> of a map writes its entries sorted by key.\<close>

definition marshal_map :: "(string \<times> json) list \<Rightarrow> json" where
  "marshal_map m = JObject (sort_key fst m)"

section \<open>Lemmas\<close>

lemma decode_entries_map_of:
  assumes "\<forall>kv \<in> set kvs. dec (snd kv) = Inr (f (snd kv))"
  shows "\<exists>m'. decode_entries dec kvs m = Inr m' \<and>
           map_of m' = map_of m ++ map_of (map (\<lambda>(k, j). (k, f j)) (rev kvs)) \<and>
           (distinct (map fst m) \<longrightarrow> distinct (map fst m'))"
  using assms
proof (induction kvs arbitrary: m)
  case Nil
  then show ?case by simp
next
  case (Cons kv kvs)
  obtain k j where kv: "kv = (k, j)" by force
  with Cons.prems have j: "dec j = Inr (f j)" by simp
  obtain m' where m': "decode_entries dec kvs (AList.update k (f j) m) = Inr m'"
    "map_of m' = map_of (AList.update k (f j) m) ++ map_of (map (\<lambda>(k, j). (k, f j)) (rev kvs))"
    "distinct (map fst (AList.update k (f j) m)) \<longrightarrow> distinct (map fst m')"
    using Cons.IH [of "AList.update k (f j) m"] Cons.prems by auto
  show ?case
    using m' kv j by (auto simp: update_conv' distinct_update map_add_def fun_eq_iff
        split: option.splits)
qed

lemma map_of_rev_distinct: "distinct (map fst xs) \<Longrightarrow> map_of (rev xs) = map_of xs"
  by (rule map_of_inject_set [THEN iffD2]) (simp_all add: rev_map [symmetric])

lemma map_of_sort_key:
  fixes xs :: "('k :: linorder \<times> 'v) list"
  assumes "distinct (map fst xs)"
  shows "map_of (sort_key fst xs) = map_of xs" "distinct (map fst (sort_key fst xs))"
proof -
  have "mset (map fst (sort_key fst xs)) = mset (map fst xs)" by simp
  then show d: "distinct (map fst (sort_key fst xs))"
    using assms by (metis mset_eq_imp_distinct_iff)
  with assms show "map_of (sort_key fst xs) = map_of xs"
    by (simp add: map_of_inject_set)
qed

text \<open>Decoding what \<open>json.Marshal\<close> wrote for a map gives the decoded entries.\<close>

lemma decode_marshal_map:
  assumes d: "distinct (map fst kvs)"
    and dec: "\<forall>kv \<in> set kvs. dec (snd kv) = Inr (f (snd kv))"
  shows "\<exists>m. decode_entries dec (sort_key fst kvs) [] = Inr m \<and>
           map_of m = map_option f \<circ> map_of kvs \<and> distinct (map fst m)"
proof -
  let ?s = "sort_key fst kvs"
  have "\<forall>kv \<in> set ?s. dec (snd kv) = Inr (f (snd kv))"
    using dec by simp
  from decode_entries_map_of [OF this, of "[]"] obtain m where m:
    "decode_entries dec ?s [] = Inr m"
    "map_of m = map_of (map (\<lambda>(k, j). (k, f j)) (rev ?s))" "distinct (map fst m)"
    by auto
  have "map_of (map (\<lambda>(k, j). (k, f j)) (rev ?s)) = map_option f \<circ> map_of kvs"
    by (simp only: map_of_map map_of_rev_distinct map_of_sort_key d)
  with m show ?thesis by auto
qed

end
