(* ===== verification/Go_JSON_Text.thy ===== *)
theory Go_JSON_Text
  imports Go_JSON
begin

text \<open>
  The text syntax of \<open>encoding/json\<close>: how a JSON tree is printed by \<open>Marshal\<close> and
  \<open>Encode\<close>, and how a text is parsed by \<open>Unmarshal\<close> and \<open>Decode\<close>. Strings are byte
  strings: the printer escapes quotes, backslashes, control characters and the characters
  that are unsafe in HTML, and replaces bytes that are not UTF-8; the reader undoes the
  escapes. Printing and parsing are inverse on trees whose strings are UTF-8.
\<close>

section \<open>UTF-8\<close>

definition byte :: "char \<Rightarrow> nat" where
  "byte c = of_char c"

definition in_range :: "nat \<Rightarrow> nat \<Rightarrow> char \<Rightarrow> bool" where
  "in_range lo hi c \<longleftrightarrow> lo \<le> byte c \<and> byte c \<le> hi"

definition cont :: "char \<Rightarrow> bool" where
  "cont c \<longleftrightarrow> in_range 128 191 c"

text \<open>The bytes that may follow the first byte of a sequence of three or four.\<close>

definition second3 :: "char \<Rightarrow> char \<Rightarrow> bool" where
  "second3 a b \<longleftrightarrow>
     (if byte a = 0xE0 then in_range 0xA0 0xBF b
      else if byte a = 0xED then in_range 0x80 0x9F b
      else in_range 0xE1 0xEF a \<and> cont b)"

definition second4 :: "char \<Rightarrow> char \<Rightarrow> bool" where
  "second4 a b \<longleftrightarrow>
     (if byte a = 0xF0 then in_range 0x90 0xBF b
      else if byte a = 0xF4 then in_range 0x80 0x8F b
      else in_range 0xF1 0xF3 a \<and> cont b)"

text \<open>The length of the sequence at the head of a string, \<open>0\<close> when it is not UTF-8.\<close>

definition utf8_len :: "string \<Rightarrow> nat" where
  "utf8_len s =
     (case s of
        [] \<Rightarrow> 0
      | a # s1 \<Rightarrow>
          if byte a < 128 then 1
          else (case s1 of
            [] \<Rightarrow> 0
          | b # s2 \<Rightarrow>
              if in_range 0xC2 0xDF a \<and> cont b then 2
              else (case s2 of
                [] \<Rightarrow> 0
              | c # s3 \<Rightarrow>
                  if second3 a b \<and> cont c then 3
                  else (case s3 of
                    [] \<Rightarrow> 0
                  | d # s4 \<Rightarrow> if second4 a b \<and> cont c \<and> cont d then 4 else 0))))"

definition utf8_encode :: "nat \<Rightarrow> string" where
  "utf8_encode r =
     (if r < 0x80 then [char_of r]
      else if r < 0x800 then [char_of (0xC0 + r div 64), char_of (0x80 + r mod 64)]
      else if r < 0x10000 then
        [char_of (0xE0 + r div 4096), char_of (0x80 + r div 64 mod 64), char_of (0x80 + r mod 64)]
      else
        [char_of (0xF0 + r div 262144), char_of (0x80 + r div 4096 mod 64),
         char_of (0x80 + r div 64 mod 64), char_of (0x80 + r mod 64)])"

definition replacement :: string where
  "replacement = [CHR 0xEF, CHR 0xBF, CHR 0xBD]"

lemma utf8_len_le: "utf8_len s \<le> length s"
  by (auto simp: utf8_len_def split: list.split)

section \<open>Printing\<close>

definition hex_digit :: "nat \<Rightarrow> char" where
  "hex_digit n = (if n < 10 then char_of (48 + n) else char_of (87 + n))"

definition escape_u :: "nat \<Rightarrow> string" where
  "escape_u r =
     [CHR 0x5C, CHR ''u'', hex_digit (r div 4096 mod 16), hex_digit (r div 256 mod 16),
      hex_digit (r div 16 mod 16), hex_digit (r mod 16)]"

text \<open>One byte below \<open>0x80\<close>.\<close>

definition escape_ascii :: "char \<Rightarrow> string" where
  "escape_ascii c =
     (if c = CHR 0x22 \<or> c = CHR 0x5C then [CHR 0x5C, c]
      else if c = CHR 0x0A then [CHR 0x5C, CHR ''n'']
      else if c = CHR 0x0D then [CHR 0x5C, CHR ''r'']
      else if c = CHR 0x09 then [CHR 0x5C, CHR ''t'']
      else if byte c < 32 \<or> c = CHR ''<'' \<or> c = CHR ''>'' \<or> c = CHR ''&'' then escape_u (byte c)
      else [c])"

text \<open>A longer sequence: the line and paragraph separators are escaped.\<close>

definition escape_seq :: "string \<Rightarrow> string" where
  "escape_seq q =
     (if q = [CHR 0xE2, CHR 0x80, CHR 0xA8] then escape_u 0x2028
      else if q = [CHR 0xE2, CHR 0x80, CHR 0xA9] then escape_u 0x2029
      else q)"

function quote_body :: "string \<Rightarrow> string" where
  "quote_body [] = []"
| "quote_body (c # cs) =
     (if byte c < 128 then escape_ascii c @ quote_body cs
      else let k = utf8_len (c # cs) in
        if k = 0 then escape_u 0xFFFD @ quote_body cs
        else escape_seq (take k (c # cs)) @ quote_body (drop k (c # cs)))"
  by pat_completeness auto

termination
  by (relation "measure length") auto

definition quote :: "string \<Rightarrow> string" where
  "quote s = CHR 0x22 # quote_body s @ [CHR 0x22]"

fun print_json :: "json \<Rightarrow> string"
  and print_items :: "json list \<Rightarrow> string"
  and print_members :: "(string \<times> json) list \<Rightarrow> string" where
  "print_json JNull = ''null''"
| "print_json (JBool b) = (if b then ''true'' else ''false'')"
| "print_json (JNumber s) = s"
| "print_json (JString s) = quote s"
| "print_json (JArray js) = CHR ''['' # print_items js @ '']''"
| "print_json (JObject kvs) = CHR ''{'' # print_members kvs @ ''}''"
| "print_items [] = []"
| "print_items [j] = print_json j"
| "print_items (j # j' # js) = print_json j @ '','' @ print_items (j' # js)"
| "print_members [] = []"
| "print_members [(k, j)] = quote k @ '':'' @ print_json j"
| "print_members ((k, j) # kv # kvs) =
     quote k @ '':'' @ print_json j @ '','' @ print_members (kv # kvs)"

text \<open>\<open>Encoder.Encode\<close> adds a newline.\<close>

definition encode_json :: "json \<Rightarrow> string" where
  "encode_json j = print_json j @ [CHR 0x0A]"

section \<open>Parsing\<close>

definition is_space :: "char \<Rightarrow> bool" where
  "is_space c \<longleftrightarrow> c = CHR '' '' \<or> c = CHR 0x09 \<or> c = CHR 0x0D \<or> c = CHR 0x0A"

definition skip_ws :: "string \<Rightarrow> string" where
  "skip_ws s = dropWhile is_space s"

text \<open>The four hexadecimal digits after a backslash and \<open>u\<close>.\<close>

definition getu4 :: "string \<Rightarrow> (nat \<times> string) option" where
  "getu4 s =
     (case s of
        h1 # h2 # h3 # h4 # rest \<Rightarrow>
          if ishex h1 \<and> ishex h2 \<and> ishex h3 \<and> ishex h4
          then Some (unhex h1 * 4096 + unhex h2 * 256 + unhex h3 * 16 + unhex h4, rest)
          else None
      | _ \<Rightarrow> None)"

definition is_surrogate :: "nat \<Rightarrow> bool" where
  "is_surrogate r \<longleftrightarrow> 0xD800 \<le> r \<and> r < 0xE000"

text \<open>The low half of a surrogate pair, written as a second escape.\<close>

definition low_surrogate :: "string \<Rightarrow> (nat \<times> string) option" where
  "low_surrogate s =
     (case s of
        a # b # cs \<Rightarrow>
          if a = CHR 0x5C \<and> b = CHR ''u'' then
            (case getu4 cs of
               Some (r, rest) \<Rightarrow> if 0xDC00 \<le> r \<and> r < 0xE000 then Some (r, rest) else None
             | None \<Rightarrow> None)
          else None
      | _ \<Rightarrow> None)"

text \<open>The rune of an escape with \<open>u\<close>: a surrogate without its partner is replaced.\<close>

definition unescape_u :: "string \<Rightarrow> (string \<times> string) option" where
  "unescape_u s =
     (case getu4 s of
        None \<Rightarrow> None
      | Some (r, rest) \<Rightarrow>
          if is_surrogate r then
            (case (if r < 0xDC00 then low_surrogate rest else None) of
               Some (r', rest') \<Rightarrow>
                 Some (utf8_encode ((r - 0xD800) * 1024 + (r' - 0xDC00) + 0x10000), rest')
             | None \<Rightarrow> Some (replacement, rest))
          else Some (utf8_encode r, rest))"

definition unescape_char :: "char \<Rightarrow> char option" where
  "unescape_char e =
     (if e = CHR 0x22 \<or> e = CHR 0x5C \<or> e = CHR ''/'' then Some e
      else if e = CHR ''b'' then Some (CHR 0x08)
      else if e = CHR ''f'' then Some (CHR 0x0C)
      else if e = CHR ''n'' then Some (CHR 0x0A)
      else if e = CHR ''r'' then Some (CHR 0x0D)
      else if e = CHR ''t'' then Some (CHR 0x09)
      else None)"

text \<open>
  One character of a string literal (not the closing quote): what it stands for, and the rest.
\<close>

definition string_char :: "string \<Rightarrow> (string \<times> string) option" where
  "string_char s =
     (case s of
        [] \<Rightarrow> None
      | c # cs \<Rightarrow>
          if c = CHR 0x5C then
            (case cs of
               [] \<Rightarrow> None
             | e # ds \<Rightarrow>
                 if e = CHR ''u'' then unescape_u ds
                 else map_option (\<lambda>x. ([x], ds)) (unescape_char e))
          else if byte c < 32 then None
          else if byte c < 128 then Some ([c], cs)
          else let k = utf8_len s
            in if k = 0 then Some (replacement, cs) else Some (take k s, drop k s))"

lemma getu4_shorter: "getu4 s = Some (r, rest) \<Longrightarrow> length rest < length s"
  by (auto simp: getu4_def split: list.splits if_splits)

lemma unescape_u_shorter: "unescape_u s = Some (x, rest) \<Longrightarrow> length rest < length s"
  by (auto simp: unescape_u_def low_surrogate_def dest!: getu4_shorter
      split: option.splits if_splits list.splits prod.splits)

lemma string_char_shorter: "string_char s = Some (x, rest) \<Longrightarrow> length rest < length s"
  by (auto simp: string_char_def Let_def dest!: unescape_u_shorter split: list.splits if_splits)

text \<open>A string literal after its opening quote.\<close>

function string_body :: "string \<Rightarrow> (string \<times> string) option" where
  "string_body s =
     (case s of
        [] \<Rightarrow> None
      | c # cs \<Rightarrow>
          if c = CHR 0x22 then Some ([], cs)
          else (case string_char s of
            None \<Rightarrow> None
          | Some (x, rest) \<Rightarrow> map_option (\<lambda>(y, r). (x @ y, r)) (string_body rest)))"
  by pat_completeness auto

termination
  by (relation "measure length") (auto dest: string_char_shorter)

declare string_body.simps [simp del]

text \<open>A number literal: the longest text of the number grammar.\<close>

definition scan_digits :: "string \<Rightarrow> (string \<times> string) option" where
  "scan_digits s =
     (let ds = takeWhile is_digit s in if ds = [] then None else Some (ds, dropWhile is_digit s))"

definition scan_int :: "string \<Rightarrow> (string \<times> string) option" where
  "scan_int s =
     (case s of
        [] \<Rightarrow> None
      | c # cs \<Rightarrow> if c = CHR ''0'' then Some ([c], cs) else scan_digits s)"

definition scan_frac :: "string \<Rightarrow> (string \<times> string) option" where
  "scan_frac s =
     (case s of
        [] \<Rightarrow> Some ([], [])
      | c # cs \<Rightarrow>
          if c = CHR ''.'' then map_option (\<lambda>(d, r). (c # d, r)) (scan_digits cs) else Some ([], s))"

definition scan_exp :: "string \<Rightarrow> (string \<times> string) option" where
  "scan_exp s =
     (case s of
        [] \<Rightarrow> Some ([], [])
      | c # cs \<Rightarrow>
          if c = CHR ''e'' \<or> c = CHR ''E'' then
            (case cs of
               [] \<Rightarrow> None
             | g # ds \<Rightarrow>
                 if g = CHR ''+'' \<or> g = CHR ''-''
                 then map_option (\<lambda>(d, r). (c # g # d, r)) (scan_digits ds)
                 else map_option (\<lambda>(d, r). (c # d, r)) (scan_digits cs))
          else Some ([], s))"

definition scan_number :: "string \<Rightarrow> (string \<times> string) option" where
  "scan_number s =
     (let (sgn, s1) = (case s of [] \<Rightarrow> ([], []) | c # cs \<Rightarrow> if c = CHR ''-'' then ([c], cs) else ([], s))
      in case scan_int s1 of
           None \<Rightarrow> None
         | Some (i, s2) \<Rightarrow>
             (case scan_frac s2 of
                None \<Rightarrow> None
              | Some (f, s3) \<Rightarrow>
                  (case scan_exp s3 of
                     None \<Rightarrow> None
                   | Some (e, s4) \<Rightarrow> Some (sgn @ i @ f @ e, s4))))"

definition scan_word :: "string \<Rightarrow> string \<Rightarrow> json \<Rightarrow> (json \<times> string) option" where
  "scan_word w s j = (if HasPrefix s w then Some (j, drop (length w) s) else None)"

text \<open>
  Values, array elements and object members. The fuel bounds the number of nested calls;
  \<open>parse_value_fuel\<close> below shows that twice the length of the text is always enough.
\<close>

fun parse_value :: "nat \<Rightarrow> string \<Rightarrow> (json \<times> string) option"
  and parse_items :: "nat \<Rightarrow> string \<Rightarrow> (json list \<times> string) option"
  and parse_members :: "nat \<Rightarrow> string \<Rightarrow> ((string \<times> json) list \<times> string) option" where
  "parse_value 0 s = None"
| "parse_value (Suc n) s =
     (case skip_ws s of
        [] \<Rightarrow> None
      | c # cs \<Rightarrow>
          if c = CHR 0x22 then map_option (\<lambda>(t, r). (JString t, r)) (string_body cs)
          else if c = CHR ''['' then
            (case skip_ws cs of
               [] \<Rightarrow> None
             | d # ds \<Rightarrow>
                 if d = CHR '']'' then Some (JArray [], ds)
                 else map_option (\<lambda>(js, r). (JArray js, r)) (parse_items n cs))
          else if c = CHR ''{'' then
            (case skip_ws cs of
               [] \<Rightarrow> None
             | d # ds \<Rightarrow>
                 if d = CHR ''}'' then Some (JObject [], ds)
                 else map_option (\<lambda>(kvs, r). (JObject kvs, r)) (parse_members n cs))
          else if c = CHR ''n'' then scan_word ''null'' (c # cs) JNull
          else if c = CHR ''t'' then scan_word ''true'' (c # cs) (JBool True)
          else if c = CHR ''f'' then scan_word ''false'' (c # cs) (JBool False)
          else map_option (\<lambda>(t, r). (JNumber t, r)) (scan_number (c # cs)))"
| "parse_items 0 s = None"
| "parse_items (Suc n) s =
     (case parse_value n s of
        None \<Rightarrow> None
      | Some (j, r) \<Rightarrow>
          (case skip_ws r of
             [] \<Rightarrow> None
           | c # cs \<Rightarrow>
               if c = CHR '','' then map_option (\<lambda>(js, r). (j # js, r)) (parse_items n cs)
               else if c = CHR '']'' then Some ([j], cs)
               else None))"
| "parse_members 0 s = None"
| "parse_members (Suc n) s =
     (case skip_ws s of
        [] \<Rightarrow> None
      | q # s1 \<Rightarrow>
          if q \<noteq> CHR 0x22 then None
          else (case string_body s1 of
            None \<Rightarrow> None
          | Some (k, s2) \<Rightarrow>
              (case skip_ws s2 of
                 [] \<Rightarrow> None
               | c # s3 \<Rightarrow>
                   if c \<noteq> CHR '':'' then None
                   else (case parse_value n s3 of
                     None \<Rightarrow> None
                   | Some (j, s4) \<Rightarrow>
                       (case skip_ws s4 of
                          [] \<Rightarrow> None
                        | d # s5 \<Rightarrow>
                            if d = CHR '','' then
                              map_option (\<lambda>(kvs, r). ((k, j) # kvs, r)) (parse_members n s5)
                            else if d = CHR ''}'' then Some ([(k, j)], s5)
                            else None)))))"

text \<open>\<open>json.Unmarshal\<close> wants one value and nothing after it, \<open>Decoder.Decode\<close> the next value.\<close>

definition parse_json :: "string \<Rightarrow> json option" where
  "parse_json s =
     (case parse_value (2 * length s + 1) s of
        Some (j, r) \<Rightarrow> if skip_ws r = [] then Some j else None
      | None \<Rightarrow> None)"

definition decode_json :: "string \<Rightarrow> json option" where
  "decode_json s = map_option fst (parse_value (2 * length s + 1) s)"

text \<open>
  A number that is decoded into an \<open>interface{}\<close> must be in the range of \<open>float64\<close>: an
  error is reported for what would be rounded to infinity.
\<close>

definition float_limit :: nat where
  "float_limit = 2 ^ 1024 - 2 ^ 970"

definition number_overflows :: "string \<Rightarrow> bool" where
  "number_overflows s =
     (let s1 = dropWhile (\<lambda>c. c = CHR ''-'') s;
          i = takeWhile is_digit s1;
          s2 = dropWhile is_digit s1;
          f = (case s2 of [] \<Rightarrow> [] | c # cs \<Rightarrow> if c = CHR ''.'' then takeWhile is_digit cs else []);
          e = drop 1 (dropWhile (\<lambda>c. c \<noteq> CHR ''e'' \<and> c \<noteq> CHR ''E'') s2);
          m = the (digits_value 0 (i @ f));
          x = (case split_sign e of (neg, ds) \<Rightarrow>
                 let d = int (the (digits_value 0 ds)) in if neg then - d else d) - int (length f)
      in if 0 \<le> x then float_limit \<le> m * 10 ^ nat x else float_limit * 10 ^ nat (- x) \<le> m)"

fun interface_ok :: "json \<Rightarrow> bool" where
  "interface_ok (JNumber s) = (\<not> number_overflows s)"
| "interface_ok (JArray js) = list_all interface_ok js"
| "interface_ok (JObject kvs) = list_all (\<lambda>(k, j). interface_ok j) kvs"
| "interface_ok _ = True"

section \<open>The fuel is enough\<close>

lemma string_body_shorter: "string_body s = Some (t, r) \<Longrightarrow> length r < length s"
proof (induction s arbitrary: t rule: string_body.induct)
  case (1 s)
  show ?case
  proof (cases s)
    case (Cons c cs)
    show ?thesis
    proof (cases "c = CHR 0x22")
      case False
      with Cons "1.prems" obtain x rest y where *: "string_char s = Some (x, rest)"
          "string_body rest = Some (y, r)"
        by (subst (asm) string_body.simps) (auto split: option.splits)
      have "length r < length rest"
        using "1.IH" [OF Cons False *(1) refl *(2)] .
      with string_char_shorter [OF *(1)] show ?thesis by simp
    qed (use "1.prems" Cons in \<open>simp add: string_body.simps\<close>)
  qed (use "1.prems" in \<open>simp add: string_body.simps\<close>)
qed

lemma skip_ws_le: "length (skip_ws s) \<le> length s"
  by (simp add: skip_ws_def length_dropWhile_le)

lemma skip_ws_Cons: "skip_ws s = c # cs \<Longrightarrow> length cs < length s"
  using skip_ws_le [of s] by simp

lemma scan_digits_shorter: "scan_digits s = Some (t, r) \<Longrightarrow> length r < length s"
proof -
  assume "scan_digits s = Some (t, r)"
  then have "t \<noteq> []" "s = t @ r"
    by (auto simp: scan_digits_def Let_def split: if_splits)
  then show ?thesis by auto
qed

lemma scan_int_shorter: "scan_int s = Some (t, r) \<Longrightarrow> length r < length s"
  using scan_digits_shorter [of s] by (auto simp: scan_int_def split: list.splits if_splits)

lemma scan_frac_le: "scan_frac s = Some (t, r) \<Longrightarrow> length r \<le> length s"
  by (auto simp: scan_frac_def split: list.splits if_splits dest!: scan_digits_shorter)

lemma scan_exp_le: "scan_exp s = Some (t, r) \<Longrightarrow> length r \<le> length s"
  by (auto simp: scan_exp_def split: list.splits if_splits dest!: scan_digits_shorter)

lemma scan_number_shorter: "scan_number s = Some (t, r) \<Longrightarrow> length r < length s"
  by (auto simp: scan_number_def Let_def split: prod.splits option.splits list.splits if_splits
      dest!: scan_int_shorter scan_frac_le scan_exp_le)

lemma scan_word_shorter: "scan_word w s j = Some (j', r) \<Longrightarrow> s \<noteq> [] \<Longrightarrow> w \<noteq> [] \<Longrightarrow> length r < length s"
  by (auto simp: scan_word_def split: if_splits)

lemma parse_shorter:
  "parse_value n s = Some (j, r) \<Longrightarrow> length r < length s"
  "parse_items n s = Some (js, r) \<Longrightarrow> length r < length s"
  "parse_members n s = Some (kvs, r) \<Longrightarrow> length r < length s"
proof (induction n s and n s and n s arbitrary: j r and js r and kvs r
    rule: parse_value_parse_items_parse_members.induct)
  case (2 n s)
  from "2.prems" obtain c cs where s: "skip_ws s = c # cs" by (auto split: list.splits)
  have le: "length cs < length s" by (rule skip_ws_Cons [OF s])
  show ?case
    using "2.prems" s le "2.IH"
    by (auto split: if_splits list.splits dest!: string_body_shorter scan_word_shorter scan_number_shorter
        skip_ws_Cons [of cs]) (metis order.strict_trans)+
next
  case (4 n s)
  then show ?case
    by (fastforce split: if_splits list.splits option.splits dest!: skip_ws_Cons)
next
  case (6 n s)
  then show ?case
    by (fastforce split: if_splits list.splits option.splits dest!: skip_ws_Cons string_body_shorter)
qed simp_all

definition fuel_ok :: "nat \<Rightarrow> nat \<Rightarrow> bool" where
  "fuel_ok n m \<longleftrightarrow>
     (\<forall>s. 2 * length s < n \<longrightarrow> 2 * length s < m \<longrightarrow> parse_value n s = parse_value m s) \<and>
     (\<forall>s. 2 * length s + 1 < n \<longrightarrow> 2 * length s + 1 < m \<longrightarrow>
        parse_items n s = parse_items m s \<and> parse_members n s = parse_members m s)"

lemma fuel_value:
  assumes "fuel_ok n m" "2 * length s < Suc n" "2 * length s < Suc m"
  shows "parse_value (Suc n) s = parse_value (Suc m) s"
proof (cases "skip_ws s")
  case (Cons c cs)
  have "length cs < length s" by (rule skip_ws_Cons [OF Cons])
  with assms have "parse_items n cs = parse_items m cs" "parse_members n cs = parse_members m cs"
    by (simp_all add: fuel_ok_def)
  then show ?thesis by (simp add: Cons split: list.split)
qed simp

lemma fuel_items:
  assumes "fuel_ok n m" "2 * length s + 1 < Suc n" "2 * length s + 1 < Suc m"
  shows "parse_items (Suc n) s = parse_items (Suc m) s"
proof -
  have v: "parse_value n s = parse_value m s" using assms by (simp add: fuel_ok_def)
  have "parse_items n cs = parse_items m cs"
    if "parse_value m s = Some (j, r)" "skip_ws r = c # cs" for j r c cs
    using parse_shorter(1) [OF that(1)] skip_ws_Cons [OF that(2)] assms by (simp add: fuel_ok_def)
  with v show ?thesis by (simp split: option.split list.split)
qed

lemma fuel_members:
  assumes "fuel_ok n m" "2 * length s + 1 < Suc n" "2 * length s + 1 < Suc m"
  shows "parse_members (Suc n) s = parse_members (Suc m) s"
proof -
  have eqs: "parse_value n s3 = parse_value m s3 \<and>
      (\<forall>j s4 d s5. parse_value m s3 = Some (j, s4) \<longrightarrow> skip_ws s4 = d # s5 \<longrightarrow>
         parse_members n s5 = parse_members m s5)"
    if "skip_ws s = q # s1" "string_body s1 = Some (k, s2)" "skip_ws s2 = c # s3" for q s1 k s2 c s3
  proof -
    have s3: "length s3 < length s"
      using skip_ws_Cons [OF that(1)] string_body_shorter [OF that(2)] skip_ws_Cons [OF that(3)]
      by simp
    have "parse_members n s5 = parse_members m s5"
      if "parse_value m s3 = Some (j, s4)" "skip_ws s4 = d # s5" for j s4 d s5
      using parse_shorter(1) [OF that(1)] skip_ws_Cons [OF that(2)] s3 assms
      by (simp add: fuel_ok_def)
    with s3 assms show ?thesis by (simp add: fuel_ok_def)
  qed
  then show ?thesis by (simp split: option.split list.split)
qed

text \<open>Any two amounts of fuel above twice the length of the text give the same result.\<close>

lemma parse_value_fuel: "fuel_ok n m"
proof (induction n arbitrary: m)
  case 0
  then show ?case by (simp add: fuel_ok_def)
next
  case (Suc n)
  show ?case
  proof (cases m)
    case (Suc m')
    with Suc.IH [of m'] fuel_value fuel_items fuel_members show ?thesis
      unfolding fuel_ok_def [of "Suc n"] by simp
  qed (simp add: fuel_ok_def)
qed

section \<open>Printing and parsing are inverse\<close>

function utf8_valid :: "string \<Rightarrow> bool" where
  "utf8_valid [] = True"
| "utf8_valid (c # cs) =
     (let k = utf8_len (c # cs) in if k = 0 then False else utf8_valid (drop k (c # cs)))"
  by pat_completeness auto

termination
  by (relation "measure length") auto

lemma ishex_hex_digit: "n < 16 \<Longrightarrow> ishex (hex_digit n) \<and> unhex (hex_digit n) = n"
  by (auto simp: hex_digit_def ishex_def unhex_def is_digit_def)

lemma hex_value:
  assumes "r < (0x10000 :: nat)"
  shows "r div 4096 mod 16 * 4096 + r div 256 mod 16 * 256 + r div 16 mod 16 * 16 + r mod 16 = r"
proof -
  have "r div 16 = 16 * (r div 256) + r div 16 mod 16" "r div 256 = 16 * (r div 4096) + r div 256 mod 16"
    using mult_div_mod_eq [of 16 "r div 16"] mult_div_mod_eq [of 16 "r div 256"]
    by (simp_all add: div_mult2_eq [of r 16 16, simplified, symmetric]
        div_mult2_eq [of r 256 16, simplified, symmetric])
  moreover have "r = 16 * (r div 16) + r mod 16" "r div 4096 mod 16 = r div 4096"
    using assms by simp_all
  ultimately show ?thesis by linarith
qed

lemma getu4_escape: "r < 0x10000 \<Longrightarrow> getu4 (drop 2 (escape_u r) @ s) = Some (r, s)"
  using hex_value [of r] by (simp add: getu4_def escape_u_def ishex_hex_digit)

lemma utf8_encode_byte: "byte c < 128 \<Longrightarrow> utf8_encode (byte c) = [c]"
  by (simp add: utf8_encode_def byte_def)

lemma string_char_escape_u:
  assumes "r < 0x10000" "\<not> is_surrogate r"
  shows "string_char (escape_u r @ s) = Some (utf8_encode r, s)"
proof -
  have "escape_u r @ s = CHR 0x5C # CHR ''u'' # drop 2 (escape_u r) @ s"
    by (simp add: escape_u_def)
  then show ?thesis
    using getu4_escape [OF assms(1), of s] assms(2)
    by (simp only:) (simp add: string_char_def unescape_u_def)
qed

lemma string_char_plain:
  "byte c < 128 \<Longrightarrow> \<not> byte c < 32 \<Longrightarrow> c \<noteq> CHR 0x5C \<Longrightarrow> string_char (c # s) = Some ([c], s)"
  by (simp add: string_char_def)

lemma string_char_escaped:
  "unescape_char e = Some c \<Longrightarrow> e \<noteq> CHR ''u'' \<Longrightarrow> string_char (CHR 0x5C # e # s) = Some ([c], s)"
  by (simp add: string_char_def)

lemma string_char_ascii:
  assumes "byte c < 128"
  shows "string_char (escape_ascii c @ s) = Some ([c], s)"
proof -
  have u: "string_char (escape_u (byte c) @ s) = Some ([c], s)"
    using string_char_escape_u [of "byte c" s] assms
    by (simp add: is_surrogate_def utf8_encode_byte)
  consider "c = CHR 0x22" | "c = CHR 0x5C" | "c = CHR 0x0A" | "c = CHR 0x0D" | "c = CHR 0x09"
    | "escape_ascii c = escape_u (byte c)" | "escape_ascii c = [c]" "\<not> byte c < 32" "c \<noteq> CHR 0x5C"
    unfolding escape_ascii_def by argo
  then show ?thesis
    using u assms
    by cases (simp_all add: string_char_plain, simp_all add: escape_ascii_def string_char_escaped unescape_char_def)
qed

lemma utf8_len_cases:
  assumes "utf8_len s = k" "k \<noteq> 0"
  obtains (one) a r where "s = a # r" "k = 1" "byte a < 128"
  | (two) a b r where "s = a # b # r" "k = 2" "\<not> byte a < 128" "in_range 0xC2 0xDF a \<and> cont b"
  | (three) a b c r where "s = a # b # c # r" "k = 3" "\<not> byte a < 128"
      "\<not> (in_range 0xC2 0xDF a \<and> cont b)" "second3 a b \<and> cont c"
  | (four) a b c d r where "s = a # b # c # d # r" "k = 4" "\<not> byte a < 128"
      "\<not> (in_range 0xC2 0xDF a \<and> cont b)" "\<not> (second3 a b \<and> cont c)"
      "second4 a b \<and> cont c \<and> cont d"
  using assms unfolding utf8_len_def
  by (simp split: list.splits if_splits)

lemma utf8_len_take:
  assumes "utf8_len s = k" "k \<noteq> 0"
  shows "utf8_len (take k s @ r) = k"
  by (rule utf8_len_cases [OF assms]) (simp_all add: utf8_len_def)

lemma utf8_valid_append: "utf8_valid s \<Longrightarrow> utf8_valid t \<Longrightarrow> utf8_valid (s @ t)"
proof (induction s rule: utf8_valid.induct)
  case (2 c cs)
  let ?k = "utf8_len (c # cs)"
  have k: "?k \<noteq> 0" "utf8_valid (drop ?k (c # cs))"
    using 2(2) by (simp_all only: utf8_valid.simps Let_def split: if_splits) simp_all
  have "utf8_len ((c # cs) @ t) = ?k"
    using utf8_len_take [OF refl k(1), of "drop ?k (c # cs) @ t"]
    by (simp only: append.assoc [symmetric] append_take_drop_id)
  moreover have "utf8_valid (drop ?k ((c # cs) @ t))"
    using 2(1) [OF refl k(1) k(2) 2(3)] utf8_len_le [of "c # cs"]
    by (simp only: drop_append diff_is_0_eq' drop_0)
  ultimately show ?case using k(1) by (simp add: Let_def)
qed simp

lemma escape_seq_cases:
  obtains "escape_seq q = q" | r where "r \<in> {0x2028, 0x2029}" "escape_seq q = escape_u r" "q = utf8_encode r"
proof -
  have "utf8_encode 0x2028 = [CHR 0xE2, CHR 0x80, CHR 0xA8]"
    "utf8_encode 0x2029 = [CHR 0xE2, CHR 0x80, CHR 0xA9]"
    by (simp_all add: utf8_encode_def char_of_def bit_0)
  then consider "q = utf8_encode 0x2028" "escape_seq q = escape_u 0x2028"
    | "q = utf8_encode 0x2029" "escape_seq q = escape_u 0x2029" | "escape_seq q = q"
    unfolding escape_seq_def by (cases "q = utf8_encode 0x2028"; cases "q = utf8_encode 0x2029") simp_all
  then show thesis using that by cases blast+
qed

lemma string_char_raw:
  assumes "utf8_len (c # cs) = k" "k \<noteq> 0" "\<not> byte c < 128"
  shows "string_char (take k (c # cs) @ s) = Some (take k (c # cs), s)"
proof -
  have len: "utf8_len (take k (c # cs) @ s) = k" by (rule utf8_len_take [OF assms(1,2)])
  have k: "length (take k (c # cs)) = k" using utf8_len_le [of "c # cs"] assms(1) by simp
  obtain ds where ds: "take k (c # cs) = c # ds" using assms(2) by (cases k) auto
  have td: "take k (take k (c # cs) @ s) = take k (c # cs)" "drop k (take k (c # cs) @ s) = s"
    using k by simp_all
  have "c \<noteq> CHR 0x5C" "\<not> byte c < 32" using assms(3) by (auto simp: byte_def)
  with len td assms(2,3) show ?thesis
    unfolding ds by (simp add: string_char_def Let_def)
qed

lemma string_char_seq:
  assumes "utf8_len (c # cs) = k" "k \<noteq> 0" "\<not> byte c < 128"
  shows "string_char (escape_seq (take k (c # cs)) @ s) = Some (take k (c # cs), s)"
proof (rule escape_seq_cases [of "take k (c # cs)"])
  assume "escape_seq (take k (c # cs)) = take k (c # cs)"
  with string_char_raw [OF assms] show ?thesis by simp
next
  fix r :: nat
  assume "r \<in> {0x2028, 0x2029}" "escape_seq (take k (c # cs)) = escape_u r"
    "take k (c # cs) = utf8_encode r"
  with string_char_escape_u [of r s] show ?thesis by (auto simp: is_surrogate_def)
qed

lemma string_body_char:
  assumes "string_char s = Some (x, rest)" "hd s \<noteq> CHR 0x22"
  shows "string_body s = map_option (\<lambda>(y, r). (x @ y, r)) (string_body rest)"
proof -
  obtain c cs where "s = c # cs" using assms(1) by (cases s) (auto simp: string_char_def)
  with assms show ?thesis by (subst string_body.simps) simp
qed

lemma hd_escape_ascii: "hd (escape_ascii c @ s) \<noteq> CHR 0x22"
  by (auto simp: escape_ascii_def escape_u_def)

lemma hd_escape_seq:
  assumes "k \<noteq> 0" "\<not> byte c < 128"
  shows "hd (escape_seq (take k (c # cs)) @ s) \<noteq> CHR 0x22"
  using assms by (cases k) (auto simp: escape_seq_def escape_u_def byte_def)

lemma utf8_valid_Cons:
  assumes "utf8_valid (c # cs)"
  shows "utf8_len (c # cs) \<noteq> 0" "utf8_valid (drop (utf8_len (c # cs)) (c # cs))"
  using assms by (simp_all only: utf8_valid.simps Let_def split: if_splits) simp_all

lemma quote_body_Cons:
  "byte c < 128 \<Longrightarrow> quote_body (c # cs) = escape_ascii c @ quote_body cs"
  "\<not> byte c < 128 \<Longrightarrow> k = utf8_len (c # cs) \<Longrightarrow> k \<noteq> 0 \<Longrightarrow>
     quote_body (c # cs) = escape_seq (take k (c # cs)) @ quote_body (drop k (c # cs))"
  by (simp_all only: quote_body.simps Let_def if_True if_False)

lemma string_body_quote:
  "utf8_valid s \<Longrightarrow> string_body (quote_body s @ CHR 0x22 # r) = Some (s, r)"
proof (induction s rule: quote_body.induct)
  case 1
  then show ?case by (simp add: string_body.simps)
next
  case (2 c cs)
  let ?k = "utf8_len (c # cs)"
  let ?seq = "take ?k (c # cs)" and ?rest = "drop ?k (c # cs)"
  note k = utf8_valid_Cons [OF 2(4)]
  show ?case
  proof (cases "byte c < 128")
    case True
    then have "?k = 1" by (simp add: utf8_len_def)
    with k(2) have "utf8_valid cs" by simp
    from string_body_char [OF string_char_ascii [OF True] hd_escape_ascii] 2(1) [OF True this]
    show ?thesis
      unfolding quote_body_Cons(1) [OF True] append.assoc by simp
  next
    case False
    have IH: "string_body (quote_body ?rest @ CHR 0x22 # r) = Some (?rest, r)"
      by (rule 2(3) [OF False refl k])
    have "string_body (escape_seq ?seq @ quote_body ?rest @ CHR 0x22 # r) = Some (?seq @ ?rest, r)"
      unfolding string_body_char [OF string_char_seq [OF refl k(1) False] hd_escape_seq [OF k(1) False]]
        IH by (simp only: option.map prod.case)
    then show ?thesis
      unfolding quote_body_Cons(2) [OF False refl k(1)] append.assoc append_take_drop_id .
  qed
qed

fun int_literal :: "string \<Rightarrow> bool" where
  "int_literal [] = False"
| "int_literal (c # cs) =
     (let ds = (if c = CHR ''-'' then cs else c # cs)
      in ds \<noteq> [] \<and> list_all is_digit ds \<and> (hd ds = CHR ''0'' \<longrightarrow> ds = ''0''))"

text \<open>What may follow a value in a printed text.\<close>

definition ends_value :: "string \<Rightarrow> bool" where
  "ends_value r \<longleftrightarrow> r = [] \<or> hd r = CHR '','' \<or> hd r = CHR '']'' \<or> hd r = CHR ''}'' \<or> is_space (hd r)"

lemma ends_value_hd:
  assumes "ends_value (c # r)"
  shows "\<not> is_digit c" "c \<noteq> CHR ''.''" "c \<noteq> CHR ''e''" "c \<noteq> CHR ''E''"
  using assms by (auto simp: ends_value_def is_space_def is_digit_def)

lemma scan_int_literal:
  assumes "ds \<noteq> []" "list_all is_digit ds" "hd ds = CHR ''0'' \<longrightarrow> ds = ''0''" "ends_value r"
  shows "scan_int (ds @ r) = Some (ds, r)"
proof -
  have "takeWhile is_digit r = []" "dropWhile is_digit r = r"
    using ends_value_hd(1) assms(4) by (cases r; simp)+
  with assms(1-3) show ?thesis
    by (cases ds) (auto simp: scan_int_def scan_digits_def Let_def list_all_iff)
qed

lemma scan_number_literal:
  assumes "int_literal s" "ends_value r"
  shows "scan_number (s @ r) = Some (s, r)"
proof -
  obtain c cs where s: "s = c # cs" using assms(1) by (cases s) auto
  let ?ds = "if c = CHR ''-'' then cs else c # cs"
  have "scan_int (?ds @ r) = Some (?ds, r)"
    using assms by (intro scan_int_literal) (simp_all add: s Let_def)
  moreover have "scan_frac r = Some ([], r)" "scan_exp r = Some ([], r)"
    using ends_value_hd assms(2) by (cases r; auto simp: scan_frac_def scan_exp_def)+
  ultimately show ?thesis by (cases "c = CHR ''-''") (simp_all add: scan_number_def s)
qed

fun json_ok :: "json \<Rightarrow> bool" where
  "json_ok JNull = True"
| "json_ok (JBool b) = True"
| "json_ok (JNumber s) = int_literal s"
| "json_ok (JString s) = utf8_valid s"
| "json_ok (JArray js) = list_all json_ok js"
| "json_ok (JObject kvs) = list_all (\<lambda>(k, j). utf8_valid k \<and> json_ok j) kvs"

text \<open>The first byte of a printed value.\<close>

lemma number_hd:
  assumes "int_literal (c # cs)"
  shows "\<not> is_space c" "c \<notin> set ''\"[]{}ntf''"
proof -
  have "c = CHR ''-'' \<or> is_digit c" using assms by (auto simp: Let_def split: if_splits)
  then show "\<not> is_space c" "c \<notin> set ''\"[]{}ntf''" by (auto simp: is_space_def is_digit_def)
qed

lemma print_json_hd:
  assumes "json_ok j"
  shows "\<exists>c cs. print_json j = c # cs \<and> \<not> is_space c \<and> c \<noteq> CHR '']'' \<and> c \<noteq> CHR ''}''"
proof (cases j)
  case (JNumber s)
  with assms obtain c cs where s: "s = c # cs" by (cases s) auto
  with number_hd [of c cs] assms JNumber show ?thesis by simp
qed (simp_all add: quote_def is_space_def)

lemma skip_ws_nonspace [simp]: "\<not> is_space c \<Longrightarrow> skip_ws (c # cs) = c # cs"
  by (simp add: skip_ws_def)

lemma skip_ws_print:
  assumes "json_ok j"
  shows "skip_ws (print_json j @ r) = print_json j @ r"
  using print_json_hd [OF assms] by auto

lemma ends_value_simps [simp]:
  "ends_value (CHR '','' # r)" "ends_value (CHR '']'' # r)" "ends_value (CHR ''}'' # r)"
  "ends_value []"
  by (simp_all add: ends_value_def)

lemma parse_scalar:
  assumes "json_ok j" "ends_value r"
  shows "j = JNull \<or> (\<exists>b. j = JBool b) \<or> (\<exists>s. j = JNumber s) \<or> (\<exists>s. j = JString s) \<Longrightarrow>
    parse_value (Suc n) (print_json j @ r) = Some (j, r)"
proof (elim disjE exE)
  fix s
  assume j: "j = JNumber s"
  then obtain c cs where s: "s = c # cs" using assms(1) by (cases s) auto
  with number_hd [of c cs] scan_number_literal [of s r] assms j show ?thesis by simp
qed (use assms string_body_quote in
    \<open>simp_all add: scan_word_def HasPrefix_def quote_def skip_ws_def is_space_def\<close>)

lemma print_items_hd:
  assumes "list_all json_ok js" "js \<noteq> []"
  shows "\<exists>c cs. print_items js = c # cs \<and> \<not> is_space c \<and> c \<noteq> CHR '']''"
proof (cases js)
  case (Cons j js')
  with assms print_json_hd [of j] show ?thesis by (cases js') auto
qed (use assms in simp)

lemma print_members_hd: "kvs \<noteq> [] \<Longrightarrow> \<exists>cs. print_members kvs = CHR 0x22 # cs"
  by (cases kvs rule: print_members.cases) (auto simp: quote_def)

lemma parse_members_first:
  assumes "utf8_valid k" "parse_value n (s @ d # t) = Some (j, d # t)" "\<not> is_space d"
  shows "parse_members (Suc n) (quote k @ CHR '':'' # s @ d # t) =
    (if d = CHR '','' then map_option (\<lambda>(kvs, r). ((k, j) # kvs, r)) (parse_members n t)
     else if d = CHR ''}'' then Some ([(k, j)], t) else None)"
  using string_body_quote [OF assms(1), of "CHR '':'' # s @ d # t"] assms(2,3)
  by (simp add: quote_def skip_ws_def is_space_def)

lemma parse_print:
  "json_ok j \<Longrightarrow> ends_value r \<Longrightarrow> 2 * length (print_json j) < n \<Longrightarrow>
     parse_value n (print_json j @ r) = Some (j, r)"
  "list_all json_ok js \<Longrightarrow> js \<noteq> [] \<Longrightarrow> 2 * length (print_items js) + 1 < n \<Longrightarrow>
     parse_items n (print_items js @ CHR '']'' # r) = Some (js, r)"
  "list_all (\<lambda>(k, j). utf8_valid k \<and> json_ok j) kvs \<Longrightarrow> kvs \<noteq> [] \<Longrightarrow>
     2 * length (print_members kvs) + 1 < n \<Longrightarrow>
     parse_members n (print_members kvs @ CHR ''}'' # r) = Some (kvs, r)"
proof (induction j and js and kvs arbitrary: n r and n r and n r
    rule: print_json_print_items_print_members.induct)
  case 1
  then show ?case by (cases n) (use parse_scalar [of JNull r] in simp_all)
next
  case (2 b)
  then show ?case by (cases n) (use parse_scalar [of "JBool b" r] in simp_all)
next
  case (3 s)
  then show ?case by (cases n) (use parse_scalar [of "JNumber s" r] in simp_all)
next
  case (4 s)
  then show ?case by (cases n) (use parse_scalar [of "JString s" r] in simp_all)
next
  case (5 js)
  then obtain m where n: "n = Suc m" by (cases n) auto
  show ?case
  proof (cases "js = []")
    case False
    have "list_all json_ok js" using "5.prems"(1) by simp
    from print_items_hd [OF this False] obtain c cs where
      hd: "print_items js = c # cs" "\<not> is_space c" "c \<noteq> CHR '']''" by blast
    have "parse_items m (print_items js @ CHR '']'' # r) = Some (js, r)"
      using "5.IH" [of m r] "5.prems" False n by simp
    with hd show ?thesis by (simp add: n skip_ws_def is_space_def)
  qed (simp add: n skip_ws_def is_space_def)
next
  case (6 kvs)
  then obtain m where n: "n = Suc m" by (cases n) auto
  show ?case
  proof (cases "kvs = []")
    case False
    from print_members_hd [OF this] obtain cs where hd: "print_members kvs = CHR 0x22 # cs" by blast
    have "parse_members m (print_members kvs @ CHR ''}'' # r) = Some (kvs, r)"
      using "6.IH" [of m r] "6.prems" False n by simp
    with hd show ?thesis by (simp add: n skip_ws_def is_space_def)
  qed (simp add: n skip_ws_def is_space_def)
next
  case 7
  then show ?case by simp
next
  case (8 j)
  then obtain m where n: "n = Suc m" by (cases n) auto
  have "parse_value m (print_json j @ CHR '']'' # r) = Some (j, CHR '']'' # r)"
    using "8.IH" [of "CHR '']'' # r" m] "8.prems" n by simp
  then show ?case by (simp add: n skip_ws_def is_space_def)
next
  case (9 j j' js)
  then obtain m where n: "n = Suc m" by (cases n) auto
  let ?r = "print_items (j' # js) @ CHR '']'' # r"
  have "parse_value m (print_json j @ CHR '','' # ?r) = Some (j, CHR '','' # ?r)"
    using "9.IH"(1) [of "CHR '','' # ?r" m] "9.prems" n by simp
  moreover have "parse_items m ?r = Some (j' # js, r)"
    using "9.IH"(2) [of m r] "9.prems" n by simp
  ultimately show ?case by (simp add: n skip_ws_def is_space_def)
next
  case 10
  then show ?case by simp
next
  case (11 k j)
  then obtain m where n: "n = Suc m" by (cases n) auto
  have "parse_value m (print_json j @ CHR ''}'' # r) = Some (j, CHR ''}'' # r)"
    using "11.IH" [of "CHR ''}'' # r" m] "11.prems" n by simp
  from parse_members_first [OF _ this, of k] "11.prems" show ?case
    by (simp add: n is_space_def)
next
  case (12 k j kv kvs)
  then obtain m where n: "n = Suc m" by (cases n) auto
  let ?r = "print_members (kv # kvs) @ CHR ''}'' # r"
  have "parse_value m (print_json j @ CHR '','' # ?r) = Some (j, CHR '','' # ?r)"
    using "12.IH"(1) [of "CHR '','' # ?r" m] "12.prems" n by simp
  moreover have "parse_members m ?r = Some (kv # kvs, r)"
    using "12.IH"(2) [of m r] "12.prems" n by simp
  ultimately show ?case
    using parse_members_first [of k m "print_json j" "CHR '',''" ?r j] "12.prems"
    by (simp add: n is_space_def)
qed

text \<open>A printed tree, with or without the newline of an encoder, parses to the tree.\<close>

lemma parse_json_print [simp]: "json_ok j \<Longrightarrow> parse_json (print_json j) = Some j"
  using parse_print(1) [of j "[]" "2 * length (print_json j) + 1"]
  by (simp add: parse_json_def skip_ws_def)

lemma encode_roundtrip [simp]:
  assumes "json_ok j"
  shows "parse_json (encode_json j) = Some j" "decode_json (encode_json j) = Some j"
  using parse_print(1) [OF assms, of "[CHR 0x0A]" "2 * length (encode_json j) + 1"]
  by (simp_all add: parse_json_def decode_json_def encode_json_def skip_ws_def ends_value_def
      is_space_def)

lemma decode_json_print [simp]: "json_ok j \<Longrightarrow> decode_json (print_json j) = Some j"
  using parse_print(1) [of j "[]" "2 * length (print_json j) + 1"]
  by (simp add: decode_json_def)

section \<open>Printed integers\<close>

lemma digits10_all: "list_all is_digit (digits10 n)"
proof (induction n rule: digits10.induct)
  case (1 n)
  then show ?case by (subst digits10.simps) (simp add: is_digit_char_of)
qed

lemma hd_digits10_zero: "hd (digits10 n) = CHR ''0'' \<Longrightarrow> n = 0"
proof (induction n rule: digits10.induct)
  case (1 n)
  show ?case
  proof (cases "n < 10")
    case True
    with 1(2) have "char_of (48 + n) = CHR ''0''" by (subst (asm) digits10.simps) simp
    then have "(of_char (char_of (48 + n)) :: nat) = 48" by simp
    with True show ?thesis by simp
  next
    case False
    with 1(2) have "hd (digits10 (n div 10)) = CHR ''0''" by (subst (asm) digits10.simps) simp
    with 1(1) False show ?thesis by simp
  qed
qed

lemma digits10_0: "digits10 0 = ''0''"
  by (subst digits10.simps) (simp add: char_of_def bit_0)

lemma int_literal_Itoa [simp]: "int_literal (Itoa w)"
proof -
  have "int_literal (digits10 n)" "int_literal (CHR ''-'' # digits10 n)" for n
    using digits10_all [of n] hd_digits10_zero [of n] hd_digits10 [of n] digits10_0
    by (cases "digits10 n"; auto simp: Let_def is_digit_def)+
  then show ?thesis by (simp add: Itoa_def Let_def)
qed

section \<open>Trees that can be printed\<close>

text \<open>Names of ASCII characters can be printed.\<close>

lemma utf8_valid_ascii: "list_all (\<lambda>c. byte c < 128) s \<Longrightarrow> utf8_valid s"
  by (induction s) (simp_all add: utf8_len_def)

definition members_ok :: "(string \<times> json) list \<Rightarrow> bool" where
  "members_ok kvs = list_all (\<lambda>(k, j). utf8_valid k \<and> json_ok j) kvs"

lemma members_ok_simps [simp]:
  "members_ok []" "members_ok ((k, j) # kvs) \<longleftrightarrow> utf8_valid k \<and> json_ok j \<and> members_ok kvs"
  "members_ok (kvs @ kvs') \<longleftrightarrow> members_ok kvs \<and> members_ok kvs'"
  "json_ok (JObject kvs) \<longleftrightarrow> members_ok kvs"
  by (auto simp: members_ok_def)

declare json_ok.simps(6) [simp del]

lemmas literal_ok = utf8_valid_ascii byte_def

lemma json_ok_map: "json_ok (marshal_map m) \<longleftrightarrow> members_ok m"
  by (simp add: marshal_map_def members_ok_def list_all_iff)

end
