(* ===== verification/RootFS_Providers.thy ===== *)
theory RootFS_Providers
  imports Go_JSON_Text
begin

text \<open>
  The root filesystem providers of \<open>rootfs_providers.go\<close>: string sets, the two kinds of
  provider, the provider map with its \<open>Match\<close>, and their JSON encoding. A
  \<open>map[string]struct{}\<close> is an association list to \<open>unit\<close> (\<open>None\<close> the nil map), an
  interface value is an option (\<open>None\<close> the nil interface, whose methods panic).
\<close>

section \<open>String sets\<close>

type_synonym StringSet = "(string \<times> unit) list option"

definition NewStringSet :: "string list \<Rightarrow> StringSet" where
  "NewStringSet entries = Some (fold (\<lambda>entry set. AList.update entry () set) entries [])"

definition StringSet_Contains :: "StringSet \<Rightarrow> string \<Rightarrow> bool" where
  "StringSet_Contains s candidate =
     (case s of None \<Rightarrow> False | Some m \<Rightarrow> has_key m candidate)"

section \<open>Providers\<close>

definition RootFSProviderTypeArbitrary :: string where
  "RootFSProviderTypeArbitrary = ''arbitrary''"

definition RootFSProviderTypeFixedSet :: string where
  "RootFSProviderTypeFixedSet = ''fixed_set''"

datatype RootFSProvider =
    ArbitraryRootFSProvider
  | FixedSetRootFSProvider (FixedSet: StringSet)

definition NewFixedSetRootFSProvider :: "string list \<Rightarrow> RootFSProvider" where
  "NewFixedSetRootFSProvider rootfses = FixedSetRootFSProvider (NewStringSet rootfses)"

fun RootFSProvider_Type :: "RootFSProvider \<Rightarrow> string" where
  "RootFSProvider_Type ArbitraryRootFSProvider = RootFSProviderTypeArbitrary"
| "RootFSProvider_Type (FixedSetRootFSProvider s) = RootFSProviderTypeFixedSet"

fun RootFSProvider_Match :: "RootFSProvider \<Rightarrow> URL \<Rightarrow> bool" where
  "RootFSProvider_Match ArbitraryRootFSProvider rootfs = True"
| "RootFSProvider_Match (FixedSetRootFSProvider s) rootfs =
     StringSet_Contains s (Opaque rootfs)"

type_synonym RootFSProviders = "(string \<times> RootFSProvider option) list"

definition RootFSProviders_Copy :: "RootFSProviders \<Rightarrow> RootFSProviders" where
  "RootFSProviders_Copy p =
     fold (\<lambda>(key, _) pCopy.
       AList.update key (case map_of p key of None \<Rightarrow> None | Some v \<Rightarrow> v) pCopy) p []"

definition RootFSProviders_Match :: "RootFSProviders \<Rightarrow> URL \<Rightarrow> bool outcome" where
  "RootFSProviders_Match p rootFS =
     (case map_of p (Scheme rootFS) of
        None \<Rightarrow> Ret False
      | Some provider \<Rightarrow>
          (case provider of
             None \<Rightarrow> Panic
           | Some pr \<Rightarrow> Ret (RootFSProvider_Match pr rootFS)))"

section \<open>JSON\<close>

definition decode_empty_struct :: "json \<Rightarrow> go_error + unit" where
  "decode_empty_struct j =
     (case j of JObject _ \<Rightarrow> Inr () | JNull \<Rightarrow> Inr () | _ \<Rightarrow> Inl json_error)"

text \<open>Decoding into a \<open>StringSet\<close> adds to the map that is there; \<open>null\<close> sets it to nil.\<close>

definition decode_StringSet :: "json \<Rightarrow> StringSet \<Rightarrow> go_error + StringSet" where
  "decode_StringSet j old =
     (case j of
        JNull \<Rightarrow> Inr None
      | JObject kvs \<Rightarrow>
          (case decode_entries decode_empty_struct kvs
                  (case old of None \<Rightarrow> [] | Some m \<Rightarrow> m) of
             Inl e \<Rightarrow> Inl e
           | Inr m \<Rightarrow> Inr (Some m))
      | _ \<Rightarrow> Inl json_error)"

text \<open>
  The struct tag of the field \<open>Set\<close> is written \<open>json"set"\<close>, without the colon, so the
  decoder ignores it and the field is known by its Go name.
\<close>

definition FixedSetRootFSProvider_UnmarshalJSON :: "json \<Rightarrow> go_error + RootFSProvider" where
  "FixedSetRootFSProvider_UnmarshalJSON payload =
     (case decode_struct1 ''Set'' decode_StringSet payload None of
        Inl e \<Rightarrow> Inl e
      | Inr f \<Rightarrow> Inr (FixedSetRootFSProvider f))"

definition unmarshalRootFSProvider :: "json \<Rightarrow> go_error + RootFSProvider option" where
  "unmarshalRootFSProvider payload =
     (case decode_struct1 ''type'' decode_string payload '''' of
        Inl e \<Rightarrow> Inl e
      | Inr typ \<Rightarrow>
          if typ = RootFSProviderTypeArbitrary then Inr (Some ArbitraryRootFSProvider)
          else if typ = RootFSProviderTypeFixedSet then
            (case FixedSetRootFSProvider_UnmarshalJSON payload of
               Inl e \<Rightarrow> Inl e
             | Inr provider \<Rightarrow> Inr (Some provider))
          else Inr None)"

definition RootFSProviders_UnmarshalJSON :: "json \<Rightarrow> go_error + RootFSProviders" where
  "RootFSProviders_UnmarshalJSON payload =
     (case payload of
        JNull \<Rightarrow> Inr []
      | JObject kvs \<Rightarrow>
          (case decode_entries Inr kvs [] of
             Inl e \<Rightarrow> Inl e
           | Inr providerEnvelope \<Rightarrow>
               decode_entries unmarshalRootFSProvider providerEnvelope [])
      | _ \<Rightarrow> Inl json_error)"

definition marshal_StringSet :: "StringSet \<Rightarrow> json" where
  "marshal_StringSet s =
     (case s of None \<Rightarrow> JNull | Some m \<Rightarrow> marshal_map (map (\<lambda>(k, _). (k, JObject [])) m))"

definition ArbitraryRootFSProvider_MarshalJSON :: json where
  "ArbitraryRootFSProvider_MarshalJSON =
     marshal_map [(''type'', JString (RootFSProvider_Type ArbitraryRootFSProvider))]"

definition FixedSetRootFSProvider_MarshalJSON :: "StringSet \<Rightarrow> json" where
  "FixedSetRootFSProvider_MarshalJSON s =
     marshal_map [(''type'', JString (RootFSProvider_Type (FixedSetRootFSProvider s))),
                  (''set'', marshal_StringSet s)]"

text \<open>\<open>json.Marshal\<close> of a provider map calls the methods above on its values.\<close>

fun marshal_provider :: "RootFSProvider option \<Rightarrow> json" where
  "marshal_provider None = JNull"
| "marshal_provider (Some ArbitraryRootFSProvider) = ArbitraryRootFSProvider_MarshalJSON"
| "marshal_provider (Some (FixedSetRootFSProvider s)) = FixedSetRootFSProvider_MarshalJSON s"

definition marshal_RootFSProviders :: "RootFSProviders \<Rightarrow> json" where
  "marshal_RootFSProviders p = marshal_map (map (\<lambda>(k, v). (k, marshal_provider v)) p)"

text \<open>
  The bytes: the methods above are given by the trees they print and parse. \<open>json.Marshal\<close>
  prints the tree, and \<open>json.Unmarshal\<close> fails on a text that is not JSON before it calls
  \<open>UnmarshalJSON\<close>.
\<close>

definition RootFSProviders_text :: "RootFSProviders \<Rightarrow> string" where
  "RootFSProviders_text p = print_json (marshal_RootFSProviders p)"

definition RootFSProviders_of_text :: "string \<Rightarrow> go_error + RootFSProviders" where
  "RootFSProviders_of_text payload =
     (case parse_json payload of
        None \<Rightarrow> Inl json_error
      | Some j \<Rightarrow> RootFSProviders_UnmarshalJSON j)"

section \<open>Lemmas\<close>

lemma StringSet_Contains_New [simp]:
  "StringSet_Contains (NewStringSet es) c \<longleftrightarrow> c \<in> set es"
  by (simp add: StringSet_Contains_def NewStringSet_def has_key_fold_update)

lemma fold_update_map_of:
  "map_of (fold (\<lambda>(k, _) m. AList.update k (g k) m) xs m) k =
     (if k \<in> fst ` set xs then Some (g k) else map_of m k)"
  by (induction xs arbitrary: m) (auto simp: update_conv')

lemma RootFSProviders_Copy_lookup: "map_of (RootFSProviders_Copy p) = map_of p"
proof
  fix k
  show "map_of (RootFSProviders_Copy p) k = map_of p k"
    unfolding RootFSProviders_Copy_def fold_update_map_of
    by (cases "map_of p k")
      (auto simp: map_of_eq_None_iff [of p k, symmetric] dest: map_of_SomeD intro: rev_image_eqI)
qed

lemma map_option_unit [simp]: "map_option (\<lambda>_. ()) x = x"
  by (cases x) simp_all

lemma decode_StringSet_marshal:
  assumes "distinct (map fst m)"
  shows "\<exists>m'. decode_StringSet (marshal_StringSet (Some m)) None = Inr (Some m') \<and>
           map_of m' = map_of m"
proof -
  let ?kvs = "map (\<lambda>(k, _). (k, JObject [])) m"
  have d: "distinct (map fst ?kvs)"
    using assms by (simp add: comp_def split_def)
  have dec: "\<forall>kv \<in> set ?kvs. decode_empty_struct (snd kv) = Inr ((\<lambda>_. ()) (snd kv))"
    by (auto simp: decode_empty_struct_def)
  have "map_option (\<lambda>_. ()) \<circ> map_of ?kvs = map_of m"
    by (simp add: map_of_map fun_eq_iff option.map_comp comp_def)
  with decode_marshal_map [OF d dec] show ?thesis
    by (auto simp: marshal_StringSet_def marshal_map_def decode_StringSet_def)
qed

text \<open>
  The invariant of the Go maps in a provider map: keys are distinct, here and in the string
  sets.
\<close>

fun provider_wf :: "RootFSProvider option \<Rightarrow> bool" where
  "provider_wf (Some (FixedSetRootFSProvider (Some m))) = distinct (map fst m)"
| "provider_wf _ = True"

definition RootFSProviders_wf :: "RootFSProviders \<Rightarrow> bool" where
  "RootFSProviders_wf p \<longleftrightarrow> distinct (map fst p) \<and> list_all (\<lambda>(k, v). provider_wf v) p"

text \<open>Two interface values that match the same URLs.\<close>

fun provider_equiv :: "RootFSProvider option \<Rightarrow> RootFSProvider option \<Rightarrow> bool" where
  "provider_equiv (Some p) (Some q) = (\<forall>u. RootFSProvider_Match p u = RootFSProvider_Match q u)"
| "provider_equiv None None = True"
| "provider_equiv _ _ = False"

lemma provider_wf_New [simp]: "provider_wf (Some (NewFixedSetRootFSProvider es))"
  by (simp add: NewFixedSetRootFSProvider_def NewStringSet_def distinct_fold_update)

lemma field_matches_names [simp]:
  "field_matches ''Set'' ''set''" "\<not> field_matches ''Set'' ''type''"
  "field_matches ''type'' ''type''" "\<not> field_matches ''type'' ''set''"
  by code_simp+

lemma decode_fields_FixedSet:
  "decode_struct1 ''type'' decode_string (FixedSetRootFSProvider_MarshalJSON s) '''' =
     Inr RootFSProviderTypeFixedSet"
  "decode_struct1 ''Set'' decode_StringSet (FixedSetRootFSProvider_MarshalJSON s) None =
     decode_StringSet (marshal_StringSet s) None"
  by (simp_all add: FixedSetRootFSProvider_MarshalJSON_def marshal_map_def decode_struct1_def
      decode_string_def sort_key_def split: sum.split)

lemma unmarshal_marshal_provider:
  assumes "provider_wf p"
  shows "\<exists>q. unmarshalRootFSProvider (marshal_provider p) = Inr q \<and> provider_equiv p q"
proof (cases p)
  case None
  then show ?thesis
    by (simp add: unmarshalRootFSProvider_def decode_struct1_def RootFSProviderTypeArbitrary_def
        RootFSProviderTypeFixedSet_def)
next
  case (Some pr)
  show ?thesis
  proof (cases pr)
    case ArbitraryRootFSProvider
    with Some show ?thesis
      by (simp add: unmarshalRootFSProvider_def ArbitraryRootFSProvider_MarshalJSON_def
          marshal_map_def decode_struct1_def decode_string_def)
  next
    case (FixedSetRootFSProvider s)
    have "\<exists>s'. decode_StringSet (marshal_StringSet s) None = Inr s' \<and>
            (\<forall>c. StringSet_Contains s' c = StringSet_Contains s c)"
    proof (cases s)
      case None
      then show ?thesis
        by (simp add: marshal_StringSet_def decode_StringSet_def)
    next
      case (Some m)
      then have "distinct (map fst m)"
        using assms \<open>p = Some pr\<close> FixedSetRootFSProvider by simp
      from decode_StringSet_marshal [OF this] Some show ?thesis
        by (auto simp: StringSet_Contains_def has_key_def)
    qed
    then show ?thesis
      using Some FixedSetRootFSProvider
      by (auto simp: unmarshalRootFSProvider_def decode_fields_FixedSet
          FixedSetRootFSProvider_UnmarshalJSON_def RootFSProviderTypeArbitrary_def
          RootFSProviderTypeFixedSet_def)
  qed
qed

lemma marshalled_entries:
  assumes wf: "RootFSProviders_wf p"
  obtains env where
    "decode_entries Inr (sort_key fst (map (\<lambda>(k, v). (k, marshal_provider v)) p)) [] = Inr env"
    "map_of env = map_option marshal_provider \<circ> map_of p" "distinct (map fst env)"
proof -
  let ?kvs = "map (\<lambda>(k, v). (k, marshal_provider v)) p"
  have "distinct (map fst ?kvs)"
    using wf by (simp add: RootFSProviders_wf_def comp_def split_def)
  from decode_marshal_map [OF this, of Inr "\<lambda>j. j"] obtain env where
    "decode_entries Inr (sort_key fst ?kvs) [] = Inr env" "map_of env = map_of ?kvs"
    "distinct (map fst env)"
    by (auto simp: option.map_ident comp_def)
  with that show thesis by (simp add: map_of_map)
qed

lemma unmarshal_marshal_map:
  assumes wf: "RootFSProviders_wf p"
  obtains q where "RootFSProviders_UnmarshalJSON (marshal_RootFSProviders p) = Inr q"
    "\<And>k. map_of p k = None \<Longrightarrow> map_of q k = None"
    "\<And>k v. map_of p k = Some v \<Longrightarrow> \<exists>w. map_of q k = Some w \<and> provider_equiv v w"
proof -
  let ?f = "\<lambda>j. case unmarshalRootFSProvider j of Inr q \<Rightarrow> q | Inl e \<Rightarrow> None"
  obtain env where env:
    "decode_entries Inr (sort_key fst (map (\<lambda>(k, v). (k, marshal_provider v)) p)) [] = Inr env"
    "map_of env = map_option marshal_provider \<circ> map_of p" "distinct (map fst env)"
    by (rule marshalled_entries [OF wf])
  have pw: "\<exists>q. unmarshalRootFSProvider (marshal_provider v) = Inr q \<and> provider_equiv v q"
    if "map_of p k = Some v" for k v
    using wf map_of_SomeD [OF that]
    by (intro unmarshal_marshal_provider) (auto simp: RootFSProviders_wf_def list_all_iff)
  have "\<forall>kv \<in> set env. unmarshalRootFSProvider (snd kv) = Inr (?f (snd kv))"
  proof
    fix kv assume "kv \<in> set env"
    then have "(map_option marshal_provider \<circ> map_of p) (fst kv) = Some (snd kv)"
      using env by (metis map_of_eq_Some_iff prod.collapse)
    with pw show "unmarshalRootFSProvider (snd kv) = Inr (?f (snd kv))"
      by fastforce
  qed
  from decode_entries_map_of [OF this, of "[]"] obtain q where q:
    "decode_entries unmarshalRootFSProvider env [] = Inr q"
    "map_of q = map_of (map (\<lambda>(k, j). (k, ?f j)) (rev env))"
    by auto
  have "map_of q = map_option ?f \<circ> (map_option marshal_provider \<circ> map_of p)"
    unfolding q(2) by (simp only: map_of_map map_of_rev_distinct env)
  then have "map_of p k = None \<Longrightarrow> map_of q k = None"
    "map_of p k = Some v \<Longrightarrow> \<exists>w. map_of q k = Some w \<and> provider_equiv v w" for k v
    using pw by fastforce+
  with env(1) q(1) show thesis
    by (intro that [of q])
      (auto simp: RootFSProviders_UnmarshalJSON_def marshal_RootFSProviders_def marshal_map_def)
qed

lemma unmarshal_marshal_match:
  assumes wf: "RootFSProviders_wf p"
  shows "\<exists>q. RootFSProviders_UnmarshalJSON (marshal_RootFSProviders p) = Inr q \<and>
           (\<forall>u. RootFSProviders_Match q u = RootFSProviders_Match p u)"
proof -
  obtain q where q: "RootFSProviders_UnmarshalJSON (marshal_RootFSProviders p) = Inr q"
    and none: "\<And>k. map_of p k = None \<Longrightarrow> map_of q k = None"
    and some: "\<And>k v. map_of p k = Some v \<Longrightarrow> \<exists>w. map_of q k = Some w \<and> provider_equiv v w"
    using unmarshal_marshal_map [OF wf] by blast
  have "RootFSProviders_Match q u = RootFSProviders_Match p u" for u
  proof (cases "map_of p (Scheme u)")
    case None
    with none show ?thesis by (simp add: RootFSProviders_Match_def)
  next
    case (Some v)
    then obtain w where "map_of q (Scheme u) = Some w" "provider_equiv v w" using some by blast
    with Some show ?thesis by (cases v; cases w) (simp_all add: RootFSProviders_Match_def)
  qed
  with q show ?thesis by blast
qed

text \<open>The strings that JSON text can carry: a byte that is not UTF-8 is replaced when printed.\<close>

definition provider_ok :: "RootFSProvider option \<Rightarrow> bool" where
  "provider_ok p =
     (case p of
        Some (FixedSetRootFSProvider (Some m)) \<Rightarrow> list_all (\<lambda>(k, _). utf8_valid k) m
      | _ \<Rightarrow> True)"

definition RootFSProviders_ok :: "RootFSProviders \<Rightarrow> bool" where
  "RootFSProviders_ok p \<longleftrightarrow> list_all (\<lambda>(k, v). utf8_valid k \<and> provider_ok v) p"

lemma json_ok_provider: "provider_ok p \<Longrightarrow> json_ok (marshal_provider p)"
  by (cases p rule: marshal_provider.cases)
    (auto simp: ArbitraryRootFSProvider_MarshalJSON_def FixedSetRootFSProvider_MarshalJSON_def
      json_ok_map literal_ok marshal_StringSet_def provider_ok_def RootFSProviderTypeArbitrary_def
      RootFSProviderTypeFixedSet_def members_ok_def list_all_iff split: option.splits
      simp del: utf8_valid.simps)

lemma json_ok_RootFSProviders: "RootFSProviders_ok p \<Longrightarrow> json_ok (marshal_RootFSProviders p)"
  using json_ok_provider
  by (auto simp: marshal_RootFSProviders_def json_ok_map members_ok_def list_all_iff
      RootFSProviders_ok_def)

text \<open>
  C23: A provider map whose names are UTF-8, written as JSON text and read again, gives a
  provider map that matches exactly the URLs the original matches (and panics on a nil
  provider where the original does): a cell state sent over HTTP schedules like the
  original.
\<close>

theorem RootFSProviders_json_roundtrip:
  assumes wf: "RootFSProviders_wf p" and ok: "RootFSProviders_ok p"
  shows "\<exists>q. RootFSProviders_of_text (RootFSProviders_text p) = Inr q \<and>
           (\<forall>u. RootFSProviders_Match q u = RootFSProviders_Match p u)"
  using unmarshal_marshal_match [OF wf] json_ok_RootFSProviders [OF ok]
  by (simp add: RootFSProviders_of_text_def RootFSProviders_text_def)

theorem RootFSProviders_json_roundtrip_witness:
  "let p = [(''docker'', Some ArbitraryRootFSProvider),
            (''preloaded'', Some (NewFixedSetRootFSProvider [''linux'']))]
   in \<exists>q. RootFSProviders_of_text (RootFSProviders_text p) = Inr q \<and>
        (\<forall>u. RootFSProviders_Match q u = RootFSProviders_Match p u)"
  unfolding Let_def
  by (rule RootFSProviders_json_roundtrip)
    (simp_all add: RootFSProviders_wf_def RootFSProviders_ok_def provider_ok_def literal_ok
      NewFixedSetRootFSProvider_def NewStringSet_def del: utf8_valid.simps)

end
