(* ===== verification/Rep_Foreign.thy ===== *)
theory Rep_Foreign
  imports Go_JSON_Text
begin

text \<open>
  The data types of \<open>code.cloudfoundry.org/bbs/models\<close> and
  \<open>code.cloudfoundry.org/executor\<close>, with the fields the repository reads or writes, and
  the functions of those packages the repository computes with. The packages are not part
  of the repository: their data types are records, their \<open>New...\<close> constructors fill in the
  fields, and every function with logic of its own is a field of \<open>ext_api\<close>, a parameter
  of the definitions that use it. Values the repository only passes on (actions, checks,
  egress rules) are opaque strings.
\<close>

type_synonym opaque = string

section \<open>bbs/models\<close>

record ActualLRPKey =
  ProcessGuid :: string
  Index :: int32
  Domain :: string

record ActualLRPInstanceKey =
  InstanceGuid :: string
  CellId :: string

record models_PortMapping =
  mpm_HostPort :: uint32
  mpm_ContainerPort :: uint32

record ActualLRPNetInfo =
  ni_Address :: string
  ni_InstanceAddress :: string
  ni_Ports :: "models_PortMapping list"

record ActualLRP =
  alrp_Key :: ActualLRPKey
  alrp_InstanceKey :: ActualLRPInstanceKey

record ActualLRPGroup =
  grp_Instance :: "ActualLRP option"
  grp_Evacuating :: "ActualLRP option"

record models_CachedDependency =
  mcd_Name :: string
  mcd_From :: string
  mcd_To :: string
  mcd_CacheKey :: string
  mcd_LogSource :: string
  mcd_ChecksumValue :: string
  mcd_ChecksumAlgorithm :: string

record SharedDevice =
  sd_VolumeId :: string
  sd_MountConfig :: string

record models_VolumeMount =
  mvm_Driver :: string
  mvm_ContainerDir :: string
  mvm_Mode :: string
  mvm_Shared :: "SharedDevice option"

record models_Network =
  mnet_Properties :: "(string \<times> string) list"

record models_CertificateProperties =
  mcp_OrganizationalUnit :: "string list"

record models_EnvironmentVariable =
  mev_Name :: string
  mev_Value :: string

record DesiredLRP =
  d_RootFs :: string
  d_CpuWeight :: uint32
  d_Ports :: "uint32 list"
  d_LogGuid :: string
  d_LogSource :: string
  d_MetricsGuid :: string
  d_StartTimeoutMs :: "64 word"
  d_Privileged :: bool
  d_CachedDependencies :: "models_CachedDependency list"
  d_Setup :: opaque
  d_Action :: opaque
  d_Monitor :: opaque
  d_CheckDefinition :: opaque
  d_EgressRules :: opaque
  d_EnvironmentVariables :: "models_EnvironmentVariable list"
  d_TrustedSystemCertificatesPath :: string
  d_VolumeMounts :: "models_VolumeMount list"
  d_Network :: "models_Network option"
  d_CertificateProperties :: "models_CertificateProperties option"
  d_ImageUsername :: string
  d_ImagePassword :: string

record models_Task =
  t_TaskGuid :: string
  t_RootFs :: string
  t_CpuWeight :: uint32
  t_Privileged :: bool
  t_LogGuid :: string
  t_LogSource :: string
  t_MetricsGuid :: string
  t_ResultFile :: string
  t_CachedDependencies :: "models_CachedDependency list"
  t_Action :: opaque
  t_EnvironmentVariables :: "models_EnvironmentVariable list"
  t_EgressRules :: opaque
  t_TrustedSystemCertificatesPath :: string
  t_VolumeMounts :: "models_VolumeMount list"
  t_Network :: "models_Network option"
  t_CertificateProperties :: "models_CertificateProperties option"
  t_ImageUsername :: string
  t_ImagePassword :: string

section \<open>executor\<close>

datatype ContainerState =
    StateInvalid | StateReserved | StateInitializing | StateCreated | StateRunning
  | StateCompleted

record PortMapping =
  pm_ContainerPort :: uint16
  pm_HostPort :: uint16

record ContainerRunResult =
  rr_Failed :: bool
  rr_FailureReason :: string
  rr_Stopped :: bool

record Container =
  c_Guid :: string
  c_Tags :: tags
  c_State :: ContainerState
  c_MemoryMB :: go_int
  c_DiskMB :: go_int
  c_Ports :: "PortMapping list"
  c_ExternalIP :: string
  c_InternalIP :: string
  c_RunResult :: ContainerRunResult

record ExecutorResources =
  er_MemoryMB :: go_int
  er_DiskMB :: go_int
  er_Containers :: go_int

record executor_Resource =
  x_MemoryMB :: go_int
  x_DiskMB :: go_int
  x_MaxPids :: go_int
  x_RootFSPath :: string

record AllocationRequest =
  ar_Guid :: string
  ar_Resource :: executor_Resource
  ar_Tags :: tags

record AllocationFailure =
  af_Request :: AllocationRequest
  af_ErrorMsg :: string

datatype DiskLimitScope = ExclusiveDiskLimit | TotalDiskLimit

datatype BindMountMode = BindMountModeRO | BindMountModeRW

record EnvironmentVariable =
  ev_Name :: string
  ev_Value :: string

record CachedDependency =
  cd_Name :: string
  cd_From :: string
  cd_To :: string
  cd_CacheKey :: string
  cd_LogSource :: string
  cd_ChecksumValue :: string
  cd_ChecksumAlgorithm :: string

record VolumeMount =
  vm_Driver :: string
  vm_VolumeId :: string
  vm_ContainerPath :: string
  vm_Mode :: BindMountMode
  vm_Config :: "json option"

record LogConfig =
  lc_Guid :: string
  lc_Index :: go_int
  lc_SourceName :: string

record MetricsConfig =
  mc_Guid :: string
  mc_Index :: go_int

record Network =
  net_Properties :: "(string \<times> string) list"

record CertificateProperties =
  cp_OrganizationalUnit :: "string list"

record RunInfo =
  ri_CPUWeight :: uint64
  ri_DiskScope :: DiskLimitScope
  ri_Ports :: "PortMapping list"
  ri_LogConfig :: LogConfig
  ri_MetricsConfig :: MetricsConfig
  ri_StartTimeoutMs :: uint64
  ri_Privileged :: bool
  ri_CachedDependencies :: "CachedDependency list"
  ri_Setup :: "opaque option"
  ri_Action :: opaque
  ri_Monitor :: "opaque option"
  ri_CheckDefinition :: "opaque option"
  ri_EgressRules :: opaque
  ri_Env :: "EnvironmentVariable list"
  ri_TrustedSystemCertificatesPath :: string
  ri_VolumeMounts :: "VolumeMount list"
  ri_Network :: "Network option"
  ri_CertificateProperties :: CertificateProperties
  ri_ImageUsername :: string
  ri_ImagePassword :: string

record RunRequest =
  rq_Guid :: string
  rq_RunInfo :: RunInfo
  rq_Tags :: tags

section \<open>Functions of the foreign packages\<close>

text \<open>
  \<^item> \<open>PreloadedRootFSScheme\<close>, \<open>PreloadedOCIRootFSScheme\<close>: constants of \<open>models\<close>;
  \<^item> the \<open>Validate\<close> methods of the LRP keys and of the net info (\<open>None\<close> is no error);
  \<^item> \<open>ConvertError\<close>: the type of the BBS error a non-nil error converts to (a nil error
    converts to nil);
  \<^item> \<open>EnvironmentVariablesFromModel\<close> of \<open>executor\<close>.
\<close>

record ext_api =
  PreloadedRootFSScheme :: string
  PreloadedOCIRootFSScheme :: string
  ActualLRPKey_Validate :: "ActualLRPKey \<Rightarrow> go_error option"
  ActualLRPInstanceKey_Validate :: "ActualLRPInstanceKey \<Rightarrow> go_error option"
  ActualLRPNetInfo_Validate :: "ActualLRPNetInfo \<Rightarrow> go_error option"
  ConvertError :: "go_error \<Rightarrow> error_type"
  EnvironmentVariablesFromModel :: "models_EnvironmentVariable list \<Rightarrow> EnvironmentVariable list"

text \<open>An instance for examples: the validators check that the strings are not blank.\<close>

definition nonblank :: "string list \<Rightarrow> go_error option" where
  "nonblank ss = (if [] \<in> set ss then Some (ForeignError ''blank field'') else None)"

definition example_api :: ext_api where
  "example_api =
     \<lparr>PreloadedRootFSScheme = ''preloaded'',
      PreloadedOCIRootFSScheme = ''preloaded+layer'',
      ActualLRPKey_Validate = (\<lambda>k. nonblank [ProcessGuid k, Domain k]),
      ActualLRPInstanceKey_Validate = (\<lambda>k. nonblank [InstanceGuid k, CellId k]),
      ActualLRPNetInfo_Validate = (\<lambda>n. nonblank [ni_Address n]),
      ConvertError = (\<lambda>e. case e of ModelsError t m \<Rightarrow> t | _ \<Rightarrow> Error_UnknownError),
      EnvironmentVariablesFromModel =
        map (\<lambda>e. \<lparr>ev_Name = mev_Name e, ev_Value = mev_Value e\<rparr>)\<rparr>"

end
