(* ===== verification/Resources.thy ===== *)
theory Resources
  imports RootFS_Providers Rep_Foreign
begin

text \<open>
  The cell state and its resources (\<open>resources.go\<close>). Memory and disk are 32-bit
  integers, container counts 64-bit ones, and subtraction wraps as in Go. Placement tag
  sets are Go maps to \<open>struct{}\<close>, and matching is the loops of the source; the lemmas
  relate them to sets.
\<close>

section \<open>Resources\<close>

record Resources =
  MemoryMB :: int32
  DiskMB :: int32
  Containers :: go_int

record Resource =
  res_MemoryMB :: int32
  res_DiskMB :: int32
  res_MaxPids :: int32

definition NewResources :: "int32 \<Rightarrow> int32 \<Rightarrow> go_int \<Rightarrow> Resources" where
  "NewResources memoryMb diskMb containerCount =
     \<lparr>MemoryMB = memoryMb, DiskMB = diskMb, Containers = containerCount\<rparr>"

definition Resources_Copy :: "Resources \<Rightarrow> Resources" where
  "Resources_Copy r = r"

definition Subtract :: "Resources \<Rightarrow> Resource \<Rightarrow> Resources" where
  "Subtract r res =
     r\<lparr>MemoryMB := MemoryMB r - res_MemoryMB res,
       DiskMB := DiskMB r - res_DiskMB res,
       Containers := Containers r - 1\<rparr>"

definition NewResource :: "int32 \<Rightarrow> int32 \<Rightarrow> int32 \<Rightarrow> Resource" where
  "NewResource memoryMb diskMb maxPids =
     \<lparr>res_MemoryMB = memoryMb, res_DiskMB = diskMb, res_MaxPids = maxPids\<rparr>"

definition Resource_Valid :: "Resource \<Rightarrow> bool" where
  "Resource_Valid r \<longleftrightarrow> sint (res_DiskMB r) \<ge> 0 \<and> sint (res_MemoryMB r) \<ge> 0"

definition Resource_Copy :: "Resource \<Rightarrow> Resource" where
  "Resource_Copy r = NewResource (res_MemoryMB r) (res_DiskMB r) (res_MaxPids r)"

record PlacementConstraint =
  pc_PlacementTags :: "string list"
  pc_VolumeDrivers :: "string list"
  pc_RootFs :: string

definition NewPlacementConstraint ::
  "string \<Rightarrow> string list \<Rightarrow> string list \<Rightarrow> PlacementConstraint" where
  "NewPlacementConstraint rootFs placementTags volumeDrivers =
     \<lparr>pc_PlacementTags = placementTags, pc_VolumeDrivers = volumeDrivers, pc_RootFs = rootFs\<rparr>"

definition PlacementConstraint_Valid :: "PlacementConstraint \<Rightarrow> bool" where
  "PlacementConstraint_Valid p \<longleftrightarrow> pc_RootFs p \<noteq> ''''"

record LRP =
  lrp_Key :: ActualLRPKey
  lrp_Placement :: PlacementConstraint
  lrp_Resource :: Resource

definition NewLRP :: "ActualLRPKey \<Rightarrow> Resource \<Rightarrow> PlacementConstraint \<Rightarrow> LRP" where
  "NewLRP key res pc = \<lparr>lrp_Key = key, lrp_Placement = pc, lrp_Resource = res\<rparr>"

definition LRP_Identifier :: "LRP \<Rightarrow> string" where
  "LRP_Identifier lrp =
     ProcessGuid (lrp_Key lrp) @ ''.'' @ Itoa (int_of_int32 (Index (lrp_Key lrp)))"

definition LRP_Copy :: "LRP \<Rightarrow> LRP" where
  "LRP_Copy lrp = NewLRP (lrp_Key lrp) (lrp_Resource lrp) (lrp_Placement lrp)"

record Task =
  TaskGuid :: string
  task_Domain :: string
  task_Placement :: PlacementConstraint
  task_Resource :: Resource

definition NewTask :: "string \<Rightarrow> string \<Rightarrow> Resource \<Rightarrow> PlacementConstraint \<Rightarrow> Task" where
  "NewTask guid domain res pc =
     \<lparr>TaskGuid = guid, task_Domain = domain, task_Placement = pc, task_Resource = res\<rparr>"

definition Task_Identifier :: "Task \<Rightarrow> string" where
  "Task_Identifier task = TaskGuid task"

definition Task_Copy :: "Task \<Rightarrow> Task" where
  "Task_Copy task = task"

record Work =
  work_LRPs :: "LRP list"
  work_Tasks :: "Task list"

type_synonym StackPathMap = "(string \<times> string) list"

definition UnmarshalStackPathMap :: "string \<Rightarrow> go_error + StackPathMap" where
  "UnmarshalStackPathMap payload =
     (case parse_json payload of
        Some JNull \<Rightarrow> Inr []
      | Some (JObject kvs) \<Rightarrow> decode_entries (\<lambda>j. decode_string j '''') kvs []
      | _ \<Rightarrow> Inl json_error)"

section \<open>The cell state\<close>

record CellState =
  RootFSProviders_of :: RootFSProviders
  AvailableResources :: Resources
  TotalResources :: Resources
  LRPs :: "LRP list"
  Tasks :: "Task list"
  StartingContainerCount :: go_int
  Zone :: string
  Evacuating :: bool
  VolumeDrivers :: "string list"
  PlacementTags :: "string list"
  OptionalPlacementTags :: "string list"

definition NewCellState ::
  "RootFSProviders \<Rightarrow> Resources \<Rightarrow> Resources \<Rightarrow> LRP list \<Rightarrow> Task list \<Rightarrow> string \<Rightarrow> go_int \<Rightarrow>
   bool \<Rightarrow> string list \<Rightarrow> string list \<Rightarrow> string list \<Rightarrow> CellState" where
  "NewCellState rootfs avail totalres lrps tasks zone startingContainerCount isEvac
     volumeDrivers placementTags optionalPlacementTags =
     \<lparr>RootFSProviders_of = rootfs,
      AvailableResources = avail,
      TotalResources = totalres,
      LRPs = lrps,
      Tasks = tasks,
      StartingContainerCount = startingContainerCount,
      Zone = zone,
      Evacuating = isEvac,
      VolumeDrivers = volumeDrivers,
      PlacementTags = placementTags,
      OptionalPlacementTags = optionalPlacementTags\<rparr>"

definition AddLRP :: "CellState \<Rightarrow> LRP \<Rightarrow> CellState" where
  "AddLRP c lrp =
     c\<lparr>AvailableResources := Subtract (AvailableResources c) (lrp_Resource lrp),
       StartingContainerCount := StartingContainerCount c + 1,
       LRPs := LRPs c @ [lrp]\<rparr>"

definition AddTask :: "CellState \<Rightarrow> Task \<Rightarrow> CellState" where
  "AddTask c task =
     c\<lparr>AvailableResources := Subtract (AvailableResources c) (task_Resource task),
       StartingContainerCount := StartingContainerCount c + 1,
       Tasks := Tasks c @ [task]\<rparr>"

definition ResourceMatch :: "CellState \<Rightarrow> Resource \<Rightarrow> go_error option" where
  "ResourceMatch c res =
     (let problems0 = [];
          problems1 =
            (if sint (DiskMB (AvailableResources c)) < sint (res_DiskMB res)
             then AList.update ''disk'' () problems0 else problems0);
          problems2 =
            (if sint (MemoryMB (AvailableResources c)) < sint (res_MemoryMB res)
             then AList.update ''memory'' () problems1 else problems1);
          problems3 =
            (if sint (Containers (AvailableResources c)) < 1
             then AList.update ''containers'' () problems2 else problems2)
      in if length problems3 = 0 then None else Some (InsufficientResourcesError problems3))"

definition InsufficientResourcesError_Error :: "(string \<times> unit) list \<Rightarrow> string" where
  "InsufficientResourcesError_Error problems =
     (if length problems = 0 then ''insufficient resources''
      else ''insufficient resources: '' @ Join (sort (map fst problems)) '', '')"

definition MatchRootFS :: "CellState \<Rightarrow> string \<Rightarrow> bool outcome" where
  "MatchRootFS c rootfs =
     (case url_Parse rootfs of
        Inl err \<Rightarrow> Ret False
      | Inr rootFSURL \<Rightarrow> RootFSProviders_Match (RootFSProviders_of c) rootFSURL)"

fun driver_found :: "string \<Rightarrow> string list \<Rightarrow> bool" where
  "driver_found requestedDriver [] = False"
| "driver_found requestedDriver (actualDriver # rest) =
     (if requestedDriver = actualDriver then True else driver_found requestedDriver rest)"

fun match_drivers :: "string list \<Rightarrow> string list \<Rightarrow> bool" where
  "match_drivers actual [] = True"
| "match_drivers actual (requestedDriver # rest) =
     (if \<not> driver_found requestedDriver actual then False else match_drivers actual rest)"

definition MatchVolumeDrivers :: "CellState \<Rightarrow> string list \<Rightarrow> bool" where
  "MatchVolumeDrivers c volumeDrivers = match_drivers (VolumeDrivers c) volumeDrivers"

type_synonym placementTagSet = "(string \<times> unit) list"

definition tag_union :: "placementTagSet \<Rightarrow> placementTagSet \<Rightarrow> placementTagSet" where
  "tag_union tset other =
     (let tags0 = fold (\<lambda>k t. AList.update k () t) (map fst tset) []
      in fold (\<lambda>k t. AList.update k () t) (map fst other) tags0)"

fun isSubset :: "placementTagSet \<Rightarrow> placementTagSet \<Rightarrow> bool" where
  "isSubset [] other = True"
| "isSubset ((k, _) # rest) other =
     (if \<not> has_key other k then False else isSubset rest other)"

definition toSet :: "string list \<Rightarrow> placementTagSet" where
  "toSet xs = fold (\<lambda>k t. AList.update k () t) xs []"

definition MatchPlacementTags :: "CellState \<Rightarrow> string list \<Rightarrow> bool" where
  "MatchPlacementTags c desiredPlacementTags =
     (let desiredTags = toSet desiredPlacementTags;
          optionalTags = toSet (OptionalPlacementTags c);
          requiredTags = toSet (PlacementTags c);
          allTags = tag_union requiredTags optionalTags
      in isSubset requiredTags desiredTags \<and> isSubset desiredTags allTags)"

section \<open>Lemmas\<close>

lemma driver_found_iff [simp]: "driver_found d ds \<longleftrightarrow> d \<in> set ds"
  by (induction ds) auto

lemma match_drivers_iff [simp]: "match_drivers actual ds \<longleftrightarrow> set ds \<subseteq> set actual"
  by (induction ds) auto

lemma has_key_toSet [simp]: "has_key (toSet xs) k \<longleftrightarrow> k \<in> set xs"
  unfolding toSet_def by (simp add: has_key_fold_update)

lemma isSubset_iff: "isSubset s other \<longleftrightarrow> (\<forall>k. has_key s k \<longrightarrow> has_key other k)"
  by (induction s) (auto split: if_splits)

lemma has_key_tag_union [simp]: "has_key (tag_union s t) k \<longleftrightarrow> has_key s k \<or> has_key t k"
  by (simp add: tag_union_def has_key_fold_update) (auto simp: has_key_iff)

lemma sint_diff_int32:
  fixes a b :: int32
  assumes "0 \<le> sint b" "sint b \<le> sint a"
  shows "sint (a - b) = sint a - sint b"
proof -
  have "sint (a - b) = signed_take_bit 31 (sint a - sint b)"
    by (simp add: sint_word_ariths)
  also have "\<dots> = sint a - sint b"
    using assms sint_int32_range [of a] by (intro signed_take_bit_int_eq_self) simp_all
  finally show ?thesis .
qed

lemma sint_pred_go_int:
  fixes a :: go_int
  assumes "1 \<le> sint a"
  shows "sint (a - 1) = sint a - 1"
proof -
  have "sint (a - 1) = signed_take_bit 63 (sint a - sint (1 :: go_int))"
    by (simp add: sint_word_ariths)
  also have "sint (1 :: go_int) = 1" by simp
  also have "signed_take_bit 63 (sint a - 1) = sint a - 1"
    using assms sint_go_int_range [of a] by (intro signed_take_bit_int_eq_self) simp_all
  finally show ?thesis .
qed

lemma ResourceMatch_None_iff:
  "ResourceMatch c res = None \<longleftrightarrow>
     sint (res_DiskMB res) \<le> sint (DiskMB (AvailableResources c)) \<and>
     sint (res_MemoryMB res) \<le> sint (MemoryMB (AvailableResources c)) \<and>
     1 \<le> sint (Containers (AvailableResources c))"
  by (auto simp: ResourceMatch_def Let_def)

lemma Subtract_matching:
  assumes "ResourceMatch c res = None" "Resource_Valid res"
  defines "r \<equiv> Subtract (AvailableResources c) res"
  shows "sint (MemoryMB r) = sint (MemoryMB (AvailableResources c)) - sint (res_MemoryMB res)"
    and "sint (DiskMB r) = sint (DiskMB (AvailableResources c)) - sint (res_DiskMB res)"
    and "sint (Containers r) = sint (Containers (AvailableResources c)) - 1"
  using assms
  by (simp_all add: ResourceMatch_None_iff Resource_Valid_def Subtract_def sint_diff_int32
      sint_pred_go_int)

section \<open>Properties\<close>

text \<open>
  C18: Placing matched work never overcommits the cell. If \<open>ResourceMatch\<close> accepts a valid
  resource request, then \<open>AddLRP\<close> and \<open>AddTask\<close> subtract exactly the requested memory
  and disk and one container (no 32-bit or 64-bit wrap-around), and what remains of each is
  not negative.
\<close>

theorem placement_never_overcommits:
  assumes "ResourceMatch c res = None" "Resource_Valid res"
    and "lrp_Resource lrp = res" "task_Resource task = res"
  shows "AvailableResources (AddLRP c lrp) = AvailableResources (AddTask c task) \<and>
    sint (MemoryMB (AvailableResources (AddLRP c lrp))) =
      sint (MemoryMB (AvailableResources c)) - sint (res_MemoryMB res) \<and>
    sint (DiskMB (AvailableResources (AddLRP c lrp))) =
      sint (DiskMB (AvailableResources c)) - sint (res_DiskMB res) \<and>
    sint (Containers (AvailableResources (AddLRP c lrp))) =
      sint (Containers (AvailableResources c)) - 1 \<and>
    0 \<le> sint (MemoryMB (AvailableResources (AddLRP c lrp))) \<and>
    0 \<le> sint (DiskMB (AvailableResources (AddLRP c lrp))) \<and>
    0 \<le> sint (Containers (AvailableResources (AddLRP c lrp)))"
  using assms Subtract_matching [OF assms(1,2)]
  by (simp add: AddLRP_def AddTask_def ResourceMatch_None_iff)

definition example_cell :: CellState where
  "example_cell =
     NewCellState [(''preloaded'', Some (NewFixedSetRootFSProvider [''linux'']))]
       (NewResources 100 200 3) (NewResources 1000 2000 10) [] [] ''z1'' 0 False
       [''nfs''] [''gpu''] [''ssd'', ''gpu'']"

theorem placement_never_overcommits_witness:
  "ResourceMatch example_cell (NewResource 60 50 10) = None \<and>
   sint (MemoryMB (AvailableResources (AddLRP example_cell
     (NewLRP \<lparr>ProcessGuid = ''pg'', Index = 0, Domain = ''d''\<rparr> (NewResource 60 50 10)
        (NewPlacementConstraint '''' [] []))))) = 40"
proof -
  have m: "ResourceMatch example_cell (NewResource 60 50 10) = None"
    and v: "Resource_Valid (NewResource 60 50 10)"
    by (simp_all add: ResourceMatch_None_iff example_cell_def NewCellState_def NewResource_def
        NewResources_def Resource_Valid_def)
  let ?lrp = "NewLRP \<lparr>ProcessGuid = ''pg'', Index = 0, Domain = ''d''\<rparr> (NewResource 60 50 10)
                (NewPlacementConstraint '''' [] [])"
  have "sint (MemoryMB (AvailableResources (AddLRP example_cell ?lrp))) =
      sint (MemoryMB (AvailableResources example_cell)) - sint (res_MemoryMB (NewResource 60 50 10))"
    by (rule placement_never_overcommits [where
          task = "NewTask '''' '''' (NewResource 60 50 10) (NewPlacementConstraint '''' [] [])",
          OF m v, THEN conjunct2, THEN conjunct1])
      (simp_all add: NewLRP_def NewTask_def)
  also have "\<dots> = 40"
    by (simp add: example_cell_def NewCellState_def NewResources_def NewResource_def)
  finally show ?thesis using m by simp
qed

text \<open>What the problem map of a refused request is to hold.\<close>

definition shortage :: "CellState \<Rightarrow> Resource \<Rightarrow> string \<Rightarrow> bool" where
  "shortage c res name \<longleftrightarrow>
     name = ''disk'' \<and> sint (DiskMB (AvailableResources c)) < sint (res_DiskMB res) \<or>
     name = ''memory'' \<and> sint (MemoryMB (AvailableResources c)) < sint (res_MemoryMB res) \<or>
     name = ''containers'' \<and> sint (Containers (AvailableResources c)) \<le> 0"

text \<open>
  A refused request names exactly the dimensions that lack capacity, and the error
  message is the same in whatever order Go ranges over the problem map.
\<close>

theorem ResourceMatch_reports_shortages:
  assumes "map_order ord" "ResourceMatch c res = Some err"
  shows "\<exists>problems. err = InsufficientResourcesError problems \<and>
    (\<forall>name. has_key problems name \<longleftrightarrow> shortage c res name) \<and>
    InsufficientResourcesError_Error (ord problems) = InsufficientResourcesError_Error problems"
proof -
  have msg: "InsufficientResourcesError_Error (ord ps) = InsufficientResourcesError_Error ps" for ps
  proof -
    have m: "mset (ord ps) = mset ps" by (rule map_orderD [OF assms(1)])
    then have "length (ord ps) = length ps" by (rule mset_eq_length)
    moreover have "sort (map fst (ord ps)) = sort (map fst ps)"
      using m by (intro properties_for_sort) simp_all
    ultimately show ?thesis by (simp add: InsufficientResourcesError_Error_def)
  qed
  from assms(2) show ?thesis
    by (auto simp: ResourceMatch_def Let_def shortage_def msg has_key_def split: if_splits)
qed

theorem ResourceMatch_reports_shortages_witness:
  "ResourceMatch example_cell (NewResource 101 201 10) =
     Some (InsufficientResourcesError [(''disk'', ()), (''memory'', ())]) \<and>
   InsufficientResourcesError_Error (rev [(''disk'', ()), (''memory'', ())]) =
     ''insufficient resources: disk, memory''"
proof -
  have m: "ResourceMatch example_cell (NewResource 101 201 10) =
     Some (InsufficientResourcesError [(''disk'', ()), (''memory'', ())])"
    by (simp add: ResourceMatch_def example_cell_def NewCellState_def NewResource_def
        NewResources_def)
  have "InsufficientResourcesError_Error [(''disk'', ()), (''memory'', ())] =
     ''insufficient resources: disk, memory''"
    by code_simp
  with ResourceMatch_reports_shortages [OF map_order_id(3) m] m show ?thesis by simp
qed

text \<open>
  \<open>MatchPlacementTags\<close> accepts a set of desired tags exactly when every required tag
  of the cell is desired and every desired tag is one of the cell's required or optional
  tags; order and repetitions do not matter.
\<close>

theorem MatchPlacementTags_correct:
  "MatchPlacementTags c desired \<longleftrightarrow>
     set (PlacementTags c) \<subseteq> set desired \<and>
     set desired \<subseteq> set (PlacementTags c) \<union> set (OptionalPlacementTags c)"
  by (auto simp: MatchPlacementTags_def isSubset_iff)

text \<open>
  \<open>MatchVolumeDrivers\<close> accepts a request exactly when every requested driver is one
  of the cell's drivers.
\<close>

theorem MatchVolumeDrivers_correct:
  "MatchVolumeDrivers c drivers \<longleftrightarrow> set drivers \<subseteq> set (VolumeDrivers c)"
  by (simp add: MatchVolumeDrivers_def)

end
