(* ===== verification/Conversion.thy ===== *)
theory Conversion
  imports Resources
begin

text \<open>
  The conversions of \<open>conversion_helpers.go\<close> between BBS models and executor values: LRP
  keys from container tags, the net info of a container, and the run requests of desired
  LRPs and tasks. A conversion that dereferences a nil pointer panics; one that fails
  returns the error of the source.
\<close>

section \<open>Tags\<close>

definition LifecycleTag :: string where "LifecycleTag = ''lifecycle''"
definition ResultFileTag :: string where "ResultFileTag = ''result-file''"
definition DomainTag :: string where "DomainTag = ''domain''"
definition TaskLifecycle :: string where "TaskLifecycle = ''task''"
definition LRPLifecycle :: string where "LRPLifecycle = ''lrp''"
definition ProcessGuidTag :: string where "ProcessGuidTag = ''process-guid''"
definition InstanceGuidTag :: string where "InstanceGuidTag = ''instance-guid''"
definition ProcessIndexTag :: string where "ProcessIndexTag = ''process-index''"

lemmas tag_defs = LifecycleTag_def ResultFileTag_def DomainTag_def TaskLifecycle_def
  LRPLifecycle_def ProcessGuidTag_def InstanceGuidTag_def ProcessIndexTag_def

section \<open>Keys and net info of containers\<close>

definition ActualLRPKeyFromTags :: "ext_api \<Rightarrow> tags \<Rightarrow> go_error + ActualLRPKey" where
  "ActualLRPKeyFromTags M tags =
     (if tags = None then Inl ErrContainerMissingTags
      else case Atoi (tag_get tags ProcessIndexTag) of
             None \<Rightarrow> Inl ErrInvalidProcessIndex
           | Some processIndex \<Rightarrow>
               let actualLRPKey =
                     \<lparr>ProcessGuid = tag_get tags ProcessGuidTag,
                      Index = int32_of_int processIndex,
                      Domain = tag_get tags DomainTag\<rparr>
               in case ActualLRPKey_Validate M actualLRPKey of
                    Some err \<Rightarrow> Inl err
                  | None \<Rightarrow> Inr actualLRPKey)"

definition ActualLRPInstanceKeyFromContainer ::
  "ext_api \<Rightarrow> Container \<Rightarrow> string \<Rightarrow> go_error + ActualLRPInstanceKey" where
  "ActualLRPInstanceKeyFromContainer M container cellID =
     (if c_Tags container = None then Inl ErrContainerMissingTags
      else let actualLRPInstanceKey =
                 \<lparr>InstanceGuid = tag_get (c_Tags container) InstanceGuidTag, CellId = cellID\<rparr>
           in case ActualLRPInstanceKey_Validate M actualLRPInstanceKey of
                Some err \<Rightarrow> Inl err
              | None \<Rightarrow> Inr actualLRPInstanceKey)"

definition ActualLRPNetInfoFromContainer ::
  "ext_api \<Rightarrow> Container \<Rightarrow> go_error + ActualLRPNetInfo" where
  "ActualLRPNetInfoFromContainer M container =
     (let ports = map (\<lambda>portMapping.
                    \<lparr>mpm_HostPort = ucast (pm_HostPort portMapping),
                     mpm_ContainerPort = ucast (pm_ContainerPort portMapping)\<rparr>)
                    (c_Ports container);
          actualLRPNetInfo =
            \<lparr>ni_Address = c_ExternalIP container,
             ni_InstanceAddress = c_InternalIP container,
             ni_Ports = ports\<rparr>
      in case ActualLRPNetInfo_Validate M actualLRPNetInfo of
           Some err \<Rightarrow> Inl err
         | None \<Rightarrow> Inr actualLRPNetInfo)"

definition LRPContainerGuid :: "string \<Rightarrow> string \<Rightarrow> string" where
  "LRPContainerGuid processGuid instanceGuid = instanceGuid"

section \<open>Parts of a run request\<close>

definition diskScopeForRootFS :: "ext_api \<Rightarrow> string \<Rightarrow> go_error + DiskLimitScope" where
  "diskScopeForRootFS M rootFS =
     (case url_Parse rootFS of
        Inl err \<Rightarrow> Inl err
      | Inr url \<Rightarrow>
          let preloaded = (Scheme url = PreloadedRootFSScheme M)
          in if preloaded then Inr ExclusiveDiskLimit else Inr TotalDiskLimit)"

definition ConvertCachedDependency :: "models_CachedDependency \<Rightarrow> CachedDependency" where
  "ConvertCachedDependency modelDep =
     \<lparr>cd_Name = mcd_Name modelDep,
      cd_From = mcd_From modelDep,
      cd_To = mcd_To modelDep,
      cd_CacheKey = mcd_CacheKey modelDep,
      cd_LogSource = mcd_LogSource modelDep,
      cd_ChecksumValue = mcd_ChecksumValue modelDep,
      cd_ChecksumAlgorithm = mcd_ChecksumAlgorithm modelDep\<rparr>"

definition ConvertCachedDependencies :: "models_CachedDependency list \<Rightarrow> CachedDependency list" where
  "ConvertCachedDependencies modelDeps = map ConvertCachedDependency modelDeps"

text \<open>
  A non-empty mount config is a JSON object (or \<open>null\<close>, which leaves the map nil).
\<close>

definition mount_config :: "string \<Rightarrow> go_error + json option" where
  "mount_config text =
     (if length text > 0 then
        (case parse_json text of
           Some (JObject kvs) \<Rightarrow>
             if interface_ok (JObject kvs) then Inr (Some (JObject kvs)) else Inl json_error
         | Some JNull \<Rightarrow> Inr None
         | _ \<Rightarrow> Inl json_error)
      else Inr None)"

definition convertVolumeMount :: "models_VolumeMount \<Rightarrow> VolumeMount outcome" where
  "convertVolumeMount volumeMnt =
     (case mvm_Shared volumeMnt of
        None \<Rightarrow> Panic
      | Some shared \<Rightarrow>
          (case mount_config (sd_MountConfig shared) of
             Inl err \<Rightarrow> Fail err
           | Inr config \<Rightarrow>
               let result = (\<lambda>mode.
                     Ret \<lparr>vm_Driver = mvm_Driver volumeMnt,
                          vm_VolumeId = sd_VolumeId shared,
                          vm_ContainerPath = mvm_ContainerDir volumeMnt,
                          vm_Mode = mode,
                          vm_Config = config\<rparr>)
               in if mvm_Mode volumeMnt = ''r'' then result BindMountModeRO
                  else if mvm_Mode volumeMnt = ''rw'' then result BindMountModeRW
                  else Fail (NewError ''unrecognized volume mount mode'')))"

fun convertVolumeMounts :: "models_VolumeMount list \<Rightarrow> VolumeMount list outcome" where
  "convertVolumeMounts [] = Ret []"
| "convertVolumeMounts (m # ms) =
     obind (convertVolumeMount m) (\<lambda>x. obind (convertVolumeMounts ms) (\<lambda>xs. Ret (x # xs)))"

definition convertNetwork :: "models_Network option \<Rightarrow> Network option" where
  "convertNetwork network =
     (case network of None \<Rightarrow> None | Some n \<Rightarrow> Some \<lparr>net_Properties = mnet_Properties n\<rparr>)"

definition convertCertificateProperties ::
  "models_CertificateProperties option \<Rightarrow> CertificateProperties" where
  "convertCertificateProperties props =
     (case props of
        None \<Rightarrow> \<lparr>cp_OrganizationalUnit = []\<rparr>
      | Some p \<Rightarrow> \<lparr>cp_OrganizationalUnit = mcp_OrganizationalUnit p\<rparr>)"

definition ConvertPortMappings :: "uint32 list \<Rightarrow> PortMapping list" where
  "ConvertPortMappings containerPorts =
     map (\<lambda>port. \<lparr>pm_ContainerPort = ucast port, pm_HostPort = 0\<rparr>) containerPorts"

section \<open>Run requests\<close>

definition lrp_env :: "ActualLRPKey \<Rightarrow> ActualLRPInstanceKey \<Rightarrow> EnvironmentVariable list" where
  "lrp_env lrpKey lrpInstanceKey =
     [\<lparr>ev_Name = ''INSTANCE_GUID'', ev_Value = InstanceGuid lrpInstanceKey\<rparr>,
      \<lparr>ev_Name = ''INSTANCE_INDEX'', ev_Value = Itoa (int_of_int32 (Index lrpKey))\<rparr>,
      \<lparr>ev_Name = ''CF_INSTANCE_GUID'', ev_Value = InstanceGuid lrpInstanceKey\<rparr>,
      \<lparr>ev_Name = ''CF_INSTANCE_INDEX'', ev_Value = Itoa (int_of_int32 (Index lrpKey))\<rparr>]"

definition NewRunRequestFromDesiredLRP ::
  "ext_api \<Rightarrow> string \<Rightarrow> DesiredLRP \<Rightarrow> ActualLRPKey \<Rightarrow> ActualLRPInstanceKey \<Rightarrow> RunRequest outcome"
where
  "NewRunRequestFromDesiredLRP M containerGuid desiredLRP lrpKey lrpInstanceKey =
     (case diskScopeForRootFS M (d_RootFs desiredLRP) of
        Inl err \<Rightarrow> Fail err
      | Inr diskScope \<Rightarrow>
          obind (convertVolumeMounts (d_VolumeMounts desiredLRP)) (\<lambda>mounts.
            Ret \<lparr>rq_Guid = containerGuid,
                 rq_RunInfo =
                   \<lparr>ri_CPUWeight = ucast (d_CpuWeight desiredLRP),
                    ri_DiskScope = diskScope,
                    ri_Ports = ConvertPortMappings (d_Ports desiredLRP),
                    ri_LogConfig =
                      \<lparr>lc_Guid = d_LogGuid desiredLRP,
                       lc_Index = int_of_int32 (Index lrpKey),
                       lc_SourceName = d_LogSource desiredLRP\<rparr>,
                    ri_MetricsConfig =
                      \<lparr>mc_Guid = d_MetricsGuid desiredLRP,
                       mc_Index = int_of_int32 (Index lrpKey)\<rparr>,
                    ri_StartTimeoutMs = d_StartTimeoutMs desiredLRP,
                    ri_Privileged = d_Privileged desiredLRP,
                    ri_CachedDependencies =
                      ConvertCachedDependencies (d_CachedDependencies desiredLRP),
                    ri_Setup = Some (d_Setup desiredLRP),
                    ri_Action = d_Action desiredLRP,
                    ri_Monitor = Some (d_Monitor desiredLRP),
                    ri_CheckDefinition = Some (d_CheckDefinition desiredLRP),
                    ri_EgressRules = d_EgressRules desiredLRP,
                    ri_Env = lrp_env lrpKey lrpInstanceKey @
                      EnvironmentVariablesFromModel M (d_EnvironmentVariables desiredLRP),
                    ri_TrustedSystemCertificatesPath =
                      d_TrustedSystemCertificatesPath desiredLRP,
                    ri_VolumeMounts = mounts,
                    ri_Network = convertNetwork (d_Network desiredLRP),
                    ri_CertificateProperties =
                      convertCertificateProperties (d_CertificateProperties desiredLRP),
                    ri_ImageUsername = d_ImageUsername desiredLRP,
                    ri_ImagePassword = d_ImagePassword desiredLRP\<rparr>,
                 rq_Tags = Some Map.empty\<rparr>))"

definition NewRunRequestFromTask :: "ext_api \<Rightarrow> models_Task \<Rightarrow> RunRequest outcome" where
  "NewRunRequestFromTask M task =
     (case diskScopeForRootFS M (t_RootFs task) of
        Inl err \<Rightarrow> Fail err
      | Inr diskScope \<Rightarrow>
          obind (convertVolumeMounts (t_VolumeMounts task)) (\<lambda>mounts.
            Ret \<lparr>rq_Guid = t_TaskGuid task,
                 rq_RunInfo =
                   \<lparr>ri_CPUWeight = ucast (t_CpuWeight task),
                    ri_DiskScope = diskScope,
                    ri_Ports = [],
                    ri_LogConfig =
                      \<lparr>lc_Guid = t_LogGuid task, lc_Index = 0, lc_SourceName = t_LogSource task\<rparr>,
                    ri_MetricsConfig = \<lparr>mc_Guid = t_MetricsGuid task, mc_Index = 0\<rparr>,
                    ri_StartTimeoutMs = 0,
                    ri_Privileged = t_Privileged task,
                    ri_CachedDependencies = ConvertCachedDependencies (t_CachedDependencies task),
                    ri_Setup = None,
                    ri_Action = t_Action task,
                    ri_Monitor = None,
                    ri_CheckDefinition = None,
                    ri_EgressRules = t_EgressRules task,
                    ri_Env = EnvironmentVariablesFromModel M (t_EnvironmentVariables task),
                    ri_TrustedSystemCertificatesPath = t_TrustedSystemCertificatesPath task,
                    ri_VolumeMounts = mounts,
                    ri_Network = convertNetwork (t_Network task),
                    ri_CertificateProperties =
                      convertCertificateProperties (t_CertificateProperties task),
                    ri_ImageUsername = t_ImageUsername task,
                    ri_ImagePassword = t_ImagePassword task\<rparr>,
                 rq_Tags = Some [ResultFileTag \<mapsto> t_ResultFile task]\<rparr>))"

section \<open>Lemmas\<close>

lemma key_eta:
  "\<lparr>InstanceGuid = InstanceGuid ik, CellId = CellId ik\<rparr> = ik"
  "\<lparr>ProcessGuid = ProcessGuid k, Index = Index k, Domain = Domain k\<rparr> = k"
  for ik :: ActualLRPInstanceKey and k :: ActualLRPKey
  by simp_all

lemma ActualLRPKeyFromTags_Inr_iff:
  "ActualLRPKeyFromTags M t = Inr key \<longleftrightarrow>
     (\<exists>m i. t = Some m \<and> Atoi (tag_get t ProcessIndexTag) = Some i \<and>
        key = \<lparr>ProcessGuid = tag_get t ProcessGuidTag, Index = int32_of_int i,
               Domain = tag_get t DomainTag\<rparr> \<and>
        ActualLRPKey_Validate M key = None)"
  by (auto simp: ActualLRPKeyFromTags_def Let_def split: option.splits)

lemma ActualLRPInstanceKeyFromContainer_Inr_iff:
  "ActualLRPInstanceKeyFromContainer M c cellID = Inr ikey \<longleftrightarrow>
     (\<exists>m. c_Tags c = Some m \<and>
        ikey = \<lparr>InstanceGuid = tag_get (c_Tags c) InstanceGuidTag, CellId = cellID\<rparr> \<and>
        ActualLRPInstanceKey_Validate M ikey = None)"
  by (auto simp: ActualLRPInstanceKeyFromContainer_def Let_def split: option.splits)

text \<open>What makes a volume mount convertible.\<close>

definition mount_ok :: "models_VolumeMount \<Rightarrow> bool" where
  "mount_ok m \<longleftrightarrow>
     (case mvm_Shared m of
        None \<Rightarrow> False
      | Some sd \<Rightarrow>
          mvm_Mode m \<in> {''r'', ''rw''} \<and>
          (sd_MountConfig sd = [] \<or> parse_json (sd_MountConfig sd) = Some JNull \<or>
           (\<exists>kvs. parse_json (sd_MountConfig sd) = Some (JObject kvs) \<and>
              interface_ok (JObject kvs))))"

lemma mount_config_Inr_iff:
  "(\<exists>c. mount_config s = Inr c) \<longleftrightarrow>
     s = [] \<or> parse_json s = Some JNull \<or> 
     (\<exists>kvs. parse_json s = Some (JObject kvs) \<and> interface_ok (JObject kvs))"
  by (auto simp: mount_config_def split: option.splits json.splits)

lemma convertVolumeMount_Ret_iff: "(\<exists>v. convertVolumeMount m = Ret v) \<longleftrightarrow> mount_ok m"
proof (cases "mvm_Shared m")
  case None
  then show ?thesis by (simp add: convertVolumeMount_def mount_ok_def)
next
  case (Some sd)
  then show ?thesis
    using mount_config_Inr_iff [of "sd_MountConfig sd"]
    by (cases "mount_config (sd_MountConfig sd)")
      (auto simp: convertVolumeMount_def mount_ok_def Let_def)
qed

lemma convertVolumeMounts_Ret_iff:
  "(\<exists>vs. convertVolumeMounts ms = Ret vs) \<longleftrightarrow> list_all mount_ok ms"
  by (induction ms) (auto simp: obind_eq_Ret convertVolumeMount_Ret_iff [symmetric])

lemma convertVolumeMounts_length:
  "convertVolumeMounts ms = Ret vs \<Longrightarrow> length vs = length ms"
  by (induction ms arbitrary: vs) (auto simp: obind_eq_Ret)

lemma diskScopeForRootFS_Inr_iff:
  "diskScopeForRootFS M r = Inr scope \<longleftrightarrow>
     (\<exists>u. url_Parse r = Inr u \<and>
        scope = (if Scheme u = PreloadedRootFSScheme M then ExclusiveDiskLimit
                 else TotalDiskLimit))"
  by (auto simp: diskScopeForRootFS_def split: sum.splits)

lemma lrp_run_request_env:
  "NewRunRequestFromDesiredLRP M guid d k ik = Ret rq \<Longrightarrow>
     rq_Guid rq = guid \<and> (\<exists>rest. ri_Env (rq_RunInfo rq) = lrp_env k ik @ rest)"
  by (auto simp: NewRunRequestFromDesiredLRP_def obind_eq_Ret split: sum.splits)

section \<open>Properties\<close>

text \<open>
  C25: A run request for a desired LRP or a task is built exactly when the root filesystem
  is a parseable URL and every volume mount is convertible (it names a shared device, its
  mode is \<open>r\<close> or \<open>rw\<close>, its config is empty, null or an object
  without numbers outside the range of \<open>float64\<close>); otherwise the
  conversion fails or panics and no run request exists.
\<close>

theorem run_request_success_iff:
  "((\<exists>rq. NewRunRequestFromDesiredLRP M guid d key ikey = Ret rq) \<longleftrightarrow>
      (\<exists>u. url_Parse (d_RootFs d) = Inr u) \<and> list_all (mount_ok) (d_VolumeMounts d)) \<and>
   ((\<exists>rq. NewRunRequestFromTask M t = Ret rq) \<longleftrightarrow>
      (\<exists>u. url_Parse (t_RootFs t) = Inr u) \<and> list_all (mount_ok) (t_VolumeMounts t))"
  by (auto simp: NewRunRequestFromDesiredLRP_def NewRunRequestFromTask_def obind_eq_Ret
      convertVolumeMounts_Ret_iff [symmetric] diskScopeForRootFS_def split: sum.splits)

text \<open>
  The run request of a desired LRP is for the container asked for, exports the instance
  guid and index under both names ahead of the LRP's own environment, limits the disk
  exclusively just when the root filesystem is preloaded, and has one mount per volume mount
  and one port mapping per port, equal to it when the port fits in 16 bits.
\<close>

theorem lrp_run_request_contents:
  assumes "NewRunRequestFromDesiredLRP M guid d key ikey = Ret rq"
  shows "rq_Guid rq = guid \<and>
    ri_Env (rq_RunInfo rq) =
      lrp_env key ikey @ EnvironmentVariablesFromModel M (d_EnvironmentVariables d) \<and>
    map ev_Value (lrp_env key ikey) =
      [InstanceGuid ikey, Itoa (int_of_int32 (Index key)),
       InstanceGuid ikey, Itoa (int_of_int32 (Index key))] \<and>
    (\<exists>u. url_Parse (d_RootFs d) = Inr u \<and>
       (ri_DiskScope (rq_RunInfo rq) = ExclusiveDiskLimit \<longleftrightarrow>
          Scheme u = PreloadedRootFSScheme M)) \<and>
    length (ri_VolumeMounts (rq_RunInfo rq)) = length (d_VolumeMounts d) \<and>
    list_all2 (\<lambda>p m. unat p < 65536 \<longrightarrow> unat (pm_ContainerPort m) = unat p)
      (d_Ports d) (ri_Ports (rq_RunInfo rq))"
proof -
  from assms obtain scope mounts where
    s: "diskScopeForRootFS M (d_RootFs d) = Inr scope" and
    m: "convertVolumeMounts (d_VolumeMounts d) = Ret mounts" and
    rq: "rq_Guid rq = guid" "ri_DiskScope (rq_RunInfo rq) = scope"
      "ri_Ports (rq_RunInfo rq) = ConvertPortMappings (d_Ports d)"
      "ri_Env (rq_RunInfo rq) =
         lrp_env key ikey @ EnvironmentVariablesFromModel M (d_EnvironmentVariables d)"
      "ri_VolumeMounts (rq_RunInfo rq) = mounts"
    by (auto simp: NewRunRequestFromDesiredLRP_def obind_eq_Ret split: sum.splits)
  have "unat (ucast p :: uint16) = unat p" if "unat p < 65536" for p :: uint32
    using that by (simp add: unsigned_ucast_eq take_bit_nat_eq_self)
  then have "list_all2 (\<lambda>p m. unat p < 65536 \<longrightarrow> unat (pm_ContainerPort m) = unat p)
      (d_Ports d) (ConvertPortMappings (d_Ports d))"
    by (simp add: ConvertPortMappings_def list_all2_map2 list_all2_same)
  with s m rq convertVolumeMounts_length [OF m] show ?thesis
    by (auto simp: diskScopeForRootFS_Inr_iff lrp_env_def)
qed

definition example_desired :: DesiredLRP where
  "example_desired =
     \<lparr>d_RootFs = ''preloaded:linux'', d_CpuWeight = 1, d_Ports = [8080],
      d_LogGuid = ''log'', d_LogSource = ''APP'', d_MetricsGuid = ''m'',
      d_StartTimeoutMs = 60000, d_Privileged = False, d_CachedDependencies = [],
      d_Setup = '''', d_Action = ''run'', d_Monitor = '''', d_CheckDefinition = '''',
      d_EgressRules = '''', d_EnvironmentVariables = [], d_TrustedSystemCertificatesPath = '''',
      d_VolumeMounts = [\<lparr>mvm_Driver = ''nfs'', mvm_ContainerDir = ''/data'', mvm_Mode = ''rw'',
        mvm_Shared = Some \<lparr>sd_VolumeId = ''v1'', sd_MountConfig = ''{}''\<rparr>\<rparr>],
      d_Network = None, d_CertificateProperties = None, d_ImageUsername = '''',
      d_ImagePassword = ''''\<rparr>"

definition example_key :: ActualLRPKey where
  "example_key = \<lparr>ProcessGuid = ''pg'', Index = 3, Domain = ''cf''\<rparr>"

definition example_ikey :: ActualLRPInstanceKey where
  "example_ikey = \<lparr>InstanceGuid = ''ig'', CellId = ''cell''\<rparr>"

lemma url_Parse_example:
  "url_Parse ''preloaded:linux'' = Inr \<lparr>Scheme = ''preloaded'', Opaque = ''linux'', RawQuery = ''''\<rparr>"
  by code_simp

lemma parse_json_example [simp]: "parse_json ''{}'' = Some (JObject [])"
  using parse_json_print [of "JObject []"] by simp

lemma example_run_request:
  "\<exists>rq. NewRunRequestFromDesiredLRP example_api ''ig'' example_desired example_key example_ikey =
     Ret rq"
  by (simp add: NewRunRequestFromDesiredLRP_def diskScopeForRootFS_def example_desired_def
      url_Parse_example convertVolumeMount_def mount_config_def example_api_def)

theorem lrp_run_request_contents_witness:
  "\<exists>rq. NewRunRequestFromDesiredLRP example_api ''ig'' example_desired example_key example_ikey =
      Ret rq \<and>
    ri_DiskScope (rq_RunInfo rq) = ExclusiveDiskLimit \<and> rq_Guid rq = ''ig''"
proof -
  obtain rq where rq:
    "NewRunRequestFromDesiredLRP example_api ''ig'' example_desired example_key example_ikey =
       Ret rq"
    using example_run_request by blast
  from lrp_run_request_contents [OF this]
  have "ri_DiskScope (rq_RunInfo rq) = ExclusiveDiskLimit" "rq_Guid rq = ''ig''"
    by (auto simp: example_desired_def example_api_def url_Parse_example)
  with rq show ?thesis by blast
qed

end
