(* ===== verification/Evacuation_Context.thy ===== *)
theory Evacuation_Context
  imports Rep_Prelude
begin

text \<open>
  The evacuation switch of \<open>evacuation/evacuation_context\<close>: a channel that is closed once
  when the cell starts to evacuate. A receive in a \<open>select\<close> with a \<open>default\<close> branch
  succeeds exactly on a closed channel (nothing is ever sent on it), and closing a closed
  channel panics. The mutex makes \<open>Evacuate\<close> one atomic step.
\<close>

datatype chan = Open | Closed

fun close_chan :: "chan \<Rightarrow> chan outcome" where
  "close_chan Open = Ret Closed"
| "close_chan Closed = Panic"

lemma not_Closed [simp]: "c \<noteq> Closed \<longleftrightarrow> c = Open" "c \<noteq> Open \<longleftrightarrow> c = Closed"
  by (cases c; simp)+

lemma close_chan_Ret [simp]: "close_chan c = Ret c' \<longleftrightarrow> c = Open \<and> c' = Closed"
  by (cases c) auto

record evacuationContext =
  evacuated :: chan

definition evacuation_context_New :: evacuationContext where
  "evacuation_context_New = \<lparr>evacuated = Open\<rparr>"

definition Evacuate :: "evacuationContext \<Rightarrow> evacuationContext outcome" where
  "Evacuate e =
     (case evacuated e of
        Closed \<Rightarrow> Ret e
      | Open \<Rightarrow> obind (close_chan (evacuated e)) (\<lambda>c. Ret (e\<lparr>evacuated := c\<rparr>)))"

definition Evacuating_now :: "evacuationContext \<Rightarrow> bool" where
  "Evacuating_now e = (case evacuated e of Closed \<Rightarrow> True | Open \<Rightarrow> False)"

definition EvacuateNotify :: "evacuationContext \<Rightarrow> chan" where
  "EvacuateNotify e = evacuated e"

text \<open>A run of \<open>Evacuate\<close> calls, however the callers interleave.\<close>

fun Evacuate_times :: "nat \<Rightarrow> evacuationContext \<Rightarrow> evacuationContext outcome" where
  "Evacuate_times 0 e = Ret e"
| "Evacuate_times (Suc n) e = obind (Evacuate e) (Evacuate_times n)"

lemma Evacuate_Ret: "\<exists>e'. Evacuate e = Ret e' \<and> evacuated e' = Closed"
  by (cases "evacuated e") (simp_all add: Evacuate_def)

lemma Evacuating_now_iff [simp]: "Evacuating_now e \<longleftrightarrow> evacuated e = Closed"
  by (cases "evacuated e") (simp_all add: Evacuating_now_def)

text \<open>
  C26: Evacuation is a latch. A new context does not report evacuation; after any positive
  number of \<open>Evacuate\<close> calls it does, the notification channel is closed, and no call ever
  panics by closing the channel twice.
\<close>

theorem evacuation_latch:
  "\<not> Evacuating_now evacuation_context_New \<and>
   (\<exists>e. Evacuate_times (Suc n) evacuation_context_New = Ret e \<and> Evacuating_now e \<and>
      EvacuateNotify e = Closed)"
proof -
  have stay: "\<exists>e'. Evacuate_times n e = Ret e' \<and> evacuated e' = Closed"
    if "evacuated e = Closed" for e
    using that
  proof (induction n arbitrary: e)
    case 0
    then show ?case by simp
  next
    case (Suc n)
    then show ?case using Evacuate_Ret [of e] by auto
  qed
  obtain e1 where "Evacuate evacuation_context_New = Ret e1" "evacuated e1 = Closed"
    using Evacuate_Ret by blast
  with stay [of e1] show ?thesis
    by (auto simp: evacuation_context_New_def EvacuateNotify_def)
qed

end
