(* ===== verification/Rep_World.thy ===== *)
theory Rep_World
  imports Conversion Evacuation_Context
begin

text \<open>
  The services the rep talks to and the actions over them. The executor, the BBS and the
  metrics client are parameters: a record of functions over the state \<open>'w\<close> of the outside
  world, which may change it in any way at each call (so everything other processes do
  between two calls is included). An action is a state transformer over \<open>'w world\<close>, which
  adds to the outside state the evacuation context, a flag that the process has panicked, and
  the trace of the calls made so far with what each returned. Logging is not modelled.
\<close>

section \<open>Calls, replies and services\<close>

datatype call =
    ListContainers
  | GetContainer string
  | RunContainer RunRequest
  | StopContainer string
  | DeleteContainer string
  | GetFiles string string
  | AllocateContainers "AllocationRequest list"
  | GetTotalResources
  | GetRemainingResources
  | GetVolumeDrivers
  | Healthy
  | Cleanup
  | Ping
  | ActualLRPGroups string
  | TasksByCellID string
  | RemoveActualLRP string go_int ActualLRPInstanceKey
  | RemoveEvacuatingActualLRP ActualLRPKey ActualLRPInstanceKey
  | FailTask string string
  | ClaimActualLRP string go_int ActualLRPInstanceKey
  | DesiredLRPByProcessGuid string
  | StartActualLRP ActualLRPKey ActualLRPInstanceKey ActualLRPNetInfo
  | CrashActualLRP ActualLRPKey ActualLRPInstanceKey string
  | EvacuateRunningActualLRP ActualLRPKey ActualLRPInstanceKey ActualLRPNetInfo uint64
  | EvacuateStoppedActualLRP ActualLRPKey ActualLRPInstanceKey
  | EvacuateCrashedActualLRP ActualLRPKey ActualLRPInstanceKey string
  | EvacuateClaimedActualLRP ActualLRPKey ActualLRPInstanceKey
  | StartTask string string
  | TaskByGuid string
  | CompleteTask string string bool string string
  | SendDuration string int
  | SendMetric string int

text \<open>What a call returned, as far as it decides what happens next.\<close>

datatype reply = OK | Err go_error | Answer bool "go_error option" | Refused "string list"

type_synonym event = "call \<times> reply"

definition err_reply :: "go_error option \<Rightarrow> reply" where
  "err_reply e = (case e of None \<Rightarrow> OK | Some x \<Rightarrow> Err x)"

definition sum_reply :: "go_error + 'a \<Rightarrow> reply" where
  "sum_reply r = (case r of Inl x \<Rightarrow> Err x | Inr _ \<Rightarrow> OK)"

definition bool_reply :: "bool \<times> go_error option \<Rightarrow> reply" where
  "bool_reply r = Answer (fst r) (snd r)"

text \<open>The guids of the requests that an allocation refused.\<close>

definition alloc_reply :: "go_error + AllocationFailure list \<Rightarrow> reply" where
  "alloc_reply r =
     (case r of
        Inl x \<Rightarrow> Err x
      | Inr failures \<Rightarrow> Refused (map (\<lambda>f. ar_Guid (af_Request f)) failures))"

text \<open>
  The file stream of \<open>GetFiles\<close>, read through a tar reader: \<open>Next\<close> goes to the first
  entry, and one \<open>Read\<close> into a buffer of \<open>k\<close> bytes delivers some first bytes of it.
\<close>

record tar_stream =
  tar_Next :: "go_error option"
  tar_Read :: "nat \<Rightarrow> string"

record 'w services =
  svc_ListContainers :: "'w \<Rightarrow> (go_error + Container list) \<times> 'w"
  svc_GetContainer :: "string \<Rightarrow> 'w \<Rightarrow> (go_error + Container) \<times> 'w"
  svc_RunContainer :: "RunRequest \<Rightarrow> 'w \<Rightarrow> go_error option \<times> 'w"
  svc_StopContainer :: "string \<Rightarrow> 'w \<Rightarrow> go_error option \<times> 'w"
  svc_DeleteContainer :: "string \<Rightarrow> 'w \<Rightarrow> go_error option \<times> 'w"
  svc_GetFiles :: "string \<Rightarrow> string \<Rightarrow> 'w \<Rightarrow> (go_error + tar_stream) \<times> 'w"
  svc_AllocateContainers ::
    "AllocationRequest list \<Rightarrow> 'w \<Rightarrow> (go_error + AllocationFailure list) \<times> 'w"
  svc_TotalResources :: "'w \<Rightarrow> (go_error + ExecutorResources) \<times> 'w"
  svc_RemainingResources :: "'w \<Rightarrow> (go_error + ExecutorResources) \<times> 'w"
  svc_VolumeDrivers :: "'w \<Rightarrow> (go_error + string list) \<times> 'w"
  svc_Healthy :: "'w \<Rightarrow> bool \<times> 'w"
  svc_Cleanup :: "'w \<Rightarrow> unit \<times> 'w"
  svc_Ping :: "'w \<Rightarrow> go_error option \<times> 'w"
  svc_ActualLRPGroups :: "string \<Rightarrow> 'w \<Rightarrow> (go_error + ActualLRPGroup list) \<times> 'w"
  svc_TasksByCellID :: "string \<Rightarrow> 'w \<Rightarrow> (go_error + models_Task list) \<times> 'w"
  svc_RemoveActualLRP ::
    "string \<Rightarrow> go_int \<Rightarrow> ActualLRPInstanceKey \<Rightarrow> 'w \<Rightarrow> go_error option \<times> 'w"
  svc_RemoveEvacuatingActualLRP ::
    "ActualLRPKey \<Rightarrow> ActualLRPInstanceKey \<Rightarrow> 'w \<Rightarrow> go_error option \<times> 'w"
  svc_FailTask :: "string \<Rightarrow> string \<Rightarrow> 'w \<Rightarrow> go_error option \<times> 'w"
  svc_ClaimActualLRP ::
    "string \<Rightarrow> go_int \<Rightarrow> ActualLRPInstanceKey \<Rightarrow> 'w \<Rightarrow> go_error option \<times> 'w"
  svc_DesiredLRPByProcessGuid :: "string \<Rightarrow> 'w \<Rightarrow> (go_error + DesiredLRP) \<times> 'w"
  svc_StartActualLRP ::
    "ActualLRPKey \<Rightarrow> ActualLRPInstanceKey \<Rightarrow> ActualLRPNetInfo \<Rightarrow> 'w \<Rightarrow> go_error option \<times> 'w"
  svc_CrashActualLRP ::
    "ActualLRPKey \<Rightarrow> ActualLRPInstanceKey \<Rightarrow> string \<Rightarrow> 'w \<Rightarrow> go_error option \<times> 'w"
  svc_EvacuateRunningActualLRP ::
    "ActualLRPKey \<Rightarrow> ActualLRPInstanceKey \<Rightarrow> ActualLRPNetInfo \<Rightarrow> uint64 \<Rightarrow> 'w \<Rightarrow>
       (bool \<times> go_error option) \<times> 'w"
  svc_EvacuateStoppedActualLRP ::
    "ActualLRPKey \<Rightarrow> ActualLRPInstanceKey \<Rightarrow> 'w \<Rightarrow> (bool \<times> go_error option) \<times> 'w"
  svc_EvacuateCrashedActualLRP ::
    "ActualLRPKey \<Rightarrow> ActualLRPInstanceKey \<Rightarrow> string \<Rightarrow> 'w \<Rightarrow> (bool \<times> go_error option) \<times> 'w"
  svc_EvacuateClaimedActualLRP ::
    "ActualLRPKey \<Rightarrow> ActualLRPInstanceKey \<Rightarrow> 'w \<Rightarrow> (bool \<times> go_error option) \<times> 'w"
  svc_StartTask :: "string \<Rightarrow> string \<Rightarrow> 'w \<Rightarrow> (bool \<times> go_error option) \<times> 'w"
  svc_TaskByGuid :: "string \<Rightarrow> 'w \<Rightarrow> (go_error + models_Task) \<times> 'w"
  svc_CompleteTask ::
    "string \<Rightarrow> string \<Rightarrow> bool \<Rightarrow> string \<Rightarrow> string \<Rightarrow> 'w \<Rightarrow> go_error option \<times> 'w"
  svc_SendDuration :: "string \<Rightarrow> int \<Rightarrow> 'w \<Rightarrow> go_error option \<times> 'w"
  svc_SendMetric :: "string \<Rightarrow> int \<Rightarrow> 'w \<Rightarrow> go_error option \<times> 'w"
  svc_Now :: "'w \<Rightarrow> int \<times> 'w"
  svc_NewV4 :: "'w \<Rightarrow> (go_error + string) \<times> 'w"

section \<open>Actions\<close>

record 'w world =
  ext :: 'w
  trace :: "event list"
  evac :: evacuationContext
  crashed :: bool

type_synonym ('w, 'a) act = "('w world, 'a) state"

abbreviation return :: "'a \<Rightarrow> ('w, 'a) act" where
  "return \<equiv> State_Monad.return"

definition eval :: "('w, 'a) act \<Rightarrow> 'w world \<Rightarrow> 'a" where
  "eval m s = fst (run_state m s)"

definition exec :: "('w, 'a) act \<Rightarrow> 'w world \<Rightarrow> 'w world" where
  "exec m s = snd (run_state m s)"

text \<open>One call of a service, recorded with its reply.\<close>

definition invoke :: "call \<Rightarrow> ('a \<Rightarrow> reply) \<Rightarrow> ('w \<Rightarrow> 'a \<times> 'w) \<Rightarrow> ('w, 'a) act" where
  "invoke c rp f = State (\<lambda>s.
     case f (ext s) of (a, w') \<Rightarrow> (a, s\<lparr>ext := w', trace := trace s @ [(c, rp a)]\<rparr>))"

text \<open>Reading the clock and drawing a random identifier are not recorded.\<close>

definition draw :: "('w \<Rightarrow> 'a \<times> 'w) \<Rightarrow> ('w, 'a) act" where
  "draw f = State (\<lambda>s. case f (ext s) of (a, w') \<Rightarrow> (a, s\<lparr>ext := w'\<rparr>))"

definition now :: "'w services \<Rightarrow> ('w, int) act" where
  "now S = draw (svc_Now S)"

definition panic :: "('w, unit) act" where
  "panic = State (\<lambda>s. ((), s\<lparr>crashed := True\<rparr>))"

definition get_Evacuating :: "('w, bool) act" where
  "get_Evacuating = State (\<lambda>s. (Evacuating_now (evac s), s))"

text \<open>A \<open>for range\<close> loop whose body makes calls.\<close>

fun for_each :: "('a \<Rightarrow> ('w, unit) act) \<Rightarrow> 'a list \<Rightarrow> ('w, unit) act" where
  "for_each body [] = return ()"
| "for_each body (x # xs) = do { body x; for_each body xs }"

section \<open>Lemmas\<close>

lemma eval_exec_return [simp, world_simps]:
  "eval (return x) s = x" "exec (return x) s = s"
  by (simp_all add: eval_def exec_def)

lemma eval_exec_bind [simp, world_simps]:
  "eval (State_Monad.bind m f) s = eval (f (eval m s)) (exec m s)"
  "exec (State_Monad.bind m f) s = exec (f (eval m s)) (exec m s)"
  by (simp_all add: eval_def exec_def split: prod.splits)

lemma eval_exec_if [simp, world_simps]:
  "eval (if b then m else n) s = (if b then eval m s else eval n s)"
  "exec (if b then m else n) s = (if b then exec m s else exec n s)"
  by simp_all

lemma invoke_simps [simp, world_simps]:
  "eval (invoke c rp f) s = fst (f (ext s))"
  "ext (exec (invoke c rp f) s) = snd (f (ext s))"
  "trace (exec (invoke c rp f) s) = trace s @ [(c, rp (fst (f (ext s))))]"
  "evac (exec (invoke c rp f) s) = evac s"
  "crashed (exec (invoke c rp f) s) = crashed s"
  by (simp_all add: eval_def exec_def invoke_def split: prod.splits)

lemma panic_simps [simp, world_simps]:
  "ext (exec panic s) = ext s" "trace (exec panic s) = trace s"
  "evac (exec panic s) = evac s" "crashed (exec panic s)"
  by (simp_all add: exec_def panic_def)

lemma get_Evacuating_simps [simp, world_simps]:
  "eval get_Evacuating s = Evacuating_now (evac s)" "exec get_Evacuating s = s"
  by (simp_all add: eval_def exec_def get_Evacuating_def)

lemma draw_simps [simp, world_simps]:
  "eval (draw f) s = fst (f (ext s))" "ext (exec (draw f) s) = snd (f (ext s))"
  "trace (exec (draw f) s) = trace s" "evac (exec (draw f) s) = evac s"
  "crashed (exec (draw f) s) = crashed s"
  by (simp_all add: eval_def exec_def draw_def split: prod.splits)

lemma reply_simps [simp, world_simps]:
  "err_reply None = OK" "err_reply (Some e) = Err e"
  "sum_reply (Inl e) = Err e" "sum_reply (Inr x) = OK"
  "bool_reply (b, oe) = Answer b oe"
  by (simp_all add: err_reply_def sum_reply_def bool_reply_def)

text \<open>The calls an action makes from a state: what it adds to the trace.\<close>

definition calls :: "('w, 'a) act \<Rightarrow> 'w world \<Rightarrow> event list" where
  "calls m s = drop (length (trace s)) (trace (exec m s))"

lemma calls_eqI: "trace (exec m s) = trace s @ es \<Longrightarrow> calls m s = es"
  by (simp add: calls_def)

text \<open>
  Well-behaved actions only append to the trace and leave the evacuation context alone.
\<close>

definition appends :: "('w, 'a) act \<Rightarrow> bool" where
  "appends m \<longleftrightarrow>
     (\<forall>s. trace (exec m s) = trace s @ calls m s \<and> evac (exec m s) = evac s)"

lemma appendsI:
  "(\<And>s. \<exists>es. trace (exec m s) = trace s @ es \<and> evac (exec m s) = evac s) \<Longrightarrow> appends m"
  unfolding appends_def calls_def by (metis append_eq_conv_conj)

lemma appendsD:
  "appends m \<Longrightarrow> trace (exec m s) = trace s @ calls m s"
  "appends m \<Longrightarrow> evac (exec m s) = evac s"
  by (auto simp: appends_def)

lemma appends_return [simp, intro]: "appends (return x)"
  by (rule appendsI) simp

lemma appends_invoke [simp, intro]: "appends (invoke c rp f)"
  by (rule appendsI) simp

lemma appends_panic [simp, intro]: "appends panic"
  by (rule appendsI) simp

lemma appends_draw [simp, intro]: "appends (draw f)"
  by (rule appendsI) simp

lemma appends_get_Evacuating [simp, intro]: "appends get_Evacuating"
  by (rule appendsI) simp

lemma appends_bind [intro]:
  "appends m \<Longrightarrow> (\<And>x. appends (f x)) \<Longrightarrow> appends (State_Monad.bind m f)"
  by (rule appendsI) (simp add: appendsD)

lemma appends_for_each [intro]: "(\<And>x. appends (body x)) \<Longrightarrow> appends (for_each body xs)"
  by (induction xs) auto

lemma calls_simps [simp, trace_simps]:
  "calls (return x) s = []"
  "calls (invoke c rp f) s = [(c, rp (fst (f (ext s))))]"
  "calls panic s = []" "calls (draw f) s = []" "calls get_Evacuating s = []"
  by (simp_all add: calls_def)

lemma calls_bind [trace_simps]:
  assumes "appends m" "\<And>x. appends (f x)"
  shows "calls (State_Monad.bind m f) s = calls m s @ calls (f (eval m s)) (exec m s)"
  by (rule calls_eqI) (simp add: appendsD assms)

end
