(* ===== verification/Container_Delegate.thy ===== *)
theory Container_Delegate
  imports Rep_World
begin

text \<open>
  The container delegate of \<open>generator/internal/container_delegate.go\<close>: the interface the
  processors use and its implementation over the executor client. The interface is a record
  of actions; the locale \<open>container_delegate\<close> states what an implementation promises of the
  calls it makes, and is interpreted on \<open>NewContainerDelegate\<close>.
\<close>

section \<open>The interface\<close>

record 'w ContainerDelegate =
  del_GetContainer :: "string \<Rightarrow> ('w, Container option) act"
  del_RunContainer :: "RunRequest \<Rightarrow> ('w, bool) act"
  del_StopContainer :: "string \<Rightarrow> ('w, bool) act"
  del_DeleteContainer :: "string \<Rightarrow> ('w, bool) act"
  del_FetchContainerResultFile :: "string \<Rightarrow> string \<Rightarrow> ('w, go_error + string) act"

section \<open>The implementation\<close>

definition MAX_RESULT_SIZE :: nat where
  "MAX_RESULT_SIZE = 1024 * 10"

definition delegate_GetContainer :: "'w services \<Rightarrow> string \<Rightarrow> ('w, Container option) act" where
  "delegate_GetContainer S guid = do {
     r \<leftarrow> invoke (GetContainer guid) sum_reply (svc_GetContainer S guid);
     (case r of
        Inl err \<Rightarrow> return None
      | Inr container \<Rightarrow> return (Some container))
   }"

definition delegate_DeleteContainer :: "'w services \<Rightarrow> string \<Rightarrow> ('w, bool) act" where
  "delegate_DeleteContainer S guid = do {
     err \<leftarrow> invoke (DeleteContainer guid) err_reply (svc_DeleteContainer S guid);
     (if err \<noteq> None then return False else return True)
   }"

definition delegate_RunContainer :: "'w services \<Rightarrow> RunRequest \<Rightarrow> ('w, bool) act" where
  "delegate_RunContainer S req = do {
     err \<leftarrow> invoke (RunContainer req) err_reply (svc_RunContainer S req);
     (if err \<noteq> None then do {
        delegate_DeleteContainer S (rq_Guid req);
        return False
      } else return True)
   }"

definition delegate_StopContainer :: "'w services \<Rightarrow> string \<Rightarrow> ('w, bool) act" where
  "delegate_StopContainer S guid = do {
     err \<leftarrow> invoke (StopContainer guid) err_reply (svc_StopContainer S guid);
     (if err \<noteq> None then return False else return True)
   }"

text \<open>Reading the result file out of the stream; the error of \<open>Read\<close> is dropped.\<close>

definition read_result :: "tar_stream \<Rightarrow> go_error + string" where
  "read_result stream =
     (case tar_Next stream of
        Some err \<Rightarrow> Inl err
      | None \<Rightarrow>
          let buf = tar_Read stream (MAX_RESULT_SIZE + 1); n = length buf
          in if n > MAX_RESULT_SIZE then Inl ErrResultFileTooLarge else Inr buf)"

definition delegate_FetchContainerResultFile ::
  "'w services \<Rightarrow> string \<Rightarrow> string \<Rightarrow> ('w, go_error + string) act" where
  "delegate_FetchContainerResultFile S guid filename = do {
     r \<leftarrow> invoke (GetFiles guid filename) sum_reply (svc_GetFiles S guid filename);
     (case r of
        Inl err \<Rightarrow> return (Inl err)
      | Inr stream \<Rightarrow> return (read_result stream))
   }"

definition NewContainerDelegate :: "'w services \<Rightarrow> 'w ContainerDelegate" where
  "NewContainerDelegate S =
     \<lparr>del_GetContainer = delegate_GetContainer S,
      del_RunContainer = delegate_RunContainer S,
      del_StopContainer = delegate_StopContainer S,
      del_DeleteContainer = delegate_DeleteContainer S,
      del_FetchContainerResultFile = delegate_FetchContainerResultFile S\<rparr>"

section \<open>What the interface promises\<close>

text \<open>An action that does not crash the process.\<close>

definition safe :: "('w, 'a) act \<Rightarrow> bool" where
  "safe m \<longleftrightarrow> appends m \<and> (\<forall>s. crashed (exec m s) = crashed s)"

lemma safeI:
  "(\<And>s. \<exists>es. trace (exec m s) = trace s @ es \<and> evac (exec m s) = evac s \<and>
      crashed (exec m s) = crashed s) \<Longrightarrow> safe m"
  unfolding safe_def by (metis appendsI)

lemma safeD:
  "safe m \<Longrightarrow> appends m" "safe m \<Longrightarrow> crashed (exec m s) = crashed s"
  "safe m \<Longrightarrow> trace (exec m s) = trace s @ calls m s" "safe m \<Longrightarrow> evac (exec m s) = evac s"
  by (auto simp: safe_def appendsD)

lemma safe_return [simp, intro]: "safe (return x)"
  by (rule safeI) simp

lemma safe_invoke [simp, intro]: "safe (invoke c rp f)"
  by (rule safeI) simp

lemma safe_draw [simp, intro]: "safe (draw f)"
  by (rule safeI) simp

lemma safe_get_Evacuating [simp, intro]: "safe get_Evacuating"
  by (rule safeI) simp

lemma safe_bind [intro]:
  "safe m \<Longrightarrow> (\<And>x. safe (f x)) \<Longrightarrow> safe (State_Monad.bind m f)"
  by (rule safeI) (simp add: safeD)

lemma safe_if [intro]: "safe m \<Longrightarrow> safe n \<Longrightarrow> safe (if b then m else n)"
  by simp

locale container_delegate =
  fixes cd :: "'w ContainerDelegate"
  assumes get_safe: "safe (del_GetContainer cd g)"
    and run_safe: "safe (del_RunContainer cd rq)"
    and stop_safe: "safe (del_StopContainer cd g)"
    and delete_safe: "safe (del_DeleteContainer cd g)"
    and fetch_safe: "safe (del_FetchContainerResultFile cd g f)"
    and get_calls: "\<exists>r. calls (del_GetContainer cd g) s = [(GetContainer g, r)] \<and>
      (r = OK \<longleftrightarrow> eval (del_GetContainer cd g) s \<noteq> None)"
    and stop_calls: "\<exists>r. calls (del_StopContainer cd g) s = [(StopContainer g, r)] \<and>
      (r = OK \<longleftrightarrow> eval (del_StopContainer cd g) s)"
    and delete_calls: "\<exists>r. calls (del_DeleteContainer cd g) s = [(DeleteContainer g, r)] \<and>
      (r = OK \<longleftrightarrow> eval (del_DeleteContainer cd g) s)"
    and run_ok: "eval (del_RunContainer cd rq) s \<Longrightarrow>
      calls (del_RunContainer cd rq) s = [(RunContainer rq, OK)]"
    and run_fail: "\<not> eval (del_RunContainer cd rq) s \<Longrightarrow>
      \<exists>e r. calls (del_RunContainer cd rq) s =
        [(RunContainer rq, Err e), (DeleteContainer (rq_Guid rq), r)]"
    and fetch_calls: "\<exists>r. calls (del_FetchContainerResultFile cd g f) s = [(GetFiles g f, r)]"
    and fetch_bound: "eval (del_FetchContainerResultFile cd g f) s = Inr file \<Longrightarrow>
      length file \<le> MAX_RESULT_SIZE"
begin

lemmas del_safe [simp, intro] = get_safe run_safe stop_safe delete_safe fetch_safe

lemmas del_appends [simp, intro] = del_safe [THEN safeD(1)]

text \<open>However it goes, deleting and stopping make one call each.\<close>

lemma delete_cases:
  obtains r where "calls (del_DeleteContainer cd g) s = [(DeleteContainer g, r)]"
  using delete_calls by blast

lemma run_cases:
  obtains (ok) "eval (del_RunContainer cd rq) s"
    "calls (del_RunContainer cd rq) s = [(RunContainer rq, OK)]"
  | (failed) e r where "\<not> eval (del_RunContainer cd rq) s"
    "calls (del_RunContainer cd rq) s =
       [(RunContainer rq, Err e), (DeleteContainer (rq_Guid rq), r)]"
  using run_ok run_fail by blast

end

section \<open>The implementation keeps the promises\<close>

lemma read_result_bound: "read_result st = Inr file \<Longrightarrow> length file \<le> MAX_RESULT_SIZE"
  by (auto simp: read_result_def Let_def split: option.splits if_splits)

lemma delegate_simps [simp]:
  "del_GetContainer (NewContainerDelegate S) = delegate_GetContainer S"
  "del_RunContainer (NewContainerDelegate S) = delegate_RunContainer S"
  "del_StopContainer (NewContainerDelegate S) = delegate_StopContainer S"
  "del_DeleteContainer (NewContainerDelegate S) = delegate_DeleteContainer S"
  "del_FetchContainerResultFile (NewContainerDelegate S) = delegate_FetchContainerResultFile S"
  by (simp_all add: NewContainerDelegate_def)

lemma safe_sum_case [intro]:
  "(\<And>e. safe (f e)) \<Longrightarrow> (\<And>x. safe (g x)) \<Longrightarrow> safe (case r of Inl e \<Rightarrow> f e | Inr x \<Rightarrow> g x)"
  by (cases r) auto

lemma delegate_DeleteContainer_safe [intro]: "safe (delegate_DeleteContainer S g)"
  unfolding delegate_DeleteContainer_def by auto

lemma delegate_safe:
  "safe (delegate_GetContainer S g)" "safe (delegate_StopContainer S g)"
  "safe (delegate_RunContainer S rq)" "safe (delegate_FetchContainerResultFile S g f)"
  unfolding delegate_GetContainer_def delegate_StopContainer_def
    delegate_RunContainer_def delegate_FetchContainerResultFile_def
  by (auto simp del: not_None_eq intro!: safe_bind safe_if)

interpretation delegate: container_delegate "NewContainerDelegate S" for S :: "'w services"
proof unfold_locales
  fix g f rq and s :: "'w world" and contents
  show "\<exists>r. calls (del_GetContainer (NewContainerDelegate S) g) s = [(GetContainer g, r)] \<and>
      (r = OK \<longleftrightarrow> eval (del_GetContainer (NewContainerDelegate S) g) s \<noteq> None)"
    by (cases "fst (svc_GetContainer S g (ext s))")
      (auto simp: delegate_GetContainer_def calls_def)
  show "\<exists>r. calls (del_StopContainer (NewContainerDelegate S) g) s = [(StopContainer g, r)] \<and>
      (r = OK \<longleftrightarrow> eval (del_StopContainer (NewContainerDelegate S) g) s)"
    by (cases "fst (svc_StopContainer S g (ext s))")
      (auto simp: delegate_StopContainer_def calls_def)
  show "\<exists>r. calls (del_DeleteContainer (NewContainerDelegate S) g) s = [(DeleteContainer g, r)] \<and>
      (r = OK \<longleftrightarrow> eval (del_DeleteContainer (NewContainerDelegate S) g) s)"
    by (cases "fst (svc_DeleteContainer S g (ext s))")
      (auto simp: delegate_DeleteContainer_def calls_def)
  show "eval (del_RunContainer (NewContainerDelegate S) rq) s \<Longrightarrow>
      calls (del_RunContainer (NewContainerDelegate S) rq) s = [(RunContainer rq, OK)]"
    by (cases "fst (svc_RunContainer S rq (ext s))")
      (auto simp: delegate_RunContainer_def delegate_DeleteContainer_def calls_def)
  show "\<not> eval (del_RunContainer (NewContainerDelegate S) rq) s \<Longrightarrow>
      \<exists>e r. calls (del_RunContainer (NewContainerDelegate S) rq) s =
        [(RunContainer rq, Err e), (DeleteContainer (rq_Guid rq), r)]"
    by (cases "fst (svc_RunContainer S rq (ext s))")
      (auto simp: delegate_RunContainer_def delegate_DeleteContainer_def calls_def)
  show "\<exists>r. calls (del_FetchContainerResultFile (NewContainerDelegate S) g f) s =
      [(GetFiles g f, r)]"
    by (cases "fst (svc_GetFiles S g f (ext s))")
      (auto simp: delegate_FetchContainerResultFile_def calls_def)
  show "eval (del_FetchContainerResultFile (NewContainerDelegate S) g f) s = Inr contents \<Longrightarrow>
      length contents \<le> MAX_RESULT_SIZE"
    by (cases "fst (svc_GetFiles S g f (ext s))")
      (auto simp: delegate_FetchContainerResultFile_def intro: read_result_bound)
qed (simp_all add: delegate_safe delegate_DeleteContainer_safe)

end
