(* ===== verification/Protocol.thy ===== *)
theory Protocol
  imports Container_Delegate
begin

text \<open>
  Protocols over event traces. A protocol is a step relation between phases, labelled with
  events; the components' call traces are shown to be runs of a protocol, and what holds of
  every run (an event never occurs, or occurs only after another) then holds of the code.
\<close>

section \<open>Runs\<close>

inductive run :: "('p \<Rightarrow> 'e \<Rightarrow> 'p \<Rightarrow> bool) \<Rightarrow> 'p \<Rightarrow> 'e list \<Rightarrow> 'p \<Rightarrow> bool"
  for step :: "'p \<Rightarrow> 'e \<Rightarrow> 'p \<Rightarrow> bool" where
  run_Nil [intro!, simp]: "run step p [] p"
| run_Cons [intro]: "step p e q \<Longrightarrow> run step q es r \<Longrightarrow> run step p (e # es) r"

inductive_simps run_Nil_iff: "run step p [] q"
inductive_simps run_Cons_iff: "run step p (e # es) q"

lemma run_single: "run step p [e] q \<longleftrightarrow> step p e q"
  by (auto simp: run_Cons_iff run_Nil_iff)

lemma run_append_iff: "run step p (xs @ ys) r \<longleftrightarrow> (\<exists>q. run step p xs q \<and> run step q ys r)"
  by (induction xs arbitrary: p) (auto simp: run_Cons_iff run_Nil_iff)

lemma run_forall:
  assumes "run step p es q" and "\<And>p e q. step p e q \<Longrightarrow> P e"
  shows "list_all P es"
  using assms by (induction rule: run.induct) auto

lemma run_forall_inv:
  assumes "run step p es q" and "I p" and "\<And>p e q. step p e q \<Longrightarrow> I p \<Longrightarrow> I q \<and> P e"
  shows "list_all P es"
  using assms by (induction rule: run.induct) auto

lemma run_invariant:
  assumes "run step p es q" and "I p" and "\<And>p e q. step p e q \<Longrightarrow> I p \<Longrightarrow> I q"
  shows "I q"
  using assms by (induction rule: run.induct) auto

lemma run_restrict:
  assumes "run step p es q" and "I p" and "\<And>p e q. step p e q \<Longrightarrow> I p \<Longrightarrow> I q"
  shows "run (\<lambda>p e q. step p e q \<and> I p \<and> I q) p es q"
  using assms(1,2) by (induction rule: run.induct) (auto intro: assms(3))

lemma run_stable:
  assumes "run step p es q" and "list_ex E es"
    and "\<And>p e q. step p e q \<Longrightarrow> E e \<Longrightarrow> J q" and "\<And>p e q. step p e q \<Longrightarrow> J p \<Longrightarrow> J q"
  shows "J q"
proof -
  have "J p \<or> list_ex E es \<longrightarrow> J q"
    using assms(1) by (induction rule: run.induct) (auto intro: assms(3,4))
  with assms(2) show ?thesis by blast
qed

lemma run_enters:
  assumes "run step p es q" and "\<not> J p" and "J q"
    and "\<And>p e q. step p e q \<Longrightarrow> \<not> J p \<Longrightarrow> J q \<Longrightarrow> E e"
  shows "list_ex E es"
  using assms by (induction rule: run.induct) auto

text \<open>An invariant of the state and of the events so far.\<close>

lemma run_history:
  assumes "run step p es q" and "H [] p"
    and "\<And>es q e r. H es q \<Longrightarrow> step q e r \<Longrightarrow> H (es @ [e]) r"
  shows "H es q"
proof -
  have "H (xs @ es) q" if "H xs p" for xs
    using assms(1) that
  proof (induction arbitrary: xs rule: run.induct)
    case (run_Cons p e q es r)
    from run_Cons.IH [OF assms(3) [OF run_Cons.prems run_Cons.hyps(1)]] show ?case by simp
  qed simp
  from this [OF assms(2)] show ?thesis by simp
qed

section \<open>Precedence\<close>

text \<open>\<open>preceded Q P es\<close>: every event that satisfies \<open>P\<close> comes after one that satisfies \<open>Q\<close>.\<close>

fun preceded :: "('e \<Rightarrow> bool) \<Rightarrow> ('e \<Rightarrow> bool) \<Rightarrow> 'e list \<Rightarrow> bool" where
  "preceded Q P [] = True"
| "preceded Q P (e # es) = (\<not> P e \<and> (Q e \<or> preceded Q P es))"

lemma preceded_iff:
  "preceded Q P es \<longleftrightarrow> (\<forall>i < length es. P (es ! i) \<longrightarrow> (\<exists>j < i. Q (es ! j)))"
proof (induction es)
  case (Cons e es)
  show ?case
    unfolding preceded.simps Cons.IH by (simp add: All_less_Suc2 Ex_less_Suc2) blast
qed simp

lemma run_preceded:
  assumes "run step p es r" and "p \<notin> A"
    and "\<And>p e q. step p e q \<Longrightarrow> P e \<Longrightarrow> p \<in> A"
    and "\<And>p e q. step p e q \<Longrightarrow> p \<notin> A \<Longrightarrow> q \<in> A \<Longrightarrow> Q e"
  shows "preceded Q P es"
  using assms
proof (induction rule: run.induct)
  case (run_Cons p e q es r)
  then show ?case by (cases "q \<in> A") auto
qed simp

section \<open>Composition of actions\<close>

lemma appends_branches [simp, intro]:
  "appends m \<Longrightarrow> appends n \<Longrightarrow> appends (if b then m else n)"
  "appends m \<Longrightarrow> (\<And>x. appends (f x)) \<Longrightarrow> appends (case r of None \<Rightarrow> m | Some x \<Rightarrow> f x)"
  "(\<And>e. appends (g e)) \<Longrightarrow> (\<And>x. appends (h x)) \<Longrightarrow>
     appends (case y of Inl e \<Rightarrow> g e | Inr x \<Rightarrow> h x)"
  "(\<And>x. appends (i x)) \<Longrightarrow> (\<And>e. appends (j e)) \<Longrightarrow> appends k \<Longrightarrow>
     appends (case z of Ret x \<Rightarrow> i x | Fail e \<Rightarrow> j e | Panic \<Rightarrow> k)"
  by (auto split: option.split sum.split outcome.split)

declare appends_bind [simp]

text \<open>A service call whose result decides how to go on, and one whose result is dropped.\<close>

lemma calls_invoke_bind [trace_simps]:
  "(\<And>x. appends (f x)) \<Longrightarrow>
     calls (State_Monad.bind (invoke c rp g) f) s =
       (c, rp (fst (g (ext s)))) # calls (f (fst (g (ext s)))) (exec (invoke c rp g) s)"
  by (simp add: calls_bind)

text \<open>
  Every execution of the action from a state is a run of the protocol from \<open>p\<close>, and ends in
  a phase that satisfies \<open>F\<close>; \<open>F\<close> may depend on the result.
\<close>

definition follows ::
  "('p \<Rightarrow> event \<Rightarrow> 'p \<Rightarrow> bool) \<Rightarrow> 'p \<Rightarrow> ('w, 'a) act \<Rightarrow> 'w world \<Rightarrow> ('a \<Rightarrow> 'p \<Rightarrow> bool) \<Rightarrow> bool" where
  "follows step p m s F \<longleftrightarrow> (\<exists>q. run step p (calls m s) q \<and> F (eval m s) q)"

lemma follows_return: "F x p \<Longrightarrow> follows step p (return x) s F"
  by (auto simp: follows_def)

lemma follows_bind:
  assumes "follows step p m s G" "appends m" "\<And>x. appends (f x)"
    and "\<And>x q. x = eval m s \<Longrightarrow> G x q \<Longrightarrow> follows step q (f x) (exec m s) F"
  shows "follows step p (State_Monad.bind m f) s F"
  using assms by (fastforce simp: follows_def calls_bind run_append_iff)

lemma follows_invoke:
  assumes "\<And>x. x = fst (f (ext s)) \<Longrightarrow> \<exists>q. step p (c, rp x) q \<and> F x q"
  shows "follows step p (invoke c rp f) s F"
  using assms by (auto simp: follows_def run_single)

lemma follows_calls:
  "calls m s = es \<Longrightarrow> run step p es q \<Longrightarrow> F (eval m s) q \<Longrightarrow> follows step p m s F"
  by (auto simp: follows_def)

lemma follows_weaken:
  "follows step p m s G \<Longrightarrow> (\<And>x q. G x q \<Longrightarrow> F x q) \<Longrightarrow> follows step p m s F"
  by (auto simp: follows_def)

lemma follows_if:
  "(b \<Longrightarrow> follows step p m s F) \<Longrightarrow> (\<not> b \<Longrightarrow> follows step p n s F) \<Longrightarrow>
     follows step p (if b then m else n) s F"
  by simp

text \<open>
  What the rest of the process can do to the world between two steps of a goroutine: anything to
  the outside state, but calls are only added to the trace and evacuation is never undone.
\<close>

definition others_step :: "'w world \<Rightarrow> 'w world \<Rightarrow> bool" where
  "others_step w w' \<longleftrightarrow>
     (\<exists>es. trace w' = trace w @ es) \<and> (Evacuating_now (evac w) \<longrightarrow> Evacuating_now (evac w'))"

section \<open>The delegate's calls\<close>

context container_delegate
begin

lemma delete_follows:
  assumes "\<And>r. step p (DeleteContainer g, r) q" and "\<And>b. F b q"
  shows "follows step p (del_DeleteContainer cd g) s F"
  by (rule delete_cases [of g s]) (auto intro!: assms follows_calls simp: run_single)

lemma delete_last_follows:
  assumes "\<And>r. step p (DeleteContainer g, r) q" and "F () q"
  shows "follows step p (do { del_DeleteContainer cd g; return () }) s F"
  by (rule follows_bind [where G = "\<lambda>_ q'. q' = q"])
    (auto intro!: delete_follows follows_return assms)

end

end
