(* ===== verification/Example_Cell.thy ===== *)
theory Example_Cell
  imports Protocol
begin

text \<open>
  A concrete outside world in which the properties are applied: every service answers, the
  BBS knows one desired LRP and one task, and nothing changes between calls.
\<close>

definition example_tags :: tags where
  "example_tags =
     Some [LifecycleTag \<mapsto> LRPLifecycle, ProcessGuidTag \<mapsto> ''pg'', ProcessIndexTag \<mapsto> ''3'',
           DomainTag \<mapsto> ''cf'', InstanceGuidTag \<mapsto> ''ig'']"

definition example_container :: "ContainerState \<Rightarrow> Container" where
  "example_container st =
     \<lparr>c_Guid = ''ig'', c_Tags = example_tags, c_State = st, c_MemoryMB = 256, c_DiskMB = 512,
      c_Ports = [], c_ExternalIP = ''10.0.0.1'', c_InternalIP = ''10.255.0.1'',
      c_RunResult = \<lparr>rr_Failed = False, rr_FailureReason = '''', rr_Stopped = False\<rparr>\<rparr>"

definition example_task_container :: "ContainerState \<Rightarrow> Container" where
  "example_task_container st =
     (example_container st)\<lparr>c_Guid := ''tg'',
        c_Tags := Some [LifecycleTag \<mapsto> TaskLifecycle, ResultFileTag \<mapsto> ''/result'']\<rparr>"

definition example_task :: models_Task where
  "example_task =
     \<lparr>t_TaskGuid = ''tg'', t_RootFs = ''preloaded:linux'', t_CpuWeight = 1, t_Privileged = False,
      t_LogGuid = ''log'', t_LogSource = ''TASK'', t_MetricsGuid = '''', t_ResultFile = ''/result'',
      t_CachedDependencies = [], t_Action = ''run'', t_EnvironmentVariables = [],
      t_EgressRules = '''', t_TrustedSystemCertificatesPath = '''', t_VolumeMounts = [],
      t_Network = None, t_CertificateProperties = None, t_ImageUsername = '''',
      t_ImagePassword = ''''\<rparr>"

definition example_stream :: tar_stream where
  "example_stream = \<lparr>tar_Next = None, tar_Read = (\<lambda>k. take k ''done'')\<rparr>"

definition example_services :: "unit services" where
  "example_services =
     \<lparr>svc_ListContainers = (\<lambda>w. (Inr [example_container StateReserved], w)),
      svc_GetContainer = (\<lambda>g w. (if g = ''ig'' then Inr (example_container StateReserved)
        else if g = ''tg'' then Inr (example_task_container StateReserved)
        else Inl ErrContainerNotFound, w)),
      svc_RunContainer = (\<lambda>rq w. (None, w)),
      svc_StopContainer = (\<lambda>g w. (None, w)),
      svc_DeleteContainer = (\<lambda>g w. (None, w)),
      svc_GetFiles = (\<lambda>g f w. (Inr example_stream, w)),
      svc_AllocateContainers = (\<lambda>rs w. (Inr [], w)),
      svc_TotalResources =
        (\<lambda>w. (Inr \<lparr>er_MemoryMB = 1024, er_DiskMB = 2048, er_Containers = 10\<rparr>, w)),
      svc_RemainingResources =
        (\<lambda>w. (Inr \<lparr>er_MemoryMB = 512, er_DiskMB = 1024, er_Containers = 9\<rparr>, w)),
      svc_VolumeDrivers = (\<lambda>w. (Inr [''nfs''], w)),
      svc_Healthy = (\<lambda>w. (True, w)),
      svc_Cleanup = (\<lambda>w. ((), w)),
      svc_Ping = (\<lambda>w. (None, w)),
      svc_ActualLRPGroups = (\<lambda>cell w. (Inr [], w)),
      svc_TasksByCellID = (\<lambda>cell w. (Inr [example_task], w)),
      svc_RemoveActualLRP = (\<lambda>pg i ik w. (None, w)),
      svc_RemoveEvacuatingActualLRP = (\<lambda>k ik w. (None, w)),
      svc_FailTask = (\<lambda>g r w. (None, w)),
      svc_ClaimActualLRP = (\<lambda>pg i ik w. (None, w)),
      svc_DesiredLRPByProcessGuid = (\<lambda>pg w. (Inr example_desired, w)),
      svc_StartActualLRP = (\<lambda>k ik ni w. (None, w)),
      svc_CrashActualLRP = (\<lambda>k ik r w. (None, w)),
      svc_EvacuateRunningActualLRP = (\<lambda>k ik ni ttl w. ((False, None), w)),
      svc_EvacuateStoppedActualLRP = (\<lambda>k ik w. ((False, None), w)),
      svc_EvacuateCrashedActualLRP = (\<lambda>k ik r w. ((False, None), w)),
      svc_EvacuateClaimedActualLRP = (\<lambda>k ik w. ((False, None), w)),
      svc_StartTask = (\<lambda>g cell w. ((True, None), w)),
      svc_TaskByGuid = (\<lambda>g w. (if g = ''tg'' then Inr example_task
        else Inl (ModelsError Error_ResourceNotFound ''no task''), w)),
      svc_CompleteTask = (\<lambda>g cell failed reason result w. (None, w)),
      svc_SendDuration = (\<lambda>n d w. (None, w)),
      svc_SendMetric = (\<lambda>n v w. (None, w)),
      svc_Now = (\<lambda>w. (0, w)),
      svc_NewV4 = (\<lambda>w. (Inr ''6ba7b810-9dad-41d1-80b4-00c04fd430c8'', w))\<rparr>"

definition example_world :: "unit world" where
  "example_world =
     \<lparr>ext = (), trace = [], evac = evacuation_context_New, crashed = False\<rparr>"

definition evacuating_world :: "unit world" where
  "evacuating_world = example_world\<lparr>evac := \<lparr>evacuated = Closed\<rparr>\<rparr>"

section \<open>Its keys and requests\<close>

lemma example_container_simps [simp]:
  "c_Guid (example_container st) = ''ig''" "c_Tags (example_container st) = example_tags"
  "c_State (example_container st) = st" "\<not> rr_Stopped (c_RunResult (example_container st))"
  "rr_FailureReason (c_RunResult (example_container st)) = ''''"
  by (simp_all add: example_container_def)

lemma example_task_container_simps [simp]:
  "c_Guid (example_task_container st) = ''tg''" "c_State (example_task_container st) = st"
  "c_Tags (example_task_container st) =
     Some [LifecycleTag \<mapsto> TaskLifecycle, ResultFileTag \<mapsto> ''/result'']"
  "c_RunResult (example_task_container st) =
     \<lparr>rr_Failed = False, rr_FailureReason = '''', rr_Stopped = False\<rparr>"
  by (simp_all add: example_task_container_def example_container_def)

lemma example_services_simps [simp]:
  "svc_ClaimActualLRP example_services pg i ik w = (None, w)"
  "svc_DesiredLRPByProcessGuid example_services pg w = (Inr example_desired, w)"
  "svc_RunContainer example_services rq w = (None, w)"
  "svc_DeleteContainer example_services g w = (None, w)"
  "svc_StartTask example_services g cell w = ((True, None), w)"
  "svc_TaskByGuid example_services ''tg'' w = (Inr example_task, w)"
  "svc_GetFiles example_services g f w = (Inr example_stream, w)"
  "svc_CompleteTask example_services g cell failed reason result w = (None, w)"
  by (simp_all add: example_services_def)

lemma example_keys:
  "ActualLRPKeyFromTags example_api example_tags = Inr example_key"
  "ActualLRPInstanceKeyFromContainer example_api (example_container st) ''cell'' =
     Inr example_ikey"
  by (simp_all add: ActualLRPKeyFromTags_def ActualLRPInstanceKeyFromContainer_def
      example_container_def example_tags_def example_key_def example_ikey_def example_api_def
      tag_defs tag_get_simps Let_def nonblank_def) code_simp+

lemma example_world_simps [simp]:
  "trace example_world = []" "evacuated (evac example_world) = Open"
  "crashed example_world = False" "evacuated (evac evacuating_world) = Closed"
  "trace evacuating_world = []" "crashed evacuating_world = False"
  by (simp_all add: example_world_def evacuating_world_def evacuation_context_New_def)

end
