(* ===== verification/Auction_Cell_Rep.thy ===== *)
theory Auction_Cell_Rep
  imports Example_Cell
begin

text \<open>
  The auction's view of a cell, \<open>auctioncellrep\<close>: \<open>State\<close> reports what the cell has and
  runs, \<open>Perform\<close> turns work won in the auction into allocation requests to the executor and
  returns the work that could not be placed.
\<close>

section \<open>Guids\<close>

definition GenerateGuid :: "'w services \<Rightarrow> ('w, go_error + string) act" where
  "GenerateGuid S = do {
     r \<leftarrow> draw (svc_NewV4 S);
     (case r of
        Inl err \<Rightarrow> return (Inl err)
      | Inr guidString \<Rightarrow>
          return (Inr (if length guidString > 28 then take 28 guidString else guidString)))
   }"

section \<open>Rootfs providers and paths\<close>

definition rootFSProviders ::
  "ext_api \<Rightarrow> ((string \<times> string) list \<Rightarrow> (string \<times> string) list) \<Rightarrow> StackPathMap \<Rightarrow> string list \<Rightarrow>
     RootFSProviders" where
  "rootFSProviders M ord preloaded arbitrary =
     (let providers =
            fold (\<lambda>scheme. AList.update scheme (Some ArbitraryRootFSProvider)) arbitrary [];
          stacks = map fst (ord preloaded);
          providers = AList.update (PreloadedRootFSScheme M)
            (Some (NewFixedSetRootFSProvider stacks)) providers
      in AList.update (PreloadedOCIRootFSScheme M)
           (Some (NewFixedSetRootFSProvider stacks)) providers)"

definition PathForRootFS :: "ext_api \<Rightarrow> string \<Rightarrow> StackPathMap \<Rightarrow> go_error + string" where
  "PathForRootFS M rootFS stackPathMap =
     (if rootFS = '''' then Inr rootFS
      else case url_Parse rootFS of
        Inl err \<Rightarrow> Inl err
      | Inr url \<Rightarrow>
          if Scheme url = PreloadedRootFSScheme M then
            (case map_of stackPathMap (Opaque url) of
               None \<Rightarrow> Inl ErrPreloadedRootFSNotFound
             | Some path \<Rightarrow> Inr path)
          else if Scheme url = PreloadedOCIRootFSScheme M then
            (case map_of stackPathMap (Opaque url) of
               None \<Rightarrow> Inl ErrPreloadedRootFSNotFound
             | Some path \<Rightarrow> Inr (Scheme url @ '':'' @ path @ ''?'' @ RawQuery url))
          else Inr rootFS)"

section \<open>The cell rep\<close>

record 'w AuctionCellRep =
  a_cellID :: string
  a_stackPathMap :: StackPathMap
  a_rootFSProviders :: RootFSProviders
  a_zone :: string
  a_generateInstanceGuid :: "('w, go_error + string) act"
  a_client :: "'w services"
  a_placementTags :: "string list"
  a_optionalPlacementTags :: "string list"

definition auctioncellrep_New ::
  "ext_api \<Rightarrow> ((string \<times> string) list \<Rightarrow> (string \<times> string) list) \<Rightarrow> string \<Rightarrow> StackPathMap \<Rightarrow>
     string list \<Rightarrow> string \<Rightarrow> ('w, go_error + string) act \<Rightarrow> 'w services \<Rightarrow> string list \<Rightarrow>
     string list \<Rightarrow> 'w AuctionCellRep" where
  "auctioncellrep_New M ord cellID preloadedStackPathMap arbitraryRootFSes zone
     generateInstanceGuid client placementTags optionalPlacementTags =
     \<lparr>a_cellID = cellID,
      a_stackPathMap = preloadedStackPathMap,
      a_rootFSProviders = rootFSProviders M ord preloadedStackPathMap arbitraryRootFSes,
      a_zone = zone,
      a_generateInstanceGuid = generateInstanceGuid,
      a_client = client,
      a_placementTags = placementTags,
      a_optionalPlacementTags = optionalPlacementTags\<rparr>"

definition convertResources :: "ExecutorResources \<Rightarrow> Resources" where
  "convertResources resources =
     \<lparr>MemoryMB = int32_of_int (er_MemoryMB resources),
      DiskMB = int32_of_int (er_DiskMB resources),
      Containers = er_Containers resources\<rparr>"

definition containerIsStarting :: "Container \<Rightarrow> bool" where
  "containerIsStarting container \<longleftrightarrow>
     c_State container = StateReserved \<or>
     c_State container = StateInitializing \<or>
     c_State container = StateCreated"

subsection \<open>State\<close>

text \<open>The loop over the containers, with the LRPs, the tasks and the count so far.\<close>

definition state_resource :: "Container \<Rightarrow> Resource" where
  "state_resource container =
     \<lparr>res_MemoryMB = int32_of_int (c_MemoryMB container),
      res_DiskMB = int32_of_int (c_DiskMB container), res_MaxPids = 0\<rparr>"

definition no_constraint :: PlacementConstraint where
  "no_constraint = \<lparr>pc_PlacementTags = [], pc_VolumeDrivers = [], pc_RootFs = ''''\<rparr>"

fun state_loop ::
  "ext_api \<Rightarrow> Container list \<Rightarrow> LRP list \<times> Task list \<times> go_int \<Rightarrow> LRP list \<times> Task list \<times> go_int"
where
  "state_loop M [] acc = acc"
| "state_loop M (container # containers) (lrps, tasks, startingContainerCount) =
     (let count = (if containerIsStarting container then startingContainerCount + 1
                   else startingContainerCount)
      in if c_Tags container = None then state_loop M containers (lrps, tasks, count)
         else
           let lifecycle = tag_get (c_Tags container) LifecycleTag
           in if lifecycle = LRPLifecycle then
                (case ActualLRPKeyFromTags M (c_Tags container) of
                   Inl keyErr \<Rightarrow> state_loop M containers (lrps, tasks, count)
                 | Inr key \<Rightarrow> state_loop M containers
                     (lrps @ [NewLRP key (state_resource container) no_constraint], tasks, count))
              else if lifecycle = TaskLifecycle then
                state_loop M containers
                  (lrps,
                   tasks @ [NewTask (c_Guid container) (tag_get (c_Tags container) DomainTag)
                              (state_resource container) no_constraint],
                   count)
              else state_loop M containers (lrps, tasks, count))"

definition auction_State ::
  "ext_api \<Rightarrow> 'w AuctionCellRep \<Rightarrow> ('w, go_error + CellState \<times> bool) act" where
  "auction_State M a = do {
     r \<leftarrow> invoke ListContainers sum_reply (svc_ListContainers (a_client a));
     (case r of
        Inl err \<Rightarrow> return (Inl err)
      | Inr containers \<Rightarrow> do {
     r \<leftarrow> invoke GetTotalResources sum_reply (svc_TotalResources (a_client a));
     (case r of
        Inl err \<Rightarrow> return (Inl err)
      | Inr totalResources \<Rightarrow> do {
     r \<leftarrow> invoke GetRemainingResources sum_reply (svc_RemainingResources (a_client a));
     (case r of
        Inl err \<Rightarrow> return (Inl err)
      | Inr availableResources \<Rightarrow> do {
     r \<leftarrow> invoke GetVolumeDrivers sum_reply (svc_VolumeDrivers (a_client a));
     (case r of
        Inl err \<Rightarrow> return (Inl err)
      | Inr volumeDrivers \<Rightarrow>
          (case state_loop M containers ([], [], 0) of
             (lrps, tasks, startingContainerCount) \<Rightarrow> do {
               evacuating \<leftarrow> get_Evacuating;
               let state = NewCellState (a_rootFSProviders a)
                     (convertResources availableResources) (convertResources totalResources)
                     lrps tasks (a_zone a) startingContainerCount evacuating volumeDrivers
                     (a_placementTags a) (a_optionalPlacementTags a);
               healthy \<leftarrow> invoke Healthy (\<lambda>b. Answer b None) (svc_Healthy (a_client a));
               return (Inr (state, healthy))
             })) }) }) })
   }"

subsection \<open>Perform\<close>

definition lrp_tags :: "LRP \<Rightarrow> string \<Rightarrow> tags" where
  "lrp_tags lrp instanceGuid =
     Some [DomainTag \<mapsto> Domain (lrp_Key lrp),
           ProcessGuidTag \<mapsto> ProcessGuid (lrp_Key lrp),
           ProcessIndexTag \<mapsto> Itoa (int_of_int32 (Index (lrp_Key lrp))),
           LifecycleTag \<mapsto> LRPLifecycle,
           InstanceGuidTag \<mapsto> instanceGuid]"

definition executor_NewResource ::
  "go_int \<Rightarrow> go_int \<Rightarrow> go_int \<Rightarrow> string \<Rightarrow> executor_Resource" where
  "executor_NewResource memoryMB diskMB maxPids rootFSPath =
     \<lparr>x_MemoryMB = memoryMB, x_DiskMB = diskMB, x_MaxPids = maxPids,
      x_RootFSPath = rootFSPath\<rparr>"

definition work_resource :: "Resource \<Rightarrow> string \<Rightarrow> executor_Resource" where
  "work_resource r rootFSPath =
     executor_NewResource (int_of_int32 (res_MemoryMB r)) (int_of_int32 (res_DiskMB r))
       (int_of_int32 (res_MaxPids r)) rootFSPath"

fun lrps_loop ::
  "ext_api \<Rightarrow> 'w AuctionCellRep \<Rightarrow> LRP list \<Rightarrow>
     AllocationRequest list \<times> (string \<times> LRP) list \<times> LRP list \<Rightarrow>
     ('w, AllocationRequest list \<times> (string \<times> LRP) list \<times> LRP list) act" where
  "lrps_loop M a [] acc = return acc"
| "lrps_loop M a (lrp # lrps) (requests, lrpMap, untranslatedLRPs) = do {
     r \<leftarrow> a_generateInstanceGuid a;
     (case r of
        Inl err \<Rightarrow> lrps_loop M a lrps (requests, lrpMap, untranslatedLRPs @ [lrp])
      | Inr instanceGuid \<Rightarrow>
          (case PathForRootFS M (pc_RootFs (lrp_Placement lrp)) (a_stackPathMap a) of
             Inl err \<Rightarrow> lrps_loop M a lrps (requests, lrpMap, untranslatedLRPs @ [lrp])
           | Inr rootFSPath \<Rightarrow>
               let containerGuid = LRPContainerGuid (ProcessGuid (lrp_Key lrp)) instanceGuid
               in lrps_loop M a lrps
                    (requests @ [\<lparr>ar_Guid = containerGuid,
                                  ar_Resource = work_resource (lrp_Resource lrp) rootFSPath,
                                  ar_Tags = lrp_tags lrp instanceGuid\<rparr>],
                     AList.update containerGuid lrp lrpMap,
                     untranslatedLRPs)))
   }"

definition lrpsToAllocationRequest ::
  "ext_api \<Rightarrow> 'w AuctionCellRep \<Rightarrow> LRP list \<Rightarrow>
     ('w, AllocationRequest list \<times> (string \<times> LRP) list \<times> LRP list) act" where
  "lrpsToAllocationRequest M a lrps = lrps_loop M a lrps ([], [], [])"

fun tasks_loop ::
  "ext_api \<Rightarrow> 'w AuctionCellRep \<Rightarrow> Task list \<Rightarrow>
     AllocationRequest list \<times> (string \<times> Task) list \<times> Task list \<Rightarrow>
     AllocationRequest list \<times> (string \<times> Task) list \<times> Task list" where
  "tasks_loop M a [] acc = acc"
| "tasks_loop M a (task # tasks) (requests, taskMap, failedTasks) =
     (let taskMap = AList.update (TaskGuid task) task taskMap
      in case PathForRootFS M (pc_RootFs (task_Placement task)) (a_stackPathMap a) of
           Inl err \<Rightarrow> tasks_loop M a tasks (requests, taskMap, failedTasks @ [task])
         | Inr rootFSPath \<Rightarrow>
             tasks_loop M a tasks
               (requests @ [\<lparr>ar_Guid = TaskGuid task,
                             ar_Resource = work_resource (task_Resource task) rootFSPath,
                             ar_Tags = Some [LifecycleTag \<mapsto> TaskLifecycle,
                                             DomainTag \<mapsto> task_Domain task]\<rparr>],
                taskMap, failedTasks))"

definition tasksToAllocationRequests ::
  "ext_api \<Rightarrow> 'w AuctionCellRep \<Rightarrow> Task list \<Rightarrow>
     AllocationRequest list \<times> (string \<times> Task) list \<times> Task list" where
  "tasksToAllocationRequests M a tasks = tasks_loop M a tasks ([], [], [])"

text \<open>The loops over the allocation failures: the work of each known guid has failed.\<close>

fun failures_loop :: "(string \<times> 'v) list \<Rightarrow> AllocationFailure list \<Rightarrow> 'v list \<Rightarrow> 'v list" where
  "failures_loop m [] failed = failed"
| "failures_loop m (failure # failures) failed =
     (case map_of m (ar_Guid (af_Request failure)) of
        None \<Rightarrow> failures_loop m failures failed
      | Some x \<Rightarrow> failures_loop m failures (failed @ [x]))"

definition perform_lrps ::
  "ext_api \<Rightarrow> 'w AuctionCellRep \<Rightarrow> LRP list \<Rightarrow> ('w, LRP list) act" where
  "perform_lrps M a lrps = do {
     t \<leftarrow> lrpsToAllocationRequest M a lrps;
     (case t of (requests, lrpMap, untranslatedLRPs) \<Rightarrow> do {
        let failed = (if length untranslatedLRPs > 0 then untranslatedLRPs else []);
        r \<leftarrow> invoke (AllocateContainers requests) alloc_reply
               (svc_AllocateContainers (a_client a) requests);
        (case r of
           Inl err \<Rightarrow> return lrps
         | Inr failures \<Rightarrow> return (failures_loop lrpMap failures failed))
      })
   }"

definition perform_tasks ::
  "ext_api \<Rightarrow> 'w AuctionCellRep \<Rightarrow> Task list \<Rightarrow> ('w, Task list) act" where
  "perform_tasks M a tasks =
     (case tasksToAllocationRequests M a tasks of (requests, taskMap, failedTasks) \<Rightarrow> do {
        let failed = (if length failedTasks > 0 then failedTasks else []);
        r \<leftarrow> invoke (AllocateContainers requests) alloc_reply
               (svc_AllocateContainers (a_client a) requests);
        (case r of
           Inl err \<Rightarrow> return tasks
         | Inr failures \<Rightarrow> return (failures_loop taskMap failures failed))
      })"

definition Perform ::
  "ext_api \<Rightarrow> 'w AuctionCellRep \<Rightarrow> Work \<Rightarrow> ('w, go_error + Work) act" where
  "Perform M a work = do {
     evacuating \<leftarrow> get_Evacuating;
     (if evacuating then return (Inr work)
      else do {
        failedLRPs \<leftarrow> (if length (work_LRPs work) > 0 then perform_lrps M a (work_LRPs work)
                      else return []);
        failedTasks \<leftarrow> (if length (work_Tasks work) > 0 then perform_tasks M a (work_Tasks work)
                       else return []);
        return (Inr \<lparr>work_LRPs = failedLRPs, work_Tasks = failedTasks\<rparr>)
      })
   }"

definition auction_Reset :: "go_error option" where
  "auction_Reset = Some (NewError ''not-a-simulation-rep'')"

section \<open>Translation\<close>

text \<open>The request for an LRP under an instance guid and with a rootfs path.\<close>

definition lrp_request :: "LRP \<times> string \<times> string \<Rightarrow> AllocationRequest" where
  "lrp_request = (\<lambda>(lrp, guid, path).
     \<lparr>ar_Guid = guid, ar_Resource = work_resource (lrp_Resource lrp) path,
      ar_Tags = lrp_tags lrp guid\<rparr>)"

definition task_request :: "Task \<times> string \<Rightarrow> AllocationRequest" where
  "task_request = (\<lambda>(task, path).
     \<lparr>ar_Guid = TaskGuid task, ar_Resource = work_resource (task_Resource task) path,
      ar_Tags = Some [LifecycleTag \<mapsto> TaskLifecycle, DomainTag \<mapsto> task_Domain task]\<rparr>)"

lemma lrps_loop_result:
  "\<exists>placed unt'. eval (lrps_loop M a lrps (reqs, m, unt)) s =
     (reqs @ map lrp_request placed,
      fold (\<lambda>(lrp, guid, path). AList.update guid lrp) placed m, unt @ unt') \<and>
     mset lrps = mset (map fst placed) + mset unt' \<and>
     (\<forall>(lrp, guid, path) \<in> set placed.
        PathForRootFS M (pc_RootFs (lrp_Placement lrp)) (a_stackPathMap a) = Inr path)"
proof (induction lrps arbitrary: reqs m unt s)
  case Nil
  show ?case by (intro exI [of _ "[]"]) simp
next
  case (Cons lrp lrps)
  let ?gen = "a_generateInstanceGuid a"
  let ?path = "PathForRootFS M (pc_RootFs (lrp_Placement lrp)) (a_stackPathMap a)"
  show ?case
  proof (cases "(\<exists>e. eval ?gen s = Inl e) \<or> (\<exists>e. ?path = Inl e)")
    case True
    then have "eval (lrps_loop M a (lrp # lrps) (reqs, m, unt)) s =
        eval (lrps_loop M a lrps (reqs, m, unt @ [lrp])) (exec ?gen s)"
      by (auto split: sum.split)
    moreover obtain placed unt' where "eval (lrps_loop M a lrps (reqs, m, unt @ [lrp]))
        (exec ?gen s) = (reqs @ map lrp_request placed,
          fold (\<lambda>(lrp, guid, path). AList.update guid lrp) placed m, (unt @ [lrp]) @ unt')"
        "mset lrps = mset (map fst placed) + mset unt'" "\<forall>(lrp, guid, path) \<in> set placed.
          PathForRootFS M (pc_RootFs (lrp_Placement lrp)) (a_stackPathMap a) = Inr path"
      using Cons.IH by blast
    ultimately show ?thesis by (intro exI [of _ placed] exI [of _ "lrp # unt'"]) simp
  next
    case False
    then obtain guid path where gen: "eval ?gen s = Inr guid" and path: "?path = Inr path"
      by (metis sum.exhaust)
    obtain placed unt' where "eval (lrps_loop M a lrps (reqs @ [lrp_request (lrp, guid, path)],
        AList.update guid lrp m, unt)) (exec ?gen s) =
        ((reqs @ [lrp_request (lrp, guid, path)]) @ map lrp_request placed,
          fold (\<lambda>(lrp, guid, path). AList.update guid lrp) placed (AList.update guid lrp m),
          unt @ unt')"
        "mset lrps = mset (map fst placed) + mset unt'" "\<forall>(lrp, guid, path) \<in> set placed.
          PathForRootFS M (pc_RootFs (lrp_Placement lrp)) (a_stackPathMap a) = Inr path"
      using Cons.IH by blast
    with gen path show ?thesis
      by (intro exI [of _ "(lrp, guid, path) # placed"] exI [of _ unt'])
        (simp add: LRPContainerGuid_def lrp_request_def)
  qed
qed

lemma tasks_loop_result:
  "\<exists>placed failed'. tasks_loop M a tasks (reqs, m, failed) =
     (reqs @ map task_request placed,
      fold (\<lambda>task. AList.update (TaskGuid task) task) tasks m, failed @ failed') \<and>
     mset tasks = mset (map fst placed) + mset failed' \<and>
     set (map fst placed) \<subseteq> set tasks \<and>
     (\<forall>(task, path) \<in> set placed.
        PathForRootFS M (pc_RootFs (task_Placement task)) (a_stackPathMap a) = Inr path)"
proof (induction tasks arbitrary: reqs m failed)
  case Nil
  show ?case by (intro exI [of _ "[]"]) simp
next
  case (Cons task tasks)
  let ?path = "PathForRootFS M (pc_RootFs (task_Placement task)) (a_stackPathMap a)"
  let ?m = "AList.update (TaskGuid task) task m"
  show ?case
  proof (cases ?path)
    case (Inl e)
    from Cons.IH [of reqs ?m "failed @ [task]"] obtain placed failed' where
      "tasks_loop M a tasks (reqs, ?m, failed @ [task]) = (reqs @ map task_request placed,
         fold (\<lambda>task. AList.update (TaskGuid task) task) tasks ?m, (failed @ [task]) @ failed')"
      "mset tasks = mset (map fst placed) + mset failed'" "set (map fst placed) \<subseteq> set tasks"
      "\<forall>(task, path) \<in> set placed.
         PathForRootFS M (pc_RootFs (task_Placement task)) (a_stackPathMap a) = Inr path"
      by blast
    with Inl show ?thesis
      by (intro exI [of _ placed] exI [of _ "task # failed'"]) auto
  next
    case (Inr path)
    from Cons.IH [of "reqs @ [task_request (task, path)]" ?m failed] obtain placed failed' where
      "tasks_loop M a tasks (reqs @ [task_request (task, path)], ?m, failed) =
        ((reqs @ [task_request (task, path)]) @ map task_request placed,
         fold (\<lambda>task. AList.update (TaskGuid task) task) tasks ?m, failed @ failed')"
      "mset tasks = mset (map fst placed) + mset failed'" "set (map fst placed) \<subseteq> set tasks"
      "\<forall>(task, path) \<in> set placed.
         PathForRootFS M (pc_RootFs (task_Placement task)) (a_stackPathMap a) = Inr path"
      by blast
    with Inr show ?thesis
      by (intro exI [of _ "(task, path) # placed"] exI [of _ failed'])
        (auto simp: task_request_def)
  qed
qed

section \<open>Refused work\<close>

lemma failures_loop_eq:
  "failures_loop m failures failed =
     failed @ List.map_filter (map_of m) (map (\<lambda>f. ar_Guid (af_Request f)) failures)"
  by (induction failures arbitrary: failed) (auto simp: map_filter_def split: option.split)

text \<open>What was requested splits into what was refused and what was taken.\<close>

lemma refused_partition:
  assumes "distinct (map key placed)" "distinct gs" "set gs \<subseteq> key ` set placed"
    and m: "\<And>x. x \<in> set placed \<Longrightarrow> map_of m (key x) = Some (val x)"
  shows "mset (map val placed) = mset (List.map_filter (map_of m) gs) +
    mset (map val (filter (\<lambda>x. key x \<notin> set gs) placed))"
proof -
  have "distinct (map key (filter (\<lambda>x. key x \<in> set gs) placed))"
    using assms(1) by (simp add: distinct_map inj_on_def)
  moreover have "set gs = set (map key (filter (\<lambda>x. key x \<in> set gs) placed))"
    using assms(3) by auto
  ultimately have gs: "mset gs = mset (map key (filter (\<lambda>x. key x \<in> set gs) placed))"
    using assms(2) by (metis set_eq_iff_mset_eq_distinct)
  have "List.map_filter (map_of m) gs = map (the \<circ> map_of m) gs"
    using assms(3) m by (induction gs) (auto simp: map_filter_def)
  then have "mset (List.map_filter (map_of m) gs) =
      image_mset (the \<circ> map_of m) (mset gs)" by simp
  also have "\<dots> = mset (map (the \<circ> map_of m \<circ> key) (filter (\<lambda>x. key x \<in> set gs) placed))"
    unfolding gs by (simp add: image_mset.compositionality comp_assoc)
  also have "map (the \<circ> map_of m \<circ> key) (filter (\<lambda>x. key x \<in> set gs) placed) =
      map val (filter (\<lambda>x. key x \<in> set gs) placed)"
    using m by simp
  finally show ?thesis
    by (simp flip: image_mset_union)
qed

lemma map_of_fold_update_distinct:
  assumes "distinct (map key xs)" "x \<in> set xs"
  shows "map_of (fold (\<lambda>x. AList.update (key x) (val x)) xs m) (key x) = Some (val x)"
  using assms
proof (induction xs arbitrary: m)
  case (Cons y xs)
  have skip: "map_of (fold (\<lambda>x. AList.update (key x) (val x)) xs m) k = map_of m k"
    if "k \<notin> key ` set xs" for k m
    using that by (induction xs arbitrary: m) (auto simp: update_conv')
  from Cons show ?case
    by (auto simp: skip update_conv')
qed simp

text \<open>An action that makes no recorded call.\<close>

definition silent :: "('w, 'a) act \<Rightarrow> bool" where
  "silent m \<longleftrightarrow> appends m \<and> (\<forall>s. calls m s = [])"

lemma GenerateGuid_silent: "silent (GenerateGuid S)"
  by (auto simp: silent_def GenerateGuid_def calls_bind split: sum.split)

lemma lrps_loop_silent:
  assumes "silent (a_generateInstanceGuid a)"
  shows "silent (lrps_loop M a lrps acc)"
proof (induction lrps arbitrary: acc)
  case (Cons lrp lrps)
  obtain reqs m unt where acc: "acc = (reqs, m, unt)" by (cases acc)
  have "appends (lrps_loop M a lrps acc')" "calls (lrps_loop M a lrps acc') s = []" for acc' s
    using Cons.IH by (auto simp: silent_def)
  with assms show ?case
    by (auto simp: silent_def acc calls_bind Let_def split: sum.split)
qed (simp add: silent_def)

text \<open>
  What is assumed of the guids and of the executor, in terms of what happened: no two requests
  of one allocation have the same guid, and the refusals are among the requests, each at most
  once.
\<close>

definition allocations_sane :: "event list \<Rightarrow> bool" where
  "allocations_sane es \<longleftrightarrow>
     (\<forall>reqs r. (AllocateContainers reqs, r) \<in> set es \<longrightarrow>
        distinct (map ar_Guid reqs) \<and>
        (\<forall>gs. r = Refused gs \<longrightarrow> distinct gs \<and> set gs \<subseteq> ar_Guid ` set reqs))"

text \<open>The executor was asked for the request and did not refuse it.\<close>

definition taken :: "event list \<Rightarrow> AllocationRequest \<Rightarrow> bool" where
  "taken es req \<longleftrightarrow>
     (\<exists>reqs gs. (AllocateContainers reqs, Refused gs) \<in> set es \<and>
        req \<in> set reqs \<and> ar_Guid req \<notin> set gs)"

lemma lrp_request_Guid: "ar_Guid (lrp_request x) = fst (snd x)"
  by (simp add: lrp_request_def split_def)

lemma task_request_Guid: "ar_Guid (task_request x) = TaskGuid (fst x)"
  by (simp add: task_request_def split_def)

lemma appends_case_prod [simp, intro]:
  "(\<And>x y. appends (f x y)) \<Longrightarrow> appends (case p of (x, y) \<Rightarrow> f x y)"
  by (cases p) simp

text \<open>
  One allocation: what comes back, the untranslated work and the work of the refused requests, and
  the requests that were taken make up the work that was given.
\<close>

lemma allocation_partition:
  assumes es: "es = [(AllocateContainers (map req placed), alloc_reply r)]"
    and sane: "allocations_sane es" and req: "\<And>x. ar_Guid (req x) = key x"
    and all: "mset work = mset (map fst placed) + mset unt"
    and m: "\<And>x. distinct (map key placed) \<Longrightarrow> x \<in> set placed \<Longrightarrow> map_of m (key x) = Some (fst x)"
    and out: "out = (case r of Inl err \<Rightarrow> work | Inr failures \<Rightarrow> failures_loop m failures unt)"
  shows "\<exists>placed'. mset work = mset out + mset (map fst placed') \<and> (\<forall>x \<in> set placed'. taken es (req x))"
proof (cases r)
  case (Inl err)
  then show ?thesis by (intro exI [of _ "[]"]) (simp add: out)
next
  case (Inr failures)
  let ?gs = "map (\<lambda>f. ar_Guid (af_Request f)) failures"
  let ?taken = "filter (\<lambda>x. key x \<notin> set ?gs) placed"
  have reply: "es = [(AllocateContainers (map req placed), Refused ?gs)]"
    by (simp add: es Inr alloc_reply_def)
  with sane have d: "distinct (map key placed)" "distinct ?gs" "set ?gs \<subseteq> key ` set placed"
    by (auto simp: allocations_sane_def req comp_def image_image)
  from refused_partition [OF d m [OF d(1)]] have "mset (map fst placed) =
      mset (List.map_filter (map_of m) ?gs) + mset (map fst ?taken)" .
  moreover have "out = unt @ List.map_filter (map_of m) ?gs"
    by (simp add: out Inr failures_loop_eq)
  ultimately have "mset work = mset out + mset (map fst ?taken)"
    using all by simp
  then show ?thesis
    by (intro exI [of _ ?taken]) (auto simp: reply taken_def req)
qed

lemma perform_lrps_partition:
  assumes gen: "silent (a_generateInstanceGuid a)"
    and sane: "allocations_sane (calls (perform_lrps M a lrps) s)"
  shows "\<exists>placed. mset lrps = mset (eval (perform_lrps M a lrps) s) + mset (map fst placed) \<and>
    (\<forall>x \<in> set placed. taken (calls (perform_lrps M a lrps) s) (lrp_request x))"
proof -
  let ?loop = "lrps_loop M a lrps ([], [], [])"
  have silent: "appends ?loop" "calls ?loop s = []"
    using lrps_loop_silent [OF gen] by (auto simp: silent_def)
  obtain placed unt where loop: "eval ?loop s =
      (map lrp_request placed, fold (\<lambda>(lrp, guid, path). AList.update guid lrp) placed [], unt)"
    and all: "mset lrps = mset (map fst placed) + mset unt"
    using lrps_loop_result [of M a lrps "[]" "[]" "[]" s] by auto
  let ?m = "fold (\<lambda>(lrp, guid, path). AList.update guid lrp) placed []"
  let ?r = "fst (svc_AllocateContainers (a_client a) (map lrp_request placed) (ext (exec ?loop s)))"
  show ?thesis
  proof (rule allocation_partition [OF _ sane _ all, where m = ?m and r = ?r])
    show "calls (perform_lrps M a lrps) s = [(AllocateContainers (map lrp_request placed), alloc_reply ?r)]"
      by (simp add: perform_lrps_def lrpsToAllocationRequest_def calls_bind silent loop split: sum.split)
    show "eval (perform_lrps M a lrps) s =
        (case ?r of Inl err \<Rightarrow> lrps | Inr failures \<Rightarrow> failures_loop ?m failures unt)"
      by (cases unt) (simp_all add: perform_lrps_def lrpsToAllocationRequest_def loop split: sum.split)
    show "map_of ?m (fst (snd x)) = Some (fst x)"
      if "distinct (map (\<lambda>x. fst (snd x)) placed)" "x \<in> set placed" for x
      using map_of_fold_update_distinct [OF that, of fst "[]"] by (simp add: split_def)
  qed (simp add: lrp_request_Guid)
qed

lemma perform_tasks_partition:
  assumes guids: "distinct (map TaskGuid tasks)"
    and sane: "allocations_sane (calls (perform_tasks M a tasks) s)"
  shows "\<exists>placed. mset tasks = mset (eval (perform_tasks M a tasks) s) + mset (map fst placed) \<and>
    (\<forall>x \<in> set placed. taken (calls (perform_tasks M a tasks) s) (task_request x))"
proof -
  let ?m = "fold (\<lambda>task. AList.update (TaskGuid task) task) tasks []"
  obtain placed unt where loop: "tasksToAllocationRequests M a tasks =
      (map task_request placed, ?m, unt)"
    and all: "mset tasks = mset (map fst placed) + mset unt"
    and sub: "set (map fst placed) \<subseteq> set tasks"
    using tasks_loop_result [of M a tasks "[]" "[]" "[]"]
    by (auto simp: tasksToAllocationRequests_def)
  let ?r = "fst (svc_AllocateContainers (a_client a) (map task_request placed) (ext s))"
  show ?thesis
  proof (rule allocation_partition [OF _ sane _ all, where m = ?m and r = ?r])
    show "calls (perform_tasks M a tasks) s = [(AllocateContainers (map task_request placed), alloc_reply ?r)]"
      by (simp add: perform_tasks_def calls_bind loop split: sum.split)
    show "eval (perform_tasks M a tasks) s =
        (case ?r of Inl err \<Rightarrow> tasks | Inr failures \<Rightarrow> failures_loop ?m failures unt)"
      by (cases unt) (simp_all add: perform_tasks_def loop split: sum.split)
    show "map_of ?m (TaskGuid (fst x)) = Some (fst x)" if "x \<in> set placed" for x
      using map_of_fold_update_distinct [OF guids, of "fst x" "\<lambda>x. x" "[]"] sub that by auto
  qed (simp add: task_request_Guid)
qed

section \<open>Properties of the cell rep\<close>

lemma perform_lrps_appends:
  "silent (a_generateInstanceGuid a) \<Longrightarrow> appends (perform_lrps M a lrps)"
  using lrps_loop_silent [of a M lrps "([], [], [])"]
  by (simp add: perform_lrps_def lrpsToAllocationRequest_def silent_def)

lemma perform_tasks_appends: "appends (perform_tasks M a tasks)"
  by (simp add: perform_tasks_def)

lemma allocations_sane_append:
  "allocations_sane (xs @ ys) \<longleftrightarrow> allocations_sane xs \<and> allocations_sane ys"
  unfolding allocations_sane_def set_append Un_iff by blast

lemma taken_append: "taken xs req \<or> taken ys req \<Longrightarrow> taken (xs @ ys) req"
  unfolding taken_def by (metis Un_iff set_append)

lemma sane_Nil [simp]: "allocations_sane []"
  by (simp add: allocations_sane_def)

text \<open>
  C28: No work that the auction sends is lost or duplicated. An evacuating cell returns all of
  it and asks for nothing. Otherwise the LRPs and tasks of the work are, as multisets, the
  failed ones that are returned together with those whose allocation request, made with the
  LRP's or task's own data, the executor took.
\<close>

theorem perform_partitions_work:
  assumes gen: "silent (a_generateInstanceGuid a)"
    and guids: "distinct (map TaskGuid (work_Tasks work))"
    and sane: "allocations_sane (calls (Perform M a work) s)"
  shows "if Evacuating_now (evac s)
    then eval (Perform M a work) s = Inr work \<and> calls (Perform M a work) s = []
    else \<exists>failed lrps tasks. eval (Perform M a work) s = Inr failed \<and>
      mset (work_LRPs work) = mset (work_LRPs failed) + mset (map fst lrps) \<and>
      mset (work_Tasks work) = mset (work_Tasks failed) + mset (map fst tasks) \<and>
      list_all (\<lambda>x. taken (calls (Perform M a work) s) (lrp_request x)) lrps \<and>
      list_all (\<lambda>x. taken (calls (Perform M a work) s) (task_request x)) tasks"
proof (cases "Evacuating_now (evac s)")
  case True
  then show ?thesis
    by (simp add: Perform_def calls_def)
next
  case False
  let ?l = "if length (work_LRPs work) > 0 then perform_lrps M a (work_LRPs work) else return []"
  let ?t = "if length (work_Tasks work) > 0 then perform_tasks M a (work_Tasks work) else return []"
  let ?s = "exec ?l s"
  have app: "appends ?l" "appends ?t"
    using perform_lrps_appends [OF gen] perform_tasks_appends by auto
  have Perform: "calls (Perform M a work) s = calls ?l s @ calls ?t ?s"
    "eval (Perform M a work) s = Inr \<lparr>work_LRPs = eval ?l s, work_Tasks = eval ?t ?s\<rparr>"
    using False app by (simp_all add: Perform_def calls_bind appends_bind)
  with sane have sane': "allocations_sane (calls ?l s)" "allocations_sane (calls ?t ?s)"
    by (simp_all only: allocations_sane_append)
  obtain lrps where lrps: "mset (work_LRPs work) = mset (eval ?l s) + mset (map fst lrps)"
      "\<forall>x \<in> set lrps. taken (calls ?l s) (lrp_request x)"
    using perform_lrps_partition [OF gen, of M "work_LRPs work" s] sane'(1)
    by (cases "work_LRPs work = []") auto
  obtain tasks where tasks: "mset (work_Tasks work) = mset (eval ?t ?s) + mset (map fst tasks)"
      "\<forall>x \<in> set tasks. taken (calls ?t ?s) (task_request x)"
    using perform_tasks_partition [OF guids, of M a ?s] sane'(2)
    by (cases "work_Tasks work = []") auto
  show ?thesis
    unfolding Perform if_not_P [OF False]
    using lrps(1) tasks(1) lrps(2) [THEN bspec, THEN taken_append [OF disjI1]]
      tasks(2) [THEN bspec, THEN taken_append [OF disjI2]]
    by (intro exI [of _ "\<lparr>work_LRPs = eval ?l s, work_Tasks = eval ?t ?s\<rparr>"] exI [of _ lrps]
        exI [of _ tasks] conjI) (simp_all only: list_all_iff Work.simps, blast+)
qed

definition example_rep :: "unit AuctionCellRep" where
  "example_rep = auctioncellrep_New example_api rev ''cell'' [(''linux'', ''/rootfs'')]
     [''docker''] ''z1'' (GenerateGuid example_services) example_services [] []"

definition example_work :: Work where
  "example_work =
     \<lparr>work_LRPs = [NewLRP example_key (NewResource 256 512 10)
        (NewPlacementConstraint ''preloaded:linux'' [] [])],
      work_Tasks = [NewTask ''tg'' ''cf'' (NewResource 256 512 10)
        (NewPlacementConstraint ''preloaded:linux'' [] [])]\<rparr>"

lemma example_path: "PathForRootFS example_api ''preloaded:linux'' [(''linux'', ''/rootfs'')] =
    Inr ''/rootfs''"
  by (simp add: PathForRootFS_def url_Parse_example example_api_def)

lemma example_perform_calls:
  "\<exists>r1 r2. calls (Perform example_api example_rep example_work) example_world =
     [(AllocateContainers [r1], Refused []), (AllocateContainers [r2], Refused [])]"
  by (simp add: Perform_def calls_def example_rep_def auctioncellrep_New_def example_work_def
      NewLRP_def NewTask_def NewPlacementConstraint_def perform_lrps_def perform_tasks_def
      lrpsToAllocationRequest_def tasksToAllocationRequests_def GenerateGuid_def example_path
      example_services_def alloc_reply_def Let_def)

theorem perform_partitions_work_witness:
  "\<exists>failed lrps. eval (Perform example_api example_rep example_work) example_world = Inr failed \<and>
     mset (work_LRPs example_work) = mset (work_LRPs failed) + mset (map fst lrps) \<and>
     list_all (\<lambda>x. taken (calls (Perform example_api example_rep example_work) example_world)
       (lrp_request x)) lrps"
proof -
  have "allocations_sane (calls (Perform example_api example_rep example_work) example_world)"
    using example_perform_calls by (auto simp: allocations_sane_def)
  moreover have "silent (a_generateInstanceGuid example_rep)"
    by (simp add: example_rep_def auctioncellrep_New_def GenerateGuid_silent)
  moreover have "distinct (map TaskGuid (work_Tasks example_work))"
    by (simp add: example_work_def)
  ultimately show ?thesis
    using perform_partitions_work [of example_rep example_work example_api example_world]
    by auto
qed

text \<open>Each request of an allocation is made for an LRP or a task of the work.\<close>

definition request_for :: "Work \<Rightarrow> AllocationRequest \<Rightarrow> bool" where
  "request_for work req \<longleftrightarrow>
     (\<exists>lrp guid path. lrp \<in> set (work_LRPs work) \<and> req = lrp_request (lrp, guid, path)) \<or>
     (\<exists>task path. task \<in> set (work_Tasks work) \<and> req = task_request (task, path))"

lemma perform_lrps_requests:
  assumes "silent (a_generateInstanceGuid a)"
    and "(AllocateContainers reqs, r) \<in> set (calls (perform_lrps M a lrps) s)" "req \<in> set reqs"
  shows "\<exists>lrp guid path. lrp \<in> set lrps \<and> req = lrp_request (lrp, guid, path)"
proof -
  let ?loop = "lrps_loop M a lrps ([], [], [])"
  have silent: "appends ?loop" "calls ?loop s = []"
    using lrps_loop_silent [OF assms(1)] by (auto simp: silent_def)
  obtain placed unt m where loop: "eval ?loop s = (map lrp_request placed, m, unt)"
    and "mset lrps = mset (map fst placed) + mset unt"
    using lrps_loop_result [of M a lrps "[]" "[]" "[]" s] by auto
  then have "set (map fst placed) \<subseteq> set lrps"
    by (metis mset_subset_eq_add_left set_mset_mono set_mset_mset)
  moreover have "reqs = map lrp_request placed"
    using assms(2) silent
    by (auto simp: perform_lrps_def lrpsToAllocationRequest_def calls_bind loop split: sum.splits)
  ultimately show ?thesis using assms(3) by fastforce
qed

lemma perform_tasks_requests:
  assumes "(AllocateContainers reqs, r) \<in> set (calls (perform_tasks M a tasks) s)" "req \<in> set reqs"
  shows "\<exists>task path. task \<in> set tasks \<and> req = task_request (task, path)"
proof -
  obtain placed bad m where loop: "tasks_loop M a tasks ([], [], []) = (map task_request placed, m, bad)"
    and "set (map fst placed) \<subseteq> set tasks"
    using tasks_loop_result [of M a tasks "[]" "[]" "[]"] by auto
  moreover have "reqs = map task_request placed"
    using assms(1)
    by (auto simp: perform_tasks_def tasksToAllocationRequests_def calls_bind loop split: sum.splits)
  ultimately show ?thesis using assms(2) by fastforce
qed

lemma perform_requests:
  assumes "silent (a_generateInstanceGuid a)"
    and "(AllocateContainers reqs, r) \<in> set (calls (Perform M a work) s)" "req \<in> set reqs"
  shows "request_for work req"
proof (cases "Evacuating_now (evac s)")
  case False
  let ?l = "if length (work_LRPs work) > 0 then perform_lrps M a (work_LRPs work) else return []"
  let ?t = "if length (work_Tasks work) > 0 then perform_tasks M a (work_Tasks work) else return []"
  have "appends ?l" "appends ?t"
    using perform_lrps_appends [OF assms(1)] perform_tasks_appends by auto
  then have "calls (Perform M a work) s = calls ?l s @ calls ?t (exec ?l s)"
    using False by (simp add: Perform_def calls_bind appends_bind)
  with assms(2) have "(AllocateContainers reqs, r) \<in> set (calls (perform_lrps M a (work_LRPs work)) s) \<or>
      (\<exists>s'. (AllocateContainers reqs, r) \<in> set (calls (perform_tasks M a (work_Tasks work)) s'))"
    by (auto split: if_splits)
  then show ?thesis
    using perform_lrps_requests [OF assms(1) _ assms(3)] perform_tasks_requests [OF _ assms(3)]
    unfolding request_for_def by blast
qed (use assms(2) in \<open>simp add: Perform_def calls_def\<close>)

lemma lrp_tags_keys:
  assumes "ActualLRPKey_Validate M (lrp_Key lrp) = None" "c_Tags c = ar_Tags (lrp_request (lrp, guid, path))"
    and "ActualLRPInstanceKey_Validate M \<lparr>InstanceGuid = guid, CellId = cellID\<rparr> = None"
  shows "tag_get (c_Tags c) LifecycleTag = LRPLifecycle"
    "ActualLRPKeyFromTags M (c_Tags c) = Inr (lrp_Key lrp)"
    "ActualLRPInstanceKeyFromContainer M c cellID = Inr \<lparr>InstanceGuid = guid, CellId = cellID\<rparr>"
  using assms
  by (simp_all add: lrp_request_def lrp_tags_def ActualLRPKeyFromTags_def
      ActualLRPInstanceKeyFromContainer_def tag_defs tag_get_simps Let_def key_eta)

text \<open>
  The tags of an allocation request identify the LRP it was made for. A container with
  those tags is an LRP container, its LRP key is the key of the LRP (the process index
  survives printing and parsing at 32 bits), its instance key has the request's guid, and that
  guid is the guid of the container.
\<close>

theorem request_identifies_lrp:
  assumes "c_Tags c = ar_Tags (lrp_request (lrp, guid, path))"
    and "ActualLRPKey_Validate M (lrp_Key lrp) = None"
    and "ActualLRPInstanceKey_Validate M \<lparr>InstanceGuid = guid, CellId = cellID\<rparr> = None"
  shows "tag_get (c_Tags c) LifecycleTag = LRPLifecycle \<and>
    ActualLRPKeyFromTags M (c_Tags c) = Inr (lrp_Key lrp) \<and>
    ActualLRPInstanceKeyFromContainer M c cellID =
      Inr \<lparr>InstanceGuid = guid, CellId = cellID\<rparr> \<and>
    ar_Guid (lrp_request (lrp, guid, path)) = LRPContainerGuid (ProcessGuid (lrp_Key lrp)) guid"
  using lrp_tags_keys [OF assms(2,1,3)] by (simp add: lrp_request_Guid LRPContainerGuid_def)

theorem request_identifies_lrp_witness:
  "ActualLRPKeyFromTags example_api
     (ar_Tags (lrp_request (hd (work_LRPs example_work), ''ig'', ''/rootfs''))) =
   Inr example_key"
  using request_identifies_lrp [of "(example_container StateReserved)
      \<lparr>c_Tags := ar_Tags (lrp_request (hd (work_LRPs example_work), ''ig'', ''/rootfs''))\<rparr>"
      "hd (work_LRPs example_work)" "''ig''" "''/rootfs''" example_api "''cell''"]
  by (simp add: example_work_def NewLRP_def example_api_def example_key_def nonblank_def)

text \<open>The LRP and the task that the state has for a container, if any.\<close>

definition container_lrp :: "ext_api \<Rightarrow> Container \<Rightarrow> LRP option" where
  "container_lrp M c =
     (if c_Tags c \<noteq> None \<and> tag_get (c_Tags c) LifecycleTag = LRPLifecycle
      then case ActualLRPKeyFromTags M (c_Tags c) of
             Inl _ \<Rightarrow> None
           | Inr key \<Rightarrow> Some (NewLRP key (state_resource c) no_constraint)
      else None)"

definition container_task :: "Container \<Rightarrow> Task option" where
  "container_task c =
     (if c_Tags c \<noteq> None \<and> tag_get (c_Tags c) LifecycleTag = TaskLifecycle
      then Some (NewTask (c_Guid c) (tag_get (c_Tags c) DomainTag) (state_resource c)
        no_constraint)
      else None)"

lemma state_loop_eq:
  "state_loop M cs (lrps, tasks, n) =
     (lrps @ List.map_filter (container_lrp M) cs, tasks @ List.map_filter container_task cs,
      n + of_nat (length (filter containerIsStarting cs)))"
proof (induction cs arbitrary: lrps tasks n)
  case (Cons c cs)
  have "LRPLifecycle \<noteq> TaskLifecycle" by (simp add: tag_defs)
  then show ?case
    by (auto simp: Cons.IH Let_def container_lrp_def container_task_def map_filter_def
        split: sum.split)
qed (simp add: map_filter_def)

definition cell_answers ::
  "'w services \<Rightarrow> Container list \<Rightarrow> ExecutorResources \<Rightarrow> ExecutorResources \<Rightarrow> string list \<Rightarrow> bool \<Rightarrow> bool"
where
  "cell_answers S cs total_r avail drivers healthy \<longleftrightarrow>
     (\<forall>w. fst (svc_ListContainers S w) = Inr cs) \<and>
     (\<forall>w. fst (svc_TotalResources S w) = Inr total_r) \<and>
     (\<forall>w. fst (svc_RemainingResources S w) = Inr avail) \<and>
     (\<forall>w. fst (svc_VolumeDrivers S w) = Inr drivers) \<and>
     (\<forall>w. fst (svc_Healthy S w) = healthy)"

lemma state_reported:
  assumes "cell_answers (a_client a) cs total_r avail drivers healthy"
  shows "\<exists>st. eval (auction_State M a) s = Inr (st, healthy) \<and>
    LRPs st = List.map_filter (container_lrp M) cs \<and>
    Tasks st = List.map_filter container_task cs \<and>
    StartingContainerCount st = of_nat (length (filter containerIsStarting cs)) \<and>
    AvailableResources st = convertResources avail \<and>
    TotalResources st = convertResources total_r \<and>
    Evacuating st = Evacuating_now (evac s) \<and> VolumeDrivers st = drivers \<and>
    RootFSProviders_of st = a_rootFSProviders a \<and> Zone st = a_zone a \<and>
    PlacementTags st = a_placementTags a \<and>
    OptionalPlacementTags st = a_optionalPlacementTags a"
  using assms
  by (auto simp: cell_answers_def auction_State_def state_loop_eq NewCellState_def)

lemma example_answers:
  "cell_answers (a_client example_rep) [example_container StateReserved]
     \<lparr>er_MemoryMB = 1024, er_DiskMB = 2048, er_Containers = 10\<rparr>
     \<lparr>er_MemoryMB = 512, er_DiskMB = 1024, er_Containers = 9\<rparr> [''nfs''] True"
  by (simp add: cell_answers_def example_rep_def auctioncellrep_New_def example_services_def)

lemma example_containers:
  "List.map_filter (container_lrp example_api) [example_container StateReserved] =
     [NewLRP example_key (state_resource (example_container StateReserved)) no_constraint]"
  "filter containerIsStarting [example_container StateReserved] = [example_container StateReserved]"
proof -
  have "tag_get example_tags LifecycleTag = LRPLifecycle" "example_tags \<noteq> None"
    by (simp_all add: example_tags_def tag_defs tag_get_simps)
  then show "List.map_filter (container_lrp example_api) [example_container StateReserved] =
      [NewLRP example_key (state_resource (example_container StateReserved)) no_constraint]"
    "filter containerIsStarting [example_container StateReserved] = [example_container StateReserved]"
    by (simp_all add: map_filter_def container_lrp_def containerIsStarting_def example_keys)
qed

text \<open>
  C29: The reported state is the state of the cell. When the executor answers, \<open>State\<close>
  returns a cell state with the LRPs and the tasks of its containers in order (those with
  unusable tags left out), the number of starting containers, the converted resources, the
  evacuation flag and the volume drivers, together with the health of the executor.
\<close>

theorem state_reports_cell:
  assumes "cell_answers (a_client a) cs total_r avail drivers healthy"
  shows "\<exists>st. eval (auction_State M a) s = Inr (st, healthy) \<and>
    LRPs st = List.map_filter (container_lrp M) cs \<and>
    Tasks st = List.map_filter container_task cs \<and>
    StartingContainerCount st = of_nat (length (filter containerIsStarting cs)) \<and>
    AvailableResources st = convertResources avail \<and>
    TotalResources st = convertResources total_r \<and>
    Evacuating st = Evacuating_now (evac s) \<and> VolumeDrivers st = drivers \<and>
    RootFSProviders_of st = a_rootFSProviders a \<and> Zone st = a_zone a \<and>
    PlacementTags st = a_placementTags a \<and>
    OptionalPlacementTags st = a_optionalPlacementTags a"
  by (rule state_reported [OF assms])

theorem state_reports_cell_witness:
  "\<exists>st. eval (auction_State example_api example_rep) example_world = Inr (st, True) \<and>
     LRPs st = [NewLRP example_key (state_resource (example_container StateReserved)) no_constraint] \<and>
     StartingContainerCount st = 1"
proof -
  show ?thesis
    using state_reports_cell [OF example_answers, of example_api example_world] example_containers by auto
qed

text \<open>
  C30: A cell can place what it advertises. If the state that a cell reports matches a rootfs,
  then the rootfs has a path in the cell's own stack map (or needs none), so an LRP or a task
  that was placed for this rootfs is not returned as untranslatable for it.
\<close>

theorem advertised_rootfs_has_path:
  assumes "map_order ord"
    and "RootFSProviders_of st = rootFSProviders M ord stacks arbitrary"
    and "MatchRootFS st rootfs = Ret True"
  shows "\<exists>path. PathForRootFS M rootfs stacks = Inr path"
proof -
  have stacks: "StringSet_Contains (NewStringSet (map fst (ord stacks))) x \<longleftrightarrow>
      map_of stacks x \<noteq> None" for x
    using assms(1) by (simp add: map_order_set map_of_eq_None_iff)
  from assms(3) obtain u where "url_Parse rootfs = Inr u"
      "RootFSProviders_Match (rootFSProviders M ord stacks arbitrary) u = Ret True"
    by (auto simp: MatchRootFS_def assms(2) split: sum.splits)
  then show ?thesis
    using stacks [of "Opaque u"]
    by (auto simp: PathForRootFS_def RootFSProviders_Match_def rootFSProviders_def Let_def
        update_conv' NewFixedSetRootFSProvider_def split: option.splits if_splits)
qed

theorem advertised_rootfs_has_path_witness:
  "\<exists>path. PathForRootFS example_api ''preloaded:linux'' [(''linux'', ''/rootfs'')] = Inr path"
proof (rule advertised_rootfs_has_path [where ord = rev and arbitrary = "[''docker'']"
      and st = "example_cell\<lparr>RootFSProviders_of :=
        rootFSProviders example_api rev [(''linux'', ''/rootfs'')] [''docker'']\<rparr>"])
  show "MatchRootFS (example_cell\<lparr>RootFSProviders_of :=
      rootFSProviders example_api rev [(''linux'', ''/rootfs'')] [''docker'']\<rparr>)
      ''preloaded:linux'' = Ret True"
    by (simp add: MatchRootFS_def url_Parse_example RootFSProviders_Match_def rootFSProviders_def
        example_api_def NewFixedSetRootFSProvider_def Let_def)
qed simp_all

end
