(* ===== verification/Wire_Format.thy ===== *)
theory Wire_Format
  imports Resources
begin

text \<open>
  The JSON form of the values that the rep and its clients exchange: work and cell states.
  None of the structs of \<open>resources.go\<close> has JSON methods of its own (the root filesystem
  providers do), so \<open>encoding/json\<close> writes the exported fields under their names, those of
  embedded structs as if they were the outer struct's. The three names of the fields of
  \<open>models.ActualLRPKey\<close> come from struct tags of the \<open>models\<close> package and are parameters.
  A slice may be nil or empty, which the model does not tell apart; how an empty slice of a
  given field is written, \<open>null\<close> or \<open>[]\<close>, is a parameter as well.
\<close>

section \<open>Decoding into structs\<close>

text \<open>A key names the field that equals it, or else the first that equals it up to case.\<close>

definition find_field :: "(string \<times> 'f) list \<Rightarrow> string \<Rightarrow> 'f option" where
  "find_field fds key =
     (case map_of fds key of
        Some f \<Rightarrow> Some f
      | None \<Rightarrow> map_option snd (List.find (\<lambda>(name, _). fold_name name = fold_name key) fds))"

fun decode_fields ::
  "(string \<times> (json \<Rightarrow> 'a \<Rightarrow> go_error + 'a)) list \<Rightarrow> (string \<times> json) list \<Rightarrow> 'a \<Rightarrow> go_error + 'a"
where
  "decode_fields fds [] x = Inr x"
| "decode_fields fds ((k, j) # kvs) x =
     (case find_field fds k of
        None \<Rightarrow> decode_fields fds kvs x
      | Some dec \<Rightarrow>
          (case dec j x of Inl e \<Rightarrow> Inl e | Inr y \<Rightarrow> decode_fields fds kvs y))"

definition decode_struct ::
  "(string \<times> (json \<Rightarrow> 'a \<Rightarrow> go_error + 'a)) list \<Rightarrow> json \<Rightarrow> 'a \<Rightarrow> go_error + 'a" where
  "decode_struct fds j x =
     (case j of JObject kvs \<Rightarrow> decode_fields fds kvs x | JNull \<Rightarrow> Inr x | _ \<Rightarrow> Inl json_error)"

text \<open>A field of a record, by its selector and its update.\<close>

definition field ::
  "('a \<Rightarrow> 'v) \<Rightarrow> (('v \<Rightarrow> 'v) \<Rightarrow> 'a \<Rightarrow> 'a) \<Rightarrow> (json \<Rightarrow> 'v \<Rightarrow> go_error + 'v) \<Rightarrow>
     json \<Rightarrow> 'a \<Rightarrow> go_error + 'a" where
  "field sel upd dec j x =
     (case dec j (sel x) of Inl e \<Rightarrow> Inl e | Inr v \<Rightarrow> Inr (upd (\<lambda>_. v) x))"

text \<open>Numbers must be integers in the range of the type.\<close>

definition decode_int :: "json \<Rightarrow> go_int \<Rightarrow> go_error + go_int" where
  "decode_int j old =
     (case j of
        JNumber s \<Rightarrow> (case Atoi s of None \<Rightarrow> Inl json_error | Some n \<Rightarrow> Inr n)
      | JNull \<Rightarrow> Inr old
      | _ \<Rightarrow> Inl json_error)"

definition decode_int32 :: "json \<Rightarrow> int32 \<Rightarrow> go_error + int32" where
  "decode_int32 j old =
     (case j of
        JNumber s \<Rightarrow>
          (case Atoi s of
             None \<Rightarrow> Inl json_error
           | Some n \<Rightarrow>
               if - (2 ^ 31) \<le> sint n \<and> sint n < 2 ^ 31 then Inr (int32_of_int n)
               else Inl json_error)
      | JNull \<Rightarrow> Inr old
      | _ \<Rightarrow> Inl json_error)"

definition decode_bool :: "json \<Rightarrow> bool \<Rightarrow> go_error + bool" where
  "decode_bool j old = (case j of JBool b \<Rightarrow> Inr b | JNull \<Rightarrow> Inr old | _ \<Rightarrow> Inl json_error)"

text \<open>The elements of a slice are decoded over those that are there.\<close>

fun decode_elements ::
  "(json \<Rightarrow> 'a \<Rightarrow> go_error + 'a) \<Rightarrow> 'a \<Rightarrow> json list \<Rightarrow> 'a list \<Rightarrow> go_error + 'a list" where
  "decode_elements dec zero [] old = Inr []"
| "decode_elements dec zero (j # js) old =
     (case dec j (case old of [] \<Rightarrow> zero | x # _ \<Rightarrow> x) of
        Inl e \<Rightarrow> Inl e
      | Inr x \<Rightarrow>
          (case decode_elements dec zero js (tl old) of Inl e \<Rightarrow> Inl e | Inr xs \<Rightarrow> Inr (x # xs)))"

definition decode_slice ::
  "(json \<Rightarrow> 'a \<Rightarrow> go_error + 'a) \<Rightarrow> 'a \<Rightarrow> json \<Rightarrow> 'a list \<Rightarrow> go_error + 'a list" where
  "decode_slice dec zero j old =
     (case j of
        JArray js \<Rightarrow> decode_elements dec zero js old
      | JNull \<Rightarrow> Inr []
      | _ \<Rightarrow> Inl json_error)"

definition marshal_slice :: "json \<Rightarrow> ('a \<Rightarrow> json) \<Rightarrow> 'a list \<Rightarrow> json" where
  "marshal_slice nothing f xs = (if xs = [] then nothing else JArray (map f xs))"

definition marshal_int32 :: "int32 \<Rightarrow> json" where
  "marshal_int32 x = JNumber (Itoa (int_of_int32 x))"

section \<open>Work\<close>

record wire =
  tag_ProcessGuid :: string
  tag_Index :: string
  tag_Domain :: string
  empty_slice :: "string \<Rightarrow> json"

definition marshal_strings :: "wire \<Rightarrow> string \<Rightarrow> string list \<Rightarrow> json" where
  "marshal_strings W name xs = marshal_slice (empty_slice W name) JString xs"

definition marshal_placement :: "wire \<Rightarrow> PlacementConstraint \<Rightarrow> (string \<times> json) list" where
  "marshal_placement W p =
     [(''PlacementTags'', marshal_strings W ''PlacementTags'' (pc_PlacementTags p)),
      (''VolumeDrivers'', marshal_strings W ''VolumeDrivers'' (pc_VolumeDrivers p)),
      (''RootFs'', JString (pc_RootFs p))]"

definition marshal_resource :: "Resource \<Rightarrow> (string \<times> json) list" where
  "marshal_resource r =
     [(''MemoryMB'', marshal_int32 (res_MemoryMB r)), (''DiskMB'', marshal_int32 (res_DiskMB r)),
      (''MaxPids'', marshal_int32 (res_MaxPids r))]"

definition marshal_LRP :: "wire \<Rightarrow> LRP \<Rightarrow> json" where
  "marshal_LRP W lrp =
     JObject ([(tag_ProcessGuid W, JString (ProcessGuid (lrp_Key lrp))),
               (tag_Index W, marshal_int32 (Index (lrp_Key lrp))),
               (tag_Domain W, JString (Domain (lrp_Key lrp)))] @
              marshal_placement W (lrp_Placement lrp) @ marshal_resource (lrp_Resource lrp))"

definition marshal_Task :: "wire \<Rightarrow> Task \<Rightarrow> json" where
  "marshal_Task W task =
     JObject ([(''TaskGuid'', JString (TaskGuid task)), (''Domain'', JString (task_Domain task))] @
              marshal_placement W (task_Placement task) @ marshal_resource (task_Resource task))"

definition marshal_Work :: "wire \<Rightarrow> Work \<Rightarrow> json" where
  "marshal_Work W work =
     JObject [(''LRPs'', marshal_slice (empty_slice W ''LRPs'') (marshal_LRP W) (work_LRPs work)),
              (''Tasks'', marshal_slice (empty_slice W ''Tasks'') (marshal_Task W) (work_Tasks work))]"

definition placement_fields ::
  "(('p \<Rightarrow> PlacementConstraint) \<times> ((PlacementConstraint \<Rightarrow> PlacementConstraint) \<Rightarrow> 'p \<Rightarrow> 'p)) \<Rightarrow>
     (string \<times> (json \<Rightarrow> 'p \<Rightarrow> go_error + 'p)) list" where
  "placement_fields lens =
     (case lens of (sel, upd) \<Rightarrow>
        [(''PlacementTags'', field (pc_PlacementTags \<circ> sel) (upd \<circ> pc_PlacementTags_update)
            (decode_slice decode_string '''')),
         (''VolumeDrivers'', field (pc_VolumeDrivers \<circ> sel) (upd \<circ> pc_VolumeDrivers_update)
            (decode_slice decode_string '''')),
         (''RootFs'', field (pc_RootFs \<circ> sel) (upd \<circ> pc_RootFs_update) decode_string)])"

definition resource_fields ::
  "(('p \<Rightarrow> Resource) \<times> ((Resource \<Rightarrow> Resource) \<Rightarrow> 'p \<Rightarrow> 'p)) \<Rightarrow>
     (string \<times> (json \<Rightarrow> 'p \<Rightarrow> go_error + 'p)) list" where
  "resource_fields lens =
     (case lens of (sel, upd) \<Rightarrow>
        [(''MemoryMB'', field (res_MemoryMB \<circ> sel) (upd \<circ> res_MemoryMB_update) decode_int32),
         (''DiskMB'', field (res_DiskMB \<circ> sel) (upd \<circ> res_DiskMB_update) decode_int32),
         (''MaxPids'', field (res_MaxPids \<circ> sel) (upd \<circ> res_MaxPids_update) decode_int32)])"

definition zero_PlacementConstraint :: PlacementConstraint where
  "zero_PlacementConstraint = \<lparr>pc_PlacementTags = [], pc_VolumeDrivers = [], pc_RootFs = ''''\<rparr>"

definition zero_Resource :: Resource where
  "zero_Resource = \<lparr>res_MemoryMB = 0, res_DiskMB = 0, res_MaxPids = 0\<rparr>"

definition zero_LRP :: LRP where
  "zero_LRP =
     \<lparr>lrp_Key = \<lparr>ProcessGuid = '''', Index = 0, Domain = ''''\<rparr>,
      lrp_Placement = zero_PlacementConstraint, lrp_Resource = zero_Resource\<rparr>"

definition zero_Task :: Task where
  "zero_Task =
     \<lparr>TaskGuid = '''', task_Domain = '''', task_Placement = zero_PlacementConstraint,
      task_Resource = zero_Resource\<rparr>"

definition zero_Work :: Work where
  "zero_Work = \<lparr>work_LRPs = [], work_Tasks = []\<rparr>"

definition LRP_fields :: "wire \<Rightarrow> (string \<times> (json \<Rightarrow> LRP \<Rightarrow> go_error + LRP)) list" where
  "LRP_fields W =
     [(tag_ProcessGuid W, field (ProcessGuid \<circ> lrp_Key) (lrp_Key_update \<circ> ProcessGuid_update)
         decode_string),
      (tag_Index W, field (Index \<circ> lrp_Key) (lrp_Key_update \<circ> Index_update) decode_int32),
      (tag_Domain W, field (Domain \<circ> lrp_Key) (lrp_Key_update \<circ> Domain_update) decode_string)] @
     placement_fields (lrp_Placement, lrp_Placement_update) @
     resource_fields (lrp_Resource, lrp_Resource_update)"

definition Task_fields :: "(string \<times> (json \<Rightarrow> Task \<Rightarrow> go_error + Task)) list" where
  "Task_fields =
     [(''TaskGuid'', field TaskGuid TaskGuid_update decode_string),
      (''Domain'', field task_Domain task_Domain_update decode_string)] @
     placement_fields (task_Placement, task_Placement_update) @
     resource_fields (task_Resource, task_Resource_update)"

definition unmarshal_Work :: "wire \<Rightarrow> json \<Rightarrow> go_error + Work" where
  "unmarshal_Work W j =
     decode_struct
       [(''LRPs'', field work_LRPs work_LRPs_update
           (decode_slice (decode_struct (LRP_fields W)) zero_LRP)),
        (''Tasks'', field work_Tasks work_Tasks_update
           (decode_slice (decode_struct Task_fields) zero_Task))] j zero_Work"

section \<open>Decoding what was encoded\<close>

definition wire_ok :: "wire \<Rightarrow> bool" where
  "wire_ok W \<longleftrightarrow>
     distinct [tag_ProcessGuid W, tag_Index W, tag_Domain W, ''PlacementTags'', ''VolumeDrivers'',
       ''RootFs'', ''MemoryMB'', ''DiskMB'', ''MaxPids''] \<and>
     list_all utf8_valid [tag_ProcessGuid W, tag_Index W, tag_Domain W] \<and>
     (\<forall>name. empty_slice W name = JNull \<or> empty_slice W name = JArray [])"

lemma decode_scalars [simp]:
  "decode_string (JString s) old' = Inr s"
  "decode_int (JNumber (Itoa n)) old = Inr n"
  "decode_bool (JBool b) old'' = Inr b"
  by (simp_all add: decode_string_def decode_int_def decode_bool_def)

lemma decode_marshal_int32 [simp]: "decode_int32 (marshal_int32 x) old = Inr x"
proof -
  have "- (2 ^ 31) \<le> sint x" "sint x < 2 ^ 31"
    using sint_range_size [of x] by (simp_all add: word_size)
  then show ?thesis by (simp add: decode_int32_def marshal_int32_def)
qed

lemma decode_elements_marshal:
  assumes "\<And>x old. x \<in> set xs \<Longrightarrow> dec (f x) old = Inr x"
  shows "decode_elements dec zero (map f xs) olds = Inr xs"
  using assms by (induction xs arbitrary: olds) auto

lemma decode_slice_marshal:
  assumes "\<And>x old. x \<in> set xs \<Longrightarrow> dec (f x) old = Inr x" "e = JNull \<or> e = JArray []"
  shows "decode_slice dec zero (marshal_slice e f xs) old = Inr xs"
  using assms(2) decode_elements_marshal [of xs dec f zero old] assms(1)
  by (auto simp: decode_slice_def marshal_slice_def)

lemma decode_marshal_strings [simp]:
  "wire_ok W \<Longrightarrow> decode_slice decode_string '''' (marshal_strings W name xs) old = Inr xs"
  unfolding marshal_strings_def by (rule decode_slice_marshal) (auto simp: wire_ok_def)

text \<open>One key after the other, each found under its own name.\<close>

lemma decode_fields_Cons:
  "map_of fds k = Some dec \<Longrightarrow> dec j x = Inr y \<Longrightarrow>
     decode_fields fds ((k, j) # kvs) x = decode_fields fds kvs y"
  by (simp add: find_field_def)

lemma decode_fields_found:
  assumes "distinct (map fst fds)" "(k, field sel upd dec) \<in> set fds" "dec j (sel x) = Inr v"
  shows "decode_fields fds ((k, j) # kvs) x = decode_fields fds kvs (upd (\<lambda>_. v) x)"
  using decode_fields_Cons [OF map_of_is_SomeI [OF assms(1,2)]] assms(3) by (simp add: field_def)

text \<open>A struct that is embedded in another: how it is read and changed there.\<close>

locale embedded =
  fixes sel :: "'p \<Rightarrow> 'v" and upd :: "('v \<Rightarrow> 'v) \<Rightarrow> 'p \<Rightarrow> 'p"
  assumes sel_upd: "sel (upd f x) = f (sel x)"
    and upd_upd: "upd f (upd g x) = upd (f \<circ> g) x"
    and upd_cong: "f (sel x) = g (sel x) \<Longrightarrow> upd f x = upd g x"
begin

text \<open>Storing a component of the embedded struct, by its own selector and update.\<close>

lemma decode_component:
  assumes "distinct (map fst fds)" "(k, field (s \<circ> sel) (upd \<circ> u) dec) \<in> set fds"
    and "dec j (s (sel x)) = Inr v"
  shows "decode_fields fds ((k, j) # kvs) x = decode_fields fds kvs (upd (u (\<lambda>_. v)) x)"
  using decode_fields_found [OF assms(1,2), of j x v kvs] assms(3) by simp

end

interpretation lrp_placement: embedded lrp_Placement lrp_Placement_update
  by unfold_locales (simp_all cong: LRP.fold_congs)

interpretation lrp_resource: embedded lrp_Resource lrp_Resource_update
  by unfold_locales (simp_all cong: LRP.fold_congs)

interpretation lrp_key: embedded lrp_Key lrp_Key_update
  by unfold_locales (simp_all cong: LRP.fold_congs)

interpretation task_placement: embedded task_Placement task_Placement_update
  by unfold_locales (simp_all cong: Task.fold_congs)

interpretation task_resource: embedded task_Resource task_Resource_update
  by unfold_locales (simp_all cong: Task.fold_congs)

lemma decode_placement:
  fixes upd :: "(PlacementConstraint \<Rightarrow> PlacementConstraint) \<Rightarrow> 'p \<Rightarrow> 'p"
  assumes "embedded sel upd" "wire_ok W" "distinct (map fst fds)"
    and "set (placement_fields (sel, upd)) \<subseteq> set fds"
  shows "decode_fields fds (marshal_placement W p @ kvs) x = decode_fields fds kvs (upd (\<lambda>_. p) x)"
proof -
  note found = embedded.decode_component [OF assms(1,3)]
  have m: "(''PlacementTags'', field (pc_PlacementTags \<circ> sel) (upd \<circ> pc_PlacementTags_update)
      (decode_slice decode_string '''')) \<in> set fds"
    "(''VolumeDrivers'', field (pc_VolumeDrivers \<circ> sel) (upd \<circ> pc_VolumeDrivers_update)
      (decode_slice decode_string '''')) \<in> set fds"
    "(''RootFs'', field (pc_RootFs \<circ> sel) (upd \<circ> pc_RootFs_update) decode_string) \<in> set fds"
    using assms(4) by (simp_all add: placement_fields_def)
  have "upd (pc_RootFs_update (\<lambda>_. pc_RootFs p))
      (upd (pc_VolumeDrivers_update (\<lambda>_. pc_VolumeDrivers p))
        (upd (pc_PlacementTags_update (\<lambda>_. pc_PlacementTags p)) x)) = upd (\<lambda>_. p) x"
    unfolding embedded.upd_upd [OF assms(1)]
    by (rule embedded.upd_cong [OF assms(1)]) simp
  then show ?thesis
    by (simp only: marshal_placement_def append.simps
        found [OF m(1) decode_marshal_strings [OF assms(2)]]
        found [OF m(2) decode_marshal_strings [OF assms(2)]] found [OF m(3) decode_scalars(1)])
qed

lemma decode_resource:
  fixes upd :: "(Resource \<Rightarrow> Resource) \<Rightarrow> 'p \<Rightarrow> 'p"
  assumes "embedded sel upd" "distinct (map fst fds)"
    and "set (resource_fields (sel, upd)) \<subseteq> set fds"
  shows "decode_fields fds (marshal_resource r) x = Inr (upd (\<lambda>_. r) x)"
proof -
  note found = embedded.decode_component [OF assms(1,2)]
  have m: "(''MemoryMB'', field (res_MemoryMB \<circ> sel) (upd \<circ> res_MemoryMB_update) decode_int32) \<in> set fds"
    "(''DiskMB'', field (res_DiskMB \<circ> sel) (upd \<circ> res_DiskMB_update) decode_int32) \<in> set fds"
    "(''MaxPids'', field (res_MaxPids \<circ> sel) (upd \<circ> res_MaxPids_update) decode_int32) \<in> set fds"
    using assms(3) by (simp_all add: resource_fields_def)
  have "upd (res_MaxPids_update (\<lambda>_. res_MaxPids r)) (upd (res_DiskMB_update (\<lambda>_. res_DiskMB r))
      (upd (res_MemoryMB_update (\<lambda>_. res_MemoryMB r)) x)) = upd (\<lambda>_. r) x"
    unfolding embedded.upd_upd [OF assms(1)]
    by (rule embedded.upd_cong [OF assms(1)]) simp
  then show ?thesis
    by (simp only: marshal_resource_def decode_fields.simps(1)
        found [OF m(1) decode_marshal_int32] found [OF m(2) decode_marshal_int32]
        found [OF m(3) decode_marshal_int32])
qed

lemma decode_marshal_LRP:
  assumes "wire_ok W"
  shows "decode_struct (LRP_fields W) (marshal_LRP W lrp) old = Inr lrp"
proof -
  have dist: "distinct (map fst (LRP_fields W))"
    using assms by (simp add: LRP_fields_def placement_fields_def resource_fields_def wire_ok_def)
  have m: "(tag_ProcessGuid W, field (ProcessGuid \<circ> lrp_Key) (lrp_Key_update \<circ> ProcessGuid_update)
        decode_string) \<in> set (LRP_fields W)"
    "(tag_Index W, field (Index \<circ> lrp_Key) (lrp_Key_update \<circ> Index_update) decode_int32)
        \<in> set (LRP_fields W)"
    "(tag_Domain W, field (Domain \<circ> lrp_Key) (lrp_Key_update \<circ> Domain_update) decode_string)
        \<in> set (LRP_fields W)"
    "set (placement_fields (lrp_Placement, lrp_Placement_update)) \<subseteq> set (LRP_fields W)"
    "set (resource_fields (lrp_Resource, lrp_Resource_update)) \<subseteq> set (LRP_fields W)"
    by (auto simp: LRP_fields_def)
  have "decode_struct (LRP_fields W) (marshal_LRP W lrp) old =
    Inr (lrp_Resource_update (\<lambda>_. lrp_Resource lrp) (lrp_Placement_update (\<lambda>_. lrp_Placement lrp)
      (lrp_Key_update (Domain_update (\<lambda>_. Domain (lrp_Key lrp)))
        (lrp_Key_update (Index_update (\<lambda>_. Index (lrp_Key lrp)))
          (lrp_Key_update (ProcessGuid_update (\<lambda>_. ProcessGuid (lrp_Key lrp))) old)))))"
    by (simp only: decode_struct_def marshal_LRP_def json.case append.simps
        lrp_key.decode_component [OF dist m(1) decode_scalars(1)]
        lrp_key.decode_component [OF dist m(2) decode_marshal_int32]
        lrp_key.decode_component [OF dist m(3) decode_scalars(1)]
        decode_placement [OF lrp_placement.embedded_axioms assms dist m(4)]
        decode_resource [OF lrp_resource.embedded_axioms dist m(5)])
  then show ?thesis by simp
qed

lemma decode_marshal_Task:
  assumes "wire_ok W"
  shows "decode_struct Task_fields (marshal_Task W task) old = Inr task"
proof -
  have dist: "distinct (map fst Task_fields)"
    by (simp add: Task_fields_def placement_fields_def resource_fields_def)
  have m: "(''TaskGuid'', field TaskGuid TaskGuid_update decode_string) \<in> set Task_fields"
    "(''Domain'', field task_Domain task_Domain_update decode_string) \<in> set Task_fields"
    "set (placement_fields (task_Placement, task_Placement_update)) \<subseteq> set Task_fields"
    "set (resource_fields (task_Resource, task_Resource_update)) \<subseteq> set Task_fields"
    by (auto simp: Task_fields_def)
  have "decode_struct Task_fields (marshal_Task W task) old =
    Inr (task_Resource_update (\<lambda>_. task_Resource task)
      (task_Placement_update (\<lambda>_. task_Placement task)
        (task_Domain_update (\<lambda>_. task_Domain task) (TaskGuid_update (\<lambda>_. TaskGuid task) old))))"
    by (simp only: decode_struct_def marshal_Task_def json.case append.simps
        decode_fields_found [OF dist m(1) decode_scalars(1)]
        decode_fields_found [OF dist m(2) decode_scalars(1)]
        decode_placement [OF task_placement.embedded_axioms assms dist m(3)]
        decode_resource [OF task_resource.embedded_axioms dist m(4)])
  then show ?thesis by simp
qed

lemma decode_marshal_LRPs:
  assumes "wire_ok W"
  shows "decode_slice (decode_struct (LRP_fields W)) zero_LRP
    (marshal_slice (empty_slice W ''LRPs'') (marshal_LRP W) lrps) olds = Inr lrps"
  using assms by (intro decode_slice_marshal decode_marshal_LRP) (simp_all add: wire_ok_def)

lemma decode_marshal_Tasks:
  assumes "wire_ok W"
  shows "decode_slice (decode_struct Task_fields) zero_Task
    (marshal_slice (empty_slice W ''Tasks'') (marshal_Task W) tasks) olds = Inr tasks"
  using assms by (intro decode_slice_marshal decode_marshal_Task) (simp_all add: wire_ok_def)

lemma unmarshal_marshal_Work:
  assumes "wire_ok W"
  shows "unmarshal_Work W (marshal_Work W work) = Inr work"
  by (simp add: unmarshal_Work_def decode_struct_def marshal_Work_def find_field_def field_def
      zero_Work_def decode_marshal_LRPs [OF assms] decode_marshal_Tasks [OF assms])

section \<open>What can be printed\<close>

definition placement_ok :: "PlacementConstraint \<Rightarrow> bool" where
  "placement_ok p \<longleftrightarrow>
     list_all utf8_valid (pc_PlacementTags p) \<and> list_all utf8_valid (pc_VolumeDrivers p) \<and>
     utf8_valid (pc_RootFs p)"

definition lrp_ok :: "LRP \<Rightarrow> bool" where
  "lrp_ok lrp \<longleftrightarrow>
     utf8_valid (ProcessGuid (lrp_Key lrp)) \<and> utf8_valid (Domain (lrp_Key lrp)) \<and>
     placement_ok (lrp_Placement lrp)"

definition task_ok :: "Task \<Rightarrow> bool" where
  "task_ok task \<longleftrightarrow>
     utf8_valid (TaskGuid task) \<and> utf8_valid (task_Domain task) \<and>
     placement_ok (task_Placement task)"

definition work_ok :: "Work \<Rightarrow> bool" where
  "work_ok work \<longleftrightarrow> list_all lrp_ok (work_LRPs work) \<and> list_all task_ok (work_Tasks work)"

lemma json_ok_slice:
  "list_all (json_ok \<circ> f) xs \<Longrightarrow> json_ok e \<Longrightarrow> json_ok (marshal_slice e f xs)"
  by (simp add: marshal_slice_def list.pred_map)

lemma json_ok_empty: "wire_ok W \<Longrightarrow> json_ok (empty_slice W name)"
  by (auto simp: wire_ok_def dest: spec [of _ name])

lemma json_ok_strings: "wire_ok W \<Longrightarrow> list_all utf8_valid xs \<Longrightarrow> json_ok (marshal_strings W name xs)"
  unfolding marshal_strings_def by (intro json_ok_slice json_ok_empty) (simp_all add: comp_def)

lemma json_ok_int32: "json_ok (marshal_int32 x)"
  by (simp add: marshal_int32_def)

lemma members_ok_placement: "wire_ok W \<Longrightarrow> placement_ok p \<Longrightarrow> members_ok (marshal_placement W p)"
  by (simp add: marshal_placement_def placement_ok_def json_ok_strings literal_ok
      del: utf8_valid.simps)

lemma members_ok_resource: "members_ok (marshal_resource r)"
  by (simp add: marshal_resource_def json_ok_int32 literal_ok del: utf8_valid.simps)

lemma json_ok_LRP: "wire_ok W \<Longrightarrow> lrp_ok lrp \<Longrightarrow> json_ok (marshal_LRP W lrp)"
  using members_ok_placement [of W "lrp_Placement lrp"]
  by (simp add: marshal_LRP_def lrp_ok_def members_ok_resource json_ok_int32 wire_ok_def)

lemma json_ok_Task: "wire_ok W \<Longrightarrow> task_ok task \<Longrightarrow> json_ok (marshal_Task W task)"
  by (simp add: marshal_Task_def task_ok_def members_ok_placement members_ok_resource literal_ok
      del: utf8_valid.simps)

lemma json_ok_Work:
  assumes "wire_ok W" "work_ok work"
  shows "json_ok (marshal_Work W work)"
proof -
  have "json_ok (marshal_slice (empty_slice W ''LRPs'') (marshal_LRP W) (work_LRPs work))"
    "json_ok (marshal_slice (empty_slice W ''Tasks'') (marshal_Task W) (work_Tasks work))"
    using assms json_ok_LRP json_ok_Task
    by (auto intro!: json_ok_slice json_ok_empty simp: work_ok_def list_all_iff)
  then show ?thesis by (simp add: marshal_Work_def literal_ok del: utf8_valid.simps)
qed

section \<open>Cell states\<close>

definition marshal_Resources :: "Resources \<Rightarrow> json" where
  "marshal_Resources r =
     JObject [(''MemoryMB'', marshal_int32 (MemoryMB r)), (''DiskMB'', marshal_int32 (DiskMB r)),
              (''Containers'', JNumber (Itoa (Containers r)))]"

definition Resources_fields :: "(string \<times> (json \<Rightarrow> Resources \<Rightarrow> go_error + Resources)) list" where
  "Resources_fields =
     [(''MemoryMB'', field MemoryMB MemoryMB_update decode_int32),
      (''DiskMB'', field DiskMB DiskMB_update decode_int32),
      (''Containers'', field Containers Containers_update decode_int)]"

definition marshal_CellState :: "wire \<Rightarrow> CellState \<Rightarrow> json" where
  "marshal_CellState W st =
     JObject [(''RootFSProviders'', marshal_RootFSProviders (RootFSProviders_of st)),
              (''AvailableResources'', marshal_Resources (AvailableResources st)),
              (''TotalResources'', marshal_Resources (TotalResources st)),
              (''LRPs'', marshal_slice (empty_slice W ''LRPs'') (marshal_LRP W) (LRPs st)),
              (''Tasks'', marshal_slice (empty_slice W ''Tasks'') (marshal_Task W) (Tasks st)),
              (''StartingContainerCount'', JNumber (Itoa (StartingContainerCount st))),
              (''Zone'', JString (Zone st)),
              (''Evacuating'', JBool (Evacuating st)),
              (''VolumeDrivers'', marshal_strings W ''VolumeDrivers'' (VolumeDrivers st)),
              (''PlacementTags'', marshal_strings W ''PlacementTags'' (PlacementTags st)),
              (''OptionalPlacementTags'',
                marshal_strings W ''OptionalPlacementTags'' (OptionalPlacementTags st))]"

definition zero_CellState :: CellState where
  "zero_CellState =
     \<lparr>RootFSProviders_of = [],
      AvailableResources = \<lparr>MemoryMB = 0, DiskMB = 0, Containers = 0\<rparr>,
      TotalResources = \<lparr>MemoryMB = 0, DiskMB = 0, Containers = 0\<rparr>,
      LRPs = [], Tasks = [], StartingContainerCount = 0, Zone = '''', Evacuating = False,
      VolumeDrivers = [], PlacementTags = [], OptionalPlacementTags = []\<rparr>"

definition CellState_fields :: "wire \<Rightarrow> (string \<times> (json \<Rightarrow> CellState \<Rightarrow> go_error + CellState)) list" where
  "CellState_fields W =
     [(''RootFSProviders'', field RootFSProviders_of RootFSProviders_of_update
         (\<lambda>j _. RootFSProviders_UnmarshalJSON j)),
      (''AvailableResources'', field AvailableResources AvailableResources_update
         (decode_struct Resources_fields)),
      (''TotalResources'', field TotalResources TotalResources_update
         (decode_struct Resources_fields)),
      (''LRPs'', field LRPs LRPs_update (decode_slice (decode_struct (LRP_fields W)) zero_LRP)),
      (''Tasks'', field Tasks Tasks_update (decode_slice (decode_struct Task_fields) zero_Task)),
      (''StartingContainerCount'', field StartingContainerCount StartingContainerCount_update
         decode_int),
      (''Zone'', field Zone Zone_update decode_string),
      (''Evacuating'', field Evacuating Evacuating_update decode_bool),
      (''VolumeDrivers'', field VolumeDrivers VolumeDrivers_update (decode_slice decode_string '''')),
      (''PlacementTags'', field PlacementTags PlacementTags_update (decode_slice decode_string '''')),
      (''OptionalPlacementTags'', field OptionalPlacementTags OptionalPlacementTags_update
         (decode_slice decode_string ''''))]"

definition unmarshal_CellState :: "wire \<Rightarrow> json \<Rightarrow> go_error + CellState" where
  "unmarshal_CellState W j = decode_struct (CellState_fields W) j zero_CellState"

lemma decode_marshal_Resources:
  "decode_struct Resources_fields (marshal_Resources r) old = Inr r"
  by (simp add: decode_struct_def marshal_Resources_def Resources_fields_def find_field_def field_def)

lemma CellState_fields_mem:
  "(''RootFSProviders'', field RootFSProviders_of RootFSProviders_of_update
     (\<lambda>j _. RootFSProviders_UnmarshalJSON j)) \<in> set (CellState_fields W)"
  "(''AvailableResources'', field AvailableResources AvailableResources_update
     (decode_struct Resources_fields)) \<in> set (CellState_fields W)"
  "(''TotalResources'', field TotalResources TotalResources_update
     (decode_struct Resources_fields)) \<in> set (CellState_fields W)"
  "(''LRPs'', field LRPs LRPs_update (decode_slice (decode_struct (LRP_fields W)) zero_LRP))
     \<in> set (CellState_fields W)"
  "(''Tasks'', field Tasks Tasks_update (decode_slice (decode_struct Task_fields) zero_Task))
     \<in> set (CellState_fields W)"
  "(''StartingContainerCount'', field StartingContainerCount StartingContainerCount_update decode_int)
     \<in> set (CellState_fields W)"
  "(''Zone'', field Zone Zone_update decode_string) \<in> set (CellState_fields W)"
  "(''Evacuating'', field Evacuating Evacuating_update decode_bool) \<in> set (CellState_fields W)"
  "(''VolumeDrivers'', field VolumeDrivers VolumeDrivers_update (decode_slice decode_string ''''))
     \<in> set (CellState_fields W)"
  "(''PlacementTags'', field PlacementTags PlacementTags_update (decode_slice decode_string ''''))
     \<in> set (CellState_fields W)"
  "(''OptionalPlacementTags'', field OptionalPlacementTags OptionalPlacementTags_update
     (decode_slice decode_string '''')) \<in> set (CellState_fields W)"
  by (simp_all add: CellState_fields_def)

lemma CellState_fields_distinct: "distinct (map fst (CellState_fields W))"
  by (simp add: CellState_fields_def)

lemma unmarshal_marshal_CellState:
  assumes W: "wire_ok W"
    and q: "RootFSProviders_UnmarshalJSON (marshal_RootFSProviders (RootFSProviders_of st)) = Inr q"
  shows "unmarshal_CellState W (marshal_CellState W st) = Inr (st\<lparr>RootFSProviders_of := q\<rparr>)"
proof -
  note found = decode_fields_found [OF CellState_fields_distinct]
    and mem = CellState_fields_mem and strings = decode_marshal_strings [OF W]
  have "unmarshal_CellState W (marshal_CellState W st) = Inr
    (OptionalPlacementTags_update (\<lambda>_. OptionalPlacementTags st)
      (PlacementTags_update (\<lambda>_. PlacementTags st)
        (VolumeDrivers_update (\<lambda>_. VolumeDrivers st)
          (Evacuating_update (\<lambda>_. Evacuating st)
            (Zone_update (\<lambda>_. Zone st)
              (StartingContainerCount_update (\<lambda>_. StartingContainerCount st)
                (Tasks_update (\<lambda>_. Tasks st)
                  (LRPs_update (\<lambda>_. LRPs st)
                    (TotalResources_update (\<lambda>_. TotalResources st)
                      (AvailableResources_update (\<lambda>_. AvailableResources st)
                        (RootFSProviders_of_update (\<lambda>_. q) zero_CellState)))))))))))"
    by (simp only: unmarshal_CellState_def decode_struct_def marshal_CellState_def json.case
        found [OF mem(1) q] found [OF mem(2) decode_marshal_Resources]
        found [OF mem(3) decode_marshal_Resources] found [OF mem(4) decode_marshal_LRPs [OF W]]
        found [OF mem(5) decode_marshal_Tasks [OF W]] found [OF mem(6) decode_scalars(2)]
        found [OF mem(7) decode_scalars(1)] found [OF mem(8) decode_scalars(3)]
        found [OF mem(9) strings] found [OF mem(10) strings] found [OF mem(11) strings]
        decode_fields.simps(1))
  then show ?thesis by simp
qed

definition state_ok :: "CellState \<Rightarrow> bool" where
  "state_ok st \<longleftrightarrow>
     RootFSProviders_ok (RootFSProviders_of st) \<and>
     list_all lrp_ok (LRPs st) \<and> list_all task_ok (Tasks st) \<and> utf8_valid (Zone st) \<and>
     list_all utf8_valid (VolumeDrivers st) \<and> list_all utf8_valid (PlacementTags st) \<and>
     list_all utf8_valid (OptionalPlacementTags st)"

lemma json_ok_CellState:
  assumes "wire_ok W" "state_ok st"
  shows "json_ok (marshal_CellState W st)"
proof -
  have "json_ok (marshal_RootFSProviders (RootFSProviders_of st))"
    using assms(2) by (simp add: json_ok_RootFSProviders state_ok_def)
  moreover have "json_ok (marshal_slice (empty_slice W ''LRPs'') (marshal_LRP W) (LRPs st))"
    "json_ok (marshal_slice (empty_slice W ''Tasks'') (marshal_Task W) (Tasks st))"
    using assms json_ok_LRP json_ok_Task
    by (auto intro!: json_ok_slice json_ok_empty simp: state_ok_def list_all_iff)
  moreover have "json_ok (marshal_Resources r)" for r
    by (simp add: marshal_Resources_def json_ok_int32 literal_ok del: utf8_valid.simps)
  ultimately show ?thesis
    using assms by (simp add: marshal_CellState_def state_ok_def json_ok_strings literal_ok
        del: utf8_valid.simps)
qed

end
