(* ===== verification/Handlers.thy ===== *)
theory Handlers
  imports Auction_Cell_Rep Wire_Format
begin

text \<open>
  The HTTP interface of the rep: the routes of \<open>routes.go\<close> and the handlers of
  \<open>handlers\<close>. A handler is an action that reads a request (the form values that the router
  took from the path, and the body) and writes a response; what it starts with \<open>go\<close> is
  returned with the response, as an action that runs after it. Logging is left out, so
  \<open>logWrap\<close> is the identity.
\<close>

section \<open>Routes\<close>

record Route =
  route_Path :: string
  route_Method :: string
  route_Name :: string

definition StateRoute :: string where "StateRoute = ''STATE''"
definition PerformRoute :: string where "PerformRoute = ''PERFORM''"
definition StopLRPInstanceRoute :: string where "StopLRPInstanceRoute = ''StopLRPInstance''"
definition CancelTaskRoute :: string where "CancelTaskRoute = ''CancelTask''"
definition Sim_ResetRoute :: string where "Sim_ResetRoute = ''RESET''"
definition PingRoute :: string where "PingRoute = ''Ping''"
definition EvacuateRoute :: string where "EvacuateRoute = ''Evacuate''"

lemmas route_names = StateRoute_def PerformRoute_def StopLRPInstanceRoute_def CancelTaskRoute_def
  Sim_ResetRoute_def PingRoute_def EvacuateRoute_def

definition NewRoutes :: "bool \<Rightarrow> Route list" where
  "NewRoutes secure =
     (if secure then
        [\<lparr>route_Path = ''/state'', route_Method = ''GET'', route_Name = StateRoute\<rparr>,
         \<lparr>route_Path = ''/work'', route_Method = ''POST'', route_Name = PerformRoute\<rparr>,
         \<lparr>route_Path = ''/v1/lrps/:process_guid/instances/:instance_guid/stop'',
          route_Method = ''POST'', route_Name = StopLRPInstanceRoute\<rparr>,
         \<lparr>route_Path = ''/v1/tasks/:task_guid/cancel'', route_Method = ''POST'',
          route_Name = CancelTaskRoute\<rparr>,
         \<lparr>route_Path = ''/sim/reset'', route_Method = ''POST'', route_Name = Sim_ResetRoute\<rparr>]
      else []) @
     (if \<not> secure then
        [\<lparr>route_Path = ''/ping'', route_Method = ''GET'', route_Name = PingRoute\<rparr>,
         \<lparr>route_Path = ''/evacuate'', route_Method = ''POST'', route_Name = EvacuateRoute\<rparr>]
      else [])"

definition RoutesInsecure :: "Route list" where
  "RoutesInsecure = NewRoutes False"

definition RoutesSecure :: "Route list" where
  "RoutesSecure = NewRoutes True"

definition Routes :: "Route list" where
  "Routes = RoutesInsecure @ RoutesSecure"

section \<open>Requests and responses\<close>

record request =
  req_FormValue :: "string \<Rightarrow> string"
  req_Body :: string

text \<open>A response writer: the first \<open>WriteHeader\<close> counts, and a write without one is a 200.\<close>

record ResponseWriter =
  rw_status :: "go_int option"
  rw_header :: "(string \<times> string) list"
  rw_body :: string

definition new_writer :: ResponseWriter where
  "new_writer = \<lparr>rw_status = None, rw_header = [], rw_body = ''''\<rparr>"

definition WriteHeader :: "go_int \<Rightarrow> ResponseWriter \<Rightarrow> ResponseWriter" where
  "WriteHeader code w = (if rw_status w = None then w\<lparr>rw_status := Some code\<rparr> else w)"

definition rw_Write :: "string \<Rightarrow> ResponseWriter \<Rightarrow> ResponseWriter" where
  "rw_Write bytes w = (let w = WriteHeader 200 w in w\<lparr>rw_body := rw_body w @ bytes\<rparr>)"

definition Header_Set :: "string \<Rightarrow> string \<Rightarrow> ResponseWriter \<Rightarrow> ResponseWriter" where
  "Header_Set k v w = w\<lparr>rw_header := AList.update k v (rw_header w)\<rparr>"

definition StatusOK :: go_int where "StatusOK = 200"
definition StatusAccepted :: go_int where "StatusAccepted = 202"
definition StatusBadRequest :: go_int where "StatusBadRequest = 400"
definition StatusInternalServerError :: go_int where "StatusInternalServerError = 500"
definition StatusServiceUnavailable :: go_int where "StatusServiceUnavailable = 503"

lemmas status_codes = StatusOK_def StatusAccepted_def StatusBadRequest_def
  StatusInternalServerError_def StatusServiceUnavailable_def

type_synonym 'w handler = "ResponseWriter \<Rightarrow> request \<Rightarrow> ('w, ResponseWriter \<times> ('w, unit) act) act"

text \<open>The interface \<open>auctioncellrep.AuctionCellClient\<close>, and its implementation.\<close>

record 'w AuctionCellClient =
  ac_State :: "('w, go_error + CellState \<times> bool) act"
  ac_Perform :: "Work \<Rightarrow> ('w, go_error + Work) act"
  ac_Reset :: "go_error option"

definition auction_client :: "ext_api \<Rightarrow> 'w AuctionCellRep \<Rightarrow> 'w AuctionCellClient" where
  "auction_client M a =
     \<lparr>ac_State = auction_State M a, ac_Perform = Perform M a, ac_Reset = auction_Reset\<rparr>"

section \<open>Handlers\<close>

definition state_ServeHTTP :: "wire \<Rightarrow> 'w AuctionCellClient \<Rightarrow> 'w handler" where
  "state_ServeHTTP W rep w r = do {
     result \<leftarrow> ac_State rep;
     (case result of
        Inl err \<Rightarrow> return (WriteHeader StatusInternalServerError w, return ())
      | Inr (state, healthy) \<Rightarrow>
          let w = (if \<not> healthy then WriteHeader StatusServiceUnavailable w else w)
          in return (rw_Write (encode_json (marshal_CellState W state)) w, return ()))
   }"

definition perform_ServeHTTP :: "wire \<Rightarrow> 'w AuctionCellClient \<Rightarrow> 'w handler" where
  "perform_ServeHTTP W rep w r =
     (case (case decode_json (req_Body r) of None \<Rightarrow> Inl json_error | Some j \<Rightarrow> unmarshal_Work W j) of
        Inl err \<Rightarrow> return (WriteHeader StatusBadRequest w, return ())
      | Inr work \<Rightarrow> do {
          result \<leftarrow> ac_Perform rep work;
          (case result of
             Inl err \<Rightarrow> return (WriteHeader StatusInternalServerError w, return ())
           | Inr failedWork \<Rightarrow>
               return (rw_Write (encode_json (marshal_Work W failedWork)) w, return ()))
        })"

definition reset_ServeHTTP :: "'w AuctionCellClient \<Rightarrow> 'w handler" where
  "reset_ServeHTTP rep w r =
     (case ac_Reset rep of
        Some err \<Rightarrow> return (WriteHeader StatusInternalServerError w, return ())
      | None \<Rightarrow> return (w, return ()))"

definition ping_ServeHTTP :: "'w handler" where
  "ping_ServeHTTP w r = return (WriteHeader StatusOK w, return ())"

definition stop_lrp_ServeHTTP :: "'w services \<Rightarrow> 'w handler" where
  "stop_lrp_ServeHTTP client w r =
     (let processGuid = req_FormValue r '':process_guid'';
          instanceGuid = req_FormValue r '':instance_guid''
      in if processGuid = '''' then return (WriteHeader StatusBadRequest w, return ())
         else if instanceGuid = '''' then return (WriteHeader StatusBadRequest w, return ())
         else do {
           err \<leftarrow> invoke (StopContainer (LRPContainerGuid processGuid instanceGuid)) err_reply
             (svc_StopContainer client (LRPContainerGuid processGuid instanceGuid));
           (if err \<noteq> None then return (WriteHeader StatusInternalServerError w, return ())
            else return (WriteHeader StatusAccepted w, return ()))
         })"

definition cancel_task_ServeHTTP :: "'w services \<Rightarrow> 'w handler" where
  "cancel_task_ServeHTTP executorClient w r =
     (let taskGuid = req_FormValue r '':task_guid''
      in return (WriteHeader StatusAccepted w,
           do {
             invoke (DeleteContainer taskGuid) err_reply (svc_DeleteContainer executorClient taskGuid);
             return ()
           }))"

definition do_Evacuate :: "('w, unit) act" where
  "do_Evacuate = State (\<lambda>s.
     case Evacuate (evac s) of
       Ret e \<Rightarrow> ((), s\<lparr>evac := e\<rparr>)
     | _ \<Rightarrow> ((), s\<lparr>crashed := True\<rparr>))"

definition evacuation_ServeHTTP :: "'w handler" where
  "evacuation_ServeHTTP w r = do {
     do_Evacuate;
     (let jsonBytes = print_json (marshal_map [(''ping_path'', JString ''/ping'')]);
          w = Header_Set ''Content-Length'' (Itoa (of_nat (length jsonBytes))) w;
          w = Header_Set ''Content-Type'' ''application/json'' w;
          w = WriteHeader StatusAccepted w
      in return (rw_Write jsonBytes w, return ()))
   }"

section \<open>The handlers by route\<close>

type_synonym 'w Handlers = "(string \<times> 'w handler) list"

definition handlers_New ::
  "wire \<Rightarrow> 'w AuctionCellClient \<Rightarrow> 'w services \<Rightarrow> bool \<Rightarrow> 'w Handlers" where
  "handlers_New W localCellClient executorClient secure =
     (if secure then
        fold (\<lambda>(k, h). AList.update k h)
          [(StateRoute, state_ServeHTTP W localCellClient),
           (PerformRoute, perform_ServeHTTP W localCellClient),
           (Sim_ResetRoute, reset_ServeHTTP localCellClient),
           (StopLRPInstanceRoute, stop_lrp_ServeHTTP executorClient),
           (CancelTaskRoute, cancel_task_ServeHTTP executorClient)] []
      else
        fold (\<lambda>(k, h). AList.update k h)
          [(PingRoute, ping_ServeHTTP), (EvacuateRoute, evacuation_ServeHTTP)] [])"

definition handlers_NewLegacy ::
  "wire \<Rightarrow> ('w Handlers \<Rightarrow> 'w Handlers) \<Rightarrow> 'w AuctionCellClient \<Rightarrow> 'w services \<Rightarrow> 'w Handlers" where
  "handlers_NewLegacy W ord localCellClient executorClient =
     (let insecureHandlers = handlers_New W localCellClient executorClient False;
          secureHandlers = handlers_New W localCellClient executorClient True
      in fold (\<lambda>(name, handler). AList.update name handler) (ord secureHandlers) insecureHandlers)"

end
