(* ===== verification/Rep_Client.thy ===== *)
theory Rep_Client
  imports Handlers
begin

text \<open>
  The HTTP client of the rep, \<open>client.go\<close>. The TLS settings decide which of the announced
  addresses a client uses; a client turns each call into a request of a route and reads the
  response. The request generator of \<open>rata\<close>, the round trip of an \<open>http.Client\<close> and
  \<open>cfhttp.NewTLSConfig\<close> are fields of a record \<open>http_api\<close>; requests are values of a
  type \<open>'q\<close> that only they look into. An \<open>http.Client\<close> is a record that
  \<open>modifyTransport\<close> updates; two clients that share one transport get the same settings
  either way.
\<close>

section \<open>Foreign packages and the standard library\<close>

record 'c tls_Config =
  tls_certs :: 'c
  tls_ClientSessionCache :: "go_int option"

datatype 'c round_tripper = http_Transport "'c tls_Config option" | OtherTransport

record 'c http_Client =
  hc_Transport :: "'c round_tripper"
  hc_Timeout :: int

text \<open>The body of a response: the bytes that can be read, and the error that ends them if any.\<close>

record http_Response =
  hr_StatusCode :: go_int
  hr_Body :: "string \<times> go_error option"

record ('c, 'q, 'w) http_api =
  rata_CreateRequest :: "string \<Rightarrow> Route list \<Rightarrow> string \<Rightarrow> (string \<times> string) list \<Rightarrow> string \<Rightarrow> go_error + 'q"
  request_Header_Set :: "string \<Rightarrow> string \<Rightarrow> 'q \<Rightarrow> 'q"
  http_Do :: "'c http_Client \<Rightarrow> 'q \<Rightarrow> ('w, go_error + http_Response) act"
  cfhttp_NewTLSConfig :: "string \<Rightarrow> string \<Rightarrow> string \<Rightarrow> go_error + 'c tls_Config"

definition ReadAll :: "string \<times> go_error option \<Rightarrow> go_error + string" where
  "ReadAll = (\<lambda>(bs, err). case err of None \<Rightarrow> Inr bs | Some e \<Rightarrow> Inl e)"

text \<open>\<open>http.StatusText\<close>; unknown codes have an empty text.\<close>

definition StatusText :: "go_int \<Rightarrow> string" where
  "StatusText code = (case map_of
     [(100, ''Continue''), (101, ''Switching Protocols''), (102, ''Processing''),
      (200, ''OK''), (201, ''Created''), (202, ''Accepted''),
      (203, ''Non-Authoritative Information''), (204, ''No Content''), (205, ''Reset Content''),
      (206, ''Partial Content''), (207, ''Multi-Status''), (208, ''Already Reported''),
      (226, ''IM Used''), (300, ''Multiple Choices''), (301, ''Moved Permanently''),
      (302, ''Found''), (303, ''See Other''), (304, ''Not Modified''), (305, ''Use Proxy''),
      (307, ''Temporary Redirect''), (308, ''Permanent Redirect''), (400, ''Bad Request''),
      (401, ''Unauthorized''), (402, ''Payment Required''), (403, ''Forbidden''),
      (404, ''Not Found''), (405, ''Method Not Allowed''), (406, ''Not Acceptable''),
      (407, ''Proxy Authentication Required''), (408, ''Request Timeout''), (409, ''Conflict''),
      (410, ''Gone''), (411, ''Length Required''), (412, ''Precondition Failed''),
      (413, ''Request Entity Too Large''), (414, ''Request URI Too Long''),
      (415, ''Unsupported Media Type''), (416, ''Requested Range Not Satisfiable''),
      (417, ''Expectation Failed''), (418, ''I'' @ [CHR 0x27] @ ''m a teapot''),
      (422, ''Unprocessable Entity''), (423, ''Locked''), (424, ''Failed Dependency''),
      (426, ''Upgrade Required''), (428, ''Precondition Required''), (429, ''Too Many Requests''),
      (431, ''Request Header Fields Too Large''), (451, ''Unavailable For Legal Reasons''),
      (500, ''Internal Server Error''), (501, ''Not Implemented''), (502, ''Bad Gateway''),
      (503, ''Service Unavailable''), (504, ''Gateway Timeout''),
      (505, ''HTTP Version Not Supported''), (506, ''Variant Also Negotiates''),
      (507, ''Insufficient Storage''), (508, ''Loop Detected''), (510, ''Not Extended''),
      (511, ''Network Authentication Required'')] code of
     None \<Rightarrow> '''' | Some text \<Rightarrow> text)"

section \<open>TLS settings\<close>

record TLSConfig =
  RequireTLS :: bool
  CertFile :: string
  KeyFile :: string
  CaCertFile :: string
  ClientCacheSize :: go_int

definition hasCreds :: "TLSConfig \<Rightarrow> bool" where
  "hasCreds config \<longleftrightarrow> CaCertFile config \<noteq> '''' \<and> KeyFile config \<noteq> '''' \<and> CertFile config \<noteq> ''''"

definition pickURL :: "TLSConfig \<Rightarrow> string \<Rightarrow> string \<Rightarrow> go_error + string" where
  "pickURL config address repURL =
     (case (if repURL \<noteq> '''' then
              (case url_Parse repURL of
                 Inl err \<Rightarrow> Inl err
               | Inr url \<Rightarrow> Inr (Scheme url = ''https''))
            else Inr False) of
        Inl err \<Rightarrow> Inl err
      | Inr secure \<Rightarrow>
          if \<not> RequireTLS config \<and> \<not> hasCreds config then
            (if secure then
               Inl (NewError (''https scheme not supported since certificates aren'' @
                 [CHR 0x27] @ ''t provided''))
             else if repURL \<noteq> '''' then Inr repURL
             else Inr address)
          else if \<not> RequireTLS config then
            (if repURL \<noteq> '''' then Inr repURL else Inr address)
          else
            (if \<not> secure then
               Inl (NewError ''https scheme is required but none of the addresses support it'')
             else Inr repURL))"

text \<open>The client after the call, with the error.\<close>

definition modifyTransport ::
  "('c, 'q, 'w) http_api \<Rightarrow> TLSConfig \<Rightarrow> 'c http_Client \<Rightarrow> go_error option \<times> 'c http_Client" where
  "modifyTransport H tlsConfig client =
     (if \<not> hasCreds tlsConfig then (None, client)
      else case hc_Transport client of
             http_Transport _ \<Rightarrow>
               (case cfhttp_NewTLSConfig H (CertFile tlsConfig) (KeyFile tlsConfig)
                       (CaCertFile tlsConfig) of
                  Inl err \<Rightarrow> (Some err, client)
                | Inr config \<Rightarrow>
                    let config = config\<lparr>tls_ClientSessionCache := Some (ClientCacheSize tlsConfig)\<rparr>
                    in (None, client\<lparr>hc_Transport := http_Transport (Some config)\<rparr>))
           | OtherTransport \<Rightarrow> (None, client))"

section \<open>The client\<close>

record 'c rep_client =
  rc_client :: "'c http_Client"
  rc_stateClient :: "'c http_Client"
  rc_address :: string
  rc_routes :: "Route list"

definition newClient :: "'c http_Client \<Rightarrow> 'c http_Client \<Rightarrow> string \<Rightarrow> 'c rep_client" where
  "newClient httpClient stateClient address =
     \<lparr>rc_client = httpClient, rc_stateClient = stateClient, rc_address = address,
      rc_routes = Routes\<rparr>"

record 'c clientFactory =
  cf_httpClient :: "'c http_Client"
  cf_stateClient :: "'c http_Client"
  cf_tlsConfig :: TLSConfig

definition NewClientFactory ::
  "('c, 'q, 'w) http_api \<Rightarrow> 'c http_Client \<Rightarrow> 'c http_Client \<Rightarrow> TLSConfig option \<Rightarrow>
     go_error + 'c clientFactory" where
  "NewClientFactory H httpClient stateClient tlsConfig =
     (let tlsConfig = (case tlsConfig of
            None \<Rightarrow> \<lparr>RequireTLS = False, CertFile = '''', KeyFile = '''', CaCertFile = '''',
                     ClientCacheSize = 0\<rparr>
          | Some config \<Rightarrow> config)
      in case modifyTransport H tlsConfig httpClient of
           (Some err, _) \<Rightarrow> Inl err
         | (None, httpClient) \<Rightarrow>
             (case modifyTransport H tlsConfig stateClient of
                (Some err, _) \<Rightarrow> Inl err
              | (None, stateClient) \<Rightarrow>
                  Inr \<lparr>cf_httpClient = httpClient, cf_stateClient = stateClient,
                       cf_tlsConfig = tlsConfig\<rparr>))"

definition CreateClient :: "'c clientFactory \<Rightarrow> string \<Rightarrow> string \<Rightarrow> go_error + 'c rep_client" where
  "CreateClient factory address url =
     (case pickURL (cf_tlsConfig factory) address url of
        Inl err \<Rightarrow> Inl err
      | Inr urlToUse \<Rightarrow> Inr (newClient (cf_httpClient factory) (cf_stateClient factory) urlToUse))"

definition SetStateClient :: "'c http_Client \<Rightarrow> 'c rep_client \<Rightarrow> 'c rep_client" where
  "SetStateClient stateClient c = c\<lparr>rc_stateClient := stateClient\<rparr>"

definition StateClientTimeout :: "'c rep_client \<Rightarrow> int" where
  "StateClientTimeout c = hc_Timeout (rc_stateClient c)"

definition unexpected_status :: "go_int \<Rightarrow> go_error" where
  "unexpected_status code = NewError (''unexpected status code: '' @ Itoa code)"

definition http_error :: "go_int \<Rightarrow> go_error" where
  "http_error code =
     NewError (''http error: status code '' @ Itoa code @ '' ('' @ StatusText code @ '')'')"

definition client_State ::
  "wire \<Rightarrow> ('c, 'q, 'w) http_api \<Rightarrow> 'c rep_client \<Rightarrow> ('w, go_error + CellState) act" where
  "client_State W H c =
     (case rata_CreateRequest H (rc_address c) (rc_routes c) StateRoute [] '''' of
        Inl err \<Rightarrow> return (Inl err)
      | Inr req \<Rightarrow> do {
          r \<leftarrow> http_Do H (rc_stateClient c) req;
          return (case r of
             Inl err \<Rightarrow> Inl err
           | Inr resp \<Rightarrow>
               if hr_StatusCode resp \<noteq> StatusOK then Inl (unexpected_status (hr_StatusCode resp))
               else case ReadAll (hr_Body resp) of
                      Inl err \<Rightarrow> Inl err
                    | Inr bs \<Rightarrow>
                        (case parse_json bs of
                           None \<Rightarrow> Inl json_error
                         | Some j \<Rightarrow> unmarshal_CellState W j))
        })"

definition client_Perform ::
  "wire \<Rightarrow> ('c, 'q, 'w) http_api \<Rightarrow> 'c rep_client \<Rightarrow> Work \<Rightarrow> ('w, go_error + Work) act" where
  "client_Perform W H c work =
     (let body = print_json (marshal_Work W work)
      in case rata_CreateRequest H (rc_address c) (rc_routes c) PerformRoute [] body of
           Inl err \<Rightarrow> return (Inl err)
         | Inr req \<Rightarrow> do {
             r \<leftarrow> http_Do H (rc_client c) req;
             return (case r of
                Inl err \<Rightarrow> Inl err
              | Inr resp \<Rightarrow>
                  if hr_StatusCode resp \<noteq> StatusOK then Inl (unexpected_status (hr_StatusCode resp))
                  else case decode_json (fst (hr_Body resp)) of
                         None \<Rightarrow> Inl (case snd (hr_Body resp) of None \<Rightarrow> json_error | Some e \<Rightarrow> e)
                       | Some j \<Rightarrow> unmarshal_Work W j)
           })"

definition client_Reset :: "('c, 'q, 'w) http_api \<Rightarrow> 'c rep_client \<Rightarrow> ('w, go_error option) act" where
  "client_Reset H c =
     (case rata_CreateRequest H (rc_address c) (rc_routes c) Sim_ResetRoute [] '''' of
        Inl err \<Rightarrow> return (Some err)
      | Inr req \<Rightarrow> do {
          r \<leftarrow> http_Do H (rc_client c) req;
          return (case r of
             Inl err \<Rightarrow> Some err
           | Inr resp \<Rightarrow>
               if hr_StatusCode resp \<noteq> StatusOK then Some (unexpected_status (hr_StatusCode resp))
               else None)
        })"

definition stopParamsFromLRP ::
  "ActualLRPKey \<Rightarrow> ActualLRPInstanceKey \<Rightarrow> (string \<times> string) list" where
  "stopParamsFromLRP key instanceKey =
     [(''process_guid'', ProcessGuid key), (''instance_guid'', InstanceGuid instanceKey),
      (''index'', Itoa (int_of_int32 (Index key)))]"

definition StopLRPInstance ::
  "('c, 'q, 'w) http_api \<Rightarrow> 'c rep_client \<Rightarrow> ActualLRPKey \<Rightarrow> ActualLRPInstanceKey \<Rightarrow>
     ('w, go_error option) act" where
  "StopLRPInstance H c key instanceKey =
     (case rata_CreateRequest H (rc_address c) (rc_routes c) StopLRPInstanceRoute
             (stopParamsFromLRP key instanceKey) '''' of
        Inl err \<Rightarrow> return (Some err)
      | Inr req \<Rightarrow> do {
          r \<leftarrow> http_Do H (rc_client c)
                (request_Header_Set H ''Content-Type'' ''application/json'' req);
          return (case r of
             Inl err \<Rightarrow> Some err
           | Inr resp \<Rightarrow>
               if hr_StatusCode resp \<noteq> StatusAccepted then Some (http_error (hr_StatusCode resp))
               else None)
        })"

definition CancelTask ::
  "('c, 'q, 'w) http_api \<Rightarrow> 'c rep_client \<Rightarrow> string \<Rightarrow> ('w, go_error option) act" where
  "CancelTask H c taskGuid =
     (case rata_CreateRequest H (rc_address c) (rc_routes c) CancelTaskRoute
             [(''task_guid'', taskGuid)] '''' of
        Inl err \<Rightarrow> return (Some err)
      | Inr req \<Rightarrow> do {
          r \<leftarrow> http_Do H (rc_client c) req;
          return (case r of
             Inl err \<Rightarrow> Some err
           | Inr resp \<Rightarrow>
               if hr_StatusCode resp \<noteq> StatusAccepted then Some (http_error (hr_StatusCode resp))
               else None)
        })"

section \<open>Addresses and TLS\<close>

definition https_url :: "string \<Rightarrow> bool" where
  "https_url url \<longleftrightarrow> (\<exists>u. url_Parse url = Inr u \<and> Scheme u = ''https'')"

definition bad_url :: "string \<Rightarrow> bool" where
  "bad_url url \<longleftrightarrow> url \<noteq> '''' \<and> (\<exists>err. url_Parse url = Inl err)"

lemma not_https_empty [simp]: "\<not> https_url ''''" "url_Parse '''' = Inr u \<Longrightarrow> Scheme u \<noteq> ''https''"
  by (auto simp: https_url_def url_Parse_def parse_nofrag_def getscheme_def Let_def
      split: if_splits option.splits)

lemma pickURL_cases:
  "pickURL config address url =
     (if bad_url url then Inl (projl (url_Parse url))
      else if RequireTLS config then
        (if https_url url then Inr url
         else Inl (NewError ''https scheme is required but none of the addresses support it''))
      else if https_url url \<and> \<not> hasCreds config then
        Inl (NewError (''https scheme not supported since certificates aren'' @
                 [CHR 0x27] @ ''t provided''))
      else Inr (if url = '''' then address else url))"
  by (cases "url_Parse url"; cases "url = ''''")
    (auto simp: pickURL_def https_url_def bad_url_def dest: not_https_empty(2))

lemma modifyTransport_transport:
  assumes "modifyTransport H config client = (None, client')"
  shows "hc_Timeout client' = hc_Timeout client"
    "hasCreds config \<and> hc_Transport client = http_Transport old \<Longrightarrow>
       \<exists>tls. cfhttp_NewTLSConfig H (CertFile config) (KeyFile config) (CaCertFile config) = Inr tls \<and>
         hc_Transport client' = http_Transport
           (Some (tls\<lparr>tls_ClientSessionCache := Some (ClientCacheSize config)\<rparr>))"
    "\<not> hasCreds config \<Longrightarrow> client' = client"
  using assms
  by (auto simp: modifyTransport_def Let_def split: if_splits round_tripper.splits sum.splits)

lemma NewClientFactory_eq_Inr:
  "NewClientFactory H httpClient stateClient (Some config) = Inr factory \<longleftrightarrow>
     modifyTransport H config httpClient = (None, cf_httpClient factory) \<and>
     modifyTransport H config stateClient = (None, cf_stateClient factory) \<and>
     cf_tlsConfig factory = config"
  by (cases factory) (auto simp: NewClientFactory_def split: prod.splits option.splits)

text \<open>
  C19: A client factory respects its TLS settings. It creates a client exactly when the announced
  url parses and its scheme fits: required TLS needs an https url, and an https url needs
  required TLS or certificates. The client talks to the announced url, or to the plain address
  when there is none, which cannot happen when TLS is required; and with certificates
  both of its HTTP clients carry the TLS configuration that was read from the files, with the
  session cache of the given size, while without them neither is changed.
\<close>

theorem client_respects_tls:
  assumes "NewClientFactory H httpClient stateClient (Some config) = Inr factory"
    and "hc_Transport httpClient = http_Transport old"
    and "hc_Transport stateClient = http_Transport old'"
  shows "case CreateClient factory address url of
     Inl err \<Rightarrow> bad_url url \<or> RequireTLS config \<and> \<not> https_url url \<or>
       \<not> RequireTLS config \<and> \<not> hasCreds config \<and> https_url url
   | Inr c \<Rightarrow> \<not> bad_url url \<and> (RequireTLS config \<longrightarrow> https_url url) \<and>
       (https_url url \<longrightarrow> RequireTLS config \<or> hasCreds config) \<and>
       rc_address c = (if url = '''' then address else url) \<and>
       (if hasCreds config
        then \<exists>tls. cfhttp_NewTLSConfig H (CertFile config) (KeyFile config) (CaCertFile config) =
               Inr tls \<and>
             (\<forall>hc \<in> {rc_client c, rc_stateClient c}. hc_Transport hc = http_Transport
               (Some (tls\<lparr>tls_ClientSessionCache := Some (ClientCacheSize config)\<rparr>)))
        else rc_client c = httpClient \<and> rc_stateClient c = stateClient)"
proof -
  have m: "modifyTransport H config httpClient = (None, cf_httpClient factory)"
    "modifyTransport H config stateClient = (None, cf_stateClient factory)"
    and config: "cf_tlsConfig factory = config"
    using assms(1) by (simp_all add: NewClientFactory_eq_Inr)
  have "if hasCreds config
      then \<exists>tls. cfhttp_NewTLSConfig H (CertFile config) (KeyFile config) (CaCertFile config) = Inr tls \<and>
        (\<forall>hc \<in> {cf_httpClient factory, cf_stateClient factory}. hc_Transport hc = http_Transport
          (Some (tls\<lparr>tls_ClientSessionCache := Some (ClientCacheSize config)\<rparr>)))
      else cf_httpClient factory = httpClient \<and> cf_stateClient factory = stateClient"
    using modifyTransport_transport(2,3) [OF m(1)] modifyTransport_transport(2,3) [OF m(2)] assms(2,3)
    by auto
  then show ?thesis
    by (auto simp: CreateClient_def newClient_def config pickURL_cases split: if_splits)
qed

section \<open>Delivery\<close>

text \<open>
  What a client relies on: a request of one of the routes, with plain values for the
  parameters in its path, reaches the handler of that route with these values as form
  values, and the response comes back; a server without a handler for the route answers
  404. What the handler started with \<open>go\<close> has run by then (\<open>early\<close>), or runs later.
\<close>

definition unreserved :: "char \<Rightarrow> bool" where
  "unreserved c \<longleftrightarrow> is_alpha c \<or> is_digit c \<or> c \<in> {CHR ''-'', CHR ''.'', CHR ''_'', CHR ''~''}"

definition plain :: "string \<Rightarrow> bool" where
  "plain s \<longleftrightarrow> s \<notin> {'''', ''.'', ''..''} \<and> list_all unreserved s"

definition form_value :: "(string \<times> string) list \<Rightarrow> string \<Rightarrow> string" where
  "form_value params key =
     (case key of [] \<Rightarrow> ''''
      | c # name \<Rightarrow> if c = CHR '':'' then (case map_of params name of None \<Rightarrow> '''' | Some v \<Rightarrow> v)
                   else '''')"

definition response_of :: "ResponseWriter \<Rightarrow> http_Response" where
  "response_of w = \<lparr>hr_StatusCode = (case rw_status w of None \<Rightarrow> 200 | Some code \<Rightarrow> code),
     hr_Body = (rw_body w, None)\<rparr>"

definition serve ::
  "bool \<Rightarrow> 'w Handlers \<Rightarrow> string \<Rightarrow> (string \<times> string) list \<Rightarrow> string \<Rightarrow>
     ('w, go_error + http_Response) act" where
  "serve early hs name params body =
     (case map_of hs name of
        None \<Rightarrow> return (Inr \<lparr>hr_StatusCode = 404, hr_Body = (''404 page not found'' @ [CHR 0x0A], None)\<rparr>)
      | Some h \<Rightarrow> do {
          r \<leftarrow> h new_writer \<lparr>req_FormValue = form_value params, req_Body = body\<rparr>;
          (if early then snd r else return ());
          return (Inr (response_of (fst r)))
        })"

text \<open>The parameters in the path of a route, and those of the given ones that are among them.\<close>

definition path_params :: "string \<Rightarrow> string list" where
  "path_params path = map tl (filter (\<lambda>part. HasPrefix part '':'') (Split path (CHR ''/'')))"

definition in_path :: "string \<Rightarrow> (string \<times> string) list \<Rightarrow> (string \<times> string) list" where
  "in_path path params = filter (\<lambda>(name, _). name \<in> set (path_params path)) params"

definition delivers ::
  "bool \<Rightarrow> ('c, 'q, 'w) http_api \<Rightarrow> 'c rep_client \<Rightarrow> 'w Handlers \<Rightarrow> bool" where
  "delivers early H c hs \<longleftrightarrow>
     (\<forall>r \<in> set (rc_routes c). \<forall>params body.
        set (path_params (route_Path r)) \<subseteq> fst ` set params \<and>
        list_all (plain \<circ> snd) (in_path (route_Path r) params) \<longrightarrow>
        (\<exists>req. rata_CreateRequest H (rc_address c) (rc_routes c) (route_Name r) params body = Inr req \<and>
           (\<forall>hc \<in> {rc_client c, rc_stateClient c}. \<forall>k v.
              http_Do H hc req = serve early hs (route_Name r) (in_path (route_Path r) params) body \<and>
              http_Do H hc (request_Header_Set H k v req) =
                serve early hs (route_Name r) (in_path (route_Path r) params) body)))"

text \<open>A connection that hands each request to the handlers of a server.\<close>

definition loopback ::
  "bool \<Rightarrow> 'w Handlers \<Rightarrow> (unit, string \<times> (string \<times> string) list \<times> string, 'w) http_api" where
  "loopback early hs =
     \<lparr>rata_CreateRequest = (\<lambda>address routes name params body.
        (case List.find (\<lambda>r. route_Name r = name) routes of
           None \<Rightarrow> Inl (ForeignError ''no such route'')
         | Some r \<Rightarrow>
             if set (path_params (route_Path r)) \<subseteq> fst ` set params
             then Inr (name, in_path (route_Path r) params, body)
             else Inl (ForeignError ''missing parameter''))),
      request_Header_Set = (\<lambda>k v req. req),
      http_Do = (\<lambda>hc (name, params, body). serve early hs name params body),
      cfhttp_NewTLSConfig = (\<lambda>cert key ca. Inr \<lparr>tls_certs = (), tls_ClientSessionCache = None\<rparr>)\<rparr>"

definition plain_client :: "unit http_Client" where
  "plain_client = \<lparr>hc_Transport = http_Transport None, hc_Timeout = 0\<rparr>"

lemma find_route:
  "distinct (map route_Name routes) \<Longrightarrow> r \<in> set routes \<Longrightarrow>
     List.find (\<lambda>r'. route_Name r' = route_Name r) routes = Some r"
  by (induction routes) (auto simp: rev_image_eqI)

lemma loopback_delivers: "delivers early (loopback early hs) (newClient hc sc address) hs"
proof -
  have "distinct (map route_Name Routes)"
    by (simp add: Routes_def RoutesSecure_def RoutesInsecure_def NewRoutes_def route_names)
  from find_route [OF this] show ?thesis
    by (auto simp: delivers_def loopback_def newClient_def)
qed

theorem client_respects_tls_witness:
  "let config = \<lparr>RequireTLS = True, CertFile = ''c'', KeyFile = ''k'', CaCertFile = ''a'', ClientCacheSize = 5\<rparr>;
       tls = \<lparr>tls_certs = (), tls_ClientSessionCache = Some 5\<rparr>;
       hc = plain_client\<lparr>hc_Transport := http_Transport (Some tls)\<rparr>;
       factory = \<lparr>cf_httpClient = hc, cf_stateClient = hc, cf_tlsConfig = config\<rparr>
   in NewClientFactory (loopback False []) plain_client plain_client (Some config) = Inr factory \<and>
      (case CreateClient factory ''http://10.0.0.1:1800'' '''' of Inl err \<Rightarrow> True | Inr c \<Rightarrow> False)"
  using client_respects_tls [of "loopback False []" plain_client plain_client
      "\<lparr>RequireTLS = True, CertFile = ''c'', KeyFile = ''k'', CaCertFile = ''a'', ClientCacheSize = 5\<rparr>"
      "let tls = \<lparr>tls_certs = (), tls_ClientSessionCache = Some 5\<rparr>;
           hc = plain_client\<lparr>hc_Transport := http_Transport (Some tls)\<rparr>
       in \<lparr>cf_httpClient = hc, cf_stateClient = hc,
           cf_tlsConfig = \<lparr>RequireTLS = True, CertFile = ''c'', KeyFile = ''k'', CaCertFile = ''a'',
             ClientCacheSize = 5\<rparr>\<rparr>" None None "''''" "''http://10.0.0.1:1800''"]
  by (auto simp: NewClientFactory_eq_Inr modifyTransport_def plain_client_def loopback_def
      hasCreds_def Let_def split: sum.splits)

end
