(* ===== verification/Rep_Config.thy ===== *)
theory Rep_Config
  imports Wire_Format
begin

text \<open>
  The configuration of the rep, \<open>cmd/rep/config/config.go\<close>. A \<open>StackMap\<close> is read from a
  list of texts of the form \<open>stack:path\<close>. The embedded configurations of other packages are
  one value of a type \<open>'e\<close>; how its fields and a \<open>durationjson.Duration\<close> are read from
  JSON, the defaults of those packages and the contents of the file are fields of a record
  \<open>config_api\<close>. Durations count nanoseconds.
\<close>

section \<open>Stack maps\<close>

type_synonym StackMap = "(string \<times> string) list"

fun stack_loop :: "string list \<Rightarrow> StackMap \<Rightarrow> go_error + StackMap" where
  "stack_loop [] m = Inr m"
| "stack_loop (s # arr) m =
     (case SplitN2 s (CHR '':'') of
        [stack, path] \<Rightarrow>
          if stack = '''' then Inl (NewError ''Invalid preloaded RootFS value: blank stack'')
          else if path = '''' then Inl (NewError ''Invalid preloaded RootFS value: blank path'')
          else stack_loop arr (AList.update stack path m)
      | _ \<Rightarrow> Inl (NewError (''Invalid preloaded RootFS value: not of the form '' @ [CHR 0x27] @
               ''stack-name:path'' @ [CHR 0x27])))"

definition StackMap_UnmarshalJSON :: "json \<Rightarrow> go_error + StackMap" where
  "StackMap_UnmarshalJSON data =
     (case decode_slice decode_string '''' data [] of
        Inl err \<Rightarrow> Inl err
      | Inr arr \<Rightarrow> stack_loop arr [])"


section \<open>The configuration\<close>

record 'e RepConfig =
  AdvertiseDomain :: string
  BBSAddress :: string
  BBSCACertFile :: string
  BBSClientCertFile :: string
  BBSClientKeyFile :: string
  BBSClientSessionCacheSize :: go_int
  BBSMaxIdleConnsPerHost :: go_int
  cfg_CaCertFile :: string
  CellID :: string
  CommunicationTimeout :: int
  ConsulCACert :: string
  ConsulClientCert :: string
  ConsulClientKey :: string
  ConsulCluster :: string
  DropsondePort :: go_int
  EnableLegacyAPIServer :: bool
  EvacuationPollingInterval :: int
  EvacuationTimeout :: int
  ListenAddr :: string
  ListenAddrAdmin :: string
  ListenAddrSecurable :: string
  LockRetryInterval :: int
  LockTTL :: int
  cfg_OptionalPlacementTags :: "string list"
  cfg_PlacementTags :: "string list"
  PollingInterval :: int
  PreloadedRootFS :: StackMap
  cfg_RequireTLS :: bool
  ServerCertFile :: string
  ServerKeyFile :: string
  SessionName :: string
  SupportedProviders :: "string list"
  cfg_Zone :: string
  cfg_embedded :: 'e

text \<open>
  \<open>embedded_fields\<close>: the fields of the embedded configurations and of \<open>loggregator\<close>;
  \<open>default_embedded\<close>: \<open>executorinit.DefaultConfiguration\<close>,
  \<open>lagerflags.DefaultLagerConfig()\<close> and zero values; \<open>locket_RetryInterval\<close> and
  \<open>locket_DefaultSessionTTL\<close>: constants of \<open>locket\<close>.
\<close>

record 'e config_api =
  os_Open :: "string \<Rightarrow> go_error + string"
  durationjson :: "json \<Rightarrow> int \<Rightarrow> go_error + int"
  embedded_fields :: "(string \<times> (json \<Rightarrow> 'e \<Rightarrow> go_error + 'e)) list"
  default_embedded :: 'e
  locket_RetryInterval :: int
  locket_DefaultSessionTTL :: int

definition time_Second :: int where
  "time_Second = 1000000000"

definition defaultConfig :: "'e config_api \<Rightarrow> 'e RepConfig" where
  "defaultConfig D =
     \<lparr>AdvertiseDomain = ''cell.service.cf.internal'',
      BBSAddress = '''', BBSCACertFile = '''', BBSClientCertFile = '''', BBSClientKeyFile = '''',
      BBSClientSessionCacheSize = 0,
      BBSMaxIdleConnsPerHost = 0,
      cfg_CaCertFile = '''', CellID = '''',
      CommunicationTimeout = 10 * time_Second,
      ConsulCACert = '''', ConsulClientCert = '''', ConsulClientKey = '''', ConsulCluster = '''',
      DropsondePort = 3457,
      EnableLegacyAPIServer = True,
      EvacuationPollingInterval = 10 * time_Second,
      EvacuationTimeout = 10 * 60 * time_Second,
      ListenAddr = ''0.0.0.0:1800'',
      ListenAddrAdmin = '''',
      ListenAddrSecurable = ''0.0.0.0:1801'',
      LockRetryInterval = locket_RetryInterval D,
      LockTTL = locket_DefaultSessionTTL D,
      cfg_OptionalPlacementTags = [], cfg_PlacementTags = [],
      PollingInterval = 30 * time_Second,
      PreloadedRootFS = [],
      cfg_RequireTLS = True,
      ServerCertFile = '''', ServerKeyFile = '''',
      SessionName = ''rep'',
      SupportedProviders = [], cfg_Zone = '''',
      cfg_embedded = default_embedded D\<rparr>"

definition RepConfig_fields ::
  "'e config_api \<Rightarrow> (string \<times> (json \<Rightarrow> 'e RepConfig \<Rightarrow> go_error + 'e RepConfig)) list" where
  "RepConfig_fields D =
     [(''advertise_domain'', field AdvertiseDomain AdvertiseDomain_update decode_string),
      (''bbs_address'', field BBSAddress BBSAddress_update decode_string),
      (''bbs_ca_cert_file'', field BBSCACertFile BBSCACertFile_update decode_string),
      (''bbs_client_cert_file'', field BBSClientCertFile BBSClientCertFile_update decode_string),
      (''bbs_client_key_file'', field BBSClientKeyFile BBSClientKeyFile_update decode_string),
      (''bbs_client_session_cache_size'',
         field BBSClientSessionCacheSize BBSClientSessionCacheSize_update decode_int),
      (''bbs_max_idle_conns_per_host'',
         field BBSMaxIdleConnsPerHost BBSMaxIdleConnsPerHost_update decode_int),
      (''ca_cert_file'', field cfg_CaCertFile cfg_CaCertFile_update decode_string),
      (''cell_id'', field CellID CellID_update decode_string),
      (''communication_timeout'',
         field CommunicationTimeout CommunicationTimeout_update (durationjson D)),
      (''consul_ca_cert'', field ConsulCACert ConsulCACert_update decode_string),
      (''consul_client_cert'', field ConsulClientCert ConsulClientCert_update decode_string),
      (''consul_client_key'', field ConsulClientKey ConsulClientKey_update decode_string),
      (''consul_cluster'', field ConsulCluster ConsulCluster_update decode_string),
      (''dropsonde_port'', field DropsondePort DropsondePort_update decode_int),
      (''enable_legacy_api_endpoints'',
         field EnableLegacyAPIServer EnableLegacyAPIServer_update decode_bool),
      (''evacuation_polling_interval'',
         field EvacuationPollingInterval EvacuationPollingInterval_update (durationjson D)),
      (''evacuation_timeout'',
         field EvacuationTimeout EvacuationTimeout_update (durationjson D)),
      (''listen_addr'', field ListenAddr ListenAddr_update decode_string),
      (''listen_addr_admin'', field ListenAddrAdmin ListenAddrAdmin_update decode_string),
      (''listen_addr_securable'',
         field ListenAddrSecurable ListenAddrSecurable_update decode_string),
      (''lock_retry_interval'',
         field LockRetryInterval LockRetryInterval_update (durationjson D)),
      (''lock_ttl'', field LockTTL LockTTL_update (durationjson D)),
      (''optional_placement_tags'',
         field cfg_OptionalPlacementTags cfg_OptionalPlacementTags_update
           (decode_slice decode_string '''')),
      (''placement_tags'',
         field cfg_PlacementTags cfg_PlacementTags_update (decode_slice decode_string '''')),
      (''polling_interval'', field PollingInterval PollingInterval_update (durationjson D)),
      (''preloaded_root_fs'',
         field PreloadedRootFS PreloadedRootFS_update (\<lambda>j _. StackMap_UnmarshalJSON j)),
      (''require_tls'', field cfg_RequireTLS cfg_RequireTLS_update decode_bool),
      (''server_cert_file'', field ServerCertFile ServerCertFile_update decode_string),
      (''server_key_file'', field ServerKeyFile ServerKeyFile_update decode_string),
      (''session_name'', field SessionName SessionName_update decode_string),
      (''supported_providers'',
         field SupportedProviders SupportedProviders_update (decode_slice decode_string '''')),
      (''zone'', field cfg_Zone cfg_Zone_update decode_string)] @
     map (\<lambda>(name, dec). (name, field cfg_embedded cfg_embedded_update dec)) (embedded_fields D)"

definition NewRepConfig :: "'e config_api \<Rightarrow> string \<Rightarrow> go_error + 'e RepConfig" where
  "NewRepConfig D configPath =
     (let repConfig = defaultConfig D
      in case os_Open D configPath of
           Inl err \<Rightarrow> Inl err
         | Inr configFile \<Rightarrow>
             (case decode_json configFile of
                None \<Rightarrow> Inl json_error
              | Some j \<Rightarrow> decode_struct (RepConfig_fields D) j repConfig))"

section \<open>Reading stack maps\<close>


definition stack_map_wf :: "StackMap \<Rightarrow> bool" where
  "stack_map_wf m \<longleftrightarrow> distinct (map fst m) \<and>
     (\<forall>(stack, path) \<in> set m. CHR '':'' \<notin> set stack \<and> stack \<noteq> '''' \<and> path \<noteq> '''')"





lemma update_wf:
  assumes "stack_map_wf m" "CHR '':'' \<notin> set stack" "stack \<noteq> ''''" "path \<noteq> ''''"
  shows "stack_map_wf (AList.update stack path m)"
proof -
  have "set (AList.update stack path m) \<subseteq> insert (stack, path) (set m)"
    by (induction m) auto
  with assms show ?thesis by (fastforce simp: stack_map_wf_def distinct_update)
qed

lemma stack_loop_wf: "stack_loop arr m = Inr m' \<Longrightarrow> stack_map_wf m \<Longrightarrow> stack_map_wf m'"
proof (induction arr arbitrary: m)
  case (Cons s arr)
  then show ?case
    by (auto simp: SplitN2_def update_wf dest!: cut_SomeD split: option.splits if_splits)
qed simp

lemma UnmarshalJSON_wf: "StackMap_UnmarshalJSON j = Inr m \<Longrightarrow> stack_map_wf m"
  by (auto simp: StackMap_UnmarshalJSON_def stack_map_wf_def [of "[]"] split: sum.splits
      intro: stack_loop_wf)

lemma find_field_mem: "find_field fds k = Some dec \<Longrightarrow> \<exists>name. (name, dec) \<in> set fds"
  by (auto simp: find_field_def find_Some_iff split: option.splits dest!: map_of_SomeD)
    (metis nth_mem)

lemma decode_fields_invariant:
  assumes "\<And>name dec j x y. (name, dec) \<in> set fds \<Longrightarrow> I x \<Longrightarrow> dec j x = Inr y \<Longrightarrow> I y"
  shows "decode_fields fds kvs x = Inr y \<Longrightarrow> I x \<Longrightarrow> I y"
proof (induction kvs arbitrary: x)
  case (Cons kj kvs)
  obtain k j where kj: "kj = (k, j)" by (cases kj)
  show ?case
  proof (cases "find_field fds k")
    case None
    with Cons kj show ?thesis by simp
  next
    case (Some dec)
    then obtain name z where "(name, dec) \<in> set fds" "dec j x = Inr z" "decode_fields fds kvs z = Inr y"
      using Cons.prems(1) kj find_field_mem [of fds k dec] by (auto split: sum.splits)
    with assms Cons show ?thesis by blast
  qed
qed simp

lemma RepConfig_fields_wf:
  assumes "(name, dec) \<in> set (RepConfig_fields D)" "stack_map_wf (PreloadedRootFS x)" "dec j x = Inr y"
  shows "stack_map_wf (PreloadedRootFS y)"
  using assms
  unfolding RepConfig_fields_def set_append Un_iff list.set insert_iff
  by (elim disjE) (auto simp: field_def UnmarshalJSON_wf split: sum.splits)

lemma config_wf:
  assumes "NewRepConfig D configPath = Inr repConfig"
  shows "stack_map_wf (PreloadedRootFS repConfig)"
proof -
  have "stack_map_wf (PreloadedRootFS (defaultConfig D))"
    by (simp add: defaultConfig_def stack_map_wf_def)
  moreover have "stack_map_wf (PreloadedRootFS y)"
    if "decode_fields (RepConfig_fields D) kvs x = Inr y" "stack_map_wf (PreloadedRootFS x)" for kvs x y
    using RepConfig_fields_wf that(2)
    by (intro decode_fields_invariant [where I = "\<lambda>x. stack_map_wf (PreloadedRootFS x)",
          OF _ that(1)])
  ultimately show ?thesis
    using assms
    by (auto simp: NewRepConfig_def decode_struct_def split: sum.splits option.splits json.splits)
qed

text \<open>
  C22: Every configuration that \<open>NewRepConfig\<close> returns has a proper map of preloaded root
  file systems: each stack occurs once, and neither its name nor its path is blank, whatever
  the file holds and however often it gives the field.
\<close>

theorem config_stack_map_wf:
  assumes "NewRepConfig D configPath = Inr repConfig"
  shows "stack_map_wf (PreloadedRootFS repConfig)"
  by (rule config_wf [OF assms])

definition example_config_api :: "unit config_api" where
  "example_config_api =
     \<lparr>os_Open = (\<lambda>path. if path = ''rep.json'' then
          Inr (print_json (JObject [(''preloaded_root_fs'', JArray [JString ''linux:/rootfs''])]))
        else Inl (ForeignError ''no such file'')),
      durationjson = (\<lambda>j old. Inl json_error), embedded_fields = [], default_embedded = (),
      locket_RetryInterval = 5 * time_Second, locket_DefaultSessionTTL = 15 * time_Second\<rparr>"

lemma example_open:
  "os_Open example_config_api ''rep.json'' =
     Inr (print_json (JObject [(''preloaded_root_fs'', JArray [JString ''linux:/rootfs''])]))"
  by (simp add: example_config_api_def)

lemma example_config:
  "NewRepConfig example_config_api ''rep.json'' =
     Inr ((defaultConfig example_config_api)\<lparr>PreloadedRootFS := [(''linux'', ''/rootfs'')]\<rparr>)"
proof -
  have "json_ok (JObject [(''preloaded_root_fs'', JArray [JString ''linux:/rootfs''])])"
    by (simp add: literal_ok del: utf8_valid.simps)
  then show ?thesis
    by (simp only: NewRepConfig_def Let_def example_open sum.case decode_json_print option.case)
      (simp add: decode_struct_def find_field_def RepConfig_fields_def field_def
        StackMap_UnmarshalJSON_def decode_slice_def decode_string_def SplitN2_def)
qed

theorem config_stack_map_wf_witness:
  "\<exists>repConfig. NewRepConfig example_config_api ''rep.json'' = Inr repConfig \<and>
     PreloadedRootFS repConfig = [(''linux'', ''/rootfs'')] \<and>
     stack_map_wf (PreloadedRootFS repConfig)"
  using config_stack_map_wf [OF example_config] example_config by simp

section \<open>Writing and reading stack maps\<close>



end
