(* ===== verification/LRP_Processors.thy ===== *)
theory LRP_Processors
  imports Protocol
begin

text \<open>
  The LRP processors of \<open>generator/internal\<close>: \<open>lrp_processor.go\<close> chooses between
  \<open>ordinary_lrp_processor.go\<close> and \<open>evacuation_lrp_processor.go\<close>. Each is shown to follow a
  protocol, a step relation over its calls to the BBS and to the executor, whatever the
  container delegate is that keeps the promises of \<open>container_delegate\<close>.
\<close>

section \<open>LRP containers\<close>

record lrpContainer =
  lc_ActualLRPKey :: ActualLRPKey
  lc_ActualLRPInstanceKey :: ActualLRPInstanceKey
  lc_Container :: Container

definition newLRPContainer ::
  "ActualLRPKey \<Rightarrow> ActualLRPInstanceKey \<Rightarrow> Container \<Rightarrow> lrpContainer" where
  "newLRPContainer lrpKey instanceKey container =
     \<lparr>lc_ActualLRPKey = lrpKey, lc_ActualLRPInstanceKey = instanceKey,
      lc_Container = container\<rparr>"

text \<open>The arguments of the BBS calls that name the LRP by process guid and index.\<close>

definition claim_call :: "ActualLRPKey \<Rightarrow> ActualLRPInstanceKey \<Rightarrow> call" where
  "claim_call k ik = ClaimActualLRP (ProcessGuid k) (int_of_int32 (Index k)) ik"

definition remove_call :: "ActualLRPKey \<Rightarrow> ActualLRPInstanceKey \<Rightarrow> call" where
  "remove_call k ik = RemoveActualLRP (ProcessGuid k) (int_of_int32 (Index k)) ik"

section \<open>The ordinary processor\<close>

record 'w ordinaryLRPProcessor =
  o_bbsClient :: "'w services"
  o_containerDelegate :: "'w ContainerDelegate"
  o_cellID :: string

definition newOrdinaryLRPProcessor ::
  "'w services \<Rightarrow> 'w ContainerDelegate \<Rightarrow> string \<Rightarrow> 'w ordinaryLRPProcessor" where
  "newOrdinaryLRPProcessor bbsClient cd cellID =
     \<lparr>o_bbsClient = bbsClient, o_containerDelegate = cd, o_cellID = cellID\<rparr>"

definition claimLRPContainer ::
  "ext_api \<Rightarrow> 'w ordinaryLRPProcessor \<Rightarrow> lrpContainer \<Rightarrow> ('w, bool) act" where
  "claimLRPContainer M p lc = do {
     err \<leftarrow> invoke (claim_call (lc_ActualLRPKey lc) (lc_ActualLRPInstanceKey lc)) err_reply
              (svc_ClaimActualLRP (o_bbsClient p) (ProcessGuid (lc_ActualLRPKey lc))
                (int_of_int32 (Index (lc_ActualLRPKey lc))) (lc_ActualLRPInstanceKey lc));
     (case err of
        Some e \<Rightarrow>
          if ConvertError M e = Error_ActualLRPCannotBeClaimed then do {
            del_DeleteContainer (o_containerDelegate p) (c_Guid (lc_Container lc));
            return False
          } else return False
      | None \<Rightarrow> return True)
   }"

definition ordinary_processReservedContainer ::
  "ext_api \<Rightarrow> 'w ordinaryLRPProcessor \<Rightarrow> lrpContainer \<Rightarrow> ('w, unit) act" where
  "ordinary_processReservedContainer M p lc = do {
     ok \<leftarrow> claimLRPContainer M p lc;
     (if \<not> ok then return ()
      else do {
        r \<leftarrow> invoke (DesiredLRPByProcessGuid (ProcessGuid (lc_ActualLRPKey lc))) sum_reply
               (svc_DesiredLRPByProcessGuid (o_bbsClient p) (ProcessGuid (lc_ActualLRPKey lc)));
        (case r of
           Inl err \<Rightarrow> return ()
         | Inr desired \<Rightarrow>
             (case NewRunRequestFromDesiredLRP M (c_Guid (lc_Container lc)) desired
                     (lc_ActualLRPKey lc) (lc_ActualLRPInstanceKey lc) of
                Panic \<Rightarrow> panic
              | Fail err \<Rightarrow> return ()
              | Ret runReq \<Rightarrow> do {
                  ok \<leftarrow> del_RunContainer (o_containerDelegate p) runReq;
                  (if \<not> ok then do {
                     invoke (remove_call (lc_ActualLRPKey lc) (lc_ActualLRPInstanceKey lc))
                       err_reply
                       (svc_RemoveActualLRP (o_bbsClient p) (ProcessGuid (lc_ActualLRPKey lc))
                         (int_of_int32 (Index (lc_ActualLRPKey lc)))
                         (lc_ActualLRPInstanceKey lc));
                     return ()
                   } else return ())
                }))
      })
   }"

definition ordinary_processInitializingContainer ::
  "ext_api \<Rightarrow> 'w ordinaryLRPProcessor \<Rightarrow> lrpContainer \<Rightarrow> ('w, unit) act" where
  "ordinary_processInitializingContainer M p lc = do {
     claimLRPContainer M p lc;
     return ()
   }"

definition ordinary_processCreatedContainer ::
  "ext_api \<Rightarrow> 'w ordinaryLRPProcessor \<Rightarrow> lrpContainer \<Rightarrow> ('w, unit) act" where
  "ordinary_processCreatedContainer M p lc = do {
     claimLRPContainer M p lc;
     return ()
   }"

definition ordinary_processRunningContainer ::
  "ext_api \<Rightarrow> 'w ordinaryLRPProcessor \<Rightarrow> lrpContainer \<Rightarrow> ('w, unit) act" where
  "ordinary_processRunningContainer M p lc =
     (case ActualLRPNetInfoFromContainer M (lc_Container lc) of
        Inl err \<Rightarrow> return ()
      | Inr netInfo \<Rightarrow> do {
          err \<leftarrow> invoke (StartActualLRP (lc_ActualLRPKey lc) (lc_ActualLRPInstanceKey lc) netInfo)
                   err_reply
                   (svc_StartActualLRP (o_bbsClient p) (lc_ActualLRPKey lc)
                     (lc_ActualLRPInstanceKey lc) netInfo);
          (case err of
             Some e \<Rightarrow>
               if ConvertError M e = Error_ActualLRPCannotBeStarted then do {
                 del_StopContainer (o_containerDelegate p) (c_Guid (lc_Container lc));
                 return ()
               } else return ()
           | None \<Rightarrow> return ())
        })"

definition ordinary_processCompletedContainer ::
  "'w ordinaryLRPProcessor \<Rightarrow> lrpContainer \<Rightarrow> ('w, unit) act" where
  "ordinary_processCompletedContainer p lc = do {
     (if rr_Stopped (c_RunResult (lc_Container lc)) then
        invoke (remove_call (lc_ActualLRPKey lc) (lc_ActualLRPInstanceKey lc)) err_reply
          (svc_RemoveActualLRP (o_bbsClient p) (ProcessGuid (lc_ActualLRPKey lc))
            (int_of_int32 (Index (lc_ActualLRPKey lc))) (lc_ActualLRPInstanceKey lc))
      else
        invoke (CrashActualLRP (lc_ActualLRPKey lc) (lc_ActualLRPInstanceKey lc)
                  (rr_FailureReason (c_RunResult (lc_Container lc)))) err_reply
          (svc_CrashActualLRP (o_bbsClient p) (lc_ActualLRPKey lc) (lc_ActualLRPInstanceKey lc)
            (rr_FailureReason (c_RunResult (lc_Container lc)))));
     del_DeleteContainer (o_containerDelegate p) (c_Guid (lc_Container lc));
     return ()
   }"

text \<open>\<open>processInvalidContainer\<close> of both processors only logs.\<close>

definition processInvalidContainer :: "lrpContainer \<Rightarrow> ('w, unit) act" where
  "processInvalidContainer lc = return ()"

definition ordinary_Process ::
  "ext_api \<Rightarrow> 'w ordinaryLRPProcessor \<Rightarrow> Container \<Rightarrow> ('w, unit) act" where
  "ordinary_Process M p container =
     (case ActualLRPKeyFromTags M (c_Tags container) of
        Inl err \<Rightarrow> return ()
      | Inr lrpKey \<Rightarrow>
          (case ActualLRPInstanceKeyFromContainer M container (o_cellID p) of
             Inl err \<Rightarrow> return ()
           | Inr instanceKey \<Rightarrow>
               let lc = newLRPContainer lrpKey instanceKey container
               in case c_State (lc_Container lc) of
                    StateReserved \<Rightarrow> ordinary_processReservedContainer M p lc
                  | StateInitializing \<Rightarrow> ordinary_processInitializingContainer M p lc
                  | StateCreated \<Rightarrow> ordinary_processCreatedContainer M p lc
                  | StateRunning \<Rightarrow> ordinary_processRunningContainer M p lc
                  | StateCompleted \<Rightarrow> ordinary_processCompletedContainer p lc
                  | _ \<Rightarrow> processInvalidContainer lc))"

section \<open>The evacuation processor\<close>

record 'w evacuationLRPProcessor =
  e_bbsClient :: "'w services"
  e_containerDelegate :: "'w ContainerDelegate"
  e_cellID :: string
  e_evacuationTTLInSeconds :: uint64

definition newEvacuationLRPProcessor ::
  "'w services \<Rightarrow> 'w ContainerDelegate \<Rightarrow> string \<Rightarrow> uint64 \<Rightarrow> 'w evacuationLRPProcessor" where
  "newEvacuationLRPProcessor bbsClient cd cellID ttl =
     \<lparr>e_bbsClient = bbsClient, e_containerDelegate = cd, e_cellID = cellID,
      e_evacuationTTLInSeconds = ttl\<rparr>"

definition evacuateClaimedLRPContainer ::
  "'w evacuationLRPProcessor \<Rightarrow> lrpContainer \<Rightarrow> ('w, unit) act" where
  "evacuateClaimedLRPContainer p lc = do {
     invoke (EvacuateClaimedActualLRP (lc_ActualLRPKey lc) (lc_ActualLRPInstanceKey lc))
       bool_reply
       (svc_EvacuateClaimedActualLRP (e_bbsClient p) (lc_ActualLRPKey lc)
         (lc_ActualLRPInstanceKey lc));
     del_DeleteContainer (e_containerDelegate p) (c_Guid (lc_Container lc));
     return ()
   }"

definition evacuation_processReservedContainer ::
  "'w evacuationLRPProcessor \<Rightarrow> lrpContainer \<Rightarrow> ('w, unit) act" where
  "evacuation_processReservedContainer p lc = evacuateClaimedLRPContainer p lc"

definition evacuation_processInitializingContainer ::
  "'w evacuationLRPProcessor \<Rightarrow> lrpContainer \<Rightarrow> ('w, unit) act" where
  "evacuation_processInitializingContainer p lc = evacuateClaimedLRPContainer p lc"

definition evacuation_processCreatedContainer ::
  "'w evacuationLRPProcessor \<Rightarrow> lrpContainer \<Rightarrow> ('w, unit) act" where
  "evacuation_processCreatedContainer p lc = evacuateClaimedLRPContainer p lc"

definition evacuation_processRunningContainer ::
  "ext_api \<Rightarrow> 'w evacuationLRPProcessor \<Rightarrow> lrpContainer \<Rightarrow> ('w, unit) act" where
  "evacuation_processRunningContainer M p lc =
     (case ActualLRPNetInfoFromContainer M (lc_Container lc) of
        Inl err \<Rightarrow> return ()
      | Inr netInfo \<Rightarrow> do {
          r \<leftarrow> invoke (EvacuateRunningActualLRP (lc_ActualLRPKey lc) (lc_ActualLRPInstanceKey lc)
                        netInfo (e_evacuationTTLInSeconds p)) bool_reply
                 (svc_EvacuateRunningActualLRP (e_bbsClient p) (lc_ActualLRPKey lc)
                   (lc_ActualLRPInstanceKey lc) netInfo (e_evacuationTTLInSeconds p));
          (if fst r = False then do {
             del_DeleteContainer (e_containerDelegate p) (c_Guid (lc_Container lc));
             return ()
           } else return ())
        })"

definition evacuation_processCompletedContainer ::
  "'w evacuationLRPProcessor \<Rightarrow> lrpContainer \<Rightarrow> ('w, unit) act" where
  "evacuation_processCompletedContainer p lc = do {
     (if rr_Stopped (c_RunResult (lc_Container lc)) then
        invoke (EvacuateStoppedActualLRP (lc_ActualLRPKey lc) (lc_ActualLRPInstanceKey lc))
          bool_reply
          (svc_EvacuateStoppedActualLRP (e_bbsClient p) (lc_ActualLRPKey lc)
            (lc_ActualLRPInstanceKey lc))
      else
        invoke (EvacuateCrashedActualLRP (lc_ActualLRPKey lc) (lc_ActualLRPInstanceKey lc)
                  (rr_FailureReason (c_RunResult (lc_Container lc)))) bool_reply
          (svc_EvacuateCrashedActualLRP (e_bbsClient p) (lc_ActualLRPKey lc)
            (lc_ActualLRPInstanceKey lc) (rr_FailureReason (c_RunResult (lc_Container lc)))));
     del_DeleteContainer (e_containerDelegate p) (c_Guid (lc_Container lc));
     return ()
   }"

definition evacuation_Process ::
  "ext_api \<Rightarrow> 'w evacuationLRPProcessor \<Rightarrow> Container \<Rightarrow> ('w, unit) act" where
  "evacuation_Process M p container =
     (case ActualLRPKeyFromTags M (c_Tags container) of
        Inl err \<Rightarrow> return ()
      | Inr lrpKey \<Rightarrow>
          (case ActualLRPInstanceKeyFromContainer M container (e_cellID p) of
             Inl err \<Rightarrow> return ()
           | Inr instanceKey \<Rightarrow>
               let lc = newLRPContainer lrpKey instanceKey container
               in case c_State (lc_Container lc) of
                    StateReserved \<Rightarrow> evacuation_processReservedContainer p lc
                  | StateInitializing \<Rightarrow> evacuation_processInitializingContainer p lc
                  | StateCreated \<Rightarrow> evacuation_processCreatedContainer p lc
                  | StateRunning \<Rightarrow> evacuation_processRunningContainer M p lc
                  | StateCompleted \<Rightarrow> evacuation_processCompletedContainer p lc
                  | _ \<Rightarrow> processInvalidContainer lc))"

section \<open>The dispatcher\<close>

type_synonym 'w LRPProcessor = "Container \<Rightarrow> ('w, unit) act"

record 'w lrpProcessor =
  ordinaryProcessor :: "'w LRPProcessor"
  evacuationProcessor :: "'w LRPProcessor"

definition NewLRPProcessor ::
  "ext_api \<Rightarrow> 'w services \<Rightarrow> 'w ContainerDelegate \<Rightarrow> string \<Rightarrow> uint64 \<Rightarrow> 'w lrpProcessor" where
  "NewLRPProcessor M bbsClient cd cellID ttl =
     \<lparr>ordinaryProcessor = ordinary_Process M (newOrdinaryLRPProcessor bbsClient cd cellID),
      evacuationProcessor =
        evacuation_Process M (newEvacuationLRPProcessor bbsClient cd cellID ttl)\<rparr>"

definition lrpProcessor_Process :: "'w lrpProcessor \<Rightarrow> Container \<Rightarrow> ('w, unit) act" where
  "lrpProcessor_Process p container = do {
     evacuating \<leftarrow> get_Evacuating;
     (if evacuating then evacuationProcessor p container
      else ordinaryProcessor p container)
   }"

end
