(* ===== verification/LRP_Protocol.thy ===== *)
theory LRP_Protocol
  imports LRP_Processors Example_Cell
begin

text \<open>
  What the LRP processors do, as protocols over the calls they make, and the properties of
  LRP processing that follow from the protocols.
\<close>

section \<open>The protocol of the ordinary processor\<close>

datatype ophase =
    O_Start | O_Refused | O_Claimed | O_Fetched DesiredLRP | O_RunFailed | O_Undo
  | O_Unstartable | O_Reported | O_Done

text \<open>The desired LRPs that the BBS may return for a process guid.\<close>

definition desired_answer :: "'w services \<Rightarrow> string \<Rightarrow> DesiredLRP \<Rightarrow> bool" where
  "desired_answer S pg d \<longleftrightarrow> (\<exists>w. fst (svc_DesiredLRPByProcessGuid S pg w) = Inr d)"

inductive ordinary_step ::
  "ext_api \<Rightarrow> 'w services \<Rightarrow> Container \<Rightarrow> ActualLRPKey \<Rightarrow> ActualLRPInstanceKey \<Rightarrow>
     ophase \<Rightarrow> event \<Rightarrow> ophase \<Rightarrow> bool"
  for M :: ext_api and S :: "'w services" and c :: Container and k :: ActualLRPKey 
    and ik :: ActualLRPInstanceKey where
  reserve: "c_State c = StateReserved \<Longrightarrow>
    ordinary_step M S c k ik O_Start (claim_call k ik, OK) O_Claimed"
| keep_claim: "c_State c \<in> {StateInitializing, StateCreated} \<Longrightarrow>
    ordinary_step M S c k ik O_Start (claim_call k ik, OK) O_Done"
| claim_refused: "c_State c \<in> {StateReserved, StateInitializing, StateCreated} \<Longrightarrow>
    ConvertError M e = Error_ActualLRPCannotBeClaimed \<Longrightarrow>
    ordinary_step M S c k ik O_Start (claim_call k ik, Err e) O_Refused"
| claim_failed: "c_State c \<in> {StateReserved, StateInitializing, StateCreated} \<Longrightarrow>
    ConvertError M e \<noteq> Error_ActualLRPCannotBeClaimed \<Longrightarrow>
    ordinary_step M S c k ik O_Start (claim_call k ik, Err e) O_Done"
| drop_refused: "ordinary_step M S c k ik O_Refused (DeleteContainer (c_Guid c), r) O_Done"
| fetched: "desired_answer S (ProcessGuid k) d \<Longrightarrow> ordinary_step M S c k ik O_Claimed
    (DesiredLRPByProcessGuid (ProcessGuid k), OK) (O_Fetched d)"
| not_fetched: "ordinary_step M S c k ik O_Claimed
    (DesiredLRPByProcessGuid (ProcessGuid k), Err e) O_Done"
| run_ok: "NewRunRequestFromDesiredLRP M (c_Guid c) d k ik = Ret rq \<Longrightarrow>
    ordinary_step M S c k ik (O_Fetched d) (RunContainer rq, OK) O_Done"
| run_failed: "NewRunRequestFromDesiredLRP M (c_Guid c) d k ik = Ret rq \<Longrightarrow>
    ordinary_step M S c k ik (O_Fetched d) (RunContainer rq, Err e) O_RunFailed"
| drop_failed: "ordinary_step M S c k ik O_RunFailed (DeleteContainer (c_Guid c), r) O_Undo"
| unclaim: "ordinary_step M S c k ik O_Undo (remove_call k ik, r) O_Done"
| started: "c_State c = StateRunning \<Longrightarrow> ActualLRPNetInfoFromContainer M c = Inr ni \<Longrightarrow>
    ordinary_step M S c k ik O_Start (StartActualLRP k ik ni, OK) O_Done"
| unstartable: "c_State c = StateRunning \<Longrightarrow> ActualLRPNetInfoFromContainer M c = Inr ni \<Longrightarrow>
    ConvertError M e = Error_ActualLRPCannotBeStarted \<Longrightarrow>
    ordinary_step M S c k ik O_Start (StartActualLRP k ik ni, Err e) O_Unstartable"
| start_failed: "c_State c = StateRunning \<Longrightarrow> ActualLRPNetInfoFromContainer M c = Inr ni \<Longrightarrow>
    ConvertError M e \<noteq> Error_ActualLRPCannotBeStarted \<Longrightarrow>
    ordinary_step M S c k ik O_Start (StartActualLRP k ik ni, Err e) O_Done"
| stop: "ordinary_step M S c k ik O_Unstartable (StopContainer (c_Guid c), r) O_Done"
| removed: "c_State c = StateCompleted \<Longrightarrow> rr_Stopped (c_RunResult c) \<Longrightarrow>
    ordinary_step M S c k ik O_Start (remove_call k ik, r) O_Reported"
| crashed: "c_State c = StateCompleted \<Longrightarrow> \<not> rr_Stopped (c_RunResult c) \<Longrightarrow>
    ordinary_step M S c k ik O_Start
      (CrashActualLRP k ik (rr_FailureReason (c_RunResult c)), r) O_Reported"
| drop_completed: "ordinary_step M S c k ik O_Reported (DeleteContainer (c_Guid c), r) O_Done"

text \<open>
  Where processing may stop: when all is done, at once when there is nothing to do, and with
  the claim held when no run request can be made of the desired LRP.
\<close>

fun ordinary_final ::
  "ext_api \<Rightarrow> Container \<Rightarrow> ActualLRPKey \<Rightarrow> ActualLRPInstanceKey \<Rightarrow> ophase \<Rightarrow> bool" where
  "ordinary_final M c k ik O_Done = True"
| "ordinary_final M c k ik O_Start =
     (c_State c = StateInvalid \<or>
      c_State c = StateRunning \<and> (\<exists>e. ActualLRPNetInfoFromContainer M c = Inl e))"
| "ordinary_final M c k ik (O_Fetched d) =
     (\<forall>rq. NewRunRequestFromDesiredLRP M (c_Guid c) d k ik \<noteq> Ret rq)"
| "ordinary_final M c k ik _ = False"

inductive_cases ordinary_stepE: "ordinary_step M S c k ik p e q"
inductive_simps ordinary_step_iff: "ordinary_step M S c k ik p (cl, r) q"

section \<open>The protocol of the evacuation processor\<close>

datatype ephase = E_Start | E_Delete | E_Done

inductive evacuation_step ::
  "ext_api \<Rightarrow> uint64 \<Rightarrow> Container \<Rightarrow> ActualLRPKey \<Rightarrow> ActualLRPInstanceKey \<Rightarrow>
     ephase \<Rightarrow> event \<Rightarrow> ephase \<Rightarrow> bool"
  for M :: ext_api and ttl :: uint64 and c :: Container and k :: ActualLRPKey
    and ik :: ActualLRPInstanceKey where
  ev_claimed: "c_State c \<in> {StateReserved, StateInitializing, StateCreated} \<Longrightarrow>
    evacuation_step M ttl c k ik E_Start (EvacuateClaimedActualLRP k ik, r) E_Delete"
| ev_keep: "c_State c = StateRunning \<Longrightarrow> ActualLRPNetInfoFromContainer M c = Inr ni \<Longrightarrow>
    evacuation_step M ttl c k ik E_Start
      (EvacuateRunningActualLRP k ik ni ttl, Answer True err) E_Done"
| ev_drop: "c_State c = StateRunning \<Longrightarrow> ActualLRPNetInfoFromContainer M c = Inr ni \<Longrightarrow>
    evacuation_step M ttl c k ik E_Start
      (EvacuateRunningActualLRP k ik ni ttl, Answer False err) E_Delete"
| ev_stopped: "c_State c = StateCompleted \<Longrightarrow> rr_Stopped (c_RunResult c) \<Longrightarrow>
    evacuation_step M ttl c k ik E_Start (EvacuateStoppedActualLRP k ik, r) E_Delete"
| ev_crashed: "c_State c = StateCompleted \<Longrightarrow> \<not> rr_Stopped (c_RunResult c) \<Longrightarrow>
    evacuation_step M ttl c k ik E_Start
      (EvacuateCrashedActualLRP k ik (rr_FailureReason (c_RunResult c)), r) E_Delete"
| ev_delete: "evacuation_step M ttl c k ik E_Delete (DeleteContainer (c_Guid c), r) E_Done"

fun evacuation_final :: "ext_api \<Rightarrow> Container \<Rightarrow> ephase \<Rightarrow> bool" where
  "evacuation_final M c E_Done = True"
| "evacuation_final M c E_Start =
     (c_State c = StateInvalid \<or>
      c_State c = StateRunning \<and> (\<exists>e. ActualLRPNetInfoFromContainer M c = Inl e))"
| "evacuation_final M c E_Delete = False"

inductive_cases evacuation_stepE: "evacuation_step M ttl c k ik p e q"

text \<open>How runs end.\<close>

lemma ordinary_run_Reported:
  assumes "run (ordinary_step M S c k ik) O_Reported es q" "ordinary_final M c k ik q"
  shows "\<exists>r. es = [(DeleteContainer (c_Guid c), r)]"
proof -
  have stop: "run (ordinary_step M S c k ik) O_Done es q \<Longrightarrow> es = []" for es q
    by (erule run.cases) (auto elim: ordinary_stepE)
  from assms show ?thesis
    by (cases rule: run.cases) (auto elim!: ordinary_stepE dest: stop)
qed

lemma evacuation_run_Delete:
  assumes "run (evacuation_step M ttl c k ik) E_Delete es q" "evacuation_final M c q"
  shows "\<exists>r. es = [(DeleteContainer (c_Guid c), r)]"
proof -
  have stop: "run (evacuation_step M ttl c k ik) E_Done es q \<Longrightarrow> es = []" for es q
    by (erule run.cases) (auto elim: evacuation_stepE)
  from assms show ?thesis
    by (cases rule: run.cases) (auto elim!: evacuation_stepE dest: stop)
qed

section \<open>The ordinary processor follows its protocol\<close>

lemma newLRPContainer_simps [simp]:
  "lc_ActualLRPKey (newLRPContainer k ik c) = k"
  "lc_ActualLRPInstanceKey (newLRPContainer k ik c) = ik"
  "lc_Container (newLRPContainer k ik c) = c"
  by (simp_all add: newLRPContainer_def)

lemma run_request_guid:
  "NewRunRequestFromDesiredLRP M g d k ik = Ret rq \<Longrightarrow> rq_Guid rq = g"
  by (auto simp: NewRunRequestFromDesiredLRP_def obind_eq_Ret split: sum.splits)

locale ordinary_processor = container_delegate "o_containerDelegate p"
  for p :: "'w ordinaryLRPProcessor" +
  fixes M :: ext_api
begin

lemma claim_appends [simp, intro]: "appends (claimLRPContainer M p lc)"
  by (simp add: claimLRPContainer_def)

lemma claim_follows:
  assumes "c_State c \<in> {StateReserved, StateInitializing, StateCreated}"
  shows "follows (ordinary_step M (o_bbsClient p) c k ik) O_Start
    (claimLRPContainer M p (newLRPContainer k ik c)) s
    (\<lambda>ok q. q = (if ok \<and> c_State c = StateReserved then O_Claimed else O_Done))"
proof -
  let ?f = "svc_ClaimActualLRP (o_bbsClient p) (ProcessGuid k) (int_of_int32 (Index k)) ik"
  show ?thesis
  proof (cases "fst (?f (ext s))")
    case None
    with assms show ?thesis
      by (auto simp: claimLRPContainer_def follows_def calls_invoke_bind run_single
          intro: ordinary_step.intros)
  next
    case (Some e)
    obtain r where "calls (del_DeleteContainer (o_containerDelegate p) (c_Guid c))
        (exec (invoke (claim_call k ik) err_reply ?f) s) = [(DeleteContainer (c_Guid c), r)]"
      by (rule delete_cases)
    with Some assms show ?thesis
      by (auto simp: claimLRPContainer_def follows_def calls_invoke_bind calls_bind
          intro!: run_Cons intro: ordinary_step.intros)
  qed
qed

lemma run_follows:
  assumes "NewRunRequestFromDesiredLRP M (c_Guid c) d k ik = Ret rq"
  shows "follows (ordinary_step M (o_bbsClient p) c k ik) (O_Fetched d)
    (del_RunContainer (o_containerDelegate p) rq) s
    (\<lambda>ok q. q = (if ok then O_Done else O_Undo))"
proof (cases rule: run_cases [of rq s])
  case ok
  with assms show ?thesis
    by (auto simp: follows_def run_single intro: ordinary_step.run_ok)
next
  case (failed e r)
  with assms show ?thesis
    by (auto simp: follows_def run_request_guid [OF assms] intro!: run_Cons
        intro: ordinary_step.run_failed ordinary_step.drop_failed)
qed

lemma reserved_follows:
  assumes c: "c_State c = StateReserved"
  shows "follows (ordinary_step M (o_bbsClient p) c k ik) O_Start
    (ordinary_processReservedContainer M p (newLRPContainer k ik c)) s
    (\<lambda>_. ordinary_final M c k ik)"
  unfolding ordinary_processReservedContainer_def newLRPContainer_simps
proof (rule follows_bind [OF claim_follows], goal_cases)
  case (4 ok q)
  let ?fetch = "invoke (DesiredLRPByProcessGuid (ProcessGuid k)) sum_reply
    (svc_DesiredLRPByProcessGuid (o_bbsClient p) (ProcessGuid k))"
  have fetch: "follows (ordinary_step M (o_bbsClient p) c k ik) O_Claimed ?fetch s'
      (\<lambda>r q. q = (case r of Inl _ \<Rightarrow> O_Done | Inr d \<Rightarrow> O_Fetched d))" for s' :: "'w world"
    by (rule follows_invoke)
      (auto intro!: fetched not_fetched simp: desired_answer_def split: sum.split)
  show ?case
  proof (cases ok)
    case True
    with 4 c have q: "q = O_Claimed" by simp
    from True have not: "\<not> (\<not> ok)" by simp
    show ?thesis
      unfolding q if_not_P [OF not]
    proof (rule follows_bind [OF fetch], goal_cases)
      case (3 r q')
      show ?case
      proof (cases r)
        case (Inr d)
        show ?thesis
        proof (cases "NewRunRequestFromDesiredLRP M (c_Guid c) d k ik")
          case (Ret rq)
          show ?thesis
            unfolding 3(2) Inr Ret sum.case outcome.case
            by (rule follows_bind [OF run_follows [OF Ret]])
              (auto simp: follows_def calls_invoke_bind run_single intro: unclaim)
        qed (auto simp: 3(2) Inr follows_def)
      qed (auto simp: 3(2) intro: follows_return)
    qed auto
  qed (use 4 in \<open>auto intro: follows_return\<close>)
qed (use c in auto)

lemma running_follows:
  assumes "c_State c = StateRunning"
  shows "follows (ordinary_step M (o_bbsClient p) c k ik) O_Start
    (ordinary_processRunningContainer M p (newLRPContainer k ik c)) s
    (\<lambda>_. ordinary_final M c k ik)"
proof (cases "ActualLRPNetInfoFromContainer M c")
  case (Inr ni)
  let ?f = "svc_StartActualLRP (o_bbsClient p) k ik ni"
  obtain r where "calls (del_StopContainer (o_containerDelegate p) (c_Guid c))
      (exec (invoke (StartActualLRP k ik ni) err_reply ?f) s) = [(StopContainer (c_Guid c), r)]"
    using stop_calls by blast
  with Inr assms show ?thesis
    by (cases "fst (?f (ext s))")
      (auto simp: ordinary_processRunningContainer_def follows_def calls_invoke_bind calls_bind
        intro!: run_Cons exI [of _ O_Done] intro: ordinary_step.intros)
qed (use assms in \<open>auto simp: ordinary_processRunningContainer_def intro: follows_return\<close>)

lemma completed_follows:
  assumes "c_State c = StateCompleted"
  shows "follows (ordinary_step M (o_bbsClient p) c k ik) O_Start
    (ordinary_processCompletedContainer p (newLRPContainer k ik c)) s
    (\<lambda>_. ordinary_final M c k ik)"
proof -
  have "follows (ordinary_step M (o_bbsClient p) c k ik) O_Reported
      (do { del_DeleteContainer (o_containerDelegate p) (c_Guid c); return () }) s'
      (\<lambda>_. ordinary_final M c k ik)" for s'
    by (rule delete_last_follows [where q = O_Done]) (simp_all add: drop_completed)
  with assms show ?thesis
    unfolding ordinary_processCompletedContainer_def newLRPContainer_simps
    by - (rule follows_bind [where G = "\<lambda>_ q. q = O_Reported"],
      auto intro!: follows_invoke removed ordinary_step.crashed)
qed

lemma ordinary_Process_follows:
  assumes "ActualLRPKeyFromTags M (c_Tags c) = Inr k"
    and "ActualLRPInstanceKeyFromContainer M c (o_cellID p) = Inr ik"
  shows "follows (ordinary_step M (o_bbsClient p) c k ik) O_Start (ordinary_Process M p c) s
    (\<lambda>_. ordinary_final M c k ik)"
proof (cases "c_State c \<in> {StateInitializing, StateCreated}")
  case True
  then have "follows (ordinary_step M (o_bbsClient p) c k ik) O_Start
      (do { claimLRPContainer M p (newLRPContainer k ik c); return () }) s
      (\<lambda>_. ordinary_final M c k ik)"
    by (intro follows_bind [OF claim_follows]) (auto intro: follows_return)
  with True assms show ?thesis
    by (auto simp: ordinary_Process_def ordinary_processInitializingContainer_def
        ordinary_processCreatedContainer_def)
next
  case False
  then show ?thesis
    using assms reserved_follows running_follows completed_follows
    by (cases "c_State c")
      (auto simp: ordinary_Process_def processInvalidContainer_def intro: follows_return)
qed

lemma ordinary_Process_appends [simp]: "appends (ordinary_Process M p c)"
  by (cases "c_State c")
    (simp_all add: ordinary_Process_def ordinary_processReservedContainer_def
      ordinary_processInitializingContainer_def ordinary_processCreatedContainer_def
      ordinary_processRunningContainer_def ordinary_processCompletedContainer_def
      processInvalidContainer_def Let_def)

lemma ordinary_Process_no_key:
  assumes "\<nexists>k ik. ActualLRPKeyFromTags M (c_Tags c) = Inr k \<and>
    ActualLRPInstanceKeyFromContainer M c (o_cellID p) = Inr ik"
  shows "calls (ordinary_Process M p c) s = []"
  using assms by (auto simp: ordinary_Process_def split: sum.splits)

end

section \<open>The evacuation processor follows its protocol\<close>

locale evacuation_processor = container_delegate "e_containerDelegate p"
  for p :: "'w evacuationLRPProcessor" +
  fixes M :: ext_api
begin

lemma then_delete_follows:
  assumes "follows (evacuation_step M ttl c k ik) E_Start m s (\<lambda>_ q. q = E_Delete)" "appends m"
  shows "follows (evacuation_step M ttl c k ik) E_Start
    (do { m; del_DeleteContainer (e_containerDelegate p) (c_Guid c); return () }) s
    (\<lambda>_. evacuation_final M c)"
  using assms
  by - (rule follows_bind, assumption,
    auto intro!: delete_last_follows [where q = E_Done] ev_delete)

lemma evacuation_Process_follows:
  assumes "ActualLRPKeyFromTags M (c_Tags c) = Inr k"
    and "ActualLRPInstanceKeyFromContainer M c (e_cellID p) = Inr ik"
  shows "follows (evacuation_step M (e_evacuationTTLInSeconds p) c k ik) E_Start
    (evacuation_Process M p c) s (\<lambda>_. evacuation_final M c)"
proof -
  let ?step = "evacuation_step M (e_evacuationTTLInSeconds p) c k ik"
  let ?lc = "newLRPContainer k ik c"
  have claimed: "follows ?step E_Start (evacuateClaimedLRPContainer p ?lc) s
      (\<lambda>_. evacuation_final M c)"
    if "c_State c \<in> {StateReserved, StateInitializing, StateCreated}"
    unfolding evacuateClaimedLRPContainer_def newLRPContainer_simps
    by (rule then_delete_follows) (use that in \<open>auto intro!: follows_invoke ev_claimed\<close>)
  have completed: "follows ?step E_Start (evacuation_processCompletedContainer p ?lc) s
      (\<lambda>_. evacuation_final M c)" if "c_State c = StateCompleted"
    unfolding evacuation_processCompletedContainer_def newLRPContainer_simps
    by (rule then_delete_follows)
      (use that in \<open>auto intro!: follows_invoke ev_stopped ev_crashed\<close>)
  have running: "follows ?step E_Start (evacuation_processRunningContainer M p ?lc) s
      (\<lambda>_. evacuation_final M c)" if "c_State c = StateRunning"
  proof (cases "ActualLRPNetInfoFromContainer M c")
    case (Inr ni)
    show ?thesis
      unfolding evacuation_processRunningContainer_def newLRPContainer_simps Inr sum.case
      by (rule follows_bind [where G = "\<lambda>r q. q = (if fst r then E_Done else E_Delete)"])
        (use that Inr in \<open>auto intro!: follows_invoke follows_return ev_keep ev_drop ev_delete
          delete_last_follows [where q = E_Done] simp: bool_reply_def\<close>)
  qed (use that in \<open>auto simp: evacuation_processRunningContainer_def intro: follows_return\<close>)
  show ?thesis
    using assms claimed completed running
    by (cases "c_State c")
      (auto simp: evacuation_Process_def processInvalidContainer_def
        evacuation_processReservedContainer_def evacuation_processInitializingContainer_def
        evacuation_processCreatedContainer_def intro: follows_return)
qed

lemma evacuation_Process_appends [simp]: "appends (evacuation_Process M p c)"
  by (cases "c_State c")
    (simp_all add: evacuation_Process_def evacuation_processReservedContainer_def
      evacuation_processInitializingContainer_def evacuation_processCreatedContainer_def
      evacuation_processRunningContainer_def evacuation_processCompletedContainer_def
      evacuateClaimedLRPContainer_def processInvalidContainer_def Let_def)

lemma evacuation_Process_no_key:
  assumes "\<nexists>k ik. ActualLRPKeyFromTags M (c_Tags c) = Inr k \<and>
    ActualLRPInstanceKeyFromContainer M c (e_cellID p) = Inr ik"
  shows "calls (evacuation_Process M p c) s = []"
  using assms by (auto simp: evacuation_Process_def split: sum.splits)

end

section \<open>The processors with the executor's delegate\<close>

interpretation ordinary: ordinary_processor
  "newOrdinaryLRPProcessor B (NewContainerDelegate S) cellID" M
  for B S :: "'w services" and cellID M
  by (simp add: ordinary_processor_def newOrdinaryLRPProcessor_def
      delegate.container_delegate_axioms)

interpretation evacuation: evacuation_processor
  "newEvacuationLRPProcessor B (NewContainerDelegate S) cellID ttl" M
  for B S :: "'w services" and cellID ttl M
  by (simp add: evacuation_processor_def newEvacuationLRPProcessor_def
      delegate.container_delegate_axioms)

section \<open>Properties of LRP processing\<close>

lemma lrp_Process_calls:
  "calls (lrpProcessor_Process (NewLRPProcessor M S cd cellID ttl) c) s =
     (if Evacuating_now (evac s)
      then calls (evacuation_Process M (newEvacuationLRPProcessor S cd cellID ttl) c) s
      else calls (ordinary_Process M (newOrdinaryLRPProcessor S cd cellID) c) s)"
  by (simp add: lrpProcessor_Process_def NewLRPProcessor_def calls_def)

lemma processor_simps [simp]:
  "o_bbsClient (newOrdinaryLRPProcessor S cd cellID) = S"
  "o_cellID (newOrdinaryLRPProcessor S cd cellID) = cellID"
  "e_cellID (newEvacuationLRPProcessor S cd cellID ttl) = cellID"
  "e_evacuationTTLInSeconds (newEvacuationLRPProcessor S cd cellID ttl) = ttl"
  by (simp_all add: newOrdinaryLRPProcessor_def newEvacuationLRPProcessor_def)

lemma lrp_Process_ordinary:
  assumes "\<not> Evacuating_now (evac s)" "ActualLRPKeyFromTags M (c_Tags c) = Inr k"
    and "ActualLRPInstanceKeyFromContainer M c cellID = Inr ik"
  obtains q where "run (ordinary_step M B c k ik) O_Start
      (calls (lrpProcessor_Process
         (NewLRPProcessor M B (NewContainerDelegate S) cellID ttl) c) s) q"
    "ordinary_final M c k ik q"
  using assms ordinary.ordinary_Process_follows
    [where M = M and c = c and B = B and S = S and cellID = cellID and s = s]
  by (auto simp: lrp_Process_calls follows_def)

lemma lrp_Process_evacuating:
  assumes "Evacuating_now (evac s)" "ActualLRPKeyFromTags M (c_Tags c) = Inr k"
    and "ActualLRPInstanceKeyFromContainer M c cellID = Inr ik"
  obtains q where "run (evacuation_step M ttl c k ik) E_Start
      (calls (lrpProcessor_Process
         (NewLRPProcessor M B (NewContainerDelegate S) cellID ttl) c) s) q"
    "evacuation_final M c q"
  using assms evacuation.evacuation_Process_follows
    [where M = M and c = c and B = B and S = S and cellID = cellID and ttl = ttl and s = s]
  by (auto simp: lrp_Process_calls follows_def)

lemma lrp_Process_no_key:
  assumes "\<nexists>k ik. ActualLRPKeyFromTags M (c_Tags c) = Inr k \<and>
    ActualLRPInstanceKeyFromContainer M c cellID = Inr ik"
  shows "calls (lrpProcessor_Process
    (NewLRPProcessor M B (NewContainerDelegate S) cellID ttl) c) s = []"
  using assms
    ordinary.ordinary_Process_no_key [where M = M and c = c and B = B and S = S and cellID = cellID]
    evacuation.evacuation_Process_no_key
      [where M = M and c = c and B = B and S = S and cellID = cellID and ttl = ttl]
  by (simp add: lrp_Process_calls)

text \<open>The processing of a reserved container of an LRP starts with the claim.\<close>

lemma reserved_lrp_calls:
  assumes "\<not> Evacuating_now (evac s)" "c_State c = StateReserved"
    and "ActualLRPKeyFromTags M (c_Tags c) = Inr k"
    and "ActualLRPInstanceKeyFromContainer M c cellID = Inr ik"
  shows "\<exists>r es. calls (lrpProcessor_Process
      (NewLRPProcessor M B (NewContainerDelegate S) cellID ttl) c) s = (claim_call k ik, r) # es \<and>
    (\<forall>rq r. (RunContainer rq, r) \<in> set es \<longrightarrow> rq_Guid rq = c_Guid c \<and>
       (\<exists>rest. ri_Env (rq_RunInfo rq) = lrp_env k ik @ rest))"
proof -
  let ?es = "calls (lrpProcessor_Process (NewLRPProcessor M B (NewContainerDelegate S) cellID ttl) c) s"
  obtain q where run: "run (ordinary_step M B c k ik) O_Start ?es q" and "ordinary_final M c k ik q"
    by (rule lrp_Process_ordinary [OF assms(1,3,4)])
  then have "\<exists>r es. ?es = (claim_call k ik, r) # es"
    using assms(2) by (cases rule: run.cases) (auto elim!: ordinary_stepE)
  moreover have "list_all (\<lambda>(cl, r). \<forall>rq. cl = RunContainer rq \<longrightarrow> rq_Guid rq = c_Guid c \<and>
       (\<exists>rest. ri_Env (rq_RunInfo rq) = lrp_env k ik @ rest)) ?es"
    by (rule run_forall [OF run])
      (auto elim!: ordinary_stepE simp: claim_call_def remove_call_def dest: lrp_run_request_env)
  ultimately show ?thesis by (fastforce simp: list_all_iff)
qed

lemmas processor_defs =
  ordinary_Process_def ordinary_processReservedContainer_def claimLRPContainer_def
  ordinary_processCompletedContainer_def evacuation_Process_def
  evacuation_processReservedContainer_def evacuateClaimedLRPContainer_def
  newOrdinaryLRPProcessor_def newEvacuationLRPProcessor_def delegate_RunContainer_def
  delegate_DeleteContainer_def

text \<open>The reserved example container is claimed, its LRP fetched, and run.\<close>

lemma example_reserved_calls:
  "\<exists>rq. calls (lrpProcessor_Process (NewLRPProcessor example_api example_services
       (NewContainerDelegate example_services) ''cell'' 600) (example_container StateReserved))
       example_world =
     [(claim_call example_key example_ikey, OK), (DesiredLRPByProcessGuid ''pg'', OK),
      (RunContainer rq, OK)]"
proof -
  obtain rq where rq:
    "NewRunRequestFromDesiredLRP example_api ''ig'' example_desired example_key example_ikey =
       Ret rq"
    using example_run_request by blast
  have k: "ProcessGuid example_key = ''pg''"
    by (simp add: example_key_def)
  show ?thesis
    unfolding lrp_Process_calls
    by (simp add: calls_def processor_defs Let_def k rq example_keys)
qed

text \<open>
  C1: LRP processing refines its protocols. For a container whose tags give an LRP key and an
  instance key, the calls that \<open>Process\<close> makes, with the delegate over the executor client,
  are a complete run of the evacuation protocol when the cell is evacuating and of the
  ordinary protocol otherwise; for any other container no call is made.
\<close>

theorem lrp_processing_follows_protocol:
  "let es = calls (lrpProcessor_Process
              (NewLRPProcessor M B (NewContainerDelegate S) cellID ttl) c) s
   in case (ActualLRPKeyFromTags M (c_Tags c), ActualLRPInstanceKeyFromContainer M c cellID) of
        (Inr k, Inr ik) \<Rightarrow>
          if Evacuating_now (evac s)
          then \<exists>q. run (evacuation_step M ttl c k ik) E_Start es q \<and> evacuation_final M c q
          else \<exists>q. run (ordinary_step M B c k ik) O_Start es q \<and> ordinary_final M c k ik q
      | _ \<Rightarrow> es = []"
proof (cases "\<exists>k ik. ActualLRPKeyFromTags M (c_Tags c) = Inr k \<and>
    ActualLRPInstanceKeyFromContainer M c cellID = Inr ik")
  case True
  then show ?thesis
    using lrp_Process_ordinary [of s M c _ cellID] lrp_Process_evacuating [of s M c _ cellID]
    by (auto simp: Let_def) (metis)+
next
  case False
  then show ?thesis
    using lrp_Process_no_key [of M c cellID B S ttl s]
    by (auto simp: Let_def split: sum.splits)
qed

fun is_run :: "event \<Rightarrow> bool" where
  "is_run (RunContainer _, _) = True"
| "is_run _ = False"

fun is_delete :: "event \<Rightarrow> bool" where
  "is_delete (DeleteContainer _, _) = True"
| "is_delete _ = False"

text \<open>Calls by which a cell takes on or keeps LRP work.\<close>

fun takes_work :: "call \<Rightarrow> bool" where
  "takes_work (RunContainer _) = True"
| "takes_work (ClaimActualLRP _ _ _) = True"
| "takes_work (StartActualLRP _ _ _) = True"
| "takes_work _ = False"

text \<open>
  C7: A container is run for an LRP only when the cell is not evacuating, the container is
  reserved, the request carries the container's own guid, and the BBS has accepted this
  cell's claim of exactly that LRP instance earlier in the same processing.
\<close>

theorem lrp_runs_only_claimed:
  assumes "(RunContainer rq, r) \<in> set (calls (lrpProcessor_Process
    (NewLRPProcessor M B (NewContainerDelegate S) cellID ttl) c) s)" (is "_ \<in> set ?es")
  shows "\<not> Evacuating_now (evac s) \<and> c_State c = StateReserved \<and> rq_Guid rq = c_Guid c \<and>
    (\<exists>k ik. ActualLRPKeyFromTags M (c_Tags c) = Inr k \<and>
       ActualLRPInstanceKeyFromContainer M c cellID = Inr ik \<and>
       preceded (\<lambda>e. e = (claim_call k ik, OK)) is_run ?es)"
proof -
  obtain k ik where k: "ActualLRPKeyFromTags M (c_Tags c) = Inr k"
      "ActualLRPInstanceKeyFromContainer M c cellID = Inr ik"
    using assms lrp_Process_no_key [of M c cellID B S ttl s] by fastforce
  have calm: "\<not> Evacuating_now (evac s)"
  proof
    assume "Evacuating_now (evac s)"
    from lrp_Process_evacuating [OF this k] obtain q
      where "run (evacuation_step M ttl c k ik) E_Start ?es q" by blast
    then have "list_all (\<lambda>e. \<not> is_run e) ?es"
      by (rule run_forall) (auto elim: evacuation_stepE)
    with assms show False by (auto simp: list_all_iff)
  qed
  from lrp_Process_ordinary [OF this k] obtain q
    where run: "run (ordinary_step M B c k ik) O_Start ?es q" by blast
  have "preceded (\<lambda>e. e = (claim_call k ik, OK)) is_run ?es"
    by (rule run_preceded [OF run, where A = "{O_Claimed} \<union> range O_Fetched"])
      (auto elim!: ordinary_stepE simp: claim_call_def remove_call_def)
  moreover have "list_all (\<lambda>(cl, r). \<forall>rq. cl = RunContainer rq \<longrightarrow>
      c_State c = StateReserved \<and> rq_Guid rq = c_Guid c) ?es"
    by (rule run_forall_inv [OF run,
          where I = "\<lambda>p. p \<in> {O_Claimed} \<union> range O_Fetched \<longrightarrow> c_State c = StateReserved"])
      (auto elim!: ordinary_stepE simp: run_request_guid claim_call_def remove_call_def)
  ultimately show ?thesis
    using assms calm k by (auto simp: list_all_iff)
qed

theorem lrp_runs_only_claimed_witness:
  "\<exists>rq. (RunContainer rq, OK) \<in> set (calls (lrpProcessor_Process (NewLRPProcessor
       example_api example_services (NewContainerDelegate example_services) ''cell'' 600)
       (example_container StateReserved)) example_world) \<and> rq_Guid rq = ''ig'' \<and>
     preceded (\<lambda>e. e = (claim_call example_key example_ikey, OK)) is_run
       (calls (lrpProcessor_Process (NewLRPProcessor example_api example_services
          (NewContainerDelegate example_services) ''cell'' 600)
          (example_container StateReserved)) example_world)"
proof -
  obtain rq where "calls (lrpProcessor_Process (NewLRPProcessor example_api example_services
       (NewContainerDelegate example_services) ''cell'' 600) (example_container StateReserved))
       example_world =
     [(claim_call example_key example_ikey, OK), (DesiredLRPByProcessGuid ''pg'', OK),
      (RunContainer rq, OK)]"
    using example_reserved_calls by blast
  then have "(RunContainer rq, OK) \<in> set (calls (lrpProcessor_Process (NewLRPProcessor
      example_api example_services (NewContainerDelegate example_services) ''cell'' 600)
      (example_container StateReserved)) example_world)"
    by simp
  with lrp_runs_only_claimed [OF this] show ?thesis
    by (intro exI [of _ rq]) (simp add: example_keys)
qed

text \<open>What an evacuating cell reports of the LRP of a container.\<close>

definition evacuation_report ::
  "ext_api \<Rightarrow> uint64 \<Rightarrow> Container \<Rightarrow> ActualLRPKey \<Rightarrow> ActualLRPInstanceKey \<Rightarrow> call option" where
  "evacuation_report M ttl c k ik =
     (case c_State c of
        StateInvalid \<Rightarrow> None
      | StateRunning \<Rightarrow>
          (case ActualLRPNetInfoFromContainer M c of
             Inl _ \<Rightarrow> None
           | Inr ni \<Rightarrow> Some (EvacuateRunningActualLRP k ik ni ttl))
      | StateCompleted \<Rightarrow>
          Some (if rr_Stopped (c_RunResult c) then EvacuateStoppedActualLRP k ik
                else EvacuateCrashedActualLRP k ik (rr_FailureReason (c_RunResult c)))
      | _ \<Rightarrow> Some (EvacuateClaimedActualLRP k ik))"

text \<open>The BBS lets the cell keep a running container for the time being.\<close>

definition keeps_running :: "Container \<Rightarrow> reply \<Rightarrow> bool" where
  "keeps_running c r \<longleftrightarrow> c_State c = StateRunning \<and> (\<exists>err. r = Answer True err)"

definition hands_over :: "ext_api \<Rightarrow> uint64 \<Rightarrow> Container \<Rightarrow> ActualLRPKey \<Rightarrow> ActualLRPInstanceKey \<Rightarrow>
    event list \<Rightarrow> bool" where
  "hands_over M ttl c k ik es \<longleftrightarrow>
     (case evacuation_report M ttl c k ik of
        None \<Rightarrow> es = []
      | Some report \<Rightarrow>
          (\<exists>r. if keeps_running c r then es = [(report, r)]
               else \<exists>r'. es = [(report, r), (DeleteContainer (c_Guid c), r')]))"

lemma evacuation_run_Done:
  "run (evacuation_step M ttl c k ik) E_Done es q \<Longrightarrow> es = []"
  by (erule run.cases) (auto elim: evacuation_stepE)

lemma evacuation_run_hands_over:
  assumes "run (evacuation_step M ttl c k ik) E_Start es q" "evacuation_final M c q"
  shows "hands_over M ttl c k ik es"
  using assms(1)
proof (cases rule: run.cases)
  case run_Nil
  with assms(2) show ?thesis by (auto simp: hands_over_def evacuation_report_def)
next
  case (run_Cons e q' es')
  note delete = evacuation_run_Delete [where M = M and c = c and q = q, OF _ assms(2)]
  from run_Cons(2) show ?thesis
    using run_Cons(1,3)
    by (cases rule: evacuation_step.cases)
      (auto simp: hands_over_def evacuation_report_def keeps_running_def split: ContainerState.split
        dest!: delete evacuation_run_Done)
qed

lemma evacuating_calls:
  assumes "Evacuating_now (evac s)"
  shows "case (ActualLRPKeyFromTags M (c_Tags c), ActualLRPInstanceKeyFromContainer M c cellID) of
      (Inr k, Inr ik) \<Rightarrow> hands_over M ttl c k ik (calls (lrpProcessor_Process
         (NewLRPProcessor M B (NewContainerDelegate S) cellID ttl) c) s)
    | _ \<Rightarrow> calls (lrpProcessor_Process
         (NewLRPProcessor M B (NewContainerDelegate S) cellID ttl) c) s = []"
proof (cases "\<exists>k ik. ActualLRPKeyFromTags M (c_Tags c) = Inr k \<and>
    ActualLRPInstanceKeyFromContainer M c cellID = Inr ik")
  case True
  then show ?thesis
    using lrp_Process_evacuating [OF assms, of M c _ cellID _ ttl B S] evacuation_run_hands_over
    by (elim exE conjE) (simp, metis)
next
  case False
  then show ?thesis
    using lrp_Process_no_key [OF False] by (auto split: sum.split)
qed

lemma evacuating_takes_none:
  assumes "Evacuating_now (evac s)"
  shows "list_all (\<lambda>(cl, r). \<not> takes_work cl) (calls (lrpProcessor_Process
    (NewLRPProcessor M B (NewContainerDelegate S) cellID ttl) c) s)"
proof -
  have report: "evacuation_report M ttl c k ik = Some cl \<Longrightarrow> \<not> takes_work cl" for k ik cl
    by (auto simp: evacuation_report_def split: ContainerState.splits sum.splits if_splits)
  have "hands_over M ttl c k ik es \<Longrightarrow> list_all (\<lambda>(cl, r). \<not> takes_work cl) es" for k ik es
    using report [of k ik] by (auto simp: hands_over_def split: option.splits if_splits)
  then show ?thesis
    using evacuating_calls [OF assms, where M = M and c = c and cellID = cellID and ttl = ttl
        and B = B and S = S]
    by (auto split: sum.splits)
qed

text \<open>
  C11: Processing the container of an LRP on an evacuating cell hands the LRP over and does nothing
  else. It makes exactly one report to the BBS, for exactly the LRP instance of the container and
  in the form for the container's state, and then deletes exactly this container, whatever the BBS
  answered, unless the container is running and the BBS answered that it is to be kept. So no
  LRP is claimed or reported as started and no container is run. A container without valid keys
  causes no call, and neither does one in an invalid state or running without network data.
\<close>

theorem evacuating_lrp_is_handed_over:
  assumes "Evacuating_now (evac s)"
  shows "(case (ActualLRPKeyFromTags M (c_Tags c), ActualLRPInstanceKeyFromContainer M c cellID) of
        (Inr k, Inr ik) \<Rightarrow> hands_over M ttl c k ik (calls (lrpProcessor_Process
           (NewLRPProcessor M B (NewContainerDelegate S) cellID ttl) c) s)
      | _ \<Rightarrow> calls (lrpProcessor_Process
           (NewLRPProcessor M B (NewContainerDelegate S) cellID ttl) c) s = []) \<and>
    list_all (\<lambda>(cl, r). \<not> takes_work cl) (calls (lrpProcessor_Process
      (NewLRPProcessor M B (NewContainerDelegate S) cellID ttl) c) s)"
  using evacuating_calls [OF assms] evacuating_takes_none [OF assms] by blast

theorem evacuating_lrp_is_handed_over_witness:
  "\<exists>r r'. calls (lrpProcessor_Process (NewLRPProcessor example_api example_services
        (NewContainerDelegate example_services) ''cell'' 600)
        (example_container StateReserved)) evacuating_world =
      [(EvacuateClaimedActualLRP example_key example_ikey, r), (DeleteContainer ''ig'', r')]"
  using evacuating_lrp_is_handed_over [where s = evacuating_world and M = example_api and
      c = "example_container StateReserved" and cellID = "''cell''" and ttl = 600 and
      B = example_services and S = example_services]
  by (auto simp: example_keys hands_over_def evacuation_report_def keeps_running_def)

text \<open>
  C12: A live container is deleted only with cause. When a cell that is not evacuating
  processes the container of an LRP that has not completed, any deletion comes after the BBS
  refused the claim for good or the executor failed to run the container.
\<close>

theorem live_container_deleted_with_cause:
  assumes "\<not> Evacuating_now (evac s)" and "c_State c \<noteq> StateCompleted"
  shows "preceded
    (\<lambda>(cl, r). case (cl, r) of
       (ClaimActualLRP _ _ _, Err e) \<Rightarrow> ConvertError M e = Error_ActualLRPCannotBeClaimed
     | (RunContainer _, Err e) \<Rightarrow> True
     | _ \<Rightarrow> False)
    is_delete
    (calls (lrpProcessor_Process
       (NewLRPProcessor M B (NewContainerDelegate S) cellID ttl) c) s)"
    (is "preceded ?cause _ ?es")
proof (cases "\<exists>k ik. ActualLRPKeyFromTags M (c_Tags c) = Inr k \<and>
    ActualLRPInstanceKeyFromContainer M c cellID = Inr ik")
  case True
  then obtain k ik q where run: "run (ordinary_step M B c k ik) O_Start ?es q"
    using lrp_Process_ordinary [OF assms(1)] by metis
  show ?thesis
    by (rule run_preceded [OF run, where A = "{O_Refused, O_RunFailed, O_Reported}"])
      (use assms(2) in \<open>auto elim!: ordinary_stepE simp: claim_call_def remove_call_def\<close>)
qed (simp add: lrp_Process_no_key)

theorem live_container_deleted_with_cause_witness:
  "preceded
     (\<lambda>(cl, r). case (cl, r) of
        (ClaimActualLRP _ _ _, Err e) \<Rightarrow>
          ConvertError example_api e = Error_ActualLRPCannotBeClaimed
      | (RunContainer _, Err e) \<Rightarrow> True
      | _ \<Rightarrow> False)
     is_delete
     (calls (lrpProcessor_Process (NewLRPProcessor example_api example_services
        (NewContainerDelegate example_services) ''cell'' 600)
        (example_container StateReserved)) example_world)"
  by (rule live_container_deleted_with_cause) simp_all

text \<open>
  C13: A completed container is always cleaned up. Processing it makes exactly two calls: one
  report to the BBS (stopped or crashed, in the evacuation form when evacuating), and then,
  whatever the BBS answered, the deletion of the container.
\<close>

theorem completed_reported_then_deleted:
  assumes "c_State c = StateCompleted" "ActualLRPKeyFromTags M (c_Tags c) = Inr k"
    and "ActualLRPInstanceKeyFromContainer M c cellID = Inr ik"
  shows "\<exists>r r'. calls (lrpProcessor_Process
      (NewLRPProcessor M B (NewContainerDelegate S) cellID ttl) c) s =
    [(if Evacuating_now (evac s)
      then if rr_Stopped (c_RunResult c) then EvacuateStoppedActualLRP k ik
           else EvacuateCrashedActualLRP k ik (rr_FailureReason (c_RunResult c))
      else if rr_Stopped (c_RunResult c) then remove_call k ik
           else CrashActualLRP k ik (rr_FailureReason (c_RunResult c)), r),
     (DeleteContainer (c_Guid c), r')]" (is "\<exists>r r'. ?es = _")
proof (cases "Evacuating_now (evac s)")
  case True
  from lrp_Process_evacuating [OF this assms(2,3)] obtain q
    where "run (evacuation_step M ttl c k ik) E_Start ?es q" "evacuation_final M c q" by blast
  then show ?thesis
    by (cases rule: run.cases)
      (use True assms(1) in \<open>auto elim!: evacuation_stepE dest!: evacuation_run_Delete\<close>)
next
  case False
  from lrp_Process_ordinary [OF this assms(2,3)] obtain q
    where "run (ordinary_step M B c k ik) O_Start ?es q" "ordinary_final M c k ik q" by blast
  then show ?thesis
    by (cases rule: run.cases)
      (use False assms(1) in \<open>auto elim!: ordinary_stepE dest!: ordinary_run_Reported\<close>)
qed

theorem completed_reported_then_deleted_witness:
  "\<exists>r r'. calls (lrpProcessor_Process (NewLRPProcessor example_api example_services
      (NewContainerDelegate example_services) ''cell'' 600) (example_container StateCompleted))
      example_world =
     [(CrashActualLRP example_key example_ikey '''', r), (DeleteContainer ''ig'', r')]"
  using completed_reported_then_deleted [of "example_container StateCompleted" example_api
      example_key "''cell''" example_ikey example_services example_services 600 example_world] example_keys
  by simp

end
