(* ===== verification/Task_Processor.thy ===== *)
theory Task_Processor
  imports Example_Cell
begin

text \<open>
  The task processor of \<open>generator/internal/task_processor.go\<close>, its protocol, and what
  follows from it for tasks: who may run one, and how a completed one ends.
\<close>

section \<open>The processor\<close>

definition TaskCompletionReasonMissingContainer :: string where
  "TaskCompletionReasonMissingContainer = ''task container does not exist''"

definition TaskCompletionReasonFailedToRunContainer :: string where
  "TaskCompletionReasonFailedToRunContainer = ''failed to run container''"

definition TaskCompletionReasonInvalidTransition :: string where
  "TaskCompletionReasonInvalidTransition = ''invalid state transition''"

definition TaskCompletionReasonFailedToFetchResult :: string where
  "TaskCompletionReasonFailedToFetchResult = ''failed to fetch result''"

record 'w taskProcessor =
  tp_bbsClient :: "'w services"
  tp_containerDelegate :: "'w ContainerDelegate"
  tp_cellID :: string

definition NewTaskProcessor ::
  "'w services \<Rightarrow> 'w ContainerDelegate \<Rightarrow> string \<Rightarrow> 'w taskProcessor" where
  "NewTaskProcessor bbs cd cellID =
     \<lparr>tp_bbsClient = bbs, tp_containerDelegate = cd, tp_cellID = cellID\<rparr>"

definition failTask :: "'w taskProcessor \<Rightarrow> string \<Rightarrow> string \<Rightarrow> ('w, unit) act" where
  "failTask p guid reason = do {
     err \<leftarrow> invoke (FailTask guid reason) err_reply (svc_FailTask (tp_bbsClient p) guid reason);
     return ()
   }"

definition startTask :: "ext_api \<Rightarrow> 'w taskProcessor \<Rightarrow> string \<Rightarrow> ('w, bool) act" where
  "startTask M p guid = do {
     r \<leftarrow> invoke (StartTask guid (tp_cellID p)) bool_reply
            (svc_StartTask (tp_bbsClient p) guid (tp_cellID p));
     (case snd r of
        Some err \<Rightarrow>
          if ConvertError M err = Error_InvalidStateTransition then do {
            del_DeleteContainer (tp_containerDelegate p) guid;
            return False
          } else if ConvertError M err = Error_ResourceNotFound then do {
            del_DeleteContainer (tp_containerDelegate p) guid;
            return False
          } else return False
      | None \<Rightarrow> return (fst r))
   }"

definition completeTask :: "ext_api \<Rightarrow> 'w taskProcessor \<Rightarrow> Container \<Rightarrow> ('w, unit) act" where
  "completeTask M p container = do {
     let resultFile = tag_get (c_Tags container) ResultFileTag;
     result \<leftarrow>
       (if \<not> rr_Failed (c_RunResult container) \<and> resultFile \<noteq> ''''
        then del_FetchContainerResultFile (tp_containerDelegate p) (c_Guid container) resultFile
        else return (Inr ''''));
     (case result of
        Inl err \<Rightarrow> failTask p (c_Guid container) TaskCompletionReasonFailedToFetchResult
      | Inr result \<Rightarrow> do {
          err \<leftarrow> invoke (CompleteTask (c_Guid container) (tp_cellID p)
                          (rr_Failed (c_RunResult container))
                          (rr_FailureReason (c_RunResult container)) result) err_reply
                   (svc_CompleteTask (tp_bbsClient p) (c_Guid container) (tp_cellID p)
                     (rr_Failed (c_RunResult container))
                     (rr_FailureReason (c_RunResult container)) result);
          (case err of
             Some e \<Rightarrow>
               if ConvertError M e = Error_InvalidStateTransition
               then failTask p (c_Guid container) TaskCompletionReasonInvalidTransition
               else return ()
           | None \<Rightarrow> return ())
        })
   }"

definition task_processActiveContainer ::
  "ext_api \<Rightarrow> 'w taskProcessor \<Rightarrow> Container \<Rightarrow> ('w, unit) act" where
  "task_processActiveContainer M p container = do {
     ok \<leftarrow> startTask M p (c_Guid container);
     (if \<not> ok then return ()
      else do {
        r \<leftarrow> invoke (TaskByGuid (c_Guid container)) sum_reply
               (svc_TaskByGuid (tp_bbsClient p) (c_Guid container));
        (case r of
           Inl err \<Rightarrow> return ()
         | Inr task \<Rightarrow>
             (case NewRunRequestFromTask M task of
                Panic \<Rightarrow> panic
              | Fail err \<Rightarrow> return ()
              | Ret runReq \<Rightarrow> do {
                  ok \<leftarrow> del_RunContainer (tp_containerDelegate p) runReq;
                  (if \<not> ok
                   then failTask p (c_Guid container) TaskCompletionReasonFailedToRunContainer
                   else return ())
                }))
      })
   }"

definition task_processCompletedContainer ::
  "ext_api \<Rightarrow> 'w taskProcessor \<Rightarrow> Container \<Rightarrow> ('w, unit) act" where
  "task_processCompletedContainer M p container = do {
     completeTask M p container;
     del_DeleteContainer (tp_containerDelegate p) (c_Guid container);
     return ()
   }"

definition taskProcessor_Process ::
  "ext_api \<Rightarrow> 'w taskProcessor \<Rightarrow> Container \<Rightarrow> ('w, unit) act" where
  "taskProcessor_Process M p container =
     (case c_State container of
        StateReserved \<Rightarrow> task_processActiveContainer M p container
      | StateInitializing \<Rightarrow> task_processActiveContainer M p container
      | StateCreated \<Rightarrow> task_processActiveContainer M p container
      | StateRunning \<Rightarrow> task_processActiveContainer M p container
      | StateCompleted \<Rightarrow> task_processCompletedContainer M p container
      | StateInvalid \<Rightarrow> return ())"

section \<open>The protocol\<close>

datatype tphase =
    T_Start | T_Refused | T_Started | T_Fetched models_Task | T_RunFailed models_Task
  | T_Fail | T_Result "string option" | T_Invalid | T_Cleanup | T_Done

definition wants_result :: "Container \<Rightarrow> bool" where
  "wants_result c \<longleftrightarrow> \<not> rr_Failed (c_RunResult c) \<and> tag_get (c_Tags c) ResultFileTag \<noteq> ''''"

definition active :: "Container \<Rightarrow> bool" where
  "active c \<longleftrightarrow> c_State c \<in> {StateReserved, StateInitializing, StateCreated, StateRunning}"

definition complete_call :: "Container \<Rightarrow> string \<Rightarrow> string \<Rightarrow> call" where
  "complete_call c cellID result =
     CompleteTask (c_Guid c) cellID (rr_Failed (c_RunResult c))
       (rr_FailureReason (c_RunResult c)) result"

definition gone :: "error_type \<Rightarrow> bool" where
  "gone t \<longleftrightarrow> t = Error_InvalidStateTransition \<or> t = Error_ResourceNotFound"

text \<open>The phases in which a completed task can be reported, with its result.\<close>

fun ready :: "Container \<Rightarrow> tphase \<Rightarrow> string \<Rightarrow> bool" where
  "ready c (T_Result (Some x)) y = (x = y)"
| "ready c T_Start y = (c_State c = StateCompleted \<and> \<not> wants_result c \<and> y = '''')"
| "ready c _ y = False"

text \<open>The tasks that the BBS may return for a task guid.\<close>

definition task_answer :: "'w services \<Rightarrow> string \<Rightarrow> models_Task \<Rightarrow> bool" where
  "task_answer S g t \<longleftrightarrow> (\<exists>w. fst (svc_TaskByGuid S g w) = Inr t)"

inductive task_step ::
  "ext_api \<Rightarrow> 'w services \<Rightarrow> string \<Rightarrow> Container \<Rightarrow> tphase \<Rightarrow> event \<Rightarrow> tphase \<Rightarrow> bool"
  for M :: ext_api and S :: "'w services" and cellID :: string and c :: Container where
  start: "active c \<Longrightarrow>
    task_step M S cellID c T_Start (StartTask (c_Guid c) cellID, Answer True None) T_Started"
| already_started: "active c \<Longrightarrow>
    task_step M S cellID c T_Start (StartTask (c_Guid c) cellID, Answer False None) T_Done"
| start_refused: "active c \<Longrightarrow> gone (ConvertError M e) \<Longrightarrow>
    task_step M S cellID c T_Start (StartTask (c_Guid c) cellID, Answer b (Some e)) T_Refused"
| start_error: "active c \<Longrightarrow> \<not> gone (ConvertError M e) \<Longrightarrow>
    task_step M S cellID c T_Start (StartTask (c_Guid c) cellID, Answer b (Some e)) T_Done"
| drop_gone: "task_step M S cellID c T_Refused (DeleteContainer (c_Guid c), r) T_Done"
| fetch_task: "task_answer S (c_Guid c) t \<Longrightarrow>
    task_step M S cellID c T_Started (TaskByGuid (c_Guid c), OK) (T_Fetched t)"
| fetch_error: "task_step M S cellID c T_Started (TaskByGuid (c_Guid c), Err e) T_Done"
| run_task: "NewRunRequestFromTask M t = Ret rq \<Longrightarrow>
    task_step M S cellID c (T_Fetched t) (RunContainer rq, OK) T_Done"
| run_error: "NewRunRequestFromTask M t = Ret rq \<Longrightarrow>
    task_step M S cellID c (T_Fetched t) (RunContainer rq, Err e) (T_RunFailed t)"
| drop_unrun: "task_step M S cellID c (T_RunFailed t) (DeleteContainer (t_TaskGuid t), r) T_Fail"
| fail_unrun: "task_step M S cellID c T_Fail
    (FailTask (c_Guid c) TaskCompletionReasonFailedToRunContainer, r) T_Done"
| read_file: "c_State c = StateCompleted \<Longrightarrow> wants_result c \<Longrightarrow>
    (\<And>x. res = Some x \<Longrightarrow> length x \<le> MAX_RESULT_SIZE) \<Longrightarrow>
    task_step M S cellID c T_Start
      (GetFiles (c_Guid c) (tag_get (c_Tags c) ResultFileTag), r) (T_Result res)"
| unreadable: "task_step M S cellID c (T_Result None)
    (FailTask (c_Guid c) TaskCompletionReasonFailedToFetchResult, r) T_Cleanup"
| complete: "ready c p x \<Longrightarrow>
    task_step M S cellID c p (complete_call c cellID x, OK) T_Cleanup"
| complete_error: "ready c p x \<Longrightarrow> ConvertError M e \<noteq> Error_InvalidStateTransition \<Longrightarrow>
    task_step M S cellID c p (complete_call c cellID x, Err e) T_Cleanup"
| complete_invalid: "ready c p x \<Longrightarrow> ConvertError M e = Error_InvalidStateTransition \<Longrightarrow>
    task_step M S cellID c p (complete_call c cellID x, Err e) T_Invalid"
| fail_invalid: "task_step M S cellID c T_Invalid
    (FailTask (c_Guid c) TaskCompletionReasonInvalidTransition, r) T_Cleanup"
| drop_completed: "task_step M S cellID c T_Cleanup (DeleteContainer (c_Guid c), r) T_Done"

fun task_final :: "ext_api \<Rightarrow> Container \<Rightarrow> tphase \<Rightarrow> bool" where
  "task_final M c T_Done = True"
| "task_final M c T_Start = (c_State c = StateInvalid)"
| "task_final M c (T_Fetched t) = (\<forall>rq. NewRunRequestFromTask M t \<noteq> Ret rq)"
| "task_final M c _ = False"

inductive_cases task_stepE: "task_step M S cellID c p e q"

section \<open>The processor follows the protocol\<close>

lemma task_run_request_guid: "NewRunRequestFromTask M t = Ret rq \<Longrightarrow> rq_Guid rq = t_TaskGuid t"
  by (auto simp: NewRunRequestFromTask_def obind_eq_Ret split: sum.splits)

locale task_processor = container_delegate "tp_containerDelegate p"
  for p :: "'w taskProcessor" +
  fixes M :: ext_api
begin

lemma task_appends [simp]:
  "appends (startTask M p g)" "appends (failTask p g reason)" "appends (completeTask M p c)"
  by (simp_all add: startTask_def failTask_def completeTask_def Let_def)

lemma failTask_follows:
  assumes "\<And>r. step q (FailTask g reason, r) q'" and "F () q'"
  shows "follows step q (failTask p g reason) s F"
  using assms by (auto simp: failTask_def follows_def calls_invoke_bind run_single)

lemma startTask_follows:
  assumes "active c"
  shows "follows (task_step M (tp_bbsClient p) (tp_cellID p) c) T_Start (startTask M p (c_Guid c)) s
    (\<lambda>ok q. q = (if ok then T_Started else T_Done))"
  unfolding startTask_def
proof (rule follows_bind [where G = "\<lambda>r q. q = (case snd r of
      None \<Rightarrow> if fst r then T_Started else T_Done
    | Some e \<Rightarrow> if gone (ConvertError M e) then T_Refused else T_Done)"], goal_cases)
  case 1
  with assms show ?case
    by (intro follows_invoke)
      (auto simp: bool_reply_def start already_started start_refused start_error
        split: option.split)
next
  case (4 r q)
  have "follows (task_step M (tp_bbsClient p) (tp_cellID p) c) T_Refused
      (do { del_DeleteContainer (tp_containerDelegate p) (c_Guid c); return False }) s'
      (\<lambda>ok q. q = (if ok then T_Started else T_Done))" for s'
    by (rule follows_bind [where G = "\<lambda>_ q. q = T_Done"])
      (auto intro!: delete_follows follows_return drop_gone)
  with 4 show ?case
    by (auto simp: gone_def intro: follows_return split: option.split)
qed auto

lemma run_task_follows:
  assumes "NewRunRequestFromTask M t = Ret rq"
  shows "follows (task_step M (tp_bbsClient p) (tp_cellID p) c) (T_Fetched t)
    (del_RunContainer (tp_containerDelegate p) rq) s
    (\<lambda>ok q. q = (if ok then T_Done else T_Fail))"
proof (cases rule: run_cases [of rq s])
  case ok
  with assms show ?thesis
    by (auto simp: follows_def run_single intro: run_task)
next
  case (failed e r)
  with assms show ?thesis
    by (auto simp: follows_def task_run_request_guid [OF assms] intro!: run_Cons
        intro: run_error drop_unrun)
qed

lemma active_follows:
  assumes "active c"
  shows "follows (task_step M (tp_bbsClient p) (tp_cellID p) c) T_Start (task_processActiveContainer M p c) s
    (\<lambda>_. task_final M c)"
  unfolding task_processActiveContainer_def
proof (rule follows_bind [OF startTask_follows [OF assms]], goal_cases)
  case (3 ok q)
  have fetch: "follows (task_step M (tp_bbsClient p) (tp_cellID p) c) T_Started
      (invoke (TaskByGuid (c_Guid c)) sum_reply (svc_TaskByGuid (tp_bbsClient p) (c_Guid c))) s'
      (\<lambda>r q. q = (case r of Inl _ \<Rightarrow> T_Done | Inr t \<Rightarrow> T_Fetched t))" for s' :: "'w world"
    by (rule follows_invoke) (auto intro!: fetch_task fetch_error simp: task_answer_def split: sum.split)
  show ?case
  proof (cases ok)
    case True
    with 3 have q: "q = T_Started" by simp
    from True have not: "\<not> (\<not> ok)" by simp
    show ?thesis
      unfolding q if_not_P [OF not]
    proof (rule follows_bind [OF fetch], goal_cases)
      case (3 r q')
      show ?case
      proof (cases r)
        case (Inr t)
        show ?thesis
        proof (cases "NewRunRequestFromTask M t")
          case (Ret rq)
          show ?thesis
            unfolding 3(2) Inr Ret sum.case outcome.case
            by (rule follows_bind [OF run_task_follows [OF Ret]])
              (auto intro!: failTask_follows follows_return fail_unrun)
        qed (auto simp: 3(2) Inr follows_def)
      qed (auto simp: 3(2) intro: follows_return)
    qed auto
  qed (use 3 in \<open>auto intro: follows_return\<close>)
qed auto

lemma report_follows:
  assumes "ready c q0 x"
  shows "follows (task_step M (tp_bbsClient p) (tp_cellID p) c) q0
    (do {
       err \<leftarrow> invoke (complete_call c (tp_cellID p) x) err_reply f;
       (case err of
          Some e \<Rightarrow>
            if ConvertError M e = Error_InvalidStateTransition
            then failTask p (c_Guid c) TaskCompletionReasonInvalidTransition
            else return ()
        | None \<Rightarrow> return ())
     }) s (\<lambda>_ q. q = T_Cleanup)"
  by (rule follows_bind [where G = "\<lambda>err q. q = (case err of
        Some e \<Rightarrow> if ConvertError M e = Error_InvalidStateTransition then T_Invalid else T_Cleanup
      | None \<Rightarrow> T_Cleanup)"])
    (auto simp: err_reply_def split: option.split
      intro!: follows_invoke follows_return failTask_follows fail_invalid
      complete [OF assms] complete_error [OF assms] complete_invalid [OF assms])

lemma completeTask_follows:
  assumes "c_State c = StateCompleted"
  shows "follows (task_step M (tp_bbsClient p) (tp_cellID p) c) T_Start (completeTask M p c) s
    (\<lambda>_ q. q = T_Cleanup)"
proof (cases "wants_result c")
  case True
  let ?fetch = "del_FetchContainerResultFile (tp_containerDelegate p) (c_Guid c)
    (tag_get (c_Tags c) ResultFileTag)"
  obtain r where "calls ?fetch s =
      [(GetFiles (c_Guid c) (tag_get (c_Tags c) ResultFileTag), r)]"
    using fetch_calls by blast
  moreover have "length x \<le> MAX_RESULT_SIZE"
    if "(case eval ?fetch s of Inl _ \<Rightarrow> None | Inr x \<Rightarrow> Some x) = Some x" for x
    using that fetch_bound by (auto split: sum.splits)
  ultimately have fetch: "follows (task_step M (tp_bbsClient p) (tp_cellID p) c) T_Start ?fetch s
      (\<lambda>r q. q = T_Result (case r of Inl _ \<Rightarrow> None | Inr x \<Rightarrow> Some x))"
    using assms True by (auto simp: follows_def run_single intro!: read_file)
  from True have "(\<not> rr_Failed (c_RunResult c) \<and> tag_get (c_Tags c) ResultFileTag \<noteq> '''') = True"
    by (simp add: wants_result_def)
  then show ?thesis
    unfolding completeTask_def Let_def complete_call_def [symmetric] \<open>_ = True\<close> if_True
    by - (rule follows_bind [OF fetch],
      auto intro!: failTask_follows unreadable report_follows split: sum.split)
next
  case False
  then have "(\<not> rr_Failed (c_RunResult c) \<and> tag_get (c_Tags c) ResultFileTag \<noteq> '''') = False"
    by (auto simp: wants_result_def)
  then show ?thesis
    unfolding completeTask_def Let_def complete_call_def [symmetric] \<open>_ = False\<close> if_False
    by - (rule follows_bind [OF follows_return],
      use assms False in \<open>auto intro!: report_follows\<close>)
qed

lemma Process_appends [simp]: "appends (taskProcessor_Process M p c)"
  by (cases "c_State c")
    (simp_all add: taskProcessor_Process_def task_processActiveContainer_def
      task_processCompletedContainer_def)

lemma Process_follows:
  "follows (task_step M (tp_bbsClient p) (tp_cellID p) c) T_Start (taskProcessor_Process M p c) s
     (\<lambda>_. task_final M c)"
proof (cases "c_State c = StateCompleted")
  case True
  have "follows (task_step M (tp_bbsClient p) (tp_cellID p) c) T_Start (task_processCompletedContainer M p c) s
      (\<lambda>_. task_final M c)"
    unfolding task_processCompletedContainer_def
    by (rule follows_bind [OF completeTask_follows [OF True]])
      (auto intro!: delete_last_follows [where q = T_Done] drop_completed)
  with True show ?thesis by (simp add: taskProcessor_Process_def)
next
  case False
  then show ?thesis
    using active_follows [of c s]
    by (cases "c_State c")
      (auto simp: taskProcessor_Process_def active_def intro: follows_return)
qed

end

interpretation tasks: task_processor "NewTaskProcessor B (NewContainerDelegate S) cellID" M
  for B S :: "'w services" and cellID M
  by (simp add: task_processor_def NewTaskProcessor_def delegate.container_delegate_axioms)

section \<open>Properties of task processing\<close>

lemma task_Process_run:
  obtains q where "run (task_step M B cellID c) T_Start
      (calls (taskProcessor_Process M (NewTaskProcessor B (NewContainerDelegate S) cellID) c) s) q"
    "task_final M c q"
  using tasks.Process_follows [where M = M and c = c and B = B and S = S and cellID = cellID and s = s]
  by (auto simp: follows_def NewTaskProcessor_def)

text \<open>
  C9: Task processing refines its protocol: for every container and every behaviour of the
  BBS and the executor, the calls that \<open>Process\<close> makes are a complete run of the task
  protocol.
\<close>

theorem task_processing_follows_protocol:
  "\<exists>q. run (task_step M B cellID c) T_Start
      (calls (taskProcessor_Process M (NewTaskProcessor B (NewContainerDelegate S) cellID) c) s) q
    \<and> task_final M c q"
  by (metis task_Process_run)

text \<open>
  C10: A task's container is run only by the processing whose \<open>StartTask\<close> call changed the
  task's state in the BBS, so a task that was already started is not run again, and never for
  a completed container.
\<close>

theorem task_run_only_by_starter:
  assumes "(RunContainer rq, r) \<in> set (calls
    (taskProcessor_Process M (NewTaskProcessor B (NewContainerDelegate S) cellID) c) s)"
    (is "_ \<in> set ?es")
  shows "active c \<and>
    preceded (\<lambda>e. e = (StartTask (c_Guid c) cellID, Answer True None))
      (\<lambda>(cl, r). case cl of RunContainer _ \<Rightarrow> True | _ \<Rightarrow> False) ?es"
proof -
  obtain q where run: "run (task_step M B cellID c) T_Start ?es q" by (rule task_Process_run)
  have "preceded (\<lambda>e. e = (StartTask (c_Guid c) cellID, Answer True None))
      (\<lambda>(cl, r). case cl of RunContainer _ \<Rightarrow> True | _ \<Rightarrow> False) ?es"
    by (rule run_preceded [OF run, where A = "{T_Started} \<union> range T_Fetched"])
      (auto elim!: task_stepE simp: complete_call_def)
  moreover have "list_all (\<lambda>(cl, r). \<forall>rq. cl = RunContainer rq \<longrightarrow> active c) ?es"
    by (rule run_forall_inv [OF run,
          where I = "\<lambda>p. p \<in> {T_Started} \<union> range T_Fetched \<longrightarrow> active c"])
      (auto elim!: task_stepE simp: complete_call_def)
  ultimately show ?thesis using assms by (auto simp: list_all_iff)
qed

lemma active_task_calls:
  assumes "active c"
  shows "\<exists>r es. calls (taskProcessor_Process M (NewTaskProcessor B (NewContainerDelegate S) cellID) c) s =
    (StartTask (c_Guid c) cellID, r) # es"
proof -
  let ?es = "calls (taskProcessor_Process M (NewTaskProcessor B (NewContainerDelegate S) cellID) c) s"
  obtain q where "run (task_step M B cellID c) T_Start ?es q" "task_final M c q"
    by (rule task_Process_run)
  then show ?thesis
    using assms by (cases rule: run.cases) (auto elim!: task_stepE simp: active_def)
qed

lemma example_task_calls:
  "\<exists>rq. calls (taskProcessor_Process example_api (NewTaskProcessor example_services
       (NewContainerDelegate example_services) ''cell'') (example_task_container StateReserved))
       example_world =
     [(StartTask ''tg'' ''cell'', Answer True None), (TaskByGuid ''tg'', OK),
      (RunContainer rq, OK)]"
proof -
  have "\<exists>rq. NewRunRequestFromTask example_api example_task = Ret rq"
    by (simp add: NewRunRequestFromTask_def diskScopeForRootFS_def example_task_def
        url_Parse_example example_api_def)
  then show ?thesis
    by (auto simp: taskProcessor_Process_def task_processActiveContainer_def startTask_def
        calls_def NewTaskProcessor_def delegate_RunContainer_def)
qed

theorem task_run_only_by_starter_witness:
  "\<exists>rq. (RunContainer rq, OK) \<in> set (calls (taskProcessor_Process example_api
      (NewTaskProcessor example_services (NewContainerDelegate example_services) ''cell'')
      (example_task_container StateReserved)) example_world) \<and>
    active (example_task_container StateReserved)"
proof -
  obtain rq where "calls (taskProcessor_Process example_api (NewTaskProcessor example_services
       (NewContainerDelegate example_services) ''cell'') (example_task_container StateReserved))
       example_world =
     [(StartTask ''tg'' ''cell'', Answer True None), (TaskByGuid ''tg'', OK),
      (RunContainer rq, OK)]"
    using example_task_calls by blast
  then have run: "(RunContainer rq, OK) \<in> set (calls (taskProcessor_Process example_api
      (NewTaskProcessor example_services (NewContainerDelegate example_services) ''cell'')
      (example_task_container StateReserved)) example_world)"
    by simp
  from task_run_only_by_starter [OF run] run show ?thesis by blast
qed

text \<open>How the run of a completed container goes on from each phase.\<close>

fun task_report :: "Container \<Rightarrow> string \<Rightarrow> event \<Rightarrow> bool" where
  "task_report c cellID (FailTask g reason, r) = (g = c_Guid c)"
| "task_report c cellID (CompleteTask g cell failed reason x, r) =
     (CompleteTask g cell failed reason x = complete_call c cellID x \<and>
      length x \<le> MAX_RESULT_SIZE)"
| "task_report c cellID _ = False"

fun is_DeleteContainer :: "event \<Rightarrow> bool" where
  "is_DeleteContainer (DeleteContainer g, r) = True"
| "is_DeleteContainer _ = False"

fun completing :: "tphase \<Rightarrow> bool" where
  "completing T_Start = True"
| "completing (T_Result None) = True"
| "completing (T_Result (Some x)) = (length x \<le> MAX_RESULT_SIZE)"
| "completing T_Invalid = True"
| "completing _ = False"

lemma completing_step:
  assumes "task_step M S cellID c p e q" "c_State c = StateCompleted" "completing p"
  shows "\<not> is_DeleteContainer e \<and> (completing q \<or> q = T_Cleanup) \<and>
    (q = T_Cleanup \<longrightarrow> task_report c cellID e)"
proof -
  have "length x \<le> MAX_RESULT_SIZE" if "ready c p x" for x
    using that assms(3) by (cases "(c, p, x)" rule: ready.cases) auto
  moreover have "completing (T_Result res)"
    if "\<And>x. res = Some x \<Longrightarrow> length x \<le> MAX_RESULT_SIZE" for res
    using that by (cases res) auto
  ultimately show ?thesis
    using assms by (auto elim!: task_stepE simp: active_def complete_call_def)
qed

lemma cleanup_run:
  assumes "run (task_step M S cellID c) T_Cleanup es q" "task_final M c q"
  shows "\<exists>r. es = [(DeleteContainer (c_Guid c), r)]"
proof -
  have stop: "run (task_step M S cellID c) T_Done es q \<Longrightarrow> es = []" for es q
    by (erule run.cases) (auto elim: task_stepE)
  from assms show ?thesis
    by (cases rule: run.cases) (auto elim!: task_stepE dest: stop)
qed

lemma completing_run:
  assumes "run (task_step M S cellID c) p es q" "c_State c = StateCompleted" "completing p"
    and "task_final M c q"
  shows "\<exists>es' r. es = es' @ [(DeleteContainer (c_Guid c), r)] \<and>
    list_ex (task_report c cellID) es' \<and> list_all (\<lambda>e. \<not> is_DeleteContainer e) es'"
  using assms
proof (induction rule: run.induct)
  case (run_Nil p)
  then show ?case by (cases p rule: completing.cases) auto
next
  case (run_Cons p e q es r)
  note step = completing_step [OF run_Cons.hyps(1) run_Cons.prems(1,2)]
  show ?case
  proof (cases "q = T_Cleanup")
    case True
    then obtain r where "es = [(DeleteContainer (c_Guid c), r)]"
      using cleanup_run run_Cons by blast
    with True step show ?thesis
      by (intro exI [of _ "[e]"] exI [of _ r]) simp
  next
    case False
    with step run_Cons obtain es' r where "es = es' @ [(DeleteContainer (c_Guid c), r)]"
        "list_ex (task_report c cellID) es'" "list_all (\<lambda>e. \<not> is_DeleteContainer e) es'"
      by blast
    with step show ?thesis
      by (intro exI [of _ "e # es'"] exI [of _ r]) simp
  qed
qed

text \<open>
  C16: A completed task always ends and is cleaned up: the processing asks the BBS to complete
  or to fail exactly this task, the container is deleted by the last call and by no earlier
  one, and a result sent with the completion is never longer than \<open>MAX_RESULT_SIZE\<close>.
\<close>

theorem completed_task_reported_and_deleted:
  assumes "c_State c = StateCompleted"
  shows "\<exists>es r. calls (taskProcessor_Process M
        (NewTaskProcessor B (NewContainerDelegate S) cellID) c) s =
      es @ [(DeleteContainer (c_Guid c), r)] \<and>
    list_ex (task_report c cellID) es \<and> list_all (\<lambda>e. \<not> is_DeleteContainer e) es"
  by (rule task_Process_run [where M = M and B = B and S = S and cellID = cellID and c = c and s = s])
    (use assms completing_run in fastforce)

theorem completed_task_reported_and_deleted_witness:
  "\<exists>es r. calls (taskProcessor_Process example_api (NewTaskProcessor example_services
        (NewContainerDelegate example_services) ''cell'')
        (example_task_container StateCompleted)) example_world =
      es @ [(DeleteContainer ''tg'', r)] \<and>
    list_ex (task_report (example_task_container StateCompleted) ''cell'') es"
  using completed_task_reported_and_deleted [of "example_task_container StateCompleted"
      example_api example_services example_services "''cell''" example_world]
  by auto

section \<open>Tasks and evacuation\<close>

text \<open>An action that neither reads nor changes the evacuation context.\<close>

definition ignores_evac :: "('w, 'a) act \<Rightarrow> bool" where
  "ignores_evac m \<longleftrightarrow>
     (\<forall>s x. eval m (s\<lparr>evac := x\<rparr>) = eval m s \<and> exec m (s\<lparr>evac := x\<rparr>) = (exec m s)\<lparr>evac := x\<rparr>)"

lemma ignores_evac_simps [simp, intro]:
  "ignores_evac (return y)" "ignores_evac (invoke c rp f)" "ignores_evac panic"
  by (auto simp: ignores_evac_def eval_def exec_def invoke_def panic_def split: prod.split)

lemma ignores_evac_bind [simp, intro]:
  "ignores_evac m \<Longrightarrow> (\<And>y. ignores_evac (f y)) \<Longrightarrow> ignores_evac (State_Monad.bind m f)"
  by (simp add: ignores_evac_def)

lemma ignores_evac_branches [simp, intro]:
  "ignores_evac m \<Longrightarrow> ignores_evac n \<Longrightarrow> ignores_evac (if b then m else n)"
  "ignores_evac m \<Longrightarrow> (\<And>x. ignores_evac (f x)) \<Longrightarrow> ignores_evac (case y of None \<Rightarrow> m | Some x \<Rightarrow> f x)"
  "(\<And>e. ignores_evac (g e)) \<Longrightarrow> (\<And>x. ignores_evac (h x)) \<Longrightarrow>
     ignores_evac (case z of Inl e \<Rightarrow> g e | Inr x \<Rightarrow> h x)"
  "(\<And>x. ignores_evac (i x)) \<Longrightarrow> (\<And>e. ignores_evac (j e)) \<Longrightarrow> ignores_evac k \<Longrightarrow>
     ignores_evac (case u of Ret x \<Rightarrow> i x | Fail e \<Rightarrow> j e | Panic \<Rightarrow> k)"
  by (auto split: option.split sum.split outcome.split)

lemma delegate_ignores_evac [simp, intro]:
  "ignores_evac (del_RunContainer (NewContainerDelegate S) rq)"
  "ignores_evac (del_DeleteContainer (NewContainerDelegate S) g)"
  "ignores_evac (del_FetchContainerResultFile (NewContainerDelegate S) g file)"
  by (auto simp: NewContainerDelegate_def delegate_RunContainer_def delegate_DeleteContainer_def
      delegate_FetchContainerResultFile_def)

lemma task_actions_ignore_evac:
  assumes "tp_containerDelegate p = NewContainerDelegate S"
  shows "ignores_evac (failTask p g reason)" "ignores_evac (startTask M p g)"
    "ignores_evac (completeTask M p c)"
  unfolding failTask_def startTask_def completeTask_def Let_def assms
  by (intro ignores_evac_bind ignores_evac_branches ignores_evac_simps delegate_ignores_evac)+

lemma task_Process_ignores_evac:
  assumes "tp_containerDelegate p = NewContainerDelegate S"
  shows "ignores_evac (taskProcessor_Process M p c)"
proof -
  note steps = ignores_evac_bind ignores_evac_branches ignores_evac_simps delegate_ignores_evac
    task_actions_ignore_evac [OF assms]
  have "ignores_evac (task_processActiveContainer M p c)"
    unfolding task_processActiveContainer_def assms by (intro steps)
  moreover have "ignores_evac (task_processCompletedContainer M p c)"
    unfolding task_processCompletedContainer_def assms by (intro steps)
  ultimately show ?thesis
    by (simp add: taskProcessor_Process_def split: ContainerState.split)
qed

lemma ignores_evac_calls: "ignores_evac m \<Longrightarrow> calls m (s\<lparr>evac := x\<rparr>) = calls m s"
  by (simp add: ignores_evac_def calls_def)

end
