(* ===== verification/Operations.thy ===== *)
theory Operations
  imports LRP_Protocol Task_Processor
begin

text \<open>
  The operations of \<open>generator/operation.go\<close>: what is done for an LRP or a task the BBS
  knows but the executor has no container for, and for a container of the executor. An
  operation has a key, by which the operation queue serialises, and an \<open>Execute\<close> method.
\<close>

section \<open>The operations\<close>

record 'w ResidualInstanceLRPOperation =
  ri_bbsClient :: "'w services"
  ri_containerDelegate :: "'w ContainerDelegate"
  ri_ActualLRPKey :: ActualLRPKey
  ri_ActualLRPInstanceKey :: ActualLRPInstanceKey

definition NewResidualInstanceLRPOperation ::
  "'w services \<Rightarrow> 'w ContainerDelegate \<Rightarrow> ActualLRPKey \<Rightarrow> ActualLRPInstanceKey \<Rightarrow>
     'w ResidualInstanceLRPOperation" where
  "NewResidualInstanceLRPOperation bbsClient cd lrpKey instanceKey =
     \<lparr>ri_bbsClient = bbsClient, ri_containerDelegate = cd, ri_ActualLRPKey = lrpKey,
      ri_ActualLRPInstanceKey = instanceKey\<rparr>"

definition ResidualInstance_Key :: "'w ResidualInstanceLRPOperation \<Rightarrow> string" where
  "ResidualInstance_Key oper = InstanceGuid (ri_ActualLRPInstanceKey oper)"

definition ResidualInstance_Execute :: "'w ResidualInstanceLRPOperation \<Rightarrow> ('w, unit) act" where
  "ResidualInstance_Execute oper = do {
     found \<leftarrow> del_GetContainer (ri_containerDelegate oper)
       (LRPContainerGuid (ProcessGuid (ri_ActualLRPKey oper))
         (InstanceGuid (ri_ActualLRPInstanceKey oper)));
     (if found \<noteq> None then return ()
      else do {
        let ik = \<lparr>InstanceGuid = InstanceGuid (ri_ActualLRPInstanceKey oper),
                  CellId = CellId (ri_ActualLRPInstanceKey oper)\<rparr>;
        invoke (RemoveActualLRP (ProcessGuid (ri_ActualLRPKey oper))
                  (int_of_int32 (Index (ri_ActualLRPKey oper))) ik) err_reply
          (svc_RemoveActualLRP (ri_bbsClient oper) (ProcessGuid (ri_ActualLRPKey oper))
            (int_of_int32 (Index (ri_ActualLRPKey oper))) ik);
        return ()
      })
   }"

record 'w ResidualEvacuatingLRPOperation =
  re_bbsClient :: "'w services"
  re_containerDelegate :: "'w ContainerDelegate"
  re_ActualLRPKey :: ActualLRPKey
  re_ActualLRPInstanceKey :: ActualLRPInstanceKey

definition NewResidualEvacuatingLRPOperation ::
  "'w services \<Rightarrow> 'w ContainerDelegate \<Rightarrow> ActualLRPKey \<Rightarrow> ActualLRPInstanceKey \<Rightarrow>
     'w ResidualEvacuatingLRPOperation" where
  "NewResidualEvacuatingLRPOperation bbsClient cd lrpKey instanceKey =
     \<lparr>re_bbsClient = bbsClient, re_containerDelegate = cd, re_ActualLRPKey = lrpKey,
      re_ActualLRPInstanceKey = instanceKey\<rparr>"

definition ResidualEvacuating_Key :: "'w ResidualEvacuatingLRPOperation \<Rightarrow> string" where
  "ResidualEvacuating_Key oper = InstanceGuid (re_ActualLRPInstanceKey oper)"

definition ResidualEvacuating_Execute ::
  "'w ResidualEvacuatingLRPOperation \<Rightarrow> ('w, unit) act" where
  "ResidualEvacuating_Execute oper = do {
     found \<leftarrow> del_GetContainer (re_containerDelegate oper)
       (LRPContainerGuid (ProcessGuid (re_ActualLRPKey oper))
         (InstanceGuid (re_ActualLRPInstanceKey oper)));
     (if found \<noteq> None then return ()
      else do {
        invoke (RemoveEvacuatingActualLRP (re_ActualLRPKey oper) (re_ActualLRPInstanceKey oper))
          err_reply
          (svc_RemoveEvacuatingActualLRP (re_bbsClient oper) (re_ActualLRPKey oper)
            (re_ActualLRPInstanceKey oper));
        return ()
      })
   }"

record 'w ResidualJointLRPOperation =
  rj_bbsClient :: "'w services"
  rj_containerDelegate :: "'w ContainerDelegate"
  rj_ActualLRPKey :: ActualLRPKey
  rj_ActualLRPInstanceKey :: ActualLRPInstanceKey

definition NewResidualJointLRPOperation ::
  "'w services \<Rightarrow> 'w ContainerDelegate \<Rightarrow> ActualLRPKey \<Rightarrow> ActualLRPInstanceKey \<Rightarrow>
     'w ResidualJointLRPOperation" where
  "NewResidualJointLRPOperation bbsClient cd lrpKey instanceKey =
     \<lparr>rj_bbsClient = bbsClient, rj_containerDelegate = cd, rj_ActualLRPKey = lrpKey,
      rj_ActualLRPInstanceKey = instanceKey\<rparr>"

definition ResidualJoint_Key :: "'w ResidualJointLRPOperation \<Rightarrow> string" where
  "ResidualJoint_Key oper = InstanceGuid (rj_ActualLRPInstanceKey oper)"

definition ResidualJoint_Execute :: "'w ResidualJointLRPOperation \<Rightarrow> ('w, unit) act" where
  "ResidualJoint_Execute oper = do {
     found \<leftarrow> del_GetContainer (rj_containerDelegate oper)
       (LRPContainerGuid (ProcessGuid (rj_ActualLRPKey oper))
         (InstanceGuid (rj_ActualLRPInstanceKey oper)));
     (if found \<noteq> None then return ()
      else do {
        let actualLRPKey =
              \<lparr>ProcessGuid = ProcessGuid (rj_ActualLRPKey oper),
               Index = Index (rj_ActualLRPKey oper),
               Domain = Domain (rj_ActualLRPKey oper)\<rparr>;
        let actualLRPInstanceKey =
              \<lparr>InstanceGuid = InstanceGuid (rj_ActualLRPInstanceKey oper),
               CellId = CellId (rj_ActualLRPInstanceKey oper)\<rparr>;
        invoke (RemoveActualLRP (ProcessGuid (rj_ActualLRPKey oper))
                  (int_of_int32 (Index (rj_ActualLRPKey oper))) (rj_ActualLRPInstanceKey oper))
          err_reply
          (svc_RemoveActualLRP (rj_bbsClient oper) (ProcessGuid (rj_ActualLRPKey oper))
            (int_of_int32 (Index (rj_ActualLRPKey oper))) (rj_ActualLRPInstanceKey oper));
        invoke (RemoveEvacuatingActualLRP actualLRPKey actualLRPInstanceKey) err_reply
          (svc_RemoveEvacuatingActualLRP (rj_bbsClient oper) actualLRPKey actualLRPInstanceKey);
        return ()
      })
   }"

record 'w ResidualTaskOperation =
  rt_TaskGuid :: string
  rt_bbsClient :: "'w services"
  rt_containerDelegate :: "'w ContainerDelegate"

definition NewResidualTaskOperation ::
  "string \<Rightarrow> 'w services \<Rightarrow> 'w ContainerDelegate \<Rightarrow> 'w ResidualTaskOperation" where
  "NewResidualTaskOperation taskGuid bbsClient cd =
     \<lparr>rt_TaskGuid = taskGuid, rt_bbsClient = bbsClient, rt_containerDelegate = cd\<rparr>"

definition ResidualTask_Key :: "'w ResidualTaskOperation \<Rightarrow> string" where
  "ResidualTask_Key oper = rt_TaskGuid oper"

definition ResidualTask_Execute :: "'w ResidualTaskOperation \<Rightarrow> ('w, unit) act" where
  "ResidualTask_Execute oper = do {
     found \<leftarrow> del_GetContainer (rt_containerDelegate oper) (rt_TaskGuid oper);
     (if found \<noteq> None then return ()
      else do {
        err \<leftarrow> invoke (FailTask (rt_TaskGuid oper) TaskCompletionReasonMissingContainer) err_reply
                 (svc_FailTask (rt_bbsClient oper) (rt_TaskGuid oper)
                   TaskCompletionReasonMissingContainer);
        return ()
      })
   }"

record 'w ContainerOperation =
  co_lrpProcessor :: "'w LRPProcessor"
  co_taskProcessor :: "Container \<Rightarrow> ('w, unit) act"
  co_containerDelegate :: "'w ContainerDelegate"
  co_Guid :: string

definition NewContainerOperation ::
  "'w LRPProcessor \<Rightarrow> (Container \<Rightarrow> ('w, unit) act) \<Rightarrow> 'w ContainerDelegate \<Rightarrow> string \<Rightarrow>
     'w ContainerOperation" where
  "NewContainerOperation lrp task cd guid =
     \<lparr>co_lrpProcessor = lrp, co_taskProcessor = task, co_containerDelegate = cd,
      co_Guid = guid\<rparr>"

definition ContainerOperation_Key :: "'w ContainerOperation \<Rightarrow> string" where
  "ContainerOperation_Key oper = co_Guid oper"

definition ContainerOperation_Execute :: "'w ContainerOperation \<Rightarrow> ('w, unit) act" where
  "ContainerOperation_Execute oper = do {
     found \<leftarrow> del_GetContainer (co_containerDelegate oper) (co_Guid oper);
     (case found of
        None \<Rightarrow> return ()
      | Some container \<Rightarrow>
          let lifecycle = tag_get (c_Tags container) LifecycleTag
          in if lifecycle = LRPLifecycle then co_lrpProcessor oper container
             else if lifecycle = TaskLifecycle then co_taskProcessor oper container
             else return ())
   }"

text \<open>The values of the interface \<open>operationq.Operation\<close>.\<close>

datatype 'w operation =
    InstanceOp "'w ResidualInstanceLRPOperation"
  | EvacuatingOp "'w ResidualEvacuatingLRPOperation"
  | JointOp "'w ResidualJointLRPOperation"
  | TaskOp "'w ResidualTaskOperation"
  | ContainerOp "'w ContainerOperation"

fun op_Key :: "'w operation \<Rightarrow> string" where
  "op_Key (InstanceOp oper) = ResidualInstance_Key oper"
| "op_Key (EvacuatingOp oper) = ResidualEvacuating_Key oper"
| "op_Key (JointOp oper) = ResidualJoint_Key oper"
| "op_Key (TaskOp oper) = ResidualTask_Key oper"
| "op_Key (ContainerOp oper) = ContainerOperation_Key oper"

fun op_Execute :: "'w operation \<Rightarrow> ('w, unit) act" where
  "op_Execute (InstanceOp oper) = ResidualInstance_Execute oper"
| "op_Execute (EvacuatingOp oper) = ResidualEvacuating_Execute oper"
| "op_Execute (JointOp oper) = ResidualJoint_Execute oper"
| "op_Execute (TaskOp oper) = ResidualTask_Execute oper"
| "op_Execute (ContainerOp oper) = ContainerOperation_Execute oper"

section \<open>Residual operations\<close>

lemmas residual_defs =
  ResidualInstance_Execute_def ResidualEvacuating_Execute_def ResidualJoint_Execute_def
  ResidualTask_Execute_def NewResidualInstanceLRPOperation_def
  NewResidualEvacuatingLRPOperation_def NewResidualJointLRPOperation_def
  NewResidualTaskOperation_def

text \<open>The common shape: look for the container, and go on only without it.\<close>

lemma guarded_calls:
  assumes "appends rest"
  shows "\<exists>r. calls (do {
      found \<leftarrow> delegate_GetContainer S g;
      (if found \<noteq> None then return () else rest)
    }) s =
    (GetContainer g, r) # (if r = OK then [] else calls rest (exec (delegate_GetContainer S g) s))"
proof -
  have "appends (delegate_GetContainer S g)"
    using delegate.del_appends(1) [of S g] by simp
  then have "calls (do {
      found \<leftarrow> delegate_GetContainer S g;
      (if found \<noteq> None then return () else rest)
    }) s = calls (delegate_GetContainer S g) s @
      (if eval (delegate_GetContainer S g) s \<noteq> None then []
       else calls rest (exec (delegate_GetContainer S g) s))"
    by (subst calls_bind) (auto simp: assms)
  moreover obtain r where "calls (delegate_GetContainer S g) s = [(GetContainer g, r)]"
    "(eval (delegate_GetContainer S g) s \<noteq> None) = (r = OK)"
    using delegate.get_calls [of S g s] by auto
  ultimately show ?thesis by (intro exI [of _ r]) (simp only: append.simps)
qed

lemma guarded_one:
  "\<exists>r r'. calls (do {
      found \<leftarrow> delegate_GetContainer S g;
      (if found \<noteq> None then return () else do { invoke c err_reply f; return () })
    }) s = (GetContainer g, r) # (if r = OK then [] else [(c, r')])"
proof -
  have "appends (do { invoke c err_reply f; return () })" by simp
  from guarded_calls [OF this, of S g s] obtain r where "calls (do {
      found \<leftarrow> delegate_GetContainer S g;
      (if found \<noteq> None then return () else do { invoke c err_reply f; return () })
    }) s = (GetContainer g, r) # (if r = OK then []
      else calls (do { invoke c err_reply f; return () }) (exec (delegate_GetContainer S g) s))"
    ..
  then show ?thesis unfolding calls_invoke_bind [OF appends_return] calls_simps by blast
qed

lemma guarded_two:
  "\<exists>r r' r''. calls (do {
      found \<leftarrow> delegate_GetContainer S g;
      (if found \<noteq> None then return ()
       else do { invoke c err_reply f; invoke c' err_reply f'; return () })
    }) s = (GetContainer g, r) # (if r = OK then [] else [(c, r'), (c', r'')])"
proof -
  have inner: "appends (do { invoke c' err_reply f'; return () })" by simp
  then have "appends (do { invoke c err_reply f; invoke c' err_reply f'; return () })" by simp
  from guarded_calls [OF this, of S g s] obtain r where "calls (do {
      found \<leftarrow> delegate_GetContainer S g;
      (if found \<noteq> None then return ()
       else do { invoke c err_reply f; invoke c' err_reply f'; return () })
    }) s = (GetContainer g, r) # (if r = OK then []
      else calls (do { invoke c err_reply f; invoke c' err_reply f'; return () })
        (exec (delegate_GetContainer S g) s))"
    ..
  then show ?thesis
    unfolding calls_invoke_bind [OF inner] calls_invoke_bind [OF appends_return] calls_simps
    by blast
qed

lemma residual_Execute_guarded:
  fixes B S :: "'w services"
  defines "guarded g (rest :: ('w, unit) act) \<equiv> do {
      found \<leftarrow> delegate_GetContainer S g;
      (if found \<noteq> None then return () else rest)
    }"
  shows "ResidualInstance_Execute
      (NewResidualInstanceLRPOperation B (NewContainerDelegate S) k ik) =
    guarded (InstanceGuid ik) (do { invoke (remove_call k ik) err_reply
      (svc_RemoveActualLRP B (ProcessGuid k) (int_of_int32 (Index k)) ik); return () })"
    and "ResidualEvacuating_Execute
      (NewResidualEvacuatingLRPOperation B (NewContainerDelegate S) k ik) =
    guarded (InstanceGuid ik) (do { invoke (RemoveEvacuatingActualLRP k ik) err_reply
      (svc_RemoveEvacuatingActualLRP B k ik); return () })"
    and "ResidualJoint_Execute
      (NewResidualJointLRPOperation B (NewContainerDelegate S) k ik) =
    guarded (InstanceGuid ik) (do { invoke (remove_call k ik) err_reply
      (svc_RemoveActualLRP B (ProcessGuid k) (int_of_int32 (Index k)) ik);
      invoke (RemoveEvacuatingActualLRP k ik) err_reply
        (svc_RemoveEvacuatingActualLRP B k ik); return () })"
    and "ResidualTask_Execute (NewResidualTaskOperation g B (NewContainerDelegate S)) =
    guarded g (do { invoke (FailTask g TaskCompletionReasonMissingContainer) err_reply
      (svc_FailTask B g TaskCompletionReasonMissingContainer); return () })"
  by (simp_all add: residual_defs LRPContainerGuid_def remove_call_def Let_def guarded_def
      key_eta cong: if_cong)

lemma residual_lrp_calls:
  "\<exists>r r'. calls (ResidualInstance_Execute
        (NewResidualInstanceLRPOperation B (NewContainerDelegate S) k ik)) s =
      (GetContainer (InstanceGuid ik), r) # (if r = OK then [] else [(remove_call k ik, r')])"
  "\<exists>r r'. calls (ResidualEvacuating_Execute
        (NewResidualEvacuatingLRPOperation B (NewContainerDelegate S) k ik)) s =
      (GetContainer (InstanceGuid ik), r) #
      (if r = OK then [] else [(RemoveEvacuatingActualLRP k ik, r')])"
  "\<exists>r r' r''. calls (ResidualJoint_Execute
        (NewResidualJointLRPOperation B (NewContainerDelegate S) k ik)) s =
      (GetContainer (InstanceGuid ik), r) #
      (if r = OK then []
       else [(remove_call k ik, r'), (RemoveEvacuatingActualLRP k ik, r'')])"
  unfolding residual_Execute_guarded by (rule guarded_one guarded_two)+

lemma residual_task_calls:
  "\<exists>r r'. calls (ResidualTask_Execute (NewResidualTaskOperation g B (NewContainerDelegate S))) s =
     (GetContainer g, r) #
     (if r = OK then [] else [(FailTask g TaskCompletionReasonMissingContainer, r')])"
  unfolding residual_Execute_guarded by (rule guarded_one)

text \<open>
  Residual operations spare what is alive. Each first looks for the container; if there is
  one nothing else happens, and otherwise the BBS is asked to remove exactly the LRP instance,
  the evacuating LRP, both, or to fail the task, under the keys the operation was made with.
\<close>

theorem residual_operations_spare_live:
  "(\<exists>r r'. calls (op_Execute (InstanceOp (NewResidualInstanceLRPOperation B
        (NewContainerDelegate S) k ik))) s =
      (GetContainer (InstanceGuid ik), r) # (if r = OK then [] else [(remove_call k ik, r')])) \<and>
   (\<exists>r r'. calls (op_Execute (EvacuatingOp (NewResidualEvacuatingLRPOperation B
        (NewContainerDelegate S) k ik))) s =
      (GetContainer (InstanceGuid ik), r) #
      (if r = OK then [] else [(RemoveEvacuatingActualLRP k ik, r')])) \<and>
   (\<exists>r r' r''. calls (op_Execute (JointOp (NewResidualJointLRPOperation B
        (NewContainerDelegate S) k ik))) s =
      (GetContainer (InstanceGuid ik), r) #
      (if r = OK then []
       else [(remove_call k ik, r'), (RemoveEvacuatingActualLRP k ik, r'')])) \<and>
   (\<exists>r r'. calls (op_Execute (TaskOp (NewResidualTaskOperation g B
        (NewContainerDelegate S)))) s =
      (GetContainer g, r) #
      (if r = OK then [] else [(FailTask g TaskCompletionReasonMissingContainer, r')]))"
  unfolding op_Execute.simps by (intro conjI residual_lrp_calls residual_task_calls)

section \<open>Operations stay with their key\<close>

text \<open>The container or task that a call to the executor or about a task is for.\<close>

fun call_guid :: "call \<Rightarrow> string option" where
  "call_guid (GetContainer g) = Some g"
| "call_guid (RunContainer rq) = Some (rq_Guid rq)"
| "call_guid (StopContainer g) = Some g"
| "call_guid (DeleteContainer g) = Some g"
| "call_guid (GetFiles g f) = Some g"
| "call_guid (StartTask g cell) = Some g"
| "call_guid (TaskByGuid g) = Some g"
| "call_guid (FailTask g reason) = Some g"
| "call_guid (CompleteTask g cell failed reason x) = Some g"
| "call_guid _ = None"

definition about :: "string \<Rightarrow> event \<Rightarrow> bool" where
  "about g e \<longleftrightarrow> call_guid (fst e) = None \<or> call_guid (fst e) = Some g"

text \<open>
  What is documented of the executor and the BBS: a container or a task that is asked for by
  guid has that guid.
\<close>

definition guid_faithful :: "'w services \<Rightarrow> 'w services \<Rightarrow> bool" where
  "guid_faithful B S \<longleftrightarrow>
     (\<forall>g w c. fst (svc_GetContainer S g w) = Inr c \<longrightarrow> c_Guid c = g) \<and>
     (\<forall>g w t. fst (svc_TaskByGuid B g w) = Inr t \<longrightarrow> t_TaskGuid t = g)"

text \<open>The contract of a processor that the container operation relies on.\<close>

locale container_processor =
  fixes B S :: "'w services" and process :: "Container \<Rightarrow> ('w, unit) act"
  assumes process_appends: "appends (process c)"
    and process_about: "guid_faithful B S \<Longrightarrow> list_all (about (c_Guid c)) (calls (process c) s)"

interpretation lrp_processing: container_processor B S
  "lrpProcessor_Process (NewLRPProcessor M B (NewContainerDelegate S) cellID ttl)"
  for B S :: "'w services" and M cellID ttl
proof
  fix c and s :: "'w world"
  let ?m = "lrpProcessor_Process (NewLRPProcessor M B (NewContainerDelegate S) cellID ttl) c"
  show "appends ?m"
    by (simp add: lrpProcessor_Process_def NewLRPProcessor_def
        ordinary.ordinary_Process_appends evacuation.evacuation_Process_appends)
  show "list_all (about (c_Guid c)) (calls ?m s)"
  proof (cases "\<exists>k ik. ActualLRPKeyFromTags M (c_Tags c) = Inr k \<and>
      ActualLRPInstanceKeyFromContainer M c cellID = Inr ik")
    case True
    then obtain k ik where keys: "ActualLRPKeyFromTags M (c_Tags c) = Inr k"
        "ActualLRPInstanceKeyFromContainer M c cellID = Inr ik"
      by blast
    have "about (c_Guid c) e" if "ordinary_step M B c k ik p e q" for p e q
      using that by (auto elim!: ordinary_stepE
          simp: about_def claim_call_def remove_call_def run_request_guid)
    moreover have "about (c_Guid c) e" if "evacuation_step M ttl c k ik p e q" for p e q
      using that by (auto elim!: evacuation_stepE simp: about_def)
    ultimately show ?thesis
      using lrp_Process_ordinary [OF _ keys] lrp_Process_evacuating [OF _ keys] run_forall
      by metis
  qed (simp add: lrp_Process_no_key)
qed

interpretation task_processing: container_processor B S
  "taskProcessor_Process M (NewTaskProcessor B (NewContainerDelegate S) cellID)"
  for B S :: "'w services" and M cellID
proof
  fix c and s :: "'w world"
  let ?m = "taskProcessor_Process M (NewTaskProcessor B (NewContainerDelegate S) cellID) c"
  show "appends ?m" by (rule tasks.Process_appends)
  assume faithful: "guid_faithful B S"
  let ?I = "\<lambda>p. case p of T_Fetched t \<Rightarrow> t_TaskGuid t = c_Guid c
    | T_RunFailed t \<Rightarrow> t_TaskGuid t = c_Guid c | _ \<Rightarrow> True"
  have answer: "t_TaskGuid t = c_Guid c" if "task_answer B (c_Guid c) t" for t
    using that faithful by (auto simp: task_answer_def guid_faithful_def)
  have "?I q \<and> about (c_Guid c) e" if "task_step M B cellID c p e q" "?I p" for p e q
    using that by (auto elim!: task_stepE
        simp: about_def complete_call_def task_run_request_guid answer split: tphase.splits)
  then show "list_all (about (c_Guid c)) (calls ?m s)"
    by (rule_tac task_Process_run [where M = M and B = B and S = S and cellID = cellID and c = c and s = s])
      (erule run_forall_inv [where I = ?I], auto)
qed

locale container_operation =
  lrp: container_processor B S lrp + task: container_processor B S task
  for B S :: "'w services" and lrp task
begin

lemma Execute_about:
  assumes "guid_faithful B S"
  shows "list_all (about g) (calls (ContainerOperation_Execute
    (NewContainerOperation lrp task (NewContainerDelegate S) g)) s)"
proof -
  obtain r where get: "calls (delegate_GetContainer S g) s = [(GetContainer g, r)]"
    using delegate.get_calls [of S g s] by auto
  have [simp]: "appends (delegate_GetContainer S g)"
    using delegate.del_appends(1) [of S g] by simp
  have guid: "c_Guid c = g" if "eval (delegate_GetContainer S g) s = Some c" for c
    using that assms
    by (auto simp: delegate_GetContainer_def guid_faithful_def split: sum.splits)
  show ?thesis
    using lrp.process_about [OF assms] task.process_about [OF assms] guid
    by (auto simp: ContainerOperation_Execute_def NewContainerOperation_def calls_bind get
        lrp.process_appends task.process_appends Let_def about_def
        split: option.split)
qed

lemma Execute_appends:
  "appends (ContainerOperation_Execute
    (NewContainerOperation lrp task (NewContainerDelegate S) g))"
  using delegate.del_appends(1) [of S g]
  by (simp add: ContainerOperation_Execute_def NewContainerOperation_def Let_def
      lrp.process_appends task.process_appends)

end

interpretation operation: container_operation B S
  "lrpProcessor_Process (NewLRPProcessor M B (NewContainerDelegate S) cellID ttl)"
  "taskProcessor_Process M (NewTaskProcessor B (NewContainerDelegate S) cellID)"
  for B S :: "'w services" and M cellID ttl ..

lemma residual_about:
  "list_all (about (InstanceGuid ik)) (calls (ResidualInstance_Execute
     (NewResidualInstanceLRPOperation B (NewContainerDelegate S) k ik)) s)"
  "list_all (about (InstanceGuid ik)) (calls (ResidualEvacuating_Execute
     (NewResidualEvacuatingLRPOperation B (NewContainerDelegate S) k ik)) s)"
  "list_all (about (InstanceGuid ik)) (calls (ResidualJoint_Execute
     (NewResidualJointLRPOperation B (NewContainerDelegate S) k ik)) s)"
  "list_all (about g) (calls (ResidualTask_Execute
     (NewResidualTaskOperation g B (NewContainerDelegate S))) s)"
  using residual_lrp_calls(1) [of B S k ik s] residual_lrp_calls(2) [of B S k ik s]
    residual_lrp_calls(3) [of B S k ik s] residual_task_calls [of g B S s]
  by (auto simp: about_def remove_call_def)

section \<open>What an operation settles\<close>

text \<open>
  An operation settles a guid by some calls: it looks for the container, and makes exactly these
  calls if there is none at that moment, whenever it is executed.
\<close>

definition present :: "'w services \<Rightarrow> string \<Rightarrow> 'w world \<Rightarrow> bool" where
  "present S guid s \<longleftrightarrow> (\<exists>c. fst (svc_GetContainer S guid (ext s)) = Inr c)"

definition settles :: "'w services \<Rightarrow> string \<Rightarrow> call list \<Rightarrow> 'w operation \<Rightarrow> bool" where
  "settles S guid cs oper \<longleftrightarrow>
     (\<forall>s. map fst (calls (op_Execute oper) s) =
        GetContainer guid # (if present S guid s then [] else cs))"

lemma guarded_settles:
  assumes "appends rest" "\<And>s. map fst (calls rest s) = cs"
  shows "map fst (calls (do {
      found \<leftarrow> delegate_GetContainer S g;
      (if found \<noteq> None then return () else rest)
    }) s) = GetContainer g # (if present S g s then [] else cs)"
proof -
  have [simp]: "appends (delegate_GetContainer S g)"
    using delegate.del_appends(1) [of S g] by simp
  obtain r where get: "calls (delegate_GetContainer S g) s = [(GetContainer g, r)]"
    using delegate.get_calls [of S g s] by auto
  have "present S g s \<longleftrightarrow> eval (delegate_GetContainer S g) s \<noteq> None"
    by (auto simp: present_def delegate_GetContainer_def split: sum.split)
  then show ?thesis
    by (subst calls_bind) (auto simp: assms get)
qed

lemma residual_settles:
  "settles S (InstanceGuid ik) [remove_call k ik]
     (InstanceOp (NewResidualInstanceLRPOperation B (NewContainerDelegate S) k ik))"
  "settles S (InstanceGuid ik) [RemoveEvacuatingActualLRP k ik]
     (EvacuatingOp (NewResidualEvacuatingLRPOperation B (NewContainerDelegate S) k ik))"
  "settles S (InstanceGuid ik) [remove_call k ik, RemoveEvacuatingActualLRP k ik]
     (JointOp (NewResidualJointLRPOperation B (NewContainerDelegate S) k ik))"
  "settles S g [FailTask g TaskCompletionReasonMissingContainer]
     (TaskOp (NewResidualTaskOperation g B (NewContainerDelegate S)))"
  unfolding settles_def op_Execute.simps residual_Execute_guarded
  by (intro allI guarded_settles; simp add: calls_bind)+

end
