(* ===== verification/Generator.thy ===== *)
theory Generator
  imports Operations
begin

text \<open>
  The operation generator of \<open>generator/generator.go\<close>. \<open>BatchOperations\<close> fetches the
  containers, LRPs and tasks of the cell in three goroutines and makes one operation per
  guid; \<open>OperationStream\<close> makes one per lifecycle event of the executor. The order in which
  the goroutines run, the order in which their errors arrive, and the order in which Go ranges
  over a map are parameters.
\<close>

section \<open>The generator\<close>

record 'w generator =
  g_cellID :: string
  g_bbs :: "'w services"
  g_executorClient :: "'w services"
  g_lrpProcessor :: "'w LRPProcessor"
  g_taskProcessor :: "Container \<Rightarrow> ('w, unit) act"
  g_containerDelegate :: "'w ContainerDelegate"

definition generator_New ::
  "ext_api \<Rightarrow> string \<Rightarrow> 'w services \<Rightarrow> 'w services \<Rightarrow> uint64 \<Rightarrow> 'w generator" where
  "generator_New M cellID bbs executorClient evacuationTTLInSeconds =
     (let containerDelegate = NewContainerDelegate executorClient;
          lrpProcessor = NewLRPProcessor M bbs containerDelegate cellID evacuationTTLInSeconds;
          taskProcessor = NewTaskProcessor bbs containerDelegate cellID
      in \<lparr>g_cellID = cellID, g_bbs = bbs, g_executorClient = executorClient,
          g_lrpProcessor = lrpProcessor_Process lrpProcessor,
          g_taskProcessor = taskProcessor_Process M taskProcessor,
          g_containerDelegate = containerDelegate\<rparr>)"

definition operationFromContainer :: "'w generator \<Rightarrow> string \<Rightarrow> 'w operation" where
  "operationFromContainer g guid =
     ContainerOp (NewContainerOperation (g_lrpProcessor g) (g_taskProcessor g)
       (g_containerDelegate g) guid)"

section \<open>Fetching\<close>

text \<open>What the goroutines fill in: the four maps, and what each sends on \<open>errChan\<close>.\<close>

datatype fetch = FetchContainers | FetchLRPs | FetchTasks

record fetched =
  f_containers :: "(string \<times> Container) list"
  f_instanceLRPs :: "(string \<times> ActualLRP) list"
  f_evacuatingLRPs :: "(string \<times> ActualLRP) list"
  f_tasks :: "(string \<times> models_Task) list"
  f_err :: "fetch \<Rightarrow> go_error option"

definition no_fetched :: fetched where
  "no_fetched = \<lparr>f_containers = [], f_instanceLRPs = [], f_evacuatingLRPs = [], f_tasks = [],
     f_err = (\<lambda>_. None)\<rparr>"

definition lrp_guid :: "ActualLRP \<Rightarrow> string" where
  "lrp_guid lrp = LRPContainerGuid (ProcessGuid (alrp_Key lrp)) (InstanceGuid (alrp_InstanceKey lrp))"

definition add_group :: "ActualLRPGroup \<Rightarrow> fetched \<Rightarrow> fetched" where
  "add_group grp m =
     (let m1 = (case grp_Instance grp of
                  None \<Rightarrow> m
                | Some lrp \<Rightarrow> m\<lparr>f_instanceLRPs :=
                    AList.update (lrp_guid lrp) lrp (f_instanceLRPs m)\<rparr>)
      in case grp_Evacuating grp of
           None \<Rightarrow> m1
         | Some lrp \<Rightarrow> m1\<lparr>f_evacuatingLRPs :=
             AList.update (lrp_guid lrp) lrp (f_evacuatingLRPs m1)\<rparr>)"

definition fetch_containers :: "'w generator \<Rightarrow> fetched \<Rightarrow> ('w, fetched) act" where
  "fetch_containers g m = do {
     r \<leftarrow> invoke ListContainers sum_reply (svc_ListContainers (g_executorClient g));
     (case r of
        Inl err \<Rightarrow> return (m\<lparr>f_err := (f_err m)
          (FetchContainers := Some (WrappedError ''failed to list containers: '' err))\<rparr>)
      | Inr foundContainers \<Rightarrow> return (m\<lparr>f_containers :=
          fold (\<lambda>c. AList.update (c_Guid c) c) foundContainers (f_containers m)\<rparr>))
   }"

definition fetch_lrps :: "'w generator \<Rightarrow> fetched \<Rightarrow> ('w, fetched) act" where
  "fetch_lrps g m = do {
     r \<leftarrow> invoke (ActualLRPGroups (g_cellID g)) sum_reply
            (svc_ActualLRPGroups (g_bbs g) (g_cellID g));
     (case r of
        Inl err \<Rightarrow> return (m\<lparr>f_err := (f_err m)
          (FetchLRPs := Some (WrappedError ''failed to retrieve lrps: '' err))\<rparr>)
      | Inr groups \<Rightarrow> return (fold add_group groups m))
   }"

definition fetch_tasks :: "'w generator \<Rightarrow> fetched \<Rightarrow> ('w, fetched) act" where
  "fetch_tasks g m = do {
     r \<leftarrow> invoke (TasksByCellID (g_cellID g)) sum_reply
            (svc_TasksByCellID (g_bbs g) (g_cellID g));
     (case r of
        Inl err \<Rightarrow> return (m\<lparr>f_err := (f_err m)
          (FetchTasks := Some (WrappedError ''failed to retrieve tasks: '' err))\<rparr>)
      | Inr foundTasks \<Rightarrow> return (m\<lparr>f_tasks :=
          fold (\<lambda>t. AList.update (t_TaskGuid t) t) foundTasks (f_tasks m)\<rparr>))
   }"

fun fetch_one :: "'w generator \<Rightarrow> fetch \<Rightarrow> fetched \<Rightarrow> ('w, fetched) act" where
  "fetch_one g FetchContainers = fetch_containers g"
| "fetch_one g FetchLRPs = fetch_lrps g"
| "fetch_one g FetchTasks = fetch_tasks g"

fun fetch_all :: "'w generator \<Rightarrow> fetch list \<Rightarrow> fetched \<Rightarrow> ('w, fetched) act" where
  "fetch_all g [] m = return m"
| "fetch_all g (f # fs) m = do { m' \<leftarrow> fetch_one g f m; fetch_all g fs m' }"

text \<open>The first error received from \<open>errChan\<close>.\<close>

fun first_error :: "go_error option list \<Rightarrow> go_error option" where
  "first_error [] = None"
| "first_error (e # es) = (if e \<noteq> None then e else first_error es)"

section \<open>Making the batch\<close>

type_synonym 'w batch = "(string \<times> 'w operation) list"

definition add_container :: "'w generator \<Rightarrow> string \<Rightarrow> 'w batch \<Rightarrow> 'w batch" where
  "add_container g guid batch = AList.update guid (operationFromContainer g guid) batch"

definition add_instance ::
  "'w generator \<Rightarrow> (string \<times> ActualLRP) list \<Rightarrow> string \<times> ActualLRP \<Rightarrow> 'w batch \<Rightarrow> 'w batch" where
  "add_instance g evacuatingLRPs = (\<lambda>(guid, lrp) batch.
     if has_key batch guid then batch
     else if has_key evacuatingLRPs guid
     then AList.update guid (JointOp (NewResidualJointLRPOperation (g_bbs g)
            (g_containerDelegate g) (alrp_Key lrp) (alrp_InstanceKey lrp))) batch
     else AList.update guid (InstanceOp (NewResidualInstanceLRPOperation (g_bbs g)
            (g_containerDelegate g) (alrp_Key lrp) (alrp_InstanceKey lrp))) batch)"

definition add_evacuating ::
  "'w generator \<Rightarrow> string \<times> ActualLRP \<Rightarrow> 'w batch \<Rightarrow> 'w batch" where
  "add_evacuating g = (\<lambda>(guid, lrp) batch.
     if \<not> has_key batch guid
     then AList.update guid (EvacuatingOp (NewResidualEvacuatingLRPOperation (g_bbs g)
            (g_containerDelegate g) (alrp_Key lrp) (alrp_InstanceKey lrp))) batch
     else batch)"

definition add_task :: "'w generator \<Rightarrow> string \<Rightarrow> 'w batch \<Rightarrow> 'w batch" where
  "add_task g guid batch =
     (if \<not> has_key batch guid
      then AList.update guid (TaskOp (NewResidualTaskOperation guid (g_bbs g)
             (g_containerDelegate g))) batch
      else batch)"

text \<open>How Go happens to range over each of the maps.\<close>

record range_orders =
  ord_containers :: "(string \<times> Container) list \<Rightarrow> (string \<times> Container) list"
  ord_lrps :: "(string \<times> ActualLRP) list \<Rightarrow> (string \<times> ActualLRP) list"
  ord_tasks :: "(string \<times> models_Task) list \<Rightarrow> (string \<times> models_Task) list"

definition range_orders_ok :: "range_orders \<Rightarrow> bool" where
  "range_orders_ok R \<longleftrightarrow>
     map_order (ord_containers R) \<and> map_order (ord_lrps R) \<and> map_order (ord_tasks R)"

definition make_batch :: "range_orders \<Rightarrow> 'w generator \<Rightarrow> fetched \<Rightarrow> 'w batch" where
  "make_batch R g m =
     (let batch = fold (add_container g) (map fst (ord_containers R (f_containers m))) [];
          batch = fold (add_instance g (f_evacuatingLRPs m)) (ord_lrps R (f_instanceLRPs m)) batch;
          batch = fold (add_evacuating g) (ord_lrps R (f_evacuatingLRPs m)) batch
      in fold (add_task g) (map fst (ord_tasks R (f_tasks m))) batch)"

definition BatchOperations ::
  "range_orders \<Rightarrow> fetch list \<Rightarrow> fetch list \<Rightarrow> 'w generator \<Rightarrow> ('w, go_error + 'w batch) act" where
  "BatchOperations R order arrivals g = do {
     m \<leftarrow> fetch_all g order no_fetched;
     (case first_error (map (f_err m) arrivals) of
        Some err \<Rightarrow> return (Inl err)
      | None \<Rightarrow> return (Inr (make_batch R g m)))
   }"

section \<open>The operation stream\<close>

text \<open>
  Events of the executor's stream until \<open>Next\<close> returns an error, and the operations that are
  sent, in order, before the channel is closed.
\<close>

datatype executor_event = LifecycleEvent Container | OtherEvent

fun stream_loop :: "'w generator \<Rightarrow> executor_event list \<Rightarrow> 'w operation list" where
  "stream_loop g [] = []"
| "stream_loop g (OtherEvent # es) = stream_loop g es"
| "stream_loop g (LifecycleEvent container # es) =
     operationFromContainer g (c_Guid container) # stream_loop g es"

definition OperationStream ::
  "'w generator \<Rightarrow> go_error + executor_event list \<Rightarrow> go_error + 'w operation list" where
  "OperationStream g subscription =
     (case subscription of Inl err \<Rightarrow> Inl err | Inr events \<Rightarrow> Inr (stream_loop g events))"

section \<open>The batch, as a map\<close>

definition insert_absent :: "'k \<Rightarrow> 'v \<Rightarrow> ('k \<times> 'v) list \<Rightarrow> ('k \<times> 'v) list" where
  "insert_absent k v m = (if has_key m k then m else AList.update k v m)"

lemma map_of_insert_absent [simp]:
  "map_of (insert_absent k v m) k' =
     (case map_of m k' of None \<Rightarrow> if k' = k then Some v else None | Some x \<Rightarrow> Some x)"
  by (auto simp: insert_absent_def has_key_def update_conv' split: option.split)

lemma distinct_insert_absent [simp]:
  "distinct (map fst m) \<Longrightarrow> distinct (map fst (insert_absent k v m))"
  by (simp add: insert_absent_def distinct_update)

lemma map_of_fold_insert_absent:
  "map_of (fold (\<lambda>(k, v). insert_absent k (h k v)) xs m) k =
     (case map_of m k of None \<Rightarrow> map_option (h k) (map_of xs k) | Some x \<Rightarrow> Some x)"
  by (induction xs arbitrary: m) (auto split: option.split)

lemma distinct_fold_insert_absent:
  "distinct (map fst m) \<Longrightarrow> distinct (map fst (fold (\<lambda>(k, v). insert_absent k (h k v)) xs m))"
  by (induction xs arbitrary: m) auto

lemma map_of_fold_update:
  "map_of (fold (\<lambda>k. AList.update k (f k)) ks m) k =
     (if k \<in> set ks then Some (f k) else map_of m k)"
  by (induction ks arbitrary: m) (auto simp: update_conv')

definition lrp_op :: "'w generator \<Rightarrow> (string \<times> ActualLRP) list \<Rightarrow> string \<Rightarrow> ActualLRP \<Rightarrow> 'w operation" where
  "lrp_op g evacuatingLRPs guid lrp =
     (if has_key evacuatingLRPs guid
      then JointOp (NewResidualJointLRPOperation (g_bbs g)
             (g_containerDelegate g) (alrp_Key lrp) (alrp_InstanceKey lrp))
      else InstanceOp (NewResidualInstanceLRPOperation (g_bbs g)
             (g_containerDelegate g) (alrp_Key lrp) (alrp_InstanceKey lrp)))"

lemma add_as_insert_absent:
  "add_instance g ev = (\<lambda>(guid, lrp). insert_absent guid (lrp_op g ev guid lrp))"
  "add_evacuating g = (\<lambda>(guid, lrp). insert_absent guid
     (EvacuatingOp (NewResidualEvacuatingLRPOperation (g_bbs g)
        (g_containerDelegate g) (alrp_Key lrp) (alrp_InstanceKey lrp))))"
  "fold (add_task g) (map fst ts) b = fold (\<lambda>(guid, t :: models_Task). insert_absent guid
     (TaskOp (NewResidualTaskOperation guid (g_bbs g) (g_containerDelegate g)))) ts b"
proof -
  show "fold (add_task g) (map fst ts) b = fold (\<lambda>(guid, t :: models_Task). insert_absent guid
     (TaskOp (NewResidualTaskOperation guid (g_bbs g) (g_containerDelegate g)))) ts b"
    by (induction ts arbitrary: b) (auto simp: add_task_def insert_absent_def)
qed (auto simp: fun_eq_iff add_instance_def add_evacuating_def insert_absent_def lrp_op_def)

text \<open>The operation a batch has for a guid, given what was fetched.\<close>

definition expected_op :: "'w generator \<Rightarrow> fetched \<Rightarrow> string \<Rightarrow> 'w operation option" where
  "expected_op g m guid =
     (if has_key (f_containers m) guid then Some (operationFromContainer g guid)
      else case map_of (f_instanceLRPs m) guid of
        Some lrp \<Rightarrow> Some (lrp_op g (f_evacuatingLRPs m) guid lrp)
      | None \<Rightarrow>
          (case map_of (f_evacuatingLRPs m) guid of
             Some lrp \<Rightarrow> Some (EvacuatingOp (NewResidualEvacuatingLRPOperation (g_bbs g)
               (g_containerDelegate g) (alrp_Key lrp) (alrp_InstanceKey lrp)))
           | None \<Rightarrow>
               if has_key (f_tasks m) guid
               then Some (TaskOp (NewResidualTaskOperation guid (g_bbs g)
                 (g_containerDelegate g)))
               else None))"

definition keyed :: "(string \<times> ActualLRP) list \<Rightarrow> bool" where
  "keyed xs \<longleftrightarrow> (\<forall>k lrp. map_of xs k = Some lrp \<longrightarrow> k = lrp_guid lrp)"

lemma keyed_update [simp]: "keyed xs \<Longrightarrow> keyed (AList.update (lrp_guid lrp) lrp xs)"
  by (auto simp: keyed_def update_conv')

lemma keyedD: "keyed xs \<Longrightarrow> map_of xs k = Some lrp \<Longrightarrow> lrp_guid lrp = k"
  by (auto simp: keyed_def)

definition fetched_wf :: "fetched \<Rightarrow> bool" where
  "fetched_wf m \<longleftrightarrow>
     distinct (map fst (f_containers m)) \<and> distinct (map fst (f_instanceLRPs m)) \<and>
     distinct (map fst (f_evacuatingLRPs m)) \<and> distinct (map fst (f_tasks m)) \<and>
     keyed (f_instanceLRPs m) \<and> keyed (f_evacuatingLRPs m)"

lemma make_batch_map_of:
  assumes "fetched_wf m" "range_orders_ok R"
  shows "map_of (make_batch R g m) guid = expected_op g m guid"
proof -
  have "guid \<in> fst ` set (ord_containers R (f_containers m)) \<longleftrightarrow> has_key (f_containers m) guid"
    using assms by (simp add: range_orders_ok_def map_order_set has_key_iff)
  moreover have "map_of (ord_lrps R (f_instanceLRPs m)) = map_of (f_instanceLRPs m)"
    "map_of (ord_lrps R (f_evacuatingLRPs m)) = map_of (f_evacuatingLRPs m)"
    "map_of (ord_tasks R (f_tasks m)) = map_of (f_tasks m)"
    using assms by (simp_all add: range_orders_ok_def fetched_wf_def map_order_map_of)
  ultimately show ?thesis
    by (auto simp: make_batch_def Let_def add_as_insert_absent map_of_fold_insert_absent
        add_container_def [abs_def] map_of_fold_update expected_op_def map_option_case
        has_key_def split: option.split)
qed

lemma make_batch_distinct: "distinct (map fst (make_batch R g m))"
  by (simp add: make_batch_def Let_def add_as_insert_absent distinct_fold_insert_absent
      add_container_def [abs_def] distinct_fold_update)

section \<open>What is fetched\<close>

definition group_guids :: "(ActualLRPGroup \<Rightarrow> ActualLRP option) \<Rightarrow> ActualLRPGroup list \<Rightarrow> string set" where
  "group_guids sel groups = lrp_guid ` {lrp. \<exists>grp \<in> set groups. sel grp = Some lrp}"

lemma group_guids_simps [simp]:
  "group_guids sel [] = {}"
  "group_guids sel (grp # groups) =
     (case sel grp of None \<Rightarrow> {} | Some lrp \<Rightarrow> {lrp_guid lrp}) \<union> group_guids sel groups"
  by (auto simp: group_guids_def split: option.split)

lemma add_group_fields [simp]:
  "f_containers (add_group grp m) = f_containers m" "f_tasks (add_group grp m) = f_tasks m"
  "f_err (add_group grp m) = f_err m"
  "f_instanceLRPs (add_group grp m) = (case grp_Instance grp of
     None \<Rightarrow> f_instanceLRPs m
   | Some lrp \<Rightarrow> AList.update (lrp_guid lrp) lrp (f_instanceLRPs m))"
  "f_evacuatingLRPs (add_group grp m) = (case grp_Evacuating grp of
     None \<Rightarrow> f_evacuatingLRPs m
   | Some lrp \<Rightarrow> AList.update (lrp_guid lrp) lrp (f_evacuatingLRPs m))"
  by (simp_all add: add_group_def Let_def split: option.split)

lemma fold_add_group_fields [simp]:
  "f_containers (fold add_group groups m) = f_containers m"
  "f_tasks (fold add_group groups m) = f_tasks m"
  "f_err (fold add_group groups m) = f_err m"
  "has_key (f_instanceLRPs (fold add_group groups m)) k \<longleftrightarrow>
     k \<in> group_guids grp_Instance groups \<or> has_key (f_instanceLRPs m) k"
  "has_key (f_evacuatingLRPs (fold add_group groups m)) k \<longleftrightarrow>
     k \<in> group_guids grp_Evacuating groups \<or> has_key (f_evacuatingLRPs m) k"
  by (induction groups arbitrary: m) (auto split: option.splits)

lemma fetched_wf_add_group: "fetched_wf m \<Longrightarrow> fetched_wf (add_group grp m)"
  by (auto simp: fetched_wf_def distinct_update split: option.splits)

lemma fetched_wf_fold_add_group: "fetched_wf m \<Longrightarrow> fetched_wf (fold add_group groups m)"
  by (induction groups arbitrary: m) (auto intro: fetched_wf_add_group)

lemma fetch_one_wf:
  assumes "fetched_wf m"
  shows "fetched_wf (eval (fetch_one g f m) s)"
proof (cases f)
  case FetchLRPs
  with assms show ?thesis
    by (auto simp: fetch_lrps_def fetched_wf_fold_add_group split: sum.split)
      (simp add: fetched_wf_def)
qed (use assms in \<open>auto simp: fetch_containers_def fetch_tasks_def fetched_wf_def
    distinct_fold_update split: sum.split\<close>)

lemma fetch_all_wf: "fetched_wf m \<Longrightarrow> fetched_wf (eval (fetch_all g order m) s)"
  by (induction order arbitrary: m s) (auto intro: fetch_one_wf)

lemma no_fetched_wf: "fetched_wf no_fetched"
  by (simp add: fetched_wf_def no_fetched_def keyed_def)

lemma expected_op_cases:
  assumes "expected_op g m guid = Some oper" "fetched_wf m"
  obtains (container) "oper = operationFromContainer g guid" "has_key (f_containers m) guid"
  | (inst) k ik where "InstanceGuid ik = guid" "\<not> has_key (f_containers m) guid"
      "has_key (f_instanceLRPs m) guid" "\<not> has_key (f_evacuatingLRPs m) guid"
      "oper = InstanceOp (NewResidualInstanceLRPOperation (g_bbs g) (g_containerDelegate g) k ik)"
  | (joint) k ik where "InstanceGuid ik = guid" "\<not> has_key (f_containers m) guid"
      "has_key (f_instanceLRPs m) guid" "has_key (f_evacuatingLRPs m) guid"
      "oper = JointOp (NewResidualJointLRPOperation (g_bbs g) (g_containerDelegate g) k ik)"
  | (evacuating) k ik where "InstanceGuid ik = guid" "\<not> has_key (f_containers m) guid"
      "\<not> has_key (f_instanceLRPs m) guid" "has_key (f_evacuatingLRPs m) guid"
      "oper = EvacuatingOp (NewResidualEvacuatingLRPOperation (g_bbs g) (g_containerDelegate g)
         k ik)"
  | (task) "\<not> has_key (f_containers m) guid" "\<not> has_key (f_instanceLRPs m) guid"
      "\<not> has_key (f_evacuatingLRPs m) guid" "has_key (f_tasks m) guid"
      "oper = TaskOp (NewResidualTaskOperation guid (g_bbs g) (g_containerDelegate g))"
proof -
  have guid: "InstanceGuid (alrp_InstanceKey lrp) = guid"
    if "map_of (f_instanceLRPs m) guid = Some lrp \<or> map_of (f_evacuatingLRPs m) guid = Some lrp"
    for lrp
    using that assms(2) keyedD
    by (fastforce simp: fetched_wf_def lrp_guid_def LRPContainerGuid_def)
  show thesis
  proof (cases "has_key (f_containers m) guid")
    case True
    then show thesis using container assms(1) by (simp add: expected_op_def)
  next
    case no_container: False
    show thesis
    proof (cases "map_of (f_instanceLRPs m) guid")
      case (Some lrp)
      with assms(1) no_container guid [of lrp] show thesis
        by (cases "has_key (f_evacuatingLRPs m) guid")
          (auto simp: expected_op_def lrp_op_def has_key_def intro: inst joint)
    next
      case None
      with assms(1) no_container guid show thesis
        by (cases "map_of (f_evacuatingLRPs m) guid")
          (auto simp: expected_op_def has_key_def split: if_splits intro: evacuating task)
    qed
  qed
qed

lemma expected_op_Key:
  assumes "fetched_wf m" "expected_op g m guid = Some oper"
  shows "op_Key oper = guid"
  using assms(2,1)
  by (cases rule: expected_op_cases)
    (simp_all add: operationFromContainer_def ContainerOperation_Key_def
      NewContainerOperation_def ResidualInstance_Key_def NewResidualInstanceLRPOperation_def
      ResidualJoint_Key_def NewResidualJointLRPOperation_def ResidualEvacuating_Key_def
      NewResidualEvacuatingLRPOperation_def ResidualTask_Key_def NewResidualTaskOperation_def)

lemma BatchOperations_Inr:
  assumes "eval (BatchOperations R order arrivals g) s = Inr batch" "range_orders_ok R"
  obtains m where "fetched_wf m" "batch = make_batch R g m"
    "\<And>guid. map_of batch guid = expected_op g m guid"
proof -
  let ?m = "eval (fetch_all g order no_fetched) s"
  have wf: "fetched_wf ?m" by (rule fetch_all_wf [OF no_fetched_wf])
  have "batch = make_batch R g ?m"
    using assms(1) by (auto simp: BatchOperations_def split: option.splits)
  with wf make_batch_map_of [OF wf assms(2)] show thesis by (intro that [of ?m]) auto
qed

text \<open>
  C8: A batch is well formed and its operations are independent: no guid has two operations,
  each operation is filed under its own key, and executing it makes no executor call and no
  task call that is for another container or task, provided that the executor and the BBS
  return containers and tasks under the guid they were asked for.
\<close>

theorem batch_operations_independent:
  assumes "guid_faithful B S" "range_orders_ok R"
    and "eval (BatchOperations R order arrivals (generator_New M cellID B S ttl)) s = Inr batch"
  shows "distinct (map fst batch) \<and>
    (\<forall>guid oper. map_of batch guid = Some oper \<longrightarrow>
       op_Key oper = guid \<and> (\<forall>s'. list_all (about guid) (calls (op_Execute oper) s')))"
proof -
  let ?g = "generator_New M cellID B S ttl"
  obtain m where wf: "fetched_wf m" and batch: "batch = make_batch R ?g m"
      and map_of: "\<And>guid. map_of batch guid = expected_op ?g m guid"
    using BatchOperations_Inr [OF assms(3,2)] by blast
  have "list_all (about guid) (calls (op_Execute oper) s')"
    if "expected_op ?g m guid = Some oper" for guid oper s'
    using that wf
    by (cases rule: expected_op_cases)
      (auto simp: operationFromContainer_def generator_New_def Let_def residual_about
        operation.Execute_about [OF assms(1)])
  with expected_op_Key [OF wf] map_of make_batch_distinct batch show ?thesis by metis
qed

lemma example_guid_faithful: "guid_faithful example_services example_services"
  by (auto simp: guid_faithful_def example_services_def example_task_def split: if_splits)

definition plain_orders :: range_orders where
  "plain_orders = \<lparr>ord_containers = rev, ord_lrps = id, ord_tasks = id\<rparr>"

lemma plain_orders_ok: "range_orders_ok plain_orders"
  by (simp add: range_orders_ok_def plain_orders_def)

definition example_generator :: "unit generator" where
  "example_generator = generator_New example_api ''cell'' example_services example_services 600"

lemma example_batch:
  "\<exists>batch. eval (BatchOperations plain_orders [FetchTasks, FetchContainers, FetchLRPs]
     [FetchLRPs, FetchTasks, FetchContainers] example_generator) example_world = Inr batch"
  by (simp add: BatchOperations_def example_generator_def generator_New_def Let_def
      fetch_containers_def fetch_lrps_def fetch_tasks_def example_services_def no_fetched_def)

theorem batch_operations_independent_witness:
  "\<exists>batch. eval (BatchOperations plain_orders [FetchTasks, FetchContainers, FetchLRPs]
      [FetchLRPs, FetchTasks, FetchContainers] example_generator) example_world = Inr batch \<and>
    distinct (map fst batch)"
  using example_batch batch_operations_independent
      [OF example_guid_faithful plain_orders_ok, where M = example_api and cellID = "''cell''"]
  unfolding example_generator_def by blast

section \<open>What a batch covers\<close>

text \<open>The executor and the BBS answer the three queries with these lists.\<close>

definition answers ::
  "'w generator \<Rightarrow> Container list \<Rightarrow> ActualLRPGroup list \<Rightarrow> models_Task list \<Rightarrow> bool" where
  "answers g cs groups ts \<longleftrightarrow>
     (\<forall>w. fst (svc_ListContainers (g_executorClient g) w) = Inr cs) \<and>
     (\<forall>w. fst (svc_ActualLRPGroups (g_bbs g) (g_cellID g) w) = Inr groups) \<and>
     (\<forall>w. fst (svc_TasksByCellID (g_bbs g) (g_cellID g) w) = Inr ts)"

lemma fetch_all_answers:
  assumes "answers g cs groups ts"
  shows "has_key (f_containers (eval (fetch_all g order m) s)) k \<longleftrightarrow>
      FetchContainers \<in> set order \<and> k \<in> c_Guid ` set cs \<or> has_key (f_containers m) k"
    and "has_key (f_instanceLRPs (eval (fetch_all g order m) s)) k \<longleftrightarrow>
      FetchLRPs \<in> set order \<and> k \<in> group_guids grp_Instance groups \<or>
      has_key (f_instanceLRPs m) k"
    and "has_key (f_evacuatingLRPs (eval (fetch_all g order m) s)) k \<longleftrightarrow>
      FetchLRPs \<in> set order \<and> k \<in> group_guids grp_Evacuating groups \<or>
      has_key (f_evacuatingLRPs m) k"
    and "has_key (f_tasks (eval (fetch_all g order m) s)) k \<longleftrightarrow>
      FetchTasks \<in> set order \<and> k \<in> t_TaskGuid ` set ts \<or> has_key (f_tasks m) k"
    and "f_err (eval (fetch_all g order m) s) = f_err m"
proof (induction order arbitrary: m s)
  case (Cons f order)
  { case 1 show ?case using assms Cons.IH(1) by (cases f) (auto simp: answers_def
        fetch_containers_def fetch_lrps_def fetch_tasks_def has_key_fold_update) }
  { case 2 show ?case using assms Cons.IH(2) by (cases f) (auto simp: answers_def
        fetch_containers_def fetch_lrps_def fetch_tasks_def has_key_fold_update) }
  { case 3 show ?case using assms Cons.IH(3) by (cases f) (auto simp: answers_def
        fetch_containers_def fetch_lrps_def fetch_tasks_def has_key_fold_update) }
  { case 4 show ?case using assms Cons.IH(4) by (cases f) (auto simp: answers_def
        fetch_containers_def fetch_lrps_def fetch_tasks_def has_key_fold_update) }
  { case 5 show ?case using assms Cons.IH(5) by (cases f) (auto simp: answers_def
        fetch_containers_def fetch_lrps_def fetch_tasks_def) }
qed auto

lemma first_error_None: "first_error es = None \<longleftrightarrow> (\<forall>e \<in> set es. e = None)"
  by (induction es) auto

definition group_lrps :: "(ActualLRPGroup \<Rightarrow> ActualLRP option) \<Rightarrow> ActualLRPGroup list \<Rightarrow> ActualLRP set" where
  "group_lrps sel groups = {lrp. \<exists>grp \<in> set groups. sel grp = Some lrp}"

lemma group_guids_lrps: "group_guids sel groups = lrp_guid ` group_lrps sel groups"
  by (simp add: group_guids_def group_lrps_def)

lemma fold_add_group_values:
  "map_of (f_instanceLRPs (fold add_group groups m)) k = Some lrp \<Longrightarrow>
     lrp \<in> group_lrps grp_Instance groups \<or> map_of (f_instanceLRPs m) k = Some lrp"
  "map_of (f_evacuatingLRPs (fold add_group groups m)) k = Some lrp \<Longrightarrow>
     lrp \<in> group_lrps grp_Evacuating groups \<or> map_of (f_evacuatingLRPs m) k = Some lrp"
  by (induction groups arbitrary: m)
    (fastforce simp: group_lrps_def update_conv' split: option.splits if_splits)+

lemma fetch_all_values:
  assumes "answers g cs groups ts"
  shows "map_of (f_instanceLRPs (eval (fetch_all g order m) s)) k = Some lrp \<Longrightarrow>
      lrp \<in> group_lrps grp_Instance groups \<or> map_of (f_instanceLRPs m) k = Some lrp"
    and "map_of (f_evacuatingLRPs (eval (fetch_all g order m) s)) k = Some lrp \<Longrightarrow>
      lrp \<in> group_lrps grp_Evacuating groups \<or> map_of (f_evacuatingLRPs m) k = Some lrp"
proof (induction order arbitrary: m s)
  case (Cons f order)
  note answers = assms [unfolded answers_def]
  { case 1
    with Cons.IH(1) answers show ?case
      by (cases f) (fastforce simp: fetch_containers_def fetch_lrps_def fetch_tasks_def
          dest: fold_add_group_values(1))+ }
  { case 2
    with Cons.IH(2) answers show ?case
      by (cases f) (fastforce simp: fetch_containers_def fetch_lrps_def fetch_tasks_def
          dest: fold_add_group_values(2))+ }
qed simp_all

lemma answered_batch:
  assumes "answers g cs groups ts" "set order = UNIV"
  obtains m where "eval (BatchOperations R order arrivals g) s = Inr (make_batch R g m)" "fetched_wf m"
    "\<And>k. has_key (f_containers m) k \<longleftrightarrow> k \<in> c_Guid ` set cs"
    "\<And>k. has_key (f_instanceLRPs m) k \<longleftrightarrow> k \<in> group_guids grp_Instance groups"
    "\<And>k. has_key (f_evacuatingLRPs m) k \<longleftrightarrow> k \<in> group_guids grp_Evacuating groups"
    "\<And>k. has_key (f_tasks m) k \<longleftrightarrow> k \<in> t_TaskGuid ` set ts"
    "\<And>k lrp. map_of (f_instanceLRPs m) k = Some lrp \<Longrightarrow> lrp \<in> group_lrps grp_Instance groups"
    "\<And>k lrp. map_of (f_evacuatingLRPs m) k = Some lrp \<Longrightarrow> lrp \<in> group_lrps grp_Evacuating groups"
proof
  let ?m = "eval (fetch_all g order no_fetched) s"
  note keys = fetch_all_answers [OF assms(1), of order no_fetched s]
    and vals = fetch_all_values [OF assms(1), of order no_fetched s]
  have none: "f_err no_fetched = (\<lambda>_. None)" "f_containers no_fetched = []"
    "f_instanceLRPs no_fetched = []" "f_evacuatingLRPs no_fetched = []" "f_tasks no_fetched = []"
    by (simp_all add: no_fetched_def)
  then have "first_error (map (f_err ?m) arrivals) = None" by (simp add: first_error_None keys)
  then show "eval (BatchOperations R order arrivals g) s = Inr (make_batch R g ?m)"
    by (simp add: BatchOperations_def)
  show "fetched_wf ?m" by (rule fetch_all_wf [OF no_fetched_wf])
  fix k
  show "has_key (f_containers ?m) k \<longleftrightarrow> k \<in> c_Guid ` set cs"
    "has_key (f_instanceLRPs ?m) k \<longleftrightarrow> k \<in> group_guids grp_Instance groups"
    "has_key (f_evacuatingLRPs ?m) k \<longleftrightarrow> k \<in> group_guids grp_Evacuating groups"
    "has_key (f_tasks ?m) k \<longleftrightarrow> k \<in> t_TaskGuid ` set ts"
    by (simp_all add: keys none assms(2))
  fix lrp
  show "map_of (f_instanceLRPs ?m) k = Some lrp \<Longrightarrow> lrp \<in> group_lrps grp_Instance groups"
    "map_of (f_evacuatingLRPs ?m) k = Some lrp \<Longrightarrow> lrp \<in> group_lrps grp_Evacuating groups"
    using vals by (auto simp: none)
qed

lemma has_key_expected_op:
  "(\<exists>oper. expected_op g m guid = Some oper) \<longleftrightarrow>
     has_key (f_containers m) guid \<or> has_key (f_instanceLRPs m) guid \<or>
     has_key (f_evacuatingLRPs m) guid \<or> has_key (f_tasks m) guid"
  by (auto simp: expected_op_def has_key_def split: option.split)

text \<open>
  The operation for a guid, according to whether there is a container, an instance LRP, an
  evacuating LRP and a task with that guid.
\<close>

fun right_op :: "bool \<Rightarrow> bool \<Rightarrow> bool \<Rightarrow> bool \<Rightarrow> 'w operation option \<Rightarrow> bool" where
  "right_op c i e t None = (\<not> c \<and> \<not> i \<and> \<not> e \<and> \<not> t)"
| "right_op c i e t (Some (ContainerOp _)) = c"
| "right_op c i e t (Some (JointOp _)) = (\<not> c \<and> i \<and> e)"
| "right_op c i e t (Some (InstanceOp _)) = (\<not> c \<and> i \<and> \<not> e)"
| "right_op c i e t (Some (EvacuatingOp _)) = (\<not> c \<and> \<not> i \<and> e)"
| "right_op c i e t (Some (TaskOp _)) = (\<not> c \<and> \<not> i \<and> \<not> e \<and> t)"

lemma expected_op_right:
  assumes "fetched_wf m"
  shows "right_op (has_key (f_containers m) guid) (has_key (f_instanceLRPs m) guid)
    (has_key (f_evacuatingLRPs m) guid) (has_key (f_tasks m) guid) (expected_op g m guid)"
proof (cases "expected_op g m guid")
  case None
  then show ?thesis using has_key_expected_op [of g m guid] by simp
next
  case (Some oper)
  from Some assms show ?thesis
    by (cases rule: expected_op_cases) (auto simp: Some operationFromContainer_def)
qed

text \<open>
  C2: A batch misses nothing and picks the right operation. Whatever the order in which the
  three queries run, their errors arrive and the maps are ranged over, the batch has an
  operation for exactly the guids of containers, of instance and evacuating LRPs, and of
  tasks; containers take precedence, LRPs without a container get the instance, evacuating or
  joint operation according to which of the two records exist, and tasks come last.
\<close>

theorem batch_covers_everything:
  assumes "answers g cs groups ts" "range_orders_ok R" "set order = UNIV"
  shows "\<exists>batch. eval (BatchOperations R order arrivals g) s = Inr batch \<and>
    (\<forall>guid. right_op (guid \<in> c_Guid ` set cs) (guid \<in> group_guids grp_Instance groups)
       (guid \<in> group_guids grp_Evacuating groups) (guid \<in> t_TaskGuid ` set ts)
       (map_of batch guid))"
proof -
  obtain m where batch: "eval (BatchOperations R order arrivals g) s = Inr (make_batch R g m)"
    and wf: "fetched_wf m" and keys: "\<And>k. has_key (f_containers m) k \<longleftrightarrow> k \<in> c_Guid ` set cs"
      "\<And>k. has_key (f_instanceLRPs m) k \<longleftrightarrow> k \<in> group_guids grp_Instance groups"
      "\<And>k. has_key (f_evacuatingLRPs m) k \<longleftrightarrow> k \<in> group_guids grp_Evacuating groups"
      "\<And>k. has_key (f_tasks m) k \<longleftrightarrow> k \<in> t_TaskGuid ` set ts"
    by (rule answered_batch [OF assms(1,3), of R arrivals s], rule that)
  have "right_op (guid \<in> c_Guid ` set cs) (guid \<in> group_guids grp_Instance groups)
       (guid \<in> group_guids grp_Evacuating groups) (guid \<in> t_TaskGuid ` set ts)
       (map_of (make_batch R g m) guid)" for guid
    using expected_op_right [OF wf, of guid g] by (simp add: make_batch_map_of [OF wf assms(2)] keys)
  with batch show ?thesis by blast
qed

theorem batch_covers_everything_witness:
  "\<exists>batch oper. eval (BatchOperations plain_orders [FetchTasks, FetchContainers, FetchLRPs]
      [FetchLRPs, FetchTasks, FetchContainers] example_generator) example_world = Inr batch \<and>
    map_of batch ''ig'' = Some (ContainerOp oper)"
proof -
  have answers: "answers example_generator [example_container StateReserved] [] [example_task]"
    by (simp add: answers_def example_generator_def generator_New_def Let_def
        example_services_def)
  have all: "set [FetchTasks, FetchContainers, FetchLRPs] = UNIV"
    using fetch.exhaust by auto
  obtain batch where batch: "eval (BatchOperations plain_orders
      [FetchTasks, FetchContainers, FetchLRPs] [FetchLRPs, FetchTasks, FetchContainers]
      example_generator) example_world = Inr batch"
    and right: "\<forall>guid. right_op (guid \<in> c_Guid ` set [example_container StateReserved])
      (guid \<in> group_guids grp_Instance []) (guid \<in> group_guids grp_Evacuating [])
      (guid \<in> t_TaskGuid ` set [example_task]) (map_of batch guid)"
    using batch_covers_everything [OF answers plain_orders_ok all] by blast
  from right [rule_format, of "''ig''"]
  have "right_op True False False False (map_of batch ''ig'')" by (simp add: example_task_def)
  then have "\<exists>oper. map_of batch ''ig'' = Some (ContainerOp oper)"
    by (cases rule: right_op.elims(2)) auto
  with batch show ?thesis by blast
qed

section \<open>When fetching fails\<close>

definition failed :: "event \<Rightarrow> bool" where
  "failed e \<longleftrightarrow> (case snd e of Err _ \<Rightarrow> True | _ \<Rightarrow> False)"

fun fetch_call :: "string \<Rightarrow> fetch \<Rightarrow> call" where
  "fetch_call cellID FetchContainers = ListContainers"
| "fetch_call cellID FetchLRPs = ActualLRPGroups cellID"
| "fetch_call cellID FetchTasks = TasksByCellID cellID"

lemma fetch_one_appends [simp]: "appends (fetch_one g f m)"
  by (cases f) (simp_all add: fetch_containers_def fetch_lrps_def fetch_tasks_def)

lemma fetch_all_appends [simp]: "appends (fetch_all g order m)"
  by (induction order arbitrary: m) simp_all

lemma fetch_one_calls:
  "\<exists>r. calls (fetch_one g f m) s = [(fetch_call (g_cellID g) f, r)] \<and>
     ((\<exists>x. f_err (eval (fetch_one g f m) s) x \<noteq> None) \<longleftrightarrow>
        (\<exists>x. f_err m x \<noteq> None) \<or> failed (fetch_call (g_cellID g) f, r))"
  by (cases f)
    (auto simp: fetch_containers_def fetch_lrps_def fetch_tasks_def calls_invoke_bind failed_def
      split: sum.splits)

lemma fetch_all_calls:
  "map fst (calls (fetch_all g order m) s) = map (fetch_call (g_cellID g)) order \<and>
   ((\<exists>x. f_err (eval (fetch_all g order m) s) x \<noteq> None) \<longleftrightarrow>
      (\<exists>x. f_err m x \<noteq> None) \<or> list_ex failed (calls (fetch_all g order m) s))"
proof (induction order arbitrary: m s)
  case (Cons f order)
  obtain r where "calls (fetch_one g f m) s = [(fetch_call (g_cellID g) f, r)]"
      "(\<exists>x. f_err (eval (fetch_one g f m) s) x \<noteq> None) \<longleftrightarrow>
        (\<exists>x. f_err m x \<noteq> None) \<or> failed (fetch_call (g_cellID g) f, r)"
    using fetch_one_calls by blast
  with Cons.IH [of "eval (fetch_one g f m) s" "exec (fetch_one g f m) s"] show ?case
    by (simp add: calls_bind)
qed simp

text \<open>
  C21: Batch generation only reads, and fails exactly when a read fails: it makes the queries
  for containers, LRP groups and tasks of its own cell, in the order in which the goroutines
  run, and returns an error if and only if at least one of them was answered with an error,
  whatever the order in which the errors arrive.
\<close>

theorem batch_fails_iff_fetch_fails:
  assumes "set arrivals = UNIV"
  shows "map fst (calls (BatchOperations R order arrivals g) s) =
      map (fetch_call (g_cellID g)) order \<and>
    ((\<exists>err. eval (BatchOperations R order arrivals g) s = Inl err) \<longleftrightarrow>
       list_ex failed (calls (BatchOperations R order arrivals g) s))"
proof -
  let ?m = "eval (fetch_all g order no_fetched) s"
  have "calls (BatchOperations R order arrivals g) s = calls (fetch_all g order no_fetched) s"
    by (simp add: BatchOperations_def calls_bind split: option.split)
  moreover have "(\<exists>err. eval (BatchOperations R order arrivals g) s = Inl err) \<longleftrightarrow>
      (\<exists>x. f_err ?m x \<noteq> None)"
    using first_error_None [of "map (f_err ?m) arrivals"] assms
    by (auto simp: BatchOperations_def split: option.split)
  ultimately show ?thesis
    using fetch_all_calls [of g order no_fetched s] by (simp add: no_fetched_def)
qed

theorem batch_fails_iff_fetch_fails_witness:
  "map fst (calls (BatchOperations plain_orders [FetchTasks, FetchContainers, FetchLRPs]
     [FetchLRPs, FetchTasks, FetchContainers] example_generator) example_world) =
   [TasksByCellID ''cell'', ListContainers, ActualLRPGroups ''cell'']"
proof -
  have "set [FetchLRPs, FetchTasks, FetchContainers] = UNIV"
    using fetch.exhaust by auto
  from batch_fails_iff_fetch_fails [OF this, of plain_orders
      "[FetchTasks, FetchContainers, FetchLRPs]" example_generator example_world]
  show ?thesis by (simp add: example_generator_def generator_New_def Let_def)
qed

text \<open>What the operation of a container does, once it has the container.\<close>

lemma container_op_calls:
  assumes "fst (svc_GetContainer S guid (ext s)) = Inr c"
  shows "\<exists>s'. evac s' = evac s \<and>
    calls (op_Execute (operationFromContainer (generator_New M cellID B S ttl) guid)) s =
      (GetContainer guid, OK) #
      (if tag_get (c_Tags c) LifecycleTag = LRPLifecycle
       then calls (lrpProcessor_Process (NewLRPProcessor M B (NewContainerDelegate S) cellID ttl) c) s'
       else if tag_get (c_Tags c) LifecycleTag = TaskLifecycle
       then calls (taskProcessor_Process M (NewTaskProcessor B (NewContainerDelegate S) cellID) c) s'
       else [])"
proof -
  let ?get = "delegate_GetContainer S guid"
  have [simp]: "appends ?get"
    using delegate.del_appends(1) [of S guid] by simp
  have "eval ?get s = Some c" "calls ?get s = [(GetContainer guid, OK)]" "evac (exec ?get s) = evac s"
    using assms by (simp_all add: delegate_GetContainer_def calls_bind split: sum.split)
  then show ?thesis
    by (intro exI [of _ "exec ?get s"])
      (simp add: operationFromContainer_def generator_New_def Let_def ContainerOperation_Execute_def
        NewContainerOperation_def calls_bind lrp_processing.process_appends
        task_processing.process_appends split: option.split)
qed

section \<open>What a batch settles\<close>

text \<open>A guid without a container is settled by the calls for what the BBS has under it.\<close>

lemma expected_op_settles:
  fixes M cellID B S ttl
  defines "g \<equiv> generator_New M cellID B S ttl"
  assumes "fetched_wf m" "\<not> has_key (f_containers m) guid"
  shows "map_of (f_instanceLRPs m) guid = Some lrp \<Longrightarrow>
      \<exists>oper. expected_op g m guid = Some oper \<and>
        settles S guid (remove_call (alrp_Key lrp) (alrp_InstanceKey lrp) #
          (if has_key (f_evacuatingLRPs m) guid
           then [RemoveEvacuatingActualLRP (alrp_Key lrp) (alrp_InstanceKey lrp)] else [])) oper" (is "_ \<Longrightarrow> ?I")
    and "map_of (f_evacuatingLRPs m) guid = Some lrp \<Longrightarrow> \<not> has_key (f_instanceLRPs m) guid \<Longrightarrow>
      \<exists>oper. expected_op g m guid = Some oper \<and>
        settles S guid [RemoveEvacuatingActualLRP (alrp_Key lrp) (alrp_InstanceKey lrp)] oper"
      (is "_ \<Longrightarrow> _ \<Longrightarrow> ?E")
    and "has_key (f_tasks m) guid \<Longrightarrow> \<not> has_key (f_instanceLRPs m) guid \<Longrightarrow>
      \<not> has_key (f_evacuatingLRPs m) guid \<Longrightarrow>
      \<exists>oper. expected_op g m guid = Some oper \<and>
        settles S guid [FailTask guid TaskCompletionReasonMissingContainer] oper"
      (is "_ \<Longrightarrow> _ \<Longrightarrow> _ \<Longrightarrow> ?T")
proof -
  have g: "g_bbs g = B" "g_containerDelegate g = NewContainerDelegate S"
    by (simp_all add: g_def generator_New_def Let_def)
  have guid: "InstanceGuid (alrp_InstanceKey lrp) = guid"
    if "map_of (f_instanceLRPs m) guid = Some lrp \<or> map_of (f_evacuatingLRPs m) guid = Some lrp"
    using that assms(2) keyedD by (fastforce simp: fetched_wf_def lrp_guid_def LRPContainerGuid_def)
  show ?I if "map_of (f_instanceLRPs m) guid = Some lrp"
    using that assms(3) guid residual_settles(1,3) [where B = B and S = S and ik = "alrp_InstanceKey lrp"]
    by (simp add: expected_op_def lrp_op_def g)
  show ?E if "map_of (f_evacuatingLRPs m) guid = Some lrp" "\<not> has_key (f_instanceLRPs m) guid"
    using that assms(3) guid residual_settles(2) [where B = B and S = S and ik = "alrp_InstanceKey lrp"]
    by (simp add: expected_op_def has_key_def g)
  show ?T if "has_key (f_tasks m) guid" "\<not> has_key (f_instanceLRPs m) guid"
      "\<not> has_key (f_evacuatingLRPs m) guid"
    using that assms(3) residual_settles(4) [where B = B and S = S]
    by (simp add: expected_op_def has_key_def g)
qed

end
