(* ===== verification/Harmonizer.thy ===== *)
theory Harmonizer
  imports Generator
begin

text \<open>
  The two processes of \<open>harmonizer\<close> that feed the operation queue: the \<open>Bulker\<close>, which
  generates a batch on a timer and when evacuation starts, and the \<open>EventConsumer\<close>, which
  pushes the operations of the event stream. Their \<open>select\<close> loops are step relations: a step
  is labelled with the alternative that was taken. Steps of the rest of the process, which
  share the world, are labelled \<open>Others\<close>.
\<close>

section \<open>The generator interface\<close>

record 'w Generator_iface =
  gen_BatchOperations :: "('w, go_error + 'w batch) act"
  gen_OperationStream :: "go_error + 'w operation list"

definition generator_iface ::
  "range_orders \<Rightarrow> fetch list \<Rightarrow> fetch list \<Rightarrow> go_error + executor_event list \<Rightarrow> 'w generator \<Rightarrow>
     'w Generator_iface" where
  "generator_iface R order arrivals subscription g =
     \<lparr>gen_BatchOperations = BatchOperations R order arrivals g,
      gen_OperationStream = OperationStream g subscription\<rparr>"

section \<open>The bulker\<close>

definition repBulkSyncDuration :: string where
  "repBulkSyncDuration = ''RepBulkSyncDuration''"

record 'w Bulker =
  b_pollInterval :: int
  b_evacuationPollInterval :: int
  b_services :: "'w services"
  b_generator :: "'w Generator_iface"

definition NewBulker ::
  "int \<Rightarrow> int \<Rightarrow> 'w services \<Rightarrow> 'w Generator_iface \<Rightarrow> 'w Bulker" where
  "NewBulker pollInterval evacuationPollInterval services gen =
     \<lparr>b_pollInterval = pollInterval, b_evacuationPollInterval = evacuationPollInterval,
      b_services = services, b_generator = gen\<rparr>"

text \<open>One synchronisation; the result is the list of operations pushed to the queue.\<close>

definition bulker_sync ::
  "('w batch \<Rightarrow> 'w batch) \<Rightarrow> 'w Bulker \<Rightarrow> ('w, 'w operation list) act" where
  "bulker_sync ord b = do {
     startTime \<leftarrow> now (b_services b);
     r \<leftarrow> gen_BatchOperations (b_generator b);
     endTime \<leftarrow> now (b_services b);
     sendError \<leftarrow> invoke (SendDuration repBulkSyncDuration (endTime - startTime)) err_reply
       (svc_SendDuration (b_services b) repBulkSyncDuration (endTime - startTime));
     (case r of
        Inl batchError \<Rightarrow> return []
      | Inr ops \<Rightarrow> return (map snd (ord ops)))
   }"

datatype bulker_input = TimerFired | EvacuateNotified | Signalled | Others

record 'w bulker_state =
  bs_listening :: bool
  bs_interval :: int
  bs_timer :: int
  bs_queue :: "'w operation list"
  bs_returned :: bool
  bs_world :: "'w world"

definition bulker_start :: "'w Bulker \<Rightarrow> 'w world \<Rightarrow> 'w bulker_state" where
  "bulker_start b w =
     \<lparr>bs_listening = True, bs_interval = b_pollInterval b, bs_timer = b_pollInterval b,
      bs_queue = [], bs_returned = False, bs_world = w\<rparr>"

text \<open>The end of an iteration of the loop: \<open>sync\<close>, and \<open>timer.Reset(interval)\<close>.\<close>

definition bulker_iterate ::
  "('w batch \<Rightarrow> 'w batch) \<Rightarrow> 'w Bulker \<Rightarrow> 'w bulker_state \<Rightarrow> 'w bulker_state" where
  "bulker_iterate ord b st =
     st\<lparr>bs_queue := bs_queue st @ eval (bulker_sync ord b) (bs_world st),
        bs_world := exec (bulker_sync ord b) (bs_world st),
        bs_timer := bs_interval st\<rparr>"

inductive bulker_step ::
  "('w batch \<Rightarrow> 'w batch) \<Rightarrow> 'w Bulker \<Rightarrow> 'w bulker_state \<Rightarrow> bulker_input \<Rightarrow> 'w bulker_state \<Rightarrow> bool"
  for ord :: "'w batch \<Rightarrow> 'w batch" and b :: "'w Bulker" where
  timer: "\<not> bs_returned st \<Longrightarrow>
    bulker_step ord b st TimerFired (bulker_iterate ord b st)"
| notified: "\<not> bs_returned st \<Longrightarrow> bs_listening st \<Longrightarrow>
    EvacuateNotify (evac (bs_world st)) = Closed \<Longrightarrow>
    bulker_step ord b st EvacuateNotified
      (bulker_iterate ord b
        (st\<lparr>bs_listening := False, bs_interval := b_evacuationPollInterval b\<rparr>))"
| signalled: "\<not> bs_returned st \<Longrightarrow>
    bulker_step ord b st Signalled (st\<lparr>bs_returned := True\<rparr>)"
| others: "others_step (bs_world st) w \<Longrightarrow>
    bulker_step ord b st Others (st\<lparr>bs_world := w\<rparr>)"

inductive_cases bulker_stepE: "bulker_step ord b st i st'"

section \<open>The event consumer\<close>

record 'w EventConsumer =
  ec_generator :: "'w Generator_iface"

definition NewEventConsumer :: "'w Generator_iface \<Rightarrow> 'w EventConsumer" where
  "NewEventConsumer gen = \<lparr>ec_generator = gen\<rparr>"

datatype consumer_input = Received | StreamClosed | ConsumerSignalled

record 'w consumer_state =
  cs_stream :: "'w operation list"
  cs_queue :: "'w operation list"
  cs_returned :: bool

text \<open>\<open>Run\<close> up to the loop: an error of \<open>OperationStream\<close> is returned.\<close>

definition consumer_start :: "'w EventConsumer \<Rightarrow> go_error + 'w consumer_state" where
  "consumer_start c =
     (case gen_OperationStream (ec_generator c) of
        Inl err \<Rightarrow> Inl err
      | Inr stream \<Rightarrow> Inr \<lparr>cs_stream = stream, cs_queue = [], cs_returned = False\<rparr>)"

inductive consumer_step ::
  "'w consumer_state \<Rightarrow> consumer_input \<Rightarrow> 'w consumer_state \<Rightarrow> bool" where
  received: "\<not> cs_returned st \<Longrightarrow> cs_stream st = oper # rest \<Longrightarrow>
    consumer_step st Received (st\<lparr>cs_stream := rest, cs_queue := cs_queue st @ [oper]\<rparr>)"
| closed: "\<not> cs_returned st \<Longrightarrow> cs_stream st = [] \<Longrightarrow>
    consumer_step st StreamClosed (st\<lparr>cs_returned := True\<rparr>)"
| consumer_signalled: "\<not> cs_returned st \<Longrightarrow>
    consumer_step st ConsumerSignalled (st\<lparr>cs_returned := True\<rparr>)"

inductive_cases consumer_stepE: "consumer_step st i st'"

section \<open>Lemmas and properties\<close>

text \<open>What the bulker relies on in a generator: its batches only read, and are keyed.\<close>

locale generator_contract =
  fixes gen :: "'w Generator_iface" and reads :: "call list" and orders_ok :: bool
  assumes batch_appends: "appends (gen_BatchOperations gen)"
    and batch_reads: "map fst (calls (gen_BatchOperations gen) s) = reads"
    and batch_keyed: "orders_ok \<Longrightarrow> eval (gen_BatchOperations gen) s = Inr ops \<Longrightarrow>
      distinct (map fst ops) \<and> (\<forall>(k, oper) \<in> set ops. op_Key oper = k)"
begin

lemma sync_calls:
  "\<exists>d r. calls (bulker_sync ord (NewBulker p e S gen)) s =
     calls (gen_BatchOperations gen) (exec (now S) s) @ [(SendDuration repBulkSyncDuration d, r)]"
  by (auto simp: bulker_sync_def NewBulker_def calls_bind batch_appends now_def
      split: sum.split)

lemma sync_pushes:
  assumes "map_order ord" orders_ok
  shows "distinct (map op_Key (eval (bulker_sync ord (NewBulker p e S gen)) s)) \<and>
    (case eval (gen_BatchOperations gen) (exec (now S) s) of
       Inl _ \<Rightarrow> eval (bulker_sync ord (NewBulker p e S gen)) s = []
     | Inr ops \<Rightarrow> mset (eval (bulker_sync ord (NewBulker p e S gen)) s) = mset (map snd ops))"
proof (cases "eval (gen_BatchOperations gen) (exec (now S) s)")
  case (Inr ops)
  have keys: "map (op_Key \<circ> snd) xs = map fst xs" if "set xs = set ops" for xs
    using batch_keyed [OF assms(2) Inr] that by auto
  have "mset (map fst (ord ops)) = mset (map fst ops)"
    using map_orderD [OF assms(1), of ops] by simp
  then have "distinct (map fst (ord ops))"
    using batch_keyed [OF assms(2) Inr] by (metis mset_eq_imp_distinct_iff)
  then have "distinct (map (op_Key \<circ> snd) (ord ops))"
    by (simp only: keys [OF map_order_set [OF assms(1)]])
  with Inr map_orderD [OF assms(1), of ops] show ?thesis
    by (simp add: bulker_sync_def NewBulker_def)
qed (simp add: bulker_sync_def NewBulker_def)

lemma sync_reads:
  "\<exists>d r. calls (bulker_sync ord (NewBulker p e S gen)) s =
     calls (gen_BatchOperations gen) (exec (now S) s) @ [(SendDuration repBulkSyncDuration d, r)] \<and>
     map fst (calls (gen_BatchOperations gen) (exec (now S) s)) = reads"
  using sync_calls batch_reads by blast

end

lemma BatchOperations_appends: "appends (BatchOperations R order arrivals g)"
  by (simp add: BatchOperations_def)

lemma BatchOperations_calls:
  "calls (BatchOperations R order arrivals g) s = calls (fetch_all g order no_fetched) s"
  by (simp add: BatchOperations_def calls_bind split: option.split)

lemma BatchOperations_keyed:
  assumes "range_orders_ok R" "eval (BatchOperations R order arrivals g) s = Inr ops"
  shows "distinct (map fst ops) \<and> (\<forall>(k, oper) \<in> set ops. op_Key oper = k)"
proof -
  obtain m where m: "fetched_wf m" "ops = make_batch R g m"
      "\<And>guid. map_of ops guid = expected_op g m guid"
    using BatchOperations_Inr [OF assms(2,1)] by blast
  then have "distinct (map fst ops)" using make_batch_distinct by auto
  moreover from this have "op_Key oper = k" if "(k, oper) \<in> set ops" for k oper
    using that m(3) [of k] expected_op_Key [OF m(1), of g k oper] by simp
  ultimately show ?thesis by blast
qed

interpretation batches: generator_contract "generator_iface R order arrivals subscription g"
    "map (fetch_call (g_cellID g)) order" "range_orders_ok R"
  for R order arrivals subscription g
  by unfold_locales
    (simp_all add: generator_iface_def BatchOperations_appends BatchOperations_calls
      fetch_all_calls BatchOperations_keyed)

text \<open>
  C31: A synchronisation pushes exactly its batch. It reads the cell's containers, LRPs and tasks,
  sends the duration metric whether or not a read failed, and changes nothing; it pushes each
  operation of the batch once, no two of them for the same guid, and none at all when the
  generator failed.
\<close>

theorem sync_pushes_batch:
  assumes "map_order ord" "range_orders_ok R"
    and b: "b = NewBulker p e S (generator_iface R order arrivals subscription g)"
  shows "(\<exists>d r. map fst (calls (bulker_sync ord b) s) =
      map (fetch_call (g_cellID g)) order @ [SendDuration repBulkSyncDuration d]) \<and>
    distinct (map op_Key (eval (bulker_sync ord b) s)) \<and>
    (case eval (BatchOperations R order arrivals g) (exec (now S) s) of
       Inl _ \<Rightarrow> eval (bulker_sync ord b) s = []
     | Inr ops \<Rightarrow> mset (eval (bulker_sync ord b) s) = mset (map snd ops))"
proof -
  have "\<exists>d. map fst (calls (bulker_sync ord b) s) =
      map (fetch_call (g_cellID g)) order @ [SendDuration repBulkSyncDuration d]"
    unfolding b
    using batches.sync_reads [where R = R and order = order and arrivals = arrivals and
        subscription = subscription and g = g and ord = ord and p = p and e = e and S = S and s = s]
    by (elim exE conjE) (simp only: map_append, auto)
  moreover have "gen_BatchOperations (generator_iface R order arrivals subscription g) =
      BatchOperations R order arrivals g"
    by (simp add: generator_iface_def)
  ultimately show ?thesis
    using batches.sync_pushes [OF assms(1,2), where order = order and arrivals = arrivals and
        subscription = subscription and g = g and p = p and e = e and S = S and s = s]
    unfolding b by simp
qed

definition example_bulker :: "unit Bulker" where
  "example_bulker = NewBulker 30 10 example_services
     (generator_iface plain_orders [FetchTasks, FetchContainers, FetchLRPs]
       [FetchLRPs, FetchTasks, FetchContainers] (Inr []) example_generator)"

theorem sync_pushes_batch_witness:
  "distinct (map op_Key (eval (bulker_sync rev example_bulker) example_world)) \<and>
   length (calls (bulker_sync rev example_bulker) example_world) = 4"
proof -
  have "\<exists>d. map fst (calls (bulker_sync rev example_bulker) example_world) =
      map (fetch_call ''cell'') [FetchTasks, FetchContainers, FetchLRPs] @
        [SendDuration repBulkSyncDuration d]"
    "distinct (map op_Key (eval (bulker_sync rev example_bulker) example_world))"
    using sync_pushes_batch [OF map_order_id(3) plain_orders_ok example_bulker_def,
        where s = example_world]
    by (simp_all add: example_generator_def generator_New_def Let_def)
  then show ?thesis by (auto dest: arg_cong [of _ _ length])
qed

lemma bulker_run_interval:
  assumes "run (bulker_step ord b) st ins st'"
  shows "count_list ins EvacuateNotified \<le> (if bs_listening st then 1 else 0) \<and>
    (bs_listening st' \<longleftrightarrow> bs_listening st \<and> EvacuateNotified \<notin> set ins) \<and>
    bs_interval st' =
      (if EvacuateNotified \<in> set ins then b_evacuationPollInterval b else bs_interval st) \<and>
    (bs_timer st = bs_interval st \<longrightarrow> bs_timer st' = bs_interval st')"
  using assms
proof (induction rule: run.induct)
  case (run_Cons st i st' ins st'')
  from run_Cons.hyps(1) run_Cons.IH show ?case
    by (cases rule: bulker_step.cases) (auto simp: bulker_iterate_def split: if_splits)
qed simp

text \<open>
  C32: The bulker switches to the evacuation interval at most once, exactly on the
  notification, and promptly: in every reachable state its interval and its timer are the polling
  interval before the notification was received and the evacuation interval after; and while the bulker runs on an evacuating cell it either has
  switched or is able to receive the notification.
\<close>

theorem bulker_switches_on_evacuation:
  assumes "run (bulker_step ord b) (bulker_start b w) ins st"
  shows "let switched = EvacuateNotified \<in> set ins
    in count_list ins EvacuateNotified \<le> 1 \<and>
       bs_interval st = (if switched then b_evacuationPollInterval b else b_pollInterval b) \<and>
       bs_timer st = bs_interval st \<and>
       (Evacuating_now (evac (bs_world st)) \<and> \<not> bs_returned st \<longrightarrow>
          switched \<or> (\<exists>st'. bulker_step ord b st EvacuateNotified st'))"
proof -
  note inv = bulker_run_interval [OF assms]
  then have "\<exists>st'. bulker_step ord b st EvacuateNotified st'"
    if "EvacuateNotified \<notin> set ins" "Evacuating_now (evac (bs_world st))" "\<not> bs_returned st"
    using that bulker_step.notified [of st ord b] by (auto simp: bulker_start_def EvacuateNotify_def)
  with inv show ?thesis by (auto simp: Let_def bulker_start_def)
qed

theorem bulker_switches_on_evacuation_witness:
  "\<exists>st. run (bulker_step rev example_bulker) (bulker_start example_bulker example_world)
      [TimerFired, Others, EvacuateNotified, TimerFired, Signalled] st \<and>
    bs_interval st = 10 \<and> bs_timer st = 10"
proof -
  let ?w = "exec (bulker_sync rev example_bulker) example_world"
  let ?v = "?w\<lparr>evac := \<lparr>evacuated = Closed\<rparr>\<rparr>"
  have others: "others_step ?w ?v"
    by (simp add: others_step_def)
  note st = bulker_start_def bulker_iterate_def
  have "\<exists>st. run (bulker_step rev example_bulker) (bulker_start example_bulker example_world)
      [TimerFired, Others, EvacuateNotified, TimerFired, Signalled] st"
    apply (rule exI)
    apply (rule run_Cons, rule bulker_step.timer, simp add: st)
    apply (rule run_Cons, rule bulker_step.others [of _ ?v], simp add: st others)
    apply (rule run_Cons, rule bulker_step.notified, simp_all add: st EvacuateNotify_def)
    apply (rule run_Cons, rule bulker_step.timer, simp)
    apply (rule run_Cons, rule bulker_step.signalled, simp add: st)
    apply (rule run_Nil)
    done
  then show ?thesis
    using bulker_switches_on_evacuation
    by (fastforce simp: Let_def example_bulker_def NewBulker_def)
qed

section \<open>The event consumer terminates\<close>

lemma consumer_run_inv:
  assumes "run consumer_step st ins st'"
  shows "cs_queue st' @ cs_stream st' = cs_queue st @ cs_stream st \<and>
    length ins + length (cs_stream st') + (if cs_returned st' then 0 else 1) =
      length (cs_stream st) + (if cs_returned st then 0 else 1) \<and>
    (StreamClosed \<in> set ins \<longrightarrow> cs_stream st' = [] \<and> cs_returned st')"
  using assms
proof (induction rule: run.induct)
  case (run_Cons st i st' ins st'')
  from run_Cons.hyps(1) run_Cons.IH show ?case
    by (cases rule: consumer_step.cases) (auto split: if_splits)
qed simp

lemma consumer_progress: "\<not> cs_returned st \<Longrightarrow> \<exists>i st'. consumer_step st i st'"
  using consumer_step.consumer_signalled by blast

text \<open>
  C33: The event consumer terminates and loses nothing. It fails if and only if the subscription
  does. Otherwise every run is at most one step longer than the number of operations of the
  stream, and whenever it has not returned there is a step to take; what it has pushed is a
  prefix of the operations of the stream, one per lifecycle event and in their order, and all
  of them when it returned because the stream was closed.
\<close>

theorem event_consumer_terminates:
  "case consumer_start (NewEventConsumer (generator_iface R order arrivals subscription g)) of
     Inl err \<Rightarrow> subscription = Inl err
   | Inr st \<Rightarrow> \<exists>events. subscription = Inr events \<and>
       (\<forall>ins st'. run consumer_step st ins st' \<longrightarrow>
          length ins \<le> Suc (length (stream_loop g events)) \<and>
          (\<not> cs_returned st' \<longrightarrow> (\<exists>i st''. consumer_step st' i st'')) \<and>
          (\<exists>rest. cs_queue st' @ rest = stream_loop g events \<and>
             (StreamClosed \<in> set ins \<longrightarrow> rest = [] \<and> cs_returned st')))"
proof (cases subscription)
  case (Inr events)
  let ?st = "\<lparr>cs_stream = stream_loop g events, cs_queue = [], cs_returned = False\<rparr>"
  have "length ins \<le> Suc (length (stream_loop g events)) \<and>
      (\<not> cs_returned st' \<longrightarrow> (\<exists>i st''. consumer_step st' i st'')) \<and>
      (\<exists>rest. cs_queue st' @ rest = stream_loop g events \<and>
         (StreamClosed \<in> set ins \<longrightarrow> rest = [] \<and> cs_returned st'))"
    if "run consumer_step ?st ins st'" for ins st'
    using consumer_run_inv [OF that] consumer_progress [of st']
    by (intro conjI exI [of _ "cs_stream st'"]) (auto split: if_splits)
  then show ?thesis
    by (simp add: Inr consumer_start_def NewEventConsumer_def generator_iface_def
        OperationStream_def)
qed (simp add: consumer_start_def NewEventConsumer_def generator_iface_def OperationStream_def)

theorem event_consumer_terminates_witness:
  "case consumer_start (NewEventConsumer (generator_iface plain_orders [] []
       (Inr [OtherEvent, LifecycleEvent (example_container StateRunning)]) example_generator)) of
     Inl _ \<Rightarrow> False
   | Inr st \<Rightarrow> (\<exists>st'. run consumer_step st [Received, StreamClosed] st' \<and>
       cs_queue st' = [operationFromContainer example_generator ''ig''])"
proof -
  let ?ops = "[operationFromContainer example_generator ''ig'']"
  let ?c = "NewEventConsumer (generator_iface plain_orders [] []
       (Inr [OtherEvent, LifecycleEvent (example_container StateRunning)]) example_generator)"
  have start: "consumer_start ?c = Inr \<lparr>cs_stream = ?ops, cs_queue = [], cs_returned = False\<rparr>"
    by (simp add: consumer_start_def NewEventConsumer_def generator_iface_def OperationStream_def
        example_container_def)
  have "\<exists>st'. run consumer_step \<lparr>cs_stream = ?ops, cs_queue = [], cs_returned = False\<rparr>
      [Received, StreamClosed] st'"
    apply (rule exI)
    apply (rule run_Cons, rule consumer_step.received, simp, simp)
    apply (rule run_Cons, rule consumer_step.closed, simp, simp)
    apply (rule run_Nil)
    done
  then show ?thesis
    using event_consumer_terminates [where R = plain_orders and order = "[]" and arrivals = "[]" and
        subscription = "Inr [OtherEvent, LifecycleEvent (example_container StateRunning)]" and
        g = example_generator]
    unfolding start by (fastforce simp: example_container_def)
qed

section \<open>What a synchronisation settles\<close>

lemma sync_pushed:
  assumes "answers g cs groups ts" "range_orders_ok R" "set order = UNIV" "map_order ord"
    and b: "b = NewBulker p e T (generator_iface R order arrivals subscription g)"
  obtains m where "fetched_wf m"
    "\<And>guid oper. expected_op g m guid = Some oper \<Longrightarrow> oper \<in> set (eval (bulker_sync ord b) s)"
    "\<And>k. has_key (f_containers m) k \<longleftrightarrow> k \<in> c_Guid ` set cs"
    "\<And>k. has_key (f_instanceLRPs m) k \<longleftrightarrow> k \<in> group_guids grp_Instance groups"
    "\<And>k. has_key (f_evacuatingLRPs m) k \<longleftrightarrow> k \<in> group_guids grp_Evacuating groups"
    "\<And>k. has_key (f_tasks m) k \<longleftrightarrow> k \<in> t_TaskGuid ` set ts"
    "\<And>k lrp. map_of (f_instanceLRPs m) k = Some lrp \<Longrightarrow> lrp \<in> group_lrps grp_Instance groups"
    "\<And>k lrp. map_of (f_evacuatingLRPs m) k = Some lrp \<Longrightarrow> lrp \<in> group_lrps grp_Evacuating groups"
proof (rule answered_batch [OF assms(1,3), of R arrivals "exec (now T) s"])
  fix m
  assume batch: "eval (BatchOperations R order arrivals g) (exec (now T) s) = Inr (make_batch R g m)"
    and wf: "fetched_wf m"
  have "set (eval (bulker_sync ord b) s) = set (map snd (make_batch R g m))"
    using batch map_order_set [OF assms(4), of "make_batch R g m"]
    by (simp add: b bulker_sync_def NewBulker_def generator_iface_def)
  moreover have "oper \<in> snd ` set (make_batch R g m)" if "expected_op g m guid = Some oper" for guid oper
    using that make_batch_map_of [OF wf assms(2), of g guid] by (force dest: map_of_SomeD)
  ultimately have pushed: "\<And>guid oper. expected_op g m guid = Some oper \<Longrightarrow>
      oper \<in> set (eval (bulker_sync ord b) s)" by simp
  assume "\<And>k. has_key (f_containers m) k \<longleftrightarrow> k \<in> c_Guid ` set cs"
    "\<And>k. has_key (f_instanceLRPs m) k \<longleftrightarrow> k \<in> group_guids grp_Instance groups"
    "\<And>k. has_key (f_evacuatingLRPs m) k \<longleftrightarrow> k \<in> group_guids grp_Evacuating groups"
    "\<And>k. has_key (f_tasks m) k \<longleftrightarrow> k \<in> t_TaskGuid ` set ts"
    "\<And>k lrp. map_of (f_instanceLRPs m) k = Some lrp \<Longrightarrow> lrp \<in> group_lrps grp_Instance groups"
    "\<And>k lrp. map_of (f_evacuatingLRPs m) k = Some lrp \<Longrightarrow> lrp \<in> group_lrps grp_Evacuating groups"
  with wf pushed show thesis by (rule that)
qed

text \<open>A record of the BBS is found under its guid, if no other record has that guid.\<close>

lemma record_found:
  assumes "keyed xs" "\<And>k lrp. map_of xs k = Some lrp \<Longrightarrow> lrp \<in> A" "inj_on lrp_guid A"
    and "lrp \<in> A" "has_key xs (lrp_guid lrp)"
  shows "map_of xs (lrp_guid lrp) = Some lrp"
proof -
  obtain lrp' where "map_of xs (lrp_guid lrp) = Some lrp'"
    using assms(5) by (auto simp: has_key_def)
  moreover from this have "lrp' \<in> A" "lrp_guid lrp' = lrp_guid lrp"
    using assms(1,2) keyedD by blast+
  ultimately show ?thesis using assms(3,4) by (auto dest: inj_onD)
qed

text \<open>
  C3: A synchronisation brings the BBS in line with the executor. When the three queries are
  answered, for each container an operation is pushed that processes it; for each LRP and each
  task that the BBS has for this cell and that has no container, an operation is pushed
  that, whenever it is executed, looks for the container again and, if there is none,
  asks the BBS to remove exactly this instance, evacuating instance or both, or to fail exactly
  this task. It is assumed that the BBS does not give one instance guid to two instances or to two
  evacuating instances.
\<close>

theorem sync_settles_records:
  assumes "answers (generator_New M cellID B S ttl) cs groups ts"
    and "range_orders_ok R" "set order = UNIV" "map_order ord"
    and "inj_on lrp_guid (group_lrps grp_Instance groups)"
    and "inj_on lrp_guid (group_lrps grp_Evacuating groups)"
    and "b = NewBulker p e T
      (generator_iface R order arrivals subscription (generator_New M cellID B S ttl))"
    and "pushed = set (eval (bulker_sync ord b) s)"
  shows "(\<forall>c \<in> set cs. operationFromContainer (generator_New M cellID B S ttl) (c_Guid c) \<in> pushed) \<and>
    (\<forall>lrp \<in> group_lrps grp_Instance groups. lrp_guid lrp \<notin> c_Guid ` set cs \<longrightarrow>
       (\<exists>oper \<in> pushed. settles S (lrp_guid lrp)
          (remove_call (alrp_Key lrp) (alrp_InstanceKey lrp) #
           (if lrp_guid lrp \<in> group_guids grp_Evacuating groups
            then [RemoveEvacuatingActualLRP (alrp_Key lrp) (alrp_InstanceKey lrp)] else [])) oper)) \<and>
    (\<forall>lrp \<in> group_lrps grp_Evacuating groups.
       lrp_guid lrp \<notin> c_Guid ` set cs \<union> group_guids grp_Instance groups \<longrightarrow>
       (\<exists>oper \<in> pushed. settles S (lrp_guid lrp)
          [RemoveEvacuatingActualLRP (alrp_Key lrp) (alrp_InstanceKey lrp)] oper)) \<and>
    (\<forall>t \<in> set ts. t_TaskGuid t \<notin> c_Guid ` set cs \<union> group_guids grp_Instance groups \<union>
         group_guids grp_Evacuating groups \<longrightarrow>
       (\<exists>oper \<in> pushed. settles S (t_TaskGuid t)
          [FailTask (t_TaskGuid t) TaskCompletionReasonMissingContainer] oper))"
proof (rule sync_pushed [OF assms(1-4,7), of s])
  fix m
  assume wf: "fetched_wf m"
    and pushed: "\<And>guid oper. expected_op (generator_New M cellID B S ttl) m guid = Some oper \<Longrightarrow>
      oper \<in> set (eval (bulker_sync ord b) s)"
    and keys: "\<And>k. has_key (f_containers m) k \<longleftrightarrow> k \<in> c_Guid ` set cs"
      "\<And>k. has_key (f_instanceLRPs m) k \<longleftrightarrow> k \<in> group_guids grp_Instance groups"
      "\<And>k. has_key (f_evacuatingLRPs m) k \<longleftrightarrow> k \<in> group_guids grp_Evacuating groups"
      "\<And>k. has_key (f_tasks m) k \<longleftrightarrow> k \<in> t_TaskGuid ` set ts"
    and lrps: "\<And>k lrp. map_of (f_instanceLRPs m) k = Some lrp \<Longrightarrow> lrp \<in> group_lrps grp_Instance groups"
      "\<And>k lrp. map_of (f_evacuatingLRPs m) k = Some lrp \<Longrightarrow> lrp \<in> group_lrps grp_Evacuating groups"
  note settles = expected_op_settles [OF wf, where M = M and cellID = cellID and B = B and S = S and ttl = ttl]
  have inst: "map_of (f_instanceLRPs m) (lrp_guid lrp) = Some lrp"
    if "lrp \<in> group_lrps grp_Instance groups" for lrp
    using wf that by (intro record_found [OF _ lrps(1) assms(5)])
      (auto simp: fetched_wf_def keys group_guids_lrps)
  have evacuating: "map_of (f_evacuatingLRPs m) (lrp_guid lrp) = Some lrp"
    if "lrp \<in> group_lrps grp_Evacuating groups" for lrp
    using wf that by (intro record_found [OF _ lrps(2) assms(6)])
      (auto simp: fetched_wf_def keys group_guids_lrps)
  show ?thesis
    unfolding assms(8)
  proof (intro conjI ballI impI)
    fix c
    assume "c \<in> set cs"
    then show "operationFromContainer (generator_New M cellID B S ttl) (c_Guid c) \<in>
        set (eval (bulker_sync ord b) s)"
      by (intro pushed [of "c_Guid c"]) (simp add: expected_op_def keys)
  qed (use settles(1) [unfolded keys, OF _ inst] settles(2) [unfolded keys, OF _ evacuating]
      settles(3) [unfolded keys] pushed in blast)+
qed

theorem sync_settles_records_witness:
  "\<exists>oper \<in> set (eval (bulker_sync rev example_bulker) example_world).
     settles example_services ''tg'' [FailTask ''tg'' TaskCompletionReasonMissingContainer] oper"
proof -
  have answers: "answers (generator_New example_api ''cell'' example_services example_services 600)
      [example_container StateReserved] [] [example_task]"
    by (simp add: answers_def generator_New_def Let_def example_services_def)
  have order: "set [FetchTasks, FetchContainers, FetchLRPs] = UNIV"
    using fetch.exhaust by auto
  have guids: "t_TaskGuid example_task = ''tg''" "c_Guid (example_container StateReserved) = ''ig''"
    by (simp_all add: example_task_def)
  have lrps: "inj_on lrp_guid (group_lrps grp_Instance [])" "inj_on lrp_guid (group_lrps grp_Evacuating [])"
    by (simp_all add: group_lrps_def)
  show ?thesis
    using sync_settles_records [OF answers plain_orders_ok order map_order_id(3) lrps
        example_bulker_def [unfolded example_generator_def] refl, of example_world]
    by (simp add: guids)
qed

end
