(* ===== verification/Evacuation.thy ===== *)
theory Evacuation
  imports Protocol Example_Cell
begin

text \<open>
  The two processes of \<open>evacuation\<close>: the \<open>Evacuator\<close>, which waits for the start of an
  evacuation and then polls until the cell is empty, and the \<open>EvacuationCleanup\<close>, which on
  shutdown removes the evacuating LRPs that are left, stops all containers and waits for them.
  Each is a main goroutine with one or two helpers; a step relation interleaves them, with
  steps labelled by the alternative of the \<open>select\<close> that was taken or by the answer that a
  helper got.
\<close>

section \<open>The evacuator\<close>

record 'w Evacuator =
  ev_executorClient :: "'w services"
  ev_cellID :: string
  ev_evacuationTimeout :: int
  ev_pollingInterval :: int

definition NewEvacuator :: "'w services \<Rightarrow> string \<Rightarrow> int \<Rightarrow> int \<Rightarrow> 'w Evacuator" where
  "NewEvacuator executorClient cellID evacuationTimeout pollingInterval =
     \<lparr>ev_executorClient = executorClient, ev_cellID = cellID,
      ev_evacuationTimeout = evacuationTimeout, ev_pollingInterval = pollingInterval\<rparr>"

definition allContainersEvacuated :: "'w Evacuator \<Rightarrow> ('w, bool) act" where
  "allContainersEvacuated e = do {
     r \<leftarrow> invoke ListContainers sum_reply (svc_ListContainers (ev_executorClient e));
     (case r of
        Inl err \<Rightarrow> return False
      | Inr containers \<Rightarrow> return (length containers = 0))
   }"

text \<open>Where the main goroutine and the goroutine \<open>evacuate\<close> are.\<close>

datatype evacuator_main = AwaitingEvacuation | AwaitingDone | EvacuatorReturned

datatype poller = NotStarted | Polling | Sleeping int | PollerReturned

record 'w evacuator_state =
  es_main :: evacuator_main
  es_timer :: "int option"
  es_poller :: poller
  es_doneCh :: chan
  es_world :: "'w world"

datatype evacuator_input =
    EvacuatorSignalled
  | Notified
  | EvacuationComplete
  | TimedOut
  | Polled "go_error + Container list"
  | PollTimer
  | OtherProcess

definition evacuator_start :: "'w world \<Rightarrow> 'w evacuator_state" where
  "evacuator_start w =
     \<lparr>es_main = AwaitingEvacuation, es_timer = None, es_poller = NotStarted, es_doneCh = Open,
      es_world = w\<rparr>"

text \<open>
  One round of \<open>evacuate\<close>: \<open>close(doneCh)\<close> and return when all containers are gone, and
  otherwise reset the timer and wait. The second closing of \<open>doneCh\<close> would be a panic.
\<close>

definition evacuate_round :: "'w Evacuator \<Rightarrow> 'w evacuator_state \<Rightarrow> 'w evacuator_state outcome" where
  "evacuate_round e st =
     (let evacuated = eval (allContainersEvacuated e) (es_world st);
          st = st\<lparr>es_world := exec (allContainersEvacuated e) (es_world st)\<rparr>
      in if \<not> evacuated then Ret (st\<lparr>es_poller := Sleeping (ev_pollingInterval e)\<rparr>)
         else obind (close_chan (es_doneCh st))
                (\<lambda>c. Ret (st\<lparr>es_doneCh := c, es_poller := PollerReturned\<rparr>)))"

inductive evacuator_step ::
  "'w Evacuator \<Rightarrow> 'w evacuator_state \<Rightarrow> evacuator_input \<Rightarrow> 'w evacuator_state \<Rightarrow> bool"
  for e :: "'w Evacuator" where
  evacuator_signalled: "es_main st \<noteq> EvacuatorReturned \<Longrightarrow>
    evacuator_step e st EvacuatorSignalled (st\<lparr>es_main := EvacuatorReturned\<rparr>)"
| evacuator_notified: "es_main st = AwaitingEvacuation \<Longrightarrow>
    EvacuateNotify (evac (es_world st)) = Closed \<Longrightarrow>
    evacuator_step e st Notified
      (st\<lparr>es_main := AwaitingDone, es_timer := Some (ev_evacuationTimeout e),
          es_poller := Polling\<rparr>)"
| evacuator_done: "es_main st = AwaitingDone \<Longrightarrow> es_doneCh st = Closed \<Longrightarrow>
    evacuator_step e st EvacuationComplete (st\<lparr>es_main := EvacuatorReturned\<rparr>)"
| evacuator_timeout: "es_main st = AwaitingDone \<Longrightarrow> es_timer st = Some d \<Longrightarrow>
    evacuator_step e st TimedOut (st\<lparr>es_main := EvacuatorReturned\<rparr>)"
| poll: "es_poller st = Polling \<Longrightarrow> evacuate_round e st = Ret st' \<Longrightarrow>
    evacuator_step e st
      (Polled (fst (svc_ListContainers (ev_executorClient e) (ext (es_world st))))) st'"
| poll_timer: "es_poller st = Sleeping d \<Longrightarrow>
    evacuator_step e st PollTimer (st\<lparr>es_poller := Polling\<rparr>)"
| evacuator_others: "others_step (es_world st) w \<Longrightarrow>
    evacuator_step e st OtherProcess (st\<lparr>es_world := w\<rparr>)"

inductive_cases evacuator_stepE: "evacuator_step e st i st'"

section \<open>The cleanup\<close>

definition ExitTimeout :: int where
  "ExitTimeout = 15 * 1000000000"

definition strandedEvacuatingActualLRPs :: string where
  "strandedEvacuatingActualLRPs = ''StrandedEvacuatingActualLRPs''"

record 'w EvacuationCleanup =
  cu_cellID :: string
  cu_bbsClient :: "'w services"
  cu_executorClient :: "'w services"
  cu_metronClient :: "'w services"

definition NewEvacuationCleanup ::
  "string \<Rightarrow> 'w services \<Rightarrow> 'w services \<Rightarrow> 'w services \<Rightarrow> 'w EvacuationCleanup" where
  "NewEvacuationCleanup cellID bbsClient executorClient metronClient =
     \<lparr>cu_cellID = cellID, cu_bbsClient = bbsClient, cu_executorClient = executorClient,
      cu_metronClient = metronClient\<rparr>"

text \<open>The calls that the runner and its goroutines make.\<close>

definition fetch_groups :: "'w EvacuationCleanup \<Rightarrow> ('w, go_error + ActualLRPGroup list) act" where
  "fetch_groups e =
     invoke (ActualLRPGroups (cu_cellID e)) sum_reply
       (svc_ActualLRPGroups (cu_bbsClient e) (cu_cellID e))"

definition remove_evacuating :: "'w EvacuationCleanup \<Rightarrow> ActualLRP \<Rightarrow> ('w, go_error option) act" where
  "remove_evacuating e actualLRP =
     invoke (RemoveEvacuatingActualLRP (alrp_Key actualLRP) (alrp_InstanceKey actualLRP)) err_reply
       (svc_RemoveEvacuatingActualLRP (cu_bbsClient e) (alrp_Key actualLRP)
         (alrp_InstanceKey actualLRP))"

definition send_stranded :: "'w EvacuationCleanup \<Rightarrow> go_int \<Rightarrow> ('w, go_error option) act" where
  "send_stranded e strandedEvacuationCount =
     invoke (SendMetric strandedEvacuatingActualLRPs (sint strandedEvacuationCount)) err_reply
       (svc_SendMetric (cu_metronClient e) strandedEvacuatingActualLRPs
         (sint strandedEvacuationCount))"

definition list_containers :: "'w EvacuationCleanup \<Rightarrow> ('w, go_error + Container list) act" where
  "list_containers e = invoke ListContainers sum_reply (svc_ListContainers (cu_executorClient e))"

definition stop_container :: "'w EvacuationCleanup \<Rightarrow> Container \<Rightarrow> ('w, go_error option) act" where
  "stop_container e container =
     invoke (StopContainer (c_Guid container)) err_reply
       (svc_StopContainer (cu_executorClient e) (c_Guid container))"

lemmas cleanup_call_defs = fetch_groups_def remove_evacuating_def send_stranded_def
  list_containers_def stop_container_def

text \<open>The loop over the groups; it returns \<open>strandedEvacuationCount\<close>.\<close>

fun remove_stranded ::
  "'w EvacuationCleanup \<Rightarrow> ActualLRPGroup list \<Rightarrow> go_int \<Rightarrow> ('w, go_int) act" where
  "remove_stranded e [] strandedEvacuationCount = return strandedEvacuationCount"
| "remove_stranded e (grp # groups) strandedEvacuationCount =
     (case grp_Evacuating grp of
        None \<Rightarrow> remove_stranded e groups strandedEvacuationCount
      | Some actualLRP \<Rightarrow> do {
          err \<leftarrow> remove_evacuating e actualLRP;
          remove_stranded e groups (strandedEvacuationCount + 1)
        })"

text \<open>\<open>Run\<close> from the signal to the start of the goroutines.\<close>

definition cleanup_stranded :: "'w EvacuationCleanup \<Rightarrow> ('w, go_error option) act" where
  "cleanup_stranded e = do {
     r \<leftarrow> fetch_groups e;
     (case r of
        Inl err \<Rightarrow> return (Some err)
      | Inr actualLRPGroups \<Rightarrow> do {
          strandedEvacuationCount \<leftarrow> remove_stranded e actualLRPGroups 0;
          err \<leftarrow> send_stranded e strandedEvacuationCount;
          return None
        })
   }"

fun any_running :: "Container list \<Rightarrow> bool" where
  "any_running [] = False"
| "any_running (container # containers) =
     (if c_State container = StateRunning then True else any_running containers)"

definition hasRunningContainers :: "'w EvacuationCleanup \<Rightarrow> ('w, bool) act" where
  "hasRunningContainers e = do {
     r \<leftarrow> list_containers e;
     (case r of
        Inl err \<Rightarrow> return False
      | Inr containers \<Rightarrow> return (any_running containers))
   }"

definition signalRunningContainers :: "'w EvacuationCleanup \<Rightarrow> ('w, unit) act" where
  "signalRunningContainers e = do {
     r \<leftarrow> list_containers e;
     (case r of
        Inl err \<Rightarrow> return ()
      | Inr containers \<Rightarrow>
          for_each (\<lambda>container. do {
            stop_container e container;
            return ()
          }) containers)
   }"

text \<open>
  The goroutines. Every call of a service is a step of its own, so the main goroutine, the one
  that signals the containers, the one that checks them and the rest of the process interleave
  in every way. The main goroutine is in its first \<open>select\<close>, at the fetch of the groups, in the
  loop over the groups (with those that are left and the count so far), in its second \<open>select\<close>, or
  has returned.
\<close>

datatype cleanup_main =
    AwaitingSignal
  | FetchingGroups
  | RemovingStranded "ActualLRPGroup list" go_int
  | AwaitingStop
  | CleanupReturned "go_error option"

datatype signaller = SignallerNotStarted | Listing | Stopping "Container list" | SignallerReturned

datatype checker = CheckerNotStarted | AwaitingSignalled | Checking | AwaitingTick | CheckerReturned

record 'w cleanup_state =
  cl_main :: cleanup_main
  cl_exitTimer :: "int option"
  cl_signaller :: signaller
  cl_checker :: checker
  cl_containersSignalled :: chan
  cl_containersStopped :: chan
  cl_world :: "'w world"

datatype cleanup_input =
    CleanupSignal
  | Fetched "go_error + ActualLRPGroup list"
  | Skipped
  | Removed ActualLRP "go_error option"
  | Metric_sent go_int "go_error option"
  | Listed "go_error + Container list"
  | Stop_sent string "go_error option"
  | Containers_signalled
  | Seen_signalled
  | Checked "go_error + Container list"
  | Tick
  | ExitTimer
  | Containers_stopped
  | Other_process

definition cleanup_start :: "'w world \<Rightarrow> 'w cleanup_state" where
  "cleanup_start w =
     \<lparr>cl_main = AwaitingSignal, cl_exitTimer = None, cl_signaller = SignallerNotStarted,
      cl_checker = CheckerNotStarted, cl_containersSignalled = Open,
      cl_containersStopped = Open, cl_world = w\<rparr>"

text \<open>One evaluation of the condition of the loop of \<open>checkRunningContainers\<close>.\<close>

definition check_round :: "'w EvacuationCleanup \<Rightarrow> 'w cleanup_state \<Rightarrow> 'w cleanup_state outcome" where
  "check_round e st =
     (let running = eval (hasRunningContainers e) (cl_world st);
          st = st\<lparr>cl_world := exec (hasRunningContainers e) (cl_world st)\<rparr>
      in if running then Ret (st\<lparr>cl_checker := AwaitingTick\<rparr>)
         else obind (close_chan (cl_containersStopped st))
                (\<lambda>c. Ret (st\<lparr>cl_containersStopped := c, cl_checker := CheckerReturned\<rparr>)))"

text \<open>The deferred close of \<open>signalRunningContainers\<close>.\<close>

definition close_signalled :: "'w cleanup_state \<Rightarrow> 'w cleanup_state outcome" where
  "close_signalled st =
     obind (close_chan (cl_containersSignalled st))
       (\<lambda>c. Ret (st\<lparr>cl_containersSignalled := c, cl_signaller := SignallerReturned\<rparr>))"

definition failedToCleanup :: go_error where
  "failedToCleanup = NewError ''failed-to-cleanup-all-containers''"

inductive cleanup_step ::
  "'w EvacuationCleanup \<Rightarrow> 'w cleanup_state \<Rightarrow> cleanup_input \<Rightarrow> 'w cleanup_state \<Rightarrow> bool"
  for e :: "'w EvacuationCleanup" where
  cleanup_signal: "cl_main st = AwaitingSignal \<Longrightarrow>
    cleanup_step e st CleanupSignal (st\<lparr>cl_main := FetchingGroups\<rparr>)"
| fetched: "cl_main st = FetchingGroups \<Longrightarrow> run_state (fetch_groups e) (cl_world st) = (r, w) \<Longrightarrow>
    cleanup_step e st (Fetched r)
      (st\<lparr>cl_world := w,
          cl_main := (case r of
             Inl err \<Rightarrow> CleanupReturned (Some err)
           | Inr groups \<Rightarrow> RemovingStranded groups 0)\<rparr>)"
| skipped: "cl_main st = RemovingStranded (grp # groups) n \<Longrightarrow> grp_Evacuating grp = None \<Longrightarrow>
    cleanup_step e st Skipped (st\<lparr>cl_main := RemovingStranded groups n\<rparr>)"
| removed: "cl_main st = RemovingStranded (grp # groups) n \<Longrightarrow> grp_Evacuating grp = Some lrp \<Longrightarrow>
    run_state (remove_evacuating e lrp) (cl_world st) = (err, w) \<Longrightarrow>
    cleanup_step e st (Removed lrp err)
      (st\<lparr>cl_world := w, cl_main := RemovingStranded groups (n + 1)\<rparr>)"
| metric_sent: "cl_main st = RemovingStranded [] n \<Longrightarrow>
    run_state (send_stranded e n) (cl_world st) = (err, w) \<Longrightarrow>
    cleanup_step e st (Metric_sent n err)
      (st\<lparr>cl_world := w, cl_main := AwaitingStop, cl_exitTimer := Some ExitTimeout,
          cl_signaller := Listing, cl_checker := AwaitingSignalled\<rparr>)"
| listed: "cl_signaller st = Listing \<Longrightarrow> run_state (list_containers e) (cl_world st) = (r, w) \<Longrightarrow>
    cleanup_step e st (Listed r)
      (st\<lparr>cl_world := w,
          cl_signaller := Stopping (case r of Inl _ \<Rightarrow> [] | Inr containers \<Rightarrow> containers)\<rparr>)"
| stop_sent: "cl_signaller st = Stopping (container # containers) \<Longrightarrow>
    run_state (stop_container e container) (cl_world st) = (err, w) \<Longrightarrow>
    cleanup_step e st (Stop_sent (c_Guid container) err)
      (st\<lparr>cl_world := w, cl_signaller := Stopping containers\<rparr>)"
| signalled: "cl_signaller st = Stopping [] \<Longrightarrow> close_signalled st = Ret st' \<Longrightarrow>
    cleanup_step e st Containers_signalled st'"
| seen_signalled: "cl_checker st = AwaitingSignalled \<Longrightarrow> cl_containersSignalled st = Closed \<Longrightarrow>
    cleanup_step e st Seen_signalled (st\<lparr>cl_checker := Checking\<rparr>)"
| checked: "cl_checker st = Checking \<Longrightarrow> check_round e st = Ret st' \<Longrightarrow>
    cleanup_step e st
      (Checked (fst (svc_ListContainers (cu_executorClient e) (ext (cl_world st))))) st'"
| tick: "cl_checker st = AwaitingTick \<Longrightarrow>
    cleanup_step e st Tick (st\<lparr>cl_checker := Checking\<rparr>)"
| exit_timer: "cl_main st = AwaitingStop \<Longrightarrow> cl_exitTimer st = Some d \<Longrightarrow>
    cleanup_step e st ExitTimer (st\<lparr>cl_main := CleanupReturned (Some failedToCleanup)\<rparr>)"
| containers_stopped: "cl_main st = AwaitingStop \<Longrightarrow> cl_containersStopped st = Closed \<Longrightarrow>
    cleanup_step e st Containers_stopped (st\<lparr>cl_main := CleanupReturned None\<rparr>)"
| cleanup_others: "others_step (cl_world st) w \<Longrightarrow>
    cleanup_step e st Other_process (st\<lparr>cl_world := w\<rparr>)"

inductive_cases cleanup_stepE: "cleanup_step e st i st'"

inductive_simps cleanup_input_simps:
  "cleanup_step e st CleanupSignal st'" "cleanup_step e st (Fetched r) st'"
  "cleanup_step e st (Metric_sent n err) st'" "cleanup_step e st (Listed r) st'"
  "cleanup_step e st (Stop_sent g err) st'" "cleanup_step e st Containers_signalled st'"
  "cleanup_step e st Seen_signalled st'" "cleanup_step e st (Checked r) st'"
  "cleanup_step e st Containers_stopped st'"

inductive_simps evacuator_step_simps:
  "evacuator_step e st Notified st'" "evacuator_step e st (Polled r) st'"
  "evacuator_step e st PollTimer st'" "evacuator_step e st TimedOut st'"

section \<open>The evacuator is done only when the cell is empty\<close>

lemma allContainersEvacuated_eval:
  "eval (allContainersEvacuated e) s \<longleftrightarrow> fst (svc_ListContainers (ev_executorClient e) (ext s)) = Inr []"
  by (simp add: allContainersEvacuated_def split: sum.split)

lemma evacuate_round_Ret:
  "evacuate_round e st = Ret st' \<longleftrightarrow>
     (let r = fst (svc_ListContainers (ev_executorClient e) (ext (es_world st)));
          w = exec (allContainersEvacuated e) (es_world st)
      in if r = Inr []
         then es_doneCh st = Open \<and>
           st' = st\<lparr>es_world := w, es_doneCh := Closed, es_poller := PollerReturned\<rparr>
         else st' = st\<lparr>es_world := w, es_poller := Sleeping (ev_pollingInterval e)\<rparr>)"
  by (cases "es_doneCh st") (auto simp: evacuate_round_def Let_def allContainersEvacuated_eval)

definition evacuator_inv :: "'w evacuator_state \<Rightarrow> bool" where
  "evacuator_inv st \<longleftrightarrow>
     (es_doneCh st = Closed \<longleftrightarrow> es_poller st = PollerReturned) \<and>
     (es_main st = AwaitingEvacuation \<longrightarrow> es_poller st = NotStarted) \<and>
     (es_main st = AwaitingDone \<longrightarrow> es_timer st \<noteq> None \<and> es_poller st \<noteq> NotStarted)"

lemma evacuator_step_inv: "evacuator_step e st i st' \<Longrightarrow> evacuator_inv st \<Longrightarrow> evacuator_inv st'"
  by (cases rule: evacuator_step.cases)
    (auto simp: evacuator_inv_def evacuate_round_Ret Let_def split: if_splits)

lemma evacuator_start_inv: "evacuator_inv (evacuator_start w)"
  by (simp add: evacuator_inv_def evacuator_start_def)

lemma evacuator_reach_inv:
  "run (evacuator_step e) (evacuator_start w) ins st \<Longrightarrow> evacuator_inv st"
  by (erule run_invariant [where I = evacuator_inv, OF _ evacuator_start_inv]) (erule evacuator_step_inv)

lemma evacuator_done_iff:
  assumes "run (evacuator_step e) (evacuator_start w) ins st"
  shows "es_doneCh st = Closed \<longleftrightarrow> Polled (Inr []) \<in> set ins"
proof
  assume "es_doneCh st = Closed"
  then have "list_ex (\<lambda>i. i = Polled (Inr [])) ins"
    by (intro run_enters [OF assms, where J = "\<lambda>st. es_doneCh st = Closed"])
      (auto simp: evacuator_start_def evacuate_round_Ret Let_def split: if_splits elim!: evacuator_stepE)
  then show "Polled (Inr []) \<in> set ins" by (simp add: list_ex_iff)
next
  assume "Polled (Inr []) \<in> set ins"
  then have "list_ex (\<lambda>i. i = Polled (Inr [])) ins" by (simp add: list_ex_iff)
  then show "es_doneCh st = Closed"
    by (rule run_stable [OF assms])
      (auto simp: evacuate_round_Ret Let_def split: if_splits elim!: evacuator_stepE)
qed

text \<open>
  C34: The evacuator reports that evacuation is complete only when the executor, asked after the
  notification, answered that there are no containers; an error of the executor does not count
  as an answer. Once it has so answered, the evacuator can complete as long as it has not
  returned. Until then, no goroutine is ever stuck: before the notification there is nothing to
  do, and after it the time-out can fire and the poller can go on, without ever closing the
  channel twice.
\<close>

theorem evacuation_completes_only_when_empty:
  assumes "run (evacuator_step e) (evacuator_start w) ins st"
  shows "preceded (\<lambda>i. i = Notified) (\<lambda>i. \<exists>r. i = Polled r) ins \<and>
    preceded (\<lambda>i. i = Polled (Inr [])) (\<lambda>i. i = EvacuationComplete) ins \<and>
    (es_main st = AwaitingDone \<longrightarrow>
       (if Polled (Inr []) \<in> set ins then \<exists>st'. evacuator_step e st EvacuationComplete st'
        else (\<exists>st'. evacuator_step e st TimedOut st') \<and>
          (\<exists>r st'. evacuator_step e st (Polled r) st' \<or> evacuator_step e st PollTimer st')))"
proof (intro conjI impI)
  show "preceded (\<lambda>i. i = Notified) (\<lambda>i. \<exists>r. i = Polled r) ins"
    by (rule run_preceded [OF assms, where A = "{st. es_poller st \<noteq> NotStarted}"])
      (auto simp: evacuator_start_def elim!: evacuator_stepE)
  show "preceded (\<lambda>i. i = Polled (Inr [])) (\<lambda>i. i = EvacuationComplete) ins"
    by (rule run_preceded [OF assms, where A = "{st. es_doneCh st = Closed}"])
      (auto simp: evacuator_start_def evacuate_round_Ret Let_def split: if_splits
        elim!: evacuator_stepE)
  assume main: "es_main st = AwaitingDone"
  note inv = evacuator_reach_inv [OF assms] and done_iff = evacuator_done_iff [OF assms]
  have timeout: "\<exists>st'. evacuator_step e st TimedOut st'"
    using inv main by (auto simp: evacuator_inv_def intro: evacuator_timeout)
  have poller: "\<exists>r st'. evacuator_step e st (Polled r) st' \<or> evacuator_step e st PollTimer st'"
    if "es_doneCh st = Open"
  proof (cases "es_poller st")
    case Polling
    then have "\<exists>st'. evacuate_round e st = Ret st'"
      using that by (auto simp: evacuate_round_Ret Let_def)
    with poll [OF Polling] show ?thesis by blast
  next
    case (Sleeping d)
    with poll_timer show ?thesis by blast
  qed (use inv main that in \<open>auto simp: evacuator_inv_def\<close>)
  show "if Polled (Inr []) \<in> set ins then \<exists>st'. evacuator_step e st EvacuationComplete st'
      else (\<exists>st'. evacuator_step e st TimedOut st') \<and>
        (\<exists>r st'. evacuator_step e st (Polled r) st' \<or> evacuator_step e st PollTimer st')"
    using timeout poller evacuator_done [OF main, of e] done_iff
    by (cases "es_doneCh st") auto
qed
theorem evacuation_completes_only_when_empty_witness:
  "let e = NewEvacuator example_services ''cell'' 600 10 in
   \<exists>st. run (evacuator_step e) (evacuator_start evacuating_world)
       [Notified, Polled (Inr [example_container StateReserved]), PollTimer] st \<and>
     (\<exists>st'. evacuator_step e st TimedOut st')"
proof -
  let ?e = "NewEvacuator example_services ''cell'' 600 10"
  have "\<exists>st. run (evacuator_step ?e) (evacuator_start evacuating_world)
      [Notified, Polled (Inr [example_container StateReserved]), PollTimer] st \<and>
      es_main st = AwaitingDone"
    unfolding run_Cons_iff run_Nil_iff
    by (auto simp: evacuator_step_simps evacuator_start_def EvacuateNotify_def evacuate_round_Ret
        NewEvacuator_def example_services_def)
  then show ?thesis
    using evacuation_completes_only_when_empty [where e = ?e and w = evacuating_world]
    by (fastforce simp: Let_def)
qed

section \<open>The cleanup\<close>

lemma any_running_iff: "any_running cs \<longleftrightarrow> (\<exists>c \<in> set cs. c_State c = StateRunning)"
  by (induction cs) auto

definition none_running :: "go_error + Container list \<Rightarrow> bool" where
  "none_running r = (case r of Inl _ \<Rightarrow> True | Inr cs \<Rightarrow> list_all (\<lambda>c. c_State c \<noteq> StateRunning) cs)"

lemma hasRunningContainers_eval:
  "eval (hasRunningContainers e) s \<longleftrightarrow>
     \<not> none_running (fst (svc_ListContainers (cu_executorClient e) (ext s)))"
  by (auto simp: hasRunningContainers_def list_containers_def none_running_def any_running_iff
      list_all_iff split: sum.split)

lemma check_round_Ret:
  "check_round e st = Ret st' \<longleftrightarrow>
     (let w = exec (hasRunningContainers e) (cl_world st)
      in if none_running (fst (svc_ListContainers (cu_executorClient e) (ext (cl_world st))))
         then cl_containersStopped st = Open \<and>
           st' = st\<lparr>cl_world := w, cl_containersStopped := Closed, cl_checker := CheckerReturned\<rparr>
         else st' = st\<lparr>cl_world := w, cl_checker := AwaitingTick\<rparr>)"
  by (cases "cl_containersStopped st") (auto simp: check_round_def Let_def hasRunningContainers_eval)

lemma close_signalled_Ret:
  "close_signalled st = Ret st' \<longleftrightarrow> cl_containersSignalled st = Open \<and>
     st' = st\<lparr>cl_containersSignalled := Closed, cl_signaller := SignallerReturned\<rparr>"
  by (cases "cl_containersSignalled st") (auto simp: close_signalled_def)

lemmas cleanup_step_simps = check_round_Ret close_signalled_Ret Let_def

text \<open>Before the goroutines are started.\<close>

fun starting :: "cleanup_main \<Rightarrow> bool" where
  "starting AwaitingSignal = True"
| "starting FetchingGroups = True"
| "starting (RemovingStranded _ _) = True"
| "starting _ = False"

definition cleanup_inv :: "'w cleanup_state \<Rightarrow> bool" where
  "cleanup_inv st \<longleftrightarrow>
     (cl_containersStopped st = Closed \<longleftrightarrow> cl_checker st = CheckerReturned) \<and>
     (cl_containersSignalled st = Closed \<longleftrightarrow> cl_signaller st = SignallerReturned) \<and>
     (cl_signaller st = SignallerNotStarted \<longleftrightarrow> cl_checker st = CheckerNotStarted) \<and>
     (cl_checker st = CheckerNotStarted \<or> cl_checker st = AwaitingSignalled \<or>
        cl_containersSignalled st = Closed) \<and>
     (starting (cl_main st) \<longrightarrow> cl_signaller st = SignallerNotStarted) \<and>
     (cl_main st = AwaitingStop \<longrightarrow> cl_exitTimer st \<noteq> None)"

lemma cleanup_step_inv: "cleanup_step e st i st' \<Longrightarrow> cleanup_inv st \<Longrightarrow> cleanup_inv st'"
proof (induction rule: cleanup_step.induct)
  case (checked st st')
  then show ?case
    by (cases "none_running (fst (svc_ListContainers (cu_executorClient e) (ext (cl_world st))))")
      (auto simp: cleanup_inv_def check_round_Ret Let_def)
next
  case (fetched st r w)
  then show ?case by (cases r) (auto simp: cleanup_inv_def)
qed (simp_all add: cleanup_inv_def close_signalled_Ret; (elim conjE)?; simp)+

lemma cleanup_start_inv: "cleanup_inv (cleanup_start w)"
  by (simp add: cleanup_inv_def cleanup_start_def)

lemma cleanup_reach_inv: "run (cleanup_step e) (cleanup_start w) ins st \<Longrightarrow> cleanup_inv st"
  by (erule run_invariant [where I = cleanup_inv, OF _ cleanup_start_inv]) (erule cleanup_step_inv)

lemma cleanup_run_inv:
  "run (cleanup_step e) (cleanup_start w) ins st \<Longrightarrow>
     run (\<lambda>p i q. cleanup_step e p i q \<and> cleanup_inv p \<and> cleanup_inv q) (cleanup_start w) ins st"
  by (erule run_restrict [where I = cleanup_inv, OF _ cleanup_start_inv]) (erule cleanup_step_inv)

text \<open>What the inputs so far say of the calls that were made, and of their replies.\<close>

definition fetched_groups :: "cleanup_input list \<Rightarrow> (go_error + ActualLRPGroup list) list" where
  "fetched_groups ins = List.map_filter (\<lambda>i. case i of Fetched r \<Rightarrow> Some r | _ \<Rightarrow> None) ins"

definition removed_lrps :: "cleanup_input list \<Rightarrow> ActualLRP list" where
  "removed_lrps ins = List.map_filter (\<lambda>i. case i of Removed lrp _ \<Rightarrow> Some lrp | _ \<Rightarrow> None) ins"

definition listings :: "cleanup_input list \<Rightarrow> (go_error + Container list) list" where
  "listings ins = List.map_filter (\<lambda>i. case i of Listed r \<Rightarrow> Some r | _ \<Rightarrow> None) ins"

definition stopped_guids :: "cleanup_input list \<Rightarrow> string list" where
  "stopped_guids ins = List.map_filter (\<lambda>i. case i of Stop_sent g _ \<Rightarrow> Some g | _ \<Rightarrow> None) ins"

lemmas input_defs = fetched_groups_def removed_lrps_def listings_def stopped_guids_def

lemma map_filter_snoc:
  "List.map_filter f (xs @ [x]) = List.map_filter f xs @ (case f x of None \<Rightarrow> [] | Some y \<Rightarrow> [y])"
  by (simp add: List.map_filter_def split: option.split)

definition listed_containers :: "go_error + Container list \<Rightarrow> Container list" where
  "listed_containers r = (case r of Inl _ \<Rightarrow> [] | Inr cs \<Rightarrow> cs)"

definition main_history :: "cleanup_input list \<Rightarrow> cleanup_main \<Rightarrow> bool" where
  "main_history ins m \<longleftrightarrow>
     (case m of
        AwaitingSignal \<Rightarrow> CleanupSignal \<notin> set ins \<and> fetched_groups ins = [] \<and> removed_lrps ins = []
      | FetchingGroups \<Rightarrow> fetched_groups ins = [] \<and> removed_lrps ins = []
      | RemovingStranded gs n \<Rightarrow>
          (\<exists>hs. fetched_groups ins = [Inr (hs @ gs)] \<and> removed_lrps ins = List.map_filter grp_Evacuating hs)
      | AwaitingStop \<Rightarrow>
          (\<exists>gs. fetched_groups ins = [Inr gs] \<and> removed_lrps ins = List.map_filter grp_Evacuating gs)
      | CleanupReturned None \<Rightarrow> Containers_stopped \<in> set ins \<and>
          (\<exists>gs. fetched_groups ins = [Inr gs] \<and> removed_lrps ins = List.map_filter grp_Evacuating gs)
      | CleanupReturned (Some err) \<Rightarrow>
          fetched_groups ins = [Inl err] \<and> removed_lrps ins = [] \<or>
          ExitTimer \<in> set ins \<and> err = failedToCleanup \<and>
          (\<exists>gs. fetched_groups ins = [Inr gs] \<and> removed_lrps ins = List.map_filter grp_Evacuating gs))"

definition signaller_history :: "cleanup_input list \<Rightarrow> signaller \<Rightarrow> bool" where
  "signaller_history ins sg \<longleftrightarrow>
     (case sg of
        SignallerNotStarted \<Rightarrow> listings ins = [] \<and> stopped_guids ins = []
      | Listing \<Rightarrow> listings ins = [] \<and> stopped_guids ins = []
      | Stopping cs \<Rightarrow>
          (\<exists>r ds. listings ins = [r] \<and> listed_containers r = ds @ cs \<and> stopped_guids ins = map c_Guid ds)
      | SignallerReturned \<Rightarrow>
          (\<exists>r. listings ins = [r] \<and> stopped_guids ins = map c_Guid (listed_containers r)))"

lemma inputs_snoc [simp]:
  "fetched_groups (ins @ [i]) = fetched_groups ins @ (case i of Fetched r \<Rightarrow> [r] | _ \<Rightarrow> [])"
  "removed_lrps (ins @ [i]) = removed_lrps ins @ (case i of Removed lrp _ \<Rightarrow> [lrp] | _ \<Rightarrow> [])"
  "listings (ins @ [i]) = listings ins @ (case i of Listed r \<Rightarrow> [r] | _ \<Rightarrow> [])"
  "stopped_guids (ins @ [i]) = stopped_guids ins @ (case i of Stop_sent g _ \<Rightarrow> [g] | _ \<Rightarrow> [])"
  by (cases i; simp add: input_defs map_filter_snoc)+

lemma main_history_other:
  assumes "main_history ins m" "i \<noteq> CleanupSignal"
    and "fetched_groups (ins @ [i]) = fetched_groups ins" "removed_lrps (ins @ [i]) = removed_lrps ins"
  shows "main_history (ins @ [i]) m"
proof (cases m)
  case (CleanupReturned x)
  with assms show ?thesis by (cases x) (auto simp: main_history_def simp del: inputs_snoc)
qed (use assms in \<open>simp_all add: main_history_def del: inputs_snoc\<close>)

lemma main_history_step:
  assumes "cleanup_step e st i st'" "main_history ins (cl_main st)"
  shows "main_history (ins @ [i]) (cl_main st')"
  using assms
proof (induction rule: cleanup_step.induct)
  case (fetched st r w)
  then show ?case by (cases r) (simp_all add: main_history_def)
next
  case (skipped st grp groups n)
  then obtain hs where "fetched_groups ins = [Inr ((hs @ [grp]) @ groups)]"
    "removed_lrps ins = List.map_filter grp_Evacuating (hs @ [grp])"
    by (auto simp: main_history_def map_filter_snoc)
  then show ?case by (auto simp: main_history_def)
next
  case (removed st grp groups n lrp err w)
  then obtain hs where "fetched_groups ins = [Inr ((hs @ [grp]) @ groups)]"
    "removed_lrps ins @ [lrp] = List.map_filter grp_Evacuating (hs @ [grp])"
    by (auto simp: main_history_def map_filter_snoc)
  then show ?case by (auto simp: main_history_def)
next
  case (signalled st st')
  then show ?case by (auto simp: close_signalled_Ret intro: main_history_other)
next
  case (checked st st')
  then show ?case
    by (auto simp: check_round_Ret Let_def intro: main_history_other split: if_splits)
next
  case (metric_sent st n err w)
  then show ?case by (simp add: main_history_def)
next
  case (cleanup_signal st)
  then show ?case by (simp add: main_history_def)
next
  case (exit_timer st d)
  then show ?case by (auto simp add: main_history_def)
next
  case (containers_stopped st)
  then show ?case by (auto simp add: main_history_def)
qed (simp_all add: main_history_other)

lemma signaller_history_other:
  "signaller_history ins sg \<Longrightarrow> listings (ins @ [i]) = listings ins \<Longrightarrow>
     stopped_guids (ins @ [i]) = stopped_guids ins \<Longrightarrow> signaller_history (ins @ [i]) sg"
  by (cases sg) (simp_all add: signaller_history_def del: inputs_snoc)

lemma signaller_history_step:
  assumes "cleanup_step e st i st'" "cleanup_inv st" "signaller_history ins (cl_signaller st)"
  shows "signaller_history (ins @ [i]) (cl_signaller st')"
  using assms
proof (induction rule: cleanup_step.induct)
  case (stop_sent st container containers err w)
  then obtain r ds where "listings ins = [r]" "listed_containers r = (ds @ [container]) @ containers"
    "stopped_guids ins @ [c_Guid container] = map c_Guid (ds @ [container])"
    by (auto simp: signaller_history_def)
  then show ?case by (auto simp: signaller_history_def)
next
  case (metric_sent st n err w)
  then show ?case by (auto simp: signaller_history_def cleanup_inv_def)
next
  case (listed st r w)
  then show ?case by (simp add: signaller_history_def listed_containers_def)
next
  case (signalled st st')
  then show ?case by (auto simp: close_signalled_Ret signaller_history_def)
next
  case (checked st st')
  then show ?case
    by (auto simp: check_round_Ret Let_def intro: signaller_history_other split: if_splits)
qed (simp_all add: signaller_history_other)

lemma error_history_step:
  assumes "cleanup_step e st i st'" "cleanup_inv st" "main_history ins (cl_main st)"
    and "fetched_groups ins = [Inl err] \<longrightarrow> cl_signaller st = SignallerNotStarted"
  shows "fetched_groups (ins @ [i]) = [Inl err] \<longrightarrow> cl_signaller st' = SignallerNotStarted"
  using assms
  by (cases rule: cleanup_step.cases)
    (auto simp: main_history_def cleanup_inv_def cleanup_step_simps split: if_splits)

definition cleanup_history :: "cleanup_input list \<Rightarrow> 'w cleanup_state \<Rightarrow> bool" where
  "cleanup_history ins st \<longleftrightarrow>
     main_history ins (cl_main st) \<and> signaller_history ins (cl_signaller st) \<and>
     (\<forall>err. fetched_groups ins = [Inl err] \<longrightarrow> cl_signaller st = SignallerNotStarted)"

lemma cleanup_history_start: "cleanup_history [] (cleanup_start w)"
  by (simp add: cleanup_history_def cleanup_start_def main_history_def signaller_history_def
      input_defs map_filter_simps)

lemma cleanup_history_step:
  "cleanup_step e st i st' \<Longrightarrow> cleanup_inv st \<Longrightarrow> cleanup_history ins st \<Longrightarrow>
     cleanup_history (ins @ [i]) st'"
  unfolding cleanup_history_def
  using main_history_step signaller_history_step error_history_step by blast

lemma cleanup_reach_history:
  "run (cleanup_step e) (cleanup_start w) ins st \<Longrightarrow> cleanup_history ins st"
  by (drule cleanup_run_inv, erule run_history [where H = cleanup_history, OF _ cleanup_history_start])
    (blast intro: cleanup_history_step)

text \<open>The main goroutine is never stuck between the signal and its second \<open>select\<close>.\<close>

lemma cleanup_goes_on:
  assumes "cl_main st = FetchingGroups \<or> (\<exists>gs n. cl_main st = RemovingStranded gs n)"
  shows "\<exists>i st'. cleanup_step e st i st' \<and> cl_main st' \<noteq> cl_main st"
  using assms
proof (elim disjE exE)
  assume main: "cl_main st = FetchingGroups"
  obtain r w where "run_state (fetch_groups e) (cl_world st) = (r, w)" by fastforce
  from fetched [OF main this] main show ?thesis by (cases r) fastforce+
next
  fix gs n assume main: "cl_main st = RemovingStranded gs n"
  show ?thesis
  proof (cases gs)
    case Nil
    obtain err w where "run_state (send_stranded e n) (cl_world st) = (err, w)" by fastforce
    with metric_sent main Nil show ?thesis by fastforce
  next
    case (Cons grp groups)
    obtain err w where "run_state (remove_evacuating e (the (grp_Evacuating grp))) (cl_world st) = (err, w)"
      by fastforce
    with skipped removed main Cons show ?thesis
      by (cases "grp_Evacuating grp") (fastforce simp: neq_Nil_conv)+
  qed
qed

lemma signalled_seen:
  assumes "run (cleanup_step e) (cleanup_start w) ins st"
  shows "preceded (\<lambda>i. i = Containers_signalled) (\<lambda>i. \<exists>r. i = Checked r) ins"
    "preceded (\<lambda>i. \<exists>r. i = Checked r \<and> none_running r) (\<lambda>i. i = Containers_stopped) ins"
    "cl_containersSignalled st = Closed \<longleftrightarrow> Containers_signalled \<in> set ins"
proof -
  have closes: "i = Containers_signalled"
    if "cleanup_step e p i q" "cl_containersSignalled p = Open" "cl_containersSignalled q = Closed" for p i q
    using that by (cases rule: cleanup_step.cases) (simp_all add: cleanup_step_simps split: if_splits)
  have checks: "cl_containersSignalled p = Closed"
    if "cleanup_step e p (Checked r) q" "cleanup_inv p" for p r q
    using that by (auto simp: cleanup_input_simps cleanup_inv_def)
  show "preceded (\<lambda>i. i = Containers_signalled) (\<lambda>i. \<exists>r. i = Checked r) ins"
    by (rule run_preceded [OF cleanup_run_inv [OF assms], where A = "{st. cl_containersSignalled st = Closed}"])
      (use checks closes in \<open>auto simp: cleanup_start_def\<close>)
  show "preceded (\<lambda>i. \<exists>r. i = Checked r \<and> none_running r) (\<lambda>i. i = Containers_stopped) ins"
    by (rule run_preceded [OF assms, where A = "{st. cl_containersStopped st = Closed}"])
      (auto simp: cleanup_start_def cleanup_step_simps split: if_splits elim!: cleanup_stepE)
  have stays: "cl_containersSignalled q = Closed"
    if "cleanup_step e p i q" "i = Containers_signalled \<or> cl_containersSignalled p = Closed" for p i q
    using that by (cases rule: cleanup_step.cases) (auto simp: cleanup_step_simps split: if_splits)
  show "cl_containersSignalled st = Closed \<longleftrightarrow> Containers_signalled \<in> set ins"
  proof
    assume "cl_containersSignalled st = Closed"
    then have "list_ex (\<lambda>i. i = Containers_signalled) ins"
      by (intro run_enters [OF assms, where J = "\<lambda>st. cl_containersSignalled st = Closed"])
        (use closes in \<open>auto simp: cleanup_start_def\<close>)
    then show "Containers_signalled \<in> set ins" by (simp add: list_ex_iff)
  next
    assume "Containers_signalled \<in> set ins"
    then have "list_ex (\<lambda>i. i = Containers_signalled) ins" by (simp add: list_ex_iff)
    then show "cl_containersSignalled st = Closed" by (rule run_stable [OF assms]) (use stays in blast)+
  qed
qed

text \<open>
  C35: The cleanup reports success only after the following, in this order: the executor was
  asked for its containers and each container that it listed was told to stop, in order (none if
  it could not list them); the executor was asked again, and none was running (or it could not
  list them). It fails only with the error of the BBS when that could not list the LRPs, in which
  case nothing was removed or told to stop, or by the exit timer; a failed removal, a failed
  metric or a failed stop does not make it fail. When it returns otherwise, or waits for the
  containers, it has removed the evacuating LRP of every listed group that has one. Before it
  returns it can always go on, and no channel is closed twice.
\<close>

theorem cleanup_waits_for_containers:
  assumes "run (cleanup_step e) (cleanup_start w) ins st"
  shows "preceded (\<lambda>i. i = Containers_signalled) (\<lambda>i. \<exists>r. i = Checked r) ins \<and>
    preceded (\<lambda>i. \<exists>r. i = Checked r \<and> none_running r) (\<lambda>i. i = Containers_stopped) ins \<and>
    (Containers_signalled \<in> set ins \<longrightarrow>
       (\<exists>r. listings ins = [r] \<and>
          stopped_guids ins = (case r of Inl _ \<Rightarrow> [] | Inr cs \<Rightarrow> map c_Guid cs))) \<and>
    (case cl_main st of
       AwaitingSignal \<Rightarrow> CleanupSignal \<notin> set ins
     | AwaitingStop \<Rightarrow> (\<exists>st'. cleanup_step e st ExitTimer st') \<and>
         (\<exists>gs. fetched_groups ins = [Inr gs] \<and> removed_lrps ins = List.map_filter grp_Evacuating gs)
     | CleanupReturned None \<Rightarrow> Containers_stopped \<in> set ins \<and>
         (\<exists>gs. fetched_groups ins = [Inr gs] \<and> removed_lrps ins = List.map_filter grp_Evacuating gs)
     | CleanupReturned (Some err) \<Rightarrow>
         fetched_groups ins = [Inl err] \<and> removed_lrps ins = [] \<and>
           listings ins = [] \<and> stopped_guids ins = [] \<or>
         ExitTimer \<in> set ins \<and> err = failedToCleanup \<and>
           (\<exists>gs. fetched_groups ins = [Inr gs] \<and> removed_lrps ins = List.map_filter grp_Evacuating gs)
     | _ \<Rightarrow> \<exists>i st'. cleanup_step e st i st' \<and> cl_main st' \<noteq> cl_main st) \<and>
    (cl_signaller st = Stopping [] \<longrightarrow> (\<exists>st'. close_signalled st = Ret st')) \<and>
    (cl_checker st = Checking \<longrightarrow> (\<exists>st'. check_round e st = Ret st'))"
proof -
  note hist = cleanup_reach_history [OF assms, unfolded cleanup_history_def]
    and inv = cleanup_reach_inv [OF assms] and seen = signalled_seen [OF assms]
  have "\<exists>r. listings ins = [r] \<and> stopped_guids ins = (case r of Inl _ \<Rightarrow> [] | Inr cs \<Rightarrow> map c_Guid cs)"
    if "Containers_signalled \<in> set ins"
  proof -
    have "cl_signaller st = SignallerReturned" using that seen(3) inv by (simp add: cleanup_inv_def)
    with hist show ?thesis
      by (auto simp: signaller_history_def listed_containers_def split: sum.splits)
  qed
  moreover have "listings ins = [] \<and> stopped_guids ins = []" if "fetched_groups ins = [Inl err]" for err
    using hist that by (auto simp: signaller_history_def)
  moreover have "\<exists>st'. cleanup_step e st ExitTimer st'" if "cl_main st = AwaitingStop"
    using inv that by (auto simp: cleanup_inv_def intro: exit_timer)
  moreover have "\<exists>st'. close_signalled st = Ret st'" if "cl_signaller st = Stopping []"
    using inv that by (cases "cl_containersSignalled st") (auto simp: cleanup_inv_def close_signalled_Ret)
  moreover have "\<exists>st'. check_round e st = Ret st'" if "cl_checker st = Checking"
    using inv that by (cases "cl_containersStopped st") (auto simp: cleanup_inv_def check_round_Ret Let_def)
  moreover note cleanup_goes_on [of st e]
  ultimately show ?thesis
    using seen(1,2) conjunct1 [OF hist]
    by (simp add: main_history_def split: cleanup_main.splits option.splits) blast+
qed

definition example_cleanup :: "unit EvacuationCleanup" where
  "example_cleanup =
     NewEvacuationCleanup ''cell'' example_services example_services
       (example_services\<lparr>svc_SendMetric := \<lambda>n v w. (Some (NewError ''no metron''), w)\<rparr>)"

theorem cleanup_waits_for_containers_witness:
  "let ins = [CleanupSignal, Fetched (Inr []), Metric_sent 0 (Some (NewError ''no metron'')),
       Listed (Inr [example_container StateReserved]), Stop_sent ''ig'' None, Containers_signalled, Seen_signalled,
       Checked (Inr [example_container StateReserved]), Containers_stopped]
   in \<exists>st. run (cleanup_step example_cleanup) (cleanup_start example_world) ins st \<and>
     cl_main st = CleanupReturned None \<and>
     preceded (\<lambda>i. i = Containers_signalled) (\<lambda>i. \<exists>r. i = Checked r) ins \<and>
     (\<exists>gs. fetched_groups ins = [Inr gs] \<and> removed_lrps ins = List.map_filter grp_Evacuating gs)"
proof -
  let ?ins = "[CleanupSignal, Fetched (Inr []), Metric_sent 0 (Some (NewError ''no metron'')),
       Listed (Inr [example_container StateReserved]), Stop_sent ''ig'' None, Containers_signalled, Seen_signalled,
       Checked (Inr [example_container StateReserved]), Containers_stopped]"
  have "none_running (Inr [example_container StateReserved])"
    by (simp add: none_running_def example_container_def)
  then have "\<exists>st. run (cleanup_step example_cleanup) (cleanup_start example_world) ?ins st \<and>
      cl_main st = CleanupReturned None"
    unfolding run_Cons_iff run_Nil_iff
    by (auto simp: cleanup_input_simps cleanup_start_def cleanup_step_simps cleanup_call_defs
        invoke_def example_cleanup_def NewEvacuationCleanup_def example_services_def example_world_def)
  then obtain st where st: "run (cleanup_step example_cleanup) (cleanup_start example_world) ?ins st"
    "cl_main st = CleanupReturned None" by blast
  from cleanup_waits_for_containers [OF st(1)] st show ?thesis
    unfolding Let_def by (intro exI [of _ st]) simp
qed

text \<open>
  The steps of the goroutines, with nothing in between, are the actions \<open>cleanup_stranded\<close> and
  \<open>signalRunningContainers\<close>.
\<close>

lemma run_state_eval_exec: "run_state m s = (eval m s, exec m s)"
  by (simp add: eval_def exec_def)

lemma remove_stranded_run:
  "cl_main st = RemovingStranded gs n \<Longrightarrow> \<exists>ins. run (cleanup_step e) st ins
     (st\<lparr>cl_world := exec (remove_stranded e gs n) (cl_world st),
         cl_main := RemovingStranded [] (eval (remove_stranded e gs n) (cl_world st))\<rparr>)"
proof (induction gs arbitrary: st n)
  case Nil
  then have "st\<lparr>cl_world := cl_world st, cl_main := RemovingStranded [] n\<rparr> = st" by simp
  then show ?case by (auto intro: exI [of _ "[]"])
next
  case (Cons grp gs)
  show ?case
  proof (cases "grp_Evacuating grp")
    case None
    from run_Cons [of "cleanup_step e", OF skipped [OF Cons.prems None]]
      Cons.IH [of "st\<lparr>cl_main := RemovingStranded gs n\<rparr>" n] None
    show ?thesis by simp blast
  next
    case (Some lrp)
    let ?m = "remove_evacuating e lrp"
    from run_Cons [of "cleanup_step e", OF removed [OF Cons.prems Some run_state_eval_exec]]
      Cons.IH [of "st\<lparr>cl_world := exec ?m (cl_world st), cl_main := RemovingStranded gs (n + 1)\<rparr>" "n + 1"]
      Some
    show ?thesis by simp blast
  qed
qed

lemma cleanup_stranded_run:
  assumes "cl_main st = FetchingGroups"
  shows "\<exists>ins st'. run (cleanup_step e) st ins st' \<and>
    cl_world st' = exec (cleanup_stranded e) (cl_world st) \<and>
    cl_main st' = (case eval (cleanup_stranded e) (cl_world st) of
      Some err \<Rightarrow> CleanupReturned (Some err) | None \<Rightarrow> AwaitingStop)"
proof (cases "eval (fetch_groups e) (cl_world st)")
  case (Inl err)
  with run_Cons [of "cleanup_step e", OF fetched [OF assms run_state_eval_exec] run_Nil]
  show ?thesis by (fastforce simp: cleanup_stranded_def)
next
  case (Inr gs)
  let ?st = "st\<lparr>cl_world := exec (fetch_groups e) (cl_world st), cl_main := RemovingStranded gs 0\<rparr>"
  let ?n = "eval (remove_stranded e gs 0) (cl_world ?st)"
    and ?w = "exec (remove_stranded e gs 0) (cl_world ?st)"
  have "cleanup_step e st (Fetched (Inr gs)) ?st"
    using fetched [OF assms run_state_eval_exec, of e] Inr by simp
  moreover obtain ins where
    "run (cleanup_step e) ?st ins (?st\<lparr>cl_world := ?w, cl_main := RemovingStranded [] ?n\<rparr>)"
    using remove_stranded_run [of ?st gs 0 e] by auto
  moreover have "\<exists>i st'. cleanup_step e (?st\<lparr>cl_world := ?w, cl_main := RemovingStranded [] ?n\<rparr>) i st' \<and>
      cl_world st' = exec (send_stranded e ?n) ?w \<and> cl_main st' = AwaitingStop"
    by (intro exI conjI, rule metric_sent [OF _ run_state_eval_exec]) simp_all
  ultimately show ?thesis
    using Inr by (simp add: cleanup_stranded_def) (meson run_Cons run_Nil run_append_iff)
qed

lemma signalRunningContainers_run:
  assumes "cl_signaller st = Listing"
  shows "\<exists>ins. run (cleanup_step e) st ins
    (st\<lparr>cl_world := exec (signalRunningContainers e) (cl_world st), cl_signaller := Stopping []\<rparr>)"
proof -
  have stops: "\<exists>ins. run (cleanup_step e) st ins
      (st\<lparr>cl_world := exec (for_each (\<lambda>c. do { stop_container e c; return () }) cs) (cl_world st),
          cl_signaller := Stopping []\<rparr>)" if "cl_signaller st = Stopping cs" for st cs
    using that
  proof (induction cs arbitrary: st)
    case Nil
    then have "st\<lparr>cl_world := cl_world st, cl_signaller := Stopping []\<rparr> = st" by simp
    then show ?case by (auto intro: exI [of _ "[]"])
  next
    case (Cons c cs)
    from run_Cons [of "cleanup_step e", OF stop_sent [OF Cons.prems run_state_eval_exec]]
      Cons.IH [of "st\<lparr>cl_world := exec (stop_container e c) (cl_world st), cl_signaller := Stopping cs\<rparr>"]
    show ?case by simp blast
  qed
  let ?r = "eval (list_containers e) (cl_world st)"
  let ?st = "st\<lparr>cl_world := exec (list_containers e) (cl_world st),
    cl_signaller := Stopping (listed_containers ?r)\<rparr>"
  have "cleanup_step e st (Listed ?r) ?st"
    using listed [OF assms run_state_eval_exec] by (simp add: listed_containers_def)
  moreover obtain ins where "run (cleanup_step e) ?st ins
      (st\<lparr>cl_world := exec (for_each (\<lambda>c. do { stop_container e c; return () }) (listed_containers ?r))
            (cl_world ?st), cl_signaller := Stopping []\<rparr>)"
    using stops [of ?st "listed_containers ?r"] by auto
  moreover have "exec (signalRunningContainers e) (cl_world st) =
      exec (for_each (\<lambda>c. do { stop_container e c; return () }) (listed_containers ?r)) (cl_world ?st)"
    by (simp add: signalRunningContainers_def listed_containers_def split: sum.split)
  ultimately show ?thesis by (auto intro: exI [of _ "Listed ?r # ins"])
qed

lemma remove_stranded_appends [simp]: "appends (remove_stranded e gs n)"
  by (induction gs arbitrary: n) (auto simp: remove_evacuating_def split: option.split)

lemma remove_stranded_calls:
  "map fst (calls (remove_stranded e gs n) s) =
     map (\<lambda>lrp. RemoveEvacuatingActualLRP (alrp_Key lrp) (alrp_InstanceKey lrp))
       (List.map_filter grp_Evacuating gs) \<and>
   eval (remove_stranded e gs n) s = n + of_nat (length (List.map_filter grp_Evacuating gs))"
  by (induction gs arbitrary: n s)
    (simp_all add: map_filter_simps calls_bind remove_evacuating_def split: option.split)

lemma stop_all_calls:
  "map fst (calls (for_each (\<lambda>c. do {
       invoke (StopContainer (c_Guid c)) err_reply (f c);
       return ()
     }) cs) s) = map (\<lambda>c. StopContainer (c_Guid c)) cs"
  by (induction cs arbitrary: s) (simp_all add: calls_bind appends_for_each)

text \<open>
  C36: What the cleanup does, call by call. It asks for the cell's LRP groups and gives up with the
  error if there is one; otherwise it removes the evacuating LRP of every group that has one,
  in order and whether or not a removal fails, and sends their number as the metric. It then
  tells every container that the executor lists to stop, in order.
\<close>

theorem cleanup_calls:
  "let groups = fst (svc_ActualLRPGroups (cu_bbsClient e) (cu_cellID e) (ext s));
       containers = fst (svc_ListContainers (cu_executorClient e) (ext s))
   in map fst (calls (cleanup_stranded e) s) = ActualLRPGroups (cu_cellID e) #
      (case groups of
         Inl _ \<Rightarrow> []
       | Inr gs \<Rightarrow>
           let stranded = List.map_filter grp_Evacuating gs
           in map (\<lambda>lrp. RemoveEvacuatingActualLRP (alrp_Key lrp) (alrp_InstanceKey lrp)) stranded @
              [SendMetric strandedEvacuatingActualLRPs (sint (of_nat (length stranded) :: go_int))]) \<and>
    eval (cleanup_stranded e) s = (case groups of Inl err \<Rightarrow> Some err | Inr _ \<Rightarrow> None) \<and>
    map fst (calls (signalRunningContainers e) s) = ListContainers #
      (case containers of Inl _ \<Rightarrow> [] | Inr cs \<Rightarrow> map (\<lambda>c. StopContainer (c_Guid c)) cs)"
  by (auto simp: cleanup_stranded_def signalRunningContainers_def cleanup_call_defs calls_bind Let_def
      remove_stranded_calls stop_all_calls appends_for_each split: sum.split)

end
