(* ===== verification/Cell_Presence.thy ===== *)
theory Cell_Presence
  imports Protocol Example_Cell
begin

text \<open>
  The cell presence client of \<open>maintain/cell_presence_client.go\<close>. The consul client and the
  functions of \<open>locket\<close> and \<open>models\<close> that it calls are parameters; a cell presence is
  represented by the arguments of the constructor call that makes it.
\<close>

section \<open>Cell presences and the foreign functions\<close>

record CellCapacity =
  cc_MemoryMb :: int32
  cc_DiskMb :: int32
  cc_Containers :: int32

record CellPresence =
  cp_CellId :: string
  cp_RepAddress :: string
  cp_RepUrl :: string
  cp_Zone :: string
  cp_Capacity :: CellCapacity
  cp_RootfsProviders :: "string list"
  cp_PreloadedRootFSes :: "string list"
  cp_PlacementTags :: "string list"
  cp_OptionalPlacementTags :: "string list"

type_synonym CellSet = "(string \<times> CellPresence) list"

record KVPair =
  kv_Session :: string
  kv_Value :: string

text \<open>The key-value store of consul: a nil list or pair is \<open>None\<close>.\<close>

record 'w consul =
  kv_List :: "string \<Rightarrow> 'w \<Rightarrow> (KVPair list option \<times> go_error option) \<times> 'w"
  kv_Get :: "string \<Rightarrow> 'w \<Rightarrow> (KVPair option \<times> go_error option) \<times> 'w"

record presence_api =
  LockSchemaPath :: "string list \<Rightarrow> string"
  presence_ToJSON :: "CellPresence \<Rightarrow> go_error + string"
  presence_FromJSON :: "string \<Rightarrow> go_error + CellPresence"
  presence_ConvertError :: "go_error \<Rightarrow> error_type \<times> string"
  error_text :: "go_error \<Rightarrow> string"
  CellSet_Add :: "CellSet \<Rightarrow> CellPresence \<Rightarrow> CellSet"

definition CellSchemaKey :: string where
  "CellSchemaKey = ''cell''"

text \<open>
  What is known of them: converting a BBS error keeps it; a cell set is a map from cell ids; the
  lock path of a cell with a plain name is the root of the cells' lock paths, a slash and the
  name. A plain name is not empty, has no slash and is not a dot or two dots, which joining of
  paths would remove.
\<close>

definition plain_name :: "string \<Rightarrow> bool" where
  "plain_name b \<longleftrightarrow> b \<noteq> [] \<and> CHR ''/'' \<notin> set b \<and> b \<noteq> ''.'' \<and> b \<noteq> ''..''"

definition presence_api_ok :: "presence_api \<Rightarrow> bool" where
  "presence_api_ok P \<longleftrightarrow>
     (\<forall>t m. presence_ConvertError P (ModelsError t m) = (t, m)) \<and>
     (\<forall>s p. map_of (CellSet_Add P s p) = (map_of s)(cp_CellId p \<mapsto> p)) \<and>
     (\<forall>b. plain_name b \<longrightarrow>
        LockSchemaPath P [CellSchemaKey, b] = LockSchemaPath P [CellSchemaKey] @ ''/'' @ b)"

text \<open>A presence (with strings that JSON can represent) is encoded and read back.\<close>

definition reads_back :: "presence_api \<Rightarrow> CellPresence \<Rightarrow> bool" where
  "reads_back P p =
     (case presence_ToJSON P p of Inl _ \<Rightarrow> False | Inr payload \<Rightarrow> presence_FromJSON P payload = Inr p)"

section \<open>The client\<close>

definition CellSchemaPath :: "presence_api \<Rightarrow> string \<Rightarrow> string" where
  "CellSchemaPath P cellID = LockSchemaPath P [CellSchemaKey, cellID]"

definition CellSchemaRoot :: "presence_api \<Rightarrow> string" where
  "CellSchemaRoot P = LockSchemaPath P [CellSchemaKey]"

record 'w cellPresenceClient =
  consulClient :: "'w consul"

definition NewCellPresenceClient :: "'w consul \<Rightarrow> 'w cellPresenceClient" where
  "NewCellPresenceClient client = \<lparr>consulClient = client\<rparr>"

text \<open>The arguments with which \<open>locket.NewPresence\<close> is called.\<close>

record presence_runner =
  pr_key :: string
  pr_payload :: string
  pr_retryInterval :: int
  pr_lockTTL :: int

definition NewCellPresenceRunner ::
  "presence_api \<Rightarrow> CellPresence \<Rightarrow> int \<Rightarrow> int \<Rightarrow> presence_runner outcome" where
  "NewCellPresenceRunner P cellPresence retryInterval lockTTL =
     (case presence_ToJSON P cellPresence of
        Inl err \<Rightarrow> Panic
      | Inr payload \<Rightarrow>
          Ret \<lparr>pr_key = CellSchemaPath P (cp_CellId cellPresence), pr_payload = payload,
               pr_retryInterval = retryInterval, pr_lockTTL = lockTTL\<rparr>)"

definition convertConsulError :: "presence_api \<Rightarrow> go_error \<Rightarrow> go_error" where
  "convertConsulError P err =
     (case err of
        KeyNotFoundError _ \<Rightarrow> ModelsError Error_ResourceNotFound (error_text P err)
      | PrefixNotFoundError _ \<Rightarrow> ModelsError Error_ResourceNotFound (error_text P err)
      | _ \<Rightarrow> ModelsError Error_UnknownError (error_text P err))"

text \<open>The two checks of \<open>Cells\<close>: an error that is not \<open>ResourceNotFound\<close> is returned.\<close>

definition fatal_error :: "presence_api \<Rightarrow> go_error \<Rightarrow> go_error option" where
  "fatal_error P err =
     (let bbsErr = presence_ConvertError P (convertConsulError P err)
      in if fst bbsErr \<noteq> Error_ResourceNotFound then Some (ModelsError (fst bbsErr) (snd bbsErr))
         else None)"

fun cells_loop :: "presence_api \<Rightarrow> KVPair list \<Rightarrow> CellSet \<Rightarrow> CellSet" where
  "cells_loop P [] cellPresences = cellPresences"
| "cells_loop P (kvPair # kvPairs) cellPresences =
     (if kv_Session kvPair = '''' then cells_loop P kvPairs cellPresences
      else case presence_FromJSON P (kv_Value kvPair) of
        Inl err \<Rightarrow> cells_loop P kvPairs cellPresences
      | Inr presence \<Rightarrow> cells_loop P kvPairs (CellSet_Add P cellPresences presence))"

definition Cells :: "presence_api \<Rightarrow> 'w cellPresenceClient \<Rightarrow> ('w, go_error + CellSet) act" where
  "Cells P c = do {
     r \<leftarrow> draw (kv_List (consulClient c) (CellSchemaRoot P));
     (case r of (kvPairs, err) \<Rightarrow>
        (case Option.bind err (fatal_error P) of
           Some bbsErr \<Rightarrow> return (Inl bbsErr)
         | None \<Rightarrow>
             (case kvPairs of
                None \<Rightarrow>
                  (case fatal_error P (PrefixNotFoundError (CellSchemaRoot P)) of
                     Some bbsErr \<Rightarrow> return (Inl bbsErr)
                   | None \<Rightarrow> return (Inr (cells_loop P [] [])))
              | Some kvPairs \<Rightarrow> return (Inr (cells_loop P kvPairs [])))))
   }"

definition getAcquiredValue ::
  "'w cellPresenceClient \<Rightarrow> string \<Rightarrow> ('w, go_error + string) act" where
  "getAcquiredValue c key = do {
     r \<leftarrow> draw (kv_Get (consulClient c) key);
     (case r of (kvPair, err) \<Rightarrow>
        (case err of
           Some e \<Rightarrow> return (Inl e)
         | None \<Rightarrow>
             (case kvPair of
                None \<Rightarrow> return (Inl (KeyNotFoundError key))
              | Some kvPair \<Rightarrow>
                  if kv_Session kvPair = '''' then return (Inl (KeyNotFoundError key))
                  else return (Inr (kv_Value kvPair)))))
   }"

definition CellById ::
  "presence_api \<Rightarrow> 'w cellPresenceClient \<Rightarrow> string \<Rightarrow> ('w, go_error + CellPresence) act" where
  "CellById P c cellId = do {
     r \<leftarrow> getAcquiredValue c (CellSchemaPath P cellId);
     (case r of
        Inl err \<Rightarrow> return (Inl (convertConsulError P err))
      | Inr value \<Rightarrow>
          (case presence_FromJSON P value of
             Inl err \<Rightarrow> return (Inl (ModelsError Error_InvalidJSON (error_text P err)))
           | Inr presence \<Rightarrow> return (Inr presence)))
   }"

text \<open>
  \<open>path.Base\<close>: trailing slashes are removed, then everything up to the last slash; nothing is
  a dot, only slashes are one.
\<close>

definition path_Base :: "string \<Rightarrow> string" where
  "path_Base path =
     (if path = [] then ''.''
      else
        let stripped = rev (dropWhile (\<lambda>c. c = CHR ''/'') (rev path));
            base = rev (takeWhile (\<lambda>c. c \<noteq> CHR ''/'') (rev stripped))
        in if base = [] then ''/'' else base)"

text \<open>
  The goroutine of \<open>CellEvents\<close>. It receives from the channel of the watcher of the keys below
  \<open>CellSchemaRoot\<close>. For a list of keys it sends one event with the cell ids, and is blocked until
  a reader of the events takes it; when the channel is closed it interrupts the watcher's
  process and returns.
\<close>

datatype events_goroutine = Receiving | Sending "string list" | EventsReturned

record cell_events =
  ce_goroutine :: events_goroutine
  ce_interrupted :: bool

datatype events_input = Disappeared "string list" | Disappeared_closed | Event_taken "string list"

definition CellEvents_start :: cell_events where
  "CellEvents_start = \<lparr>ce_goroutine = Receiving, ce_interrupted = False\<rparr>"

inductive CellEvents_step :: "cell_events \<Rightarrow> events_input \<Rightarrow> cell_events \<Rightarrow> bool" where
  keys_received: "ce_goroutine st = Receiving \<Longrightarrow>
    CellEvents_step st (Disappeared keys) (st\<lparr>ce_goroutine := Sending (map path_Base keys)\<rparr>)"
| channel_closed: "ce_goroutine st = Receiving \<Longrightarrow>
    CellEvents_step st Disappeared_closed (st\<lparr>ce_goroutine := EventsReturned, ce_interrupted := True\<rparr>)"
| event_taken: "ce_goroutine st = Sending cellIDs \<Longrightarrow>
    CellEvents_step st (Event_taken cellIDs) (st\<lparr>ce_goroutine := Receiving\<rparr>)"

inductive_cases CellEvents_stepE: "CellEvents_step st i st'"

inductive_simps CellEvents_step_simps:
  "CellEvents_step st (Disappeared keys) st'" "CellEvents_step st (Event_taken ids) st'"

section \<open>Properties\<close>

lemma fatal_error_NotFound: "presence_api_ok P \<Longrightarrow> fatal_error P (PrefixNotFoundError k) = None"
  by (simp add: presence_api_ok_def fatal_error_def convertConsulError_def)

definition acquired :: "presence_api \<Rightarrow> KVPair \<Rightarrow> CellPresence option" where
  "acquired P kv =
     (if kv_Session kv = '''' then None
      else case presence_FromJSON P (kv_Value kv) of Inl _ \<Rightarrow> None | Inr p \<Rightarrow> Some p)"

lemma cells_loop_simps:
  "acquired P kv = None \<Longrightarrow> cells_loop P (kv # kvs) s = cells_loop P kvs s"
  "acquired P kv = Some p \<Longrightarrow> cells_loop P (kv # kvs) s = cells_loop P kvs (CellSet_Add P s p)"
  by (auto simp: acquired_def split: if_splits sum.splits)

lemma cells_loop_lookup:
  assumes ok: "presence_api_ok P"
    and "\<And>kv q. kv \<in> set kvs \<Longrightarrow> acquired P kv = Some q \<Longrightarrow> cp_CellId q = cp_CellId p \<Longrightarrow> q = p"
    and "map_of s (cp_CellId p) = Some p \<or> (\<exists>kv \<in> set kvs. acquired P kv = Some p)"
  shows "map_of (cells_loop P kvs s) (cp_CellId p) = Some p"
  using assms(2,3)
proof (induction kvs arbitrary: s)
  case (Cons kv kvs)
  have add: "map_of (CellSet_Add P s q) = (map_of s)(cp_CellId q \<mapsto> q)" for q
    using ok by (simp add: presence_api_ok_def)
  show ?case
  proof (cases "acquired P kv")
    case None
    have "map_of (cells_loop P kvs s) (cp_CellId p) = Some p"
      using Cons.prems None by (intro Cons.IH) auto
    with None show ?thesis by (simp only: cells_loop_simps(1))
  next
    case (Some q)
    have "cp_CellId q = cp_CellId p \<Longrightarrow> q = p" using Cons.prems(1) [of kv q] Some by simp
    moreover have "map_of (cells_loop P kvs (CellSet_Add P s q)) (cp_CellId p) = Some p"
      using calculation Cons.prems Some
      by (intro Cons.IH) (auto simp: add)
    ultimately show ?thesis using Some by (simp only: cells_loop_simps(2))
  qed
qed simp

lemma path_Base_last:
  assumes "b \<noteq> []" "CHR ''/'' \<notin> set b"
  shows "path_Base (a @ ''/'' @ b) = b"
proof -
  have "dropWhile (\<lambda>c. c = CHR ''/'') (rev b @ CHR ''/'' # rev a) = rev b @ CHR ''/'' # rev a"
    using assms by (cases "rev b") (auto simp: rev_swap)
  moreover have "takeWhile (\<lambda>c. c \<noteq> CHR ''/'') (rev b @ CHR ''/'' # rev a) = rev b"
    using assms(2) by (subst takeWhile_append2) auto
  ultimately show ?thesis using assms(1) by (simp add: path_Base_def Let_def)
qed

text \<open>A cell set that \<open>Cells\<close> makes holds nothing but acquired entries.\<close>

lemma cells_loop_sound:
  assumes ok: "presence_api_ok P" and "map_of (cells_loop P kvs s) cell = Some q"
  shows "map_of s cell = Some q \<or> (\<exists>kv \<in> set kvs. acquired P kv = Some q \<and> cp_CellId q = cell)"
  using assms(2)
proof (induction kvs arbitrary: s)
  case (Cons kv kvs)
  show ?case
  proof (cases "acquired P kv")
    case None
    with Cons show ?thesis by (auto simp only: cells_loop_simps(1) list.set)
  next
    case (Some p)
    with Cons.IH [of "CellSet_Add P s p"] Cons.prems
    have "map_of (CellSet_Add P s p) cell = Some q \<or>
        (\<exists>kv \<in> set kvs. acquired P kv = Some q \<and> cp_CellId q = cell)"
      by (simp only: cells_loop_simps(2))
    with Some ok show ?thesis by (auto simp: presence_api_ok_def split: if_splits)
  qed
qed simp

lemma CellById_iff:
  "eval (CellById P (NewCellPresenceClient C) cell) s = Inr q \<longleftrightarrow>
     (\<exists>kv. fst (kv_Get C (CellSchemaPath P cell) (ext s)) = (Some kv, None) \<and> acquired P kv = Some q)"
proof (cases "fst (kv_Get C (CellSchemaPath P cell) (ext s))")
  case (Pair kv err)
  then show ?thesis
    by (cases kv; cases err)
      (auto simp: CellById_def getAcquiredValue_def NewCellPresenceClient_def acquired_def
        split: sum.split)
qed

text \<open>What a run of the goroutine has received and given to the readers.\<close>

definition received :: "events_input list \<Rightarrow> string list list" where
  "received ins = List.map_filter (\<lambda>i. case i of Disappeared keys \<Rightarrow> Some keys | _ \<Rightarrow> None) ins"

definition events_taken :: "events_input list \<Rightarrow> string list list" where
  "events_taken ins = List.map_filter (\<lambda>i. case i of Event_taken ids \<Rightarrow> Some ids | _ \<Rightarrow> None) ins"

lemma events_snoc:
  "received (ins @ [i]) = received ins @ (case i of Disappeared keys \<Rightarrow> [keys] | _ \<Rightarrow> [])"
  "events_taken (ins @ [i]) = events_taken ins @ (case i of Event_taken ids \<Rightarrow> [ids] | _ \<Rightarrow> [])"
  by (cases i; simp add: received_def events_taken_def List.map_filter_def)+

lemma events_Nil: "received [] = []" "events_taken [] = []"
  by (simp_all add: received_def events_taken_def map_filter_simps)

lemma CellEvents_history:
  assumes "run CellEvents_step CellEvents_start ins st"
  shows "map (map path_Base) (received ins) =
      events_taken ins @ (case ce_goroutine st of Sending ids \<Rightarrow> [ids] | _ \<Rightarrow> []) \<and>
    (ce_interrupted st \<longleftrightarrow> Disappeared_closed \<in> set ins)"
  by (rule run_history [OF assms, where H = "\<lambda>ins st. map (map path_Base) (received ins) =
          events_taken ins @ (case ce_goroutine st of Sending ids \<Rightarrow> [ids] | _ \<Rightarrow> []) \<and>
        (ce_interrupted st \<longleftrightarrow> Disappeared_closed \<in> set ins)"])
    (auto simp: CellEvents_start_def events_Nil events_snoc elim!: CellEvents_stepE)

lemma runner_key:
  assumes "presence_api_ok P" "reads_back P p" "NewCellPresenceRunner P p retry ttl = Ret runner"
  shows "pr_key runner = CellSchemaPath P (cp_CellId p)"
    "presence_FromJSON P (pr_payload runner) = Inr p"
    "plain_name (cp_CellId p) \<Longrightarrow> path_Base (pr_key runner) = cp_CellId p"
proof -
  obtain payload where "presence_ToJSON P p = Inr payload" "presence_FromJSON P payload = Inr p"
    using assms(2) by (auto simp: reads_back_def split: sum.splits)
  with assms(3) show key: "pr_key runner = CellSchemaPath P (cp_CellId p)"
      "presence_FromJSON P (pr_payload runner) = Inr p"
    by (auto simp: NewCellPresenceRunner_def)
  assume plain: "plain_name (cp_CellId p)"
  then have "pr_key runner = LockSchemaPath P [CellSchemaKey] @ ''/'' @ cp_CellId p"
    using assms(1) key(1) by (simp add: presence_api_ok_def CellSchemaPath_def)
  with plain show "path_Base (pr_key runner) = cp_CellId p"
    using path_Base_last by (simp add: plain_name_def)
qed

lemma announced:
  assumes "run CellEvents_step CellEvents_start ins st" "ce_goroutine st = Receiving"
    and "keys \<in> set (received ins)" "key \<in> set keys"
  shows "\<exists>ids \<in> set (events_taken ins). path_Base key \<in> set ids"
proof (rule bexI [of _ "map path_Base keys"])
  show "path_Base key \<in> set (map path_Base keys)" using assms(4) by simp
  have "map (map path_Base) (received ins) = events_taken ins"
    using CellEvents_history [OF assms(1)] assms(2) by simp
  with assms(3) show "map path_Base keys \<in> set (events_taken ins)" by (metis image_eqI list.set_map)
qed

text \<open>
  C37: What the clients see of the cells are the entries that are held with a session. Let the
  runner made for a presence hold its key in consul with a session, as \<open>pair\<close>. \<open>CellById\<close> returns
  the presence for the cell when it reads this pair, and returns a presence only when it reads a
  pair with a session whose value decodes to it. \<open>Cells\<close> returns a set with the presence when
  the pair is listed, whatever else is listed, unless another acquired entry claims the same
  cell id, and every presence in its set comes from a listed pair with a session. When the
  key is among those reported as disappeared, the readers of the events are given one with the
  cell's id, if the id is a plain name; the lists of keys are announced one by one, in order, and
  the watcher is interrupted exactly when its channel was closed.
\<close>

theorem presence_is_visible:
  assumes "presence_api_ok P" "reads_back P p" "NewCellPresenceRunner P p retry ttl = Ret runner"
    and "session \<noteq> ''''" and pair_def: "pair = \<lparr>kv_Session = session, kv_Value = pr_payload runner\<rparr>"
  shows "(fst (kv_Get C (pr_key runner) (ext s)) = (Some pair, None) \<longrightarrow>
      eval (CellById P (NewCellPresenceClient C) (cp_CellId p)) s = Inr p) \<and>
    (\<forall>cell q. eval (CellById P (NewCellPresenceClient C) cell) s = Inr q \<longrightarrow>
      (\<exists>kv. fst (kv_Get C (CellSchemaPath P cell) (ext s)) = (Some kv, None) \<and>
         kv_Session kv \<noteq> '''' \<and> presence_FromJSON P (kv_Value kv) = Inr q)) \<and>
    (fst (kv_List C (CellSchemaRoot P) (ext s)) = (Some kvs, None) \<longrightarrow>
      (\<exists>cells. eval (Cells P (NewCellPresenceClient C)) s = Inr cells \<and>
         (pair \<in> set kvs \<and>
           (\<forall>kv \<in> set kvs. \<forall>q. acquired P kv = Some q \<and> cp_CellId q = cp_CellId p \<longrightarrow> q = p) \<longrightarrow>
          map_of cells (cp_CellId p) = Some p) \<and>
         (\<forall>cell q. map_of cells cell = Some q \<longrightarrow> cp_CellId q = cell \<and>
            (\<exists>kv \<in> set kvs. kv_Session kv \<noteq> '''' \<and> presence_FromJSON P (kv_Value kv) = Inr q)))) \<and>
    (run CellEvents_step CellEvents_start ins st \<longrightarrow>
      (map (map path_Base) (received ins) =
        events_taken ins @ (case ce_goroutine st of Sending ids \<Rightarrow> [ids] | _ \<Rightarrow> []) \<and>
       (ce_interrupted st \<longleftrightarrow> Disappeared_closed \<in> set ins)) \<and>
      (plain_name (cp_CellId p) \<and> ce_goroutine st = Receiving \<and>
         keys \<in> set (received ins) \<and> pr_key runner \<in> set keys \<longrightarrow>
       (\<exists>ids \<in> set (events_taken ins). cp_CellId p \<in> set ids)))"
proof -
  note runner = runner_key [OF assms(1-3)]
  have acq: "acquired P pair = Some p"
    using runner(2) assms(4) by (simp add: acquired_def pair_def)
  have held: "kv_Session kv \<noteq> '''' \<and> presence_FromJSON P (kv_Value kv) = Inr q"
    if "acquired P kv = Some q" for kv q
    using that by (auto simp: acquired_def split: if_splits sum.splits)
  show ?thesis
  proof (intro conjI impI allI, goal_cases)
    case 1
    then show ?case using acq by (auto simp: CellById_iff runner(1))
  next
    case (2 cell q)
    then show ?case using held by (auto simp: CellById_iff)
  next
    case 3
    have "map_of (cells_loop P kvs []) (cp_CellId p) = Some p" if "pair \<in> set kvs"
      "\<forall>kv \<in> set kvs. \<forall>q. acquired P kv = Some q \<and> cp_CellId q = cp_CellId p \<longrightarrow> q = p"
      using that acq by (intro cells_loop_lookup [OF assms(1)]) auto
    moreover have "cp_CellId q = cell \<and>
        (\<exists>kv \<in> set kvs. kv_Session kv \<noteq> '''' \<and> presence_FromJSON P (kv_Value kv) = Inr q)"
      if "map_of (cells_loop P kvs []) cell = Some q" for cell q
      using cells_loop_sound [OF assms(1) that] held by auto
    moreover have "eval (Cells P (NewCellPresenceClient C)) s = Inr (cells_loop P kvs [])"
      using 3 by (simp add: Cells_def NewCellPresenceClient_def)
    ultimately show ?case by blast
  next
    case 4
    then show ?case using CellEvents_history by blast
  next
    case 5
    then show ?case using CellEvents_history by blast
  next
    case 6
    then show ?case using announced [of ins st keys "pr_key runner"] runner(3) by simp
  qed
qed

definition example_presence :: "string \<Rightarrow> CellPresence" where
  "example_presence cellID =
     \<lparr>cp_CellId = cellID, cp_RepAddress = '''', cp_RepUrl = '''', cp_Zone = ''z1'',
      cp_Capacity = \<lparr>cc_MemoryMb = 1024, cc_DiskMb = 2048, cc_Containers = 10\<rparr>,
      cp_RootfsProviders = [], cp_PreloadedRootFSes = [], cp_PlacementTags = [],
      cp_OptionalPlacementTags = []\<rparr>"

definition example_presence_api :: presence_api where
  "example_presence_api =
     \<lparr>LockSchemaPath = (\<lambda>parts. Join (''v1/locks'' # parts) ''/''),
      presence_ToJSON = (\<lambda>p. Inr (cp_CellId p)),
      presence_FromJSON = (\<lambda>s. Inr (example_presence s)),
      presence_ConvertError = (\<lambda>e. case e of ModelsError t m \<Rightarrow> (t, m) | _ \<Rightarrow> (Error_UnknownError, '''')),
      error_text = (\<lambda>e. ''error''),
      CellSet_Add = (\<lambda>s p. AList.update (cp_CellId p) p s)\<rparr>"

definition example_consul :: "unit consul" where
  "example_consul =
     \<lparr>kv_List = (\<lambda>k w. ((Some [\<lparr>kv_Session = '''', kv_Value = ''cell-9''\<rparr>,
        \<lparr>kv_Session = ''s'', kv_Value = ''cell-1''\<rparr>], None), w)),
      kv_Get = (\<lambda>k w. ((Some \<lparr>kv_Session = ''s'', kv_Value = ''cell-1''\<rparr>, None), w))\<rparr>"

theorem presence_is_visible_witness:
  "eval (CellById example_presence_api (NewCellPresenceClient example_consul) ''cell-1'')
     example_world = Inr (example_presence ''cell-1'') \<and>
   (\<exists>cells. eval (Cells example_presence_api (NewCellPresenceClient example_consul)) example_world =
       Inr cells \<and> map_of cells ''cell-1'' = Some (example_presence ''cell-1'')) \<and>
   (\<exists>ids \<in> set (events_taken [Disappeared [''v1/locks/cell/cell-1''], Event_taken [''cell-1'']]).
     ''cell-1'' \<in> set ids)"
proof -
  let ?P = example_presence_api and ?p = "example_presence ''cell-1''"
    and ?ins = "[Disappeared [''v1/locks/cell/cell-1''], Event_taken [''cell-1'']]"
  have ok: "presence_api_ok ?P" "reads_back ?P ?p"
    by (simp_all add: presence_api_ok_def reads_back_def example_presence_api_def
        example_presence_def update_conv')
  have "NewCellPresenceRunner ?P ?p 5 15 = Ret \<lparr>pr_key = ''v1/locks/cell/cell-1'',
      pr_payload = ''cell-1'', pr_retryInterval = 5, pr_lockTTL = 15\<rparr>"
    by (simp add: NewCellPresenceRunner_def example_presence_api_def example_presence_def
        CellSchemaPath_def CellSchemaKey_def)
  note visible = presence_is_visible [OF ok this, where session = "''s''" and C = example_consul and
      s = example_world and ins = ?ins and st = CellEvents_start and
      keys = "[''v1/locks/cell/cell-1'']" and kvs = "[\<lparr>kv_Session = '''', kv_Value = ''cell-9''\<rparr>,
        \<lparr>kv_Session = ''s'', kv_Value = ''cell-1''\<rparr>]", OF _ refl]
  have "run CellEvents_step CellEvents_start ?ins CellEvents_start"
    by (simp add: run_Cons_iff run_Nil_iff CellEvents_step_simps CellEvents_start_def path_Base_def)
  then have "\<exists>ids \<in> set (events_taken ?ins). ''cell-1'' \<in> set ids"
    using visible by (simp add: example_presence_def plain_name_def received_def map_filter_simps
        CellEvents_start_def)
  moreover have "\<forall>kv \<in> set [\<lparr>kv_Session = '''', kv_Value = ''cell-9''\<rparr>,
      \<lparr>kv_Session = ''s'', kv_Value = ''cell-1''\<rparr>]. \<forall>q. acquired ?P kv = Some q \<longrightarrow> q = ?p"
    by (simp add: acquired_def example_presence_api_def)
  ultimately show ?thesis
    using visible by (auto simp: example_consul_def example_presence_def)
qed

end
