(* ===== verification/Maintain.thy ===== *)
theory Maintain
  imports Cell_Presence
begin

text \<open>
  The maintainer of \<open>maintain/maintain.go\<close>: it waits until the executor answers, then keeps
  a heartbeat process (the presence runner) alive as long as the executor answers its pings.
  The heartbeat process is an \<open>ifrit\<close> process: it becomes ready at most once, exits at most
  once, and does either at any time. The step relation has the steps of \<open>Run\<close> with its two
  callees inlined at their program points, and those of the heartbeat process.
\<close>

section \<open>The maintainer\<close>

record maintain_Config =
  mc_CellID :: string
  mc_RepAddress :: string
  mc_RepUrl :: string
  mc_Zone :: string
  mc_RetryInterval :: int
  mc_RootFSProviders :: "string list"
  mc_PreloadedRootFSes :: "string list"
  mc_PlacementTags :: "string list"
  mc_OptionalPlacementTags :: "string list"

record 'w Maintainer =
  m_Config :: maintain_Config
  m_executorClient :: "'w services"
  m_serviceClient :: "CellPresence \<Rightarrow> int \<Rightarrow> int \<Rightarrow> presence_runner outcome"
  m_lockTTL :: int

definition maintain_New ::
  "maintain_Config \<Rightarrow> 'w services \<Rightarrow> (CellPresence \<Rightarrow> int \<Rightarrow> int \<Rightarrow> presence_runner outcome) \<Rightarrow>
     int \<Rightarrow> 'w Maintainer" where
  "maintain_New config executorClient serviceClient lockTTL =
     \<lparr>m_Config = config, m_executorClient = executorClient, m_serviceClient = serviceClient,
      m_lockTTL = lockTTL\<rparr>"

definition ExecutorPollInterval :: int where
  "ExecutorPollInterval = 1000000000"

text \<open>The result is the runner; a panic of \<open>NewCellPresenceRunner\<close> ends the process.\<close>

definition createHeartbeater :: "'w Maintainer \<Rightarrow> ('w, presence_runner outcome) act" where
  "createHeartbeater m = do {
     r \<leftarrow> invoke GetTotalResources sum_reply (svc_TotalResources (m_executorClient m));
     (case r of
        Inl err \<Rightarrow> return (Fail err)
      | Inr resources \<Rightarrow>
          let cellCapacity =
                \<lparr>cc_MemoryMb = int32_of_int (er_MemoryMB resources),
                 cc_DiskMb = int32_of_int (er_DiskMB resources),
                 cc_Containers = int32_of_int (er_Containers resources)\<rparr>;
              cellPresence =
                \<lparr>cp_CellId = mc_CellID (m_Config m), cp_RepAddress = mc_RepAddress (m_Config m),
                 cp_RepUrl = mc_RepUrl (m_Config m), cp_Zone = mc_Zone (m_Config m),
                 cp_Capacity = cellCapacity,
                 cp_RootfsProviders = mc_RootFSProviders (m_Config m),
                 cp_PreloadedRootFSes = mc_PreloadedRootFSes (m_Config m),
                 cp_PlacementTags = mc_PlacementTags (m_Config m),
                 cp_OptionalPlacementTags = mc_OptionalPlacementTags (m_Config m)\<rparr>
          in return (m_serviceClient m cellPresence (mc_RetryInterval (m_Config m)) (m_lockTTL m)))
   }"

definition ping :: "'w Maintainer \<Rightarrow> ('w, go_error option) act" where
  "ping m = invoke Ping err_reply (svc_Ping (m_executorClient m))"

section \<open>The process\<close>

text \<open>
  Program points: in \<open>waitForExecutor\<close> before the ping and at its \<open>select\<close>; in
  \<open>heartbeat\<close> at the first \<open>select\<close>, waiting for the process to exit after a signal, at
  the loop's \<open>select\<close>, and at the \<open>select\<close> after a failed ping; and after the return.
\<close>

datatype maintainer_point =
    Pinging
  | WaitSleeping
  | HeartbeatStarting
  | Heartbeating
  | AwaitingExit
  | AwaitingExitAfterPing go_error
  | MaintainerReturned "go_error option"
  | MaintainerPanicked

record heartbeat_process =
  hb_runner :: presence_runner
  hb_ready :: bool
  hb_exit :: "go_error option option"
  hb_signalled :: bool

text \<open>\<open>mt_ready_var\<close>: the variable \<open>ready\<close> of \<open>Run\<close> is not nil.\<close>

record 'w maintainer_state =
  mt_point :: maintainer_point
  mt_ready_var :: bool
  mt_ready :: chan
  mt_process :: "heartbeat_process option"
  mt_world :: "'w world"

definition maintainer_start :: "'w world \<Rightarrow> 'w maintainer_state" where
  "maintainer_start w =
     \<lparr>mt_point = Pinging, mt_ready_var = True, mt_ready = Open, mt_process = None, mt_world = w\<rparr>"

text \<open>
  One round of the loop of \<open>waitForExecutor\<close>, up to its \<open>select\<close> or to the start of
  \<open>heartbeat\<close>.
\<close>

definition wait_round :: "'w Maintainer \<Rightarrow> 'w maintainer_state \<Rightarrow> 'w maintainer_state" where
  "wait_round m st =
     (let err = eval (ping m) (mt_world st);
          st = st\<lparr>mt_world := exec (ping m) (mt_world st)\<rparr>
      in if err = None then
           (let r = eval (createHeartbeater m) (mt_world st);
                st = st\<lparr>mt_world := exec (createHeartbeater m) (mt_world st)\<rparr>
            in case r of
                 Ret runner \<Rightarrow>
                   st\<lparr>mt_point := HeartbeatStarting,
                      mt_process := Some \<lparr>hb_runner = runner, hb_ready = False, hb_exit = None,
                        hb_signalled = False\<rparr>\<rparr>
               | Fail err \<Rightarrow> st\<lparr>mt_point := MaintainerReturned (Some err)\<rparr>
               | Panic \<Rightarrow> st\<lparr>mt_point := MaintainerPanicked\<rparr>)
         else st\<lparr>mt_point := WaitSleeping\<rparr>)"

text \<open>What \<open>Run\<close> does with the result of \<open>heartbeat\<close>.\<close>

definition heartbeat_returned ::
  "go_error option \<Rightarrow> 'w maintainer_state \<Rightarrow> 'w maintainer_state" where
  "heartbeat_returned err st =
     (let st = st\<lparr>mt_ready_var := False\<rparr>
      in if err = None then st\<lparr>mt_point := MaintainerReturned None\<rparr>
         else st\<lparr>mt_point := Pinging\<rparr>)"

definition signal_heartbeat :: "'w maintainer_state \<Rightarrow> 'w maintainer_state" where
  "signal_heartbeat st = st\<lparr>mt_process := map_option (hb_signalled_update (\<lambda>_. True)) (mt_process st)\<rparr>"

text \<open>A receive from \<open>sigChan\<close>, where \<open>Run\<close> is ready for one.\<close>

fun on_signal :: "maintainer_point \<Rightarrow> 'w maintainer_state \<Rightarrow> 'w maintainer_state option" where
  "on_signal WaitSleeping st =
     Some (st\<lparr>mt_point := MaintainerReturned (Some ErrSignaledWhileWaiting)\<rparr>)"
| "on_signal HeartbeatStarting st = Some ((signal_heartbeat st)\<lparr>mt_point := AwaitingExit\<rparr>)"
| "on_signal Heartbeating st = Some ((signal_heartbeat st)\<lparr>mt_point := AwaitingExit\<rparr>)"
| "on_signal (AwaitingExitAfterPing err) st = Some (heartbeat_returned None st)"
| "on_signal _ st = None"

text \<open>A receive from \<open>heartbeatExitChan\<close>.\<close>

fun on_exit ::
  "maintainer_point \<Rightarrow> go_error option \<Rightarrow> 'w maintainer_state \<Rightarrow> 'w maintainer_state option" where
  "on_exit HeartbeatStarting e st = Some (heartbeat_returned e st)"
| "on_exit Heartbeating e st = Some (heartbeat_returned e st)"
| "on_exit AwaitingExit e st = Some (heartbeat_returned None st)"
| "on_exit (AwaitingExitAfterPing err) e st = Some (heartbeat_returned (Some err) st)"
| "on_exit _ e st = None"

text \<open>The heartbeat process was seen to be ready: \<open>close(ready)\<close> unless it is nil.\<close>

definition on_ready :: "'w maintainer_state \<Rightarrow> 'w maintainer_state outcome" where
  "on_ready st =
     obind (if mt_ready_var st then close_chan (mt_ready st) else Ret (mt_ready st))
       (\<lambda>c. Ret (st\<lparr>mt_ready := c, mt_point := Heartbeating\<rparr>))"

definition on_tick :: "'w Maintainer \<Rightarrow> 'w maintainer_state \<Rightarrow> 'w maintainer_state" where
  "on_tick m st =
     (let err = eval (ping m) (mt_world st);
          st = st\<lparr>mt_world := exec (ping m) (mt_world st)\<rparr>
      in case err of
           None \<Rightarrow> st
         | Some e \<Rightarrow> (signal_heartbeat st)\<lparr>mt_point := AwaitingExitAfterPing e\<rparr>)"

datatype maintainer_input =
    WaitPing "go_error option"
  | WaitSlept
  | SignalReceived
  | SawReady
  | SawExit "go_error option"
  | TickPing "go_error option"
  | BecomesReady
  | Exits "go_error option"
  | OtherGoroutine

inductive maintainer_step ::
  "'w Maintainer \<Rightarrow> 'w maintainer_state \<Rightarrow> maintainer_input \<Rightarrow> 'w maintainer_state \<Rightarrow> bool"
  for m :: "'w Maintainer" where
  wait_ping: "mt_point st = Pinging \<Longrightarrow>
    maintainer_step m st (WaitPing (eval (ping m) (mt_world st))) (wait_round m st)"
| wait_slept: "mt_point st = WaitSleeping \<Longrightarrow>
    maintainer_step m st WaitSlept (st\<lparr>mt_point := Pinging\<rparr>)"
| received_signal: "on_signal (mt_point st) st = Some st' \<Longrightarrow>
    maintainer_step m st SignalReceived st'"
| saw_ready: "mt_point st = HeartbeatStarting \<Longrightarrow> mt_process st = Some p \<Longrightarrow> hb_ready p \<Longrightarrow>
    on_ready st = Ret st' \<Longrightarrow> maintainer_step m st SawReady st'"
| saw_exit: "mt_process st = Some p \<Longrightarrow> hb_exit p = Some e \<Longrightarrow>
    on_exit (mt_point st) e st = Some st' \<Longrightarrow> maintainer_step m st (SawExit e) st'"
| tick_ping: "mt_point st = Heartbeating \<Longrightarrow>
    maintainer_step m st (TickPing (eval (ping m) (mt_world st))) (on_tick m st)"
| becomes_ready: "mt_process st = Some p \<Longrightarrow> hb_exit p = None \<Longrightarrow>
    maintainer_step m st BecomesReady (st\<lparr>mt_process := Some (p\<lparr>hb_ready := True\<rparr>)\<rparr>)"
| exits: "mt_process st = Some p \<Longrightarrow> hb_exit p = None \<Longrightarrow>
    maintainer_step m st (Exits e) (st\<lparr>mt_process := Some (p\<lparr>hb_exit := Some e\<rparr>)\<rparr>)"
| other_goroutine: "others_step (mt_world st) w \<Longrightarrow>
    maintainer_step m st OtherGoroutine (st\<lparr>mt_world := w\<rparr>)"

inductive_cases maintainer_stepE: "maintainer_step m st i st'"

inductive_simps maintainer_step_simps:
  "maintainer_step m st (WaitPing r) st'" "maintainer_step m st SawReady st'"
  "maintainer_step m st (SawExit e) st'" "maintainer_step m st BecomesReady st'"
  "maintainer_step m st (Exits e) st'" "maintainer_step m st (TickPing r) st'"

fun_cases on_signalE: "on_signal p st = Some st'"

fun_cases on_exitE: "on_exit p e st = Some st'"

section \<open>Invariant\<close>

definition dead :: "heartbeat_process option \<Rightarrow> bool" where
  "dead po = (case po of None \<Rightarrow> True | Some p \<Rightarrow> hb_exit p \<noteq> None)"

fun point_inv :: "maintainer_point \<Rightarrow> bool \<Rightarrow> chan \<Rightarrow> heartbeat_process option \<Rightarrow> bool" where
  "point_inv Pinging rv c po = (dead po \<and> (rv \<longrightarrow> c = Open))"
| "point_inv WaitSleeping rv c po = (dead po \<and> (rv \<longrightarrow> c = Open))"
| "point_inv HeartbeatStarting rv c po = (po \<noteq> None \<and> (rv \<longrightarrow> c = Open))"
| "point_inv Heartbeating rv c po = (po \<noteq> None \<and> (rv \<longrightarrow> c = Closed))"
| "point_inv (AwaitingExitAfterPing e) rv c po = (po \<noteq> None \<and> (rv \<longrightarrow> c = Closed))"
| "point_inv AwaitingExit rv c po = (po \<noteq> None)"
| "point_inv (MaintainerReturned r) rv c po = True"
| "point_inv MaintainerPanicked rv c po = True"

definition maintainer_inv :: "'w maintainer_state \<Rightarrow> bool" where
  "maintainer_inv st = point_inv (mt_point st) (mt_ready_var st) (mt_ready st) (mt_process st)"

lemma dead_simps [simp]: "dead None" "dead (Some p) \<longleftrightarrow> hb_exit p \<noteq> None"
  by (simp_all add: dead_def)

lemma point_inv_process:
  assumes "point_inv pt rv c (Some p)" "hb_exit p = None"
  shows "point_inv pt rv c (Some (p\<lparr>hb_ready := b\<rparr>))" "point_inv pt rv c (Some (p\<lparr>hb_exit := e\<rparr>))"
  using assms by (cases pt; simp)+

lemma heartbeat_returned_inv:
  "dead (mt_process st) \<Longrightarrow> maintainer_inv (heartbeat_returned err st)"
  by (simp add: maintainer_inv_def heartbeat_returned_def Let_def)

lemma wait_round_inv:
  "mt_point st = Pinging \<Longrightarrow> maintainer_inv st \<Longrightarrow> maintainer_inv (wait_round m st)"
  by (simp add: maintainer_inv_def wait_round_def Let_def split: outcome.split)

lemma on_tick_inv: "mt_point st = Heartbeating \<Longrightarrow> maintainer_inv st \<Longrightarrow> maintainer_inv (on_tick m st)"
  by (auto simp: maintainer_inv_def on_tick_def signal_heartbeat_def Let_def split: option.split)

lemma on_ready_inv:
  "mt_point st = HeartbeatStarting \<Longrightarrow> on_ready st = Ret st' \<Longrightarrow> maintainer_inv st \<Longrightarrow> maintainer_inv st'"
  by (auto simp: maintainer_inv_def on_ready_def obind_eq_Ret split: if_splits)

lemma on_signal_inv:
  "on_signal (mt_point st) st = Some st' \<Longrightarrow> maintainer_inv st \<Longrightarrow> maintainer_inv st'"
  by (cases "mt_point st")
    (auto simp: maintainer_inv_def signal_heartbeat_def heartbeat_returned_def Let_def)

lemma on_exit_inv:
  "on_exit (mt_point st) e st = Some st' \<Longrightarrow> dead (mt_process st) \<Longrightarrow> maintainer_inv st'"
  by (cases "mt_point st") (auto intro: heartbeat_returned_inv)

lemma maintainer_step_inv: "maintainer_step m st i st' \<Longrightarrow> maintainer_inv st \<Longrightarrow> maintainer_inv st'"
proof (induction rule: maintainer_step.induct)
  case (saw_exit st p e st')
  then show ?case using on_exit_inv [of st e st'] by simp
next
  case (becomes_ready st p)
  then show ?case by (simp add: maintainer_inv_def point_inv_process)
next
  case (exits st p e)
  then show ?case by (simp add: maintainer_inv_def point_inv_process)
qed (auto intro: wait_round_inv on_signal_inv on_ready_inv on_tick_inv,
    simp_all add: maintainer_inv_def)

lemma maintainer_start_inv: "maintainer_inv (maintainer_start w)"
  by (simp add: maintainer_inv_def maintainer_start_def)

lemma maintainer_run_inv:
  "run (maintainer_step m) st ins st' \<Longrightarrow> maintainer_inv st \<Longrightarrow>
     run (\<lambda>p i q. maintainer_step m p i q \<and> maintainer_inv p \<and> maintainer_inv q) st ins st'"
  by (erule run_restrict) (auto intro: maintainer_step_inv)

section \<open>Readiness\<close>

text \<open>The first heartbeat is over: it was seen ready, or it exited.\<close>

definition attempt_over :: "maintainer_input \<Rightarrow> bool" where
  "attempt_over i = (case i of SawReady \<Rightarrow> True | SawExit _ \<Rightarrow> True | _ \<Rightarrow> False)"

lemma ready_kept [simp]:
  "mt_ready (wait_round m st) = mt_ready st" "mt_ready_var (wait_round m st) = mt_ready_var st"
  "mt_ready (on_tick m st) = mt_ready st" "mt_ready_var (on_tick m st) = mt_ready_var st"
  "mt_ready (heartbeat_returned e st) = mt_ready st" "\<not> mt_ready_var (heartbeat_returned e st)"
  by (simp_all add: wait_round_def on_tick_def signal_heartbeat_def heartbeat_returned_def Let_def
      split: outcome.split option.split)

lemma on_signal_ready:
  assumes "on_signal (mt_point st) st = Some st'" "maintainer_inv st"
  shows "mt_ready st' = mt_ready st" "mt_ready st = Open \<Longrightarrow> mt_ready_var st' = mt_ready_var st"
  using assms
  by (cases "mt_point st"; auto simp: signal_heartbeat_def maintainer_inv_def)+

lemma on_exit_ready:
  "on_exit pt e st = Some st' \<Longrightarrow> mt_ready st' = mt_ready st \<and> \<not> mt_ready_var st'"
  by (cases pt) auto

lemma on_ready_ready:
  "on_ready st = Ret st' \<Longrightarrow> mt_ready_var st' = mt_ready_var st \<and>
     (if mt_ready_var st then mt_ready st = Open \<and> mt_ready st' = Closed
      else mt_ready st' = mt_ready st)"
  by (auto simp: on_ready_def obind_eq_Ret split: if_splits)

lemma ready_step:
  assumes "maintainer_step m st i st'" "maintainer_inv st"
  shows "mt_ready st' = Closed \<longleftrightarrow> mt_ready st = Closed \<or> mt_ready_var st \<and> i = SawReady"
    and "\<not> attempt_over i \<or> i = SawReady \<Longrightarrow> mt_ready st = Open \<Longrightarrow> mt_ready_var st' = mt_ready_var st"
    and "attempt_over i \<Longrightarrow> i \<noteq> SawReady \<Longrightarrow> \<not> mt_ready_var st'"
  using assms
  by (induction rule: maintainer_step.induct;
      auto simp: attempt_over_def on_signal_ready dest: on_exit_ready on_ready_ready split: if_splits)+

text \<open>
  C38: The maintainer becomes ready only by its first heartbeat: its ready channel is closed if and
  only if the first event that it sees of a heartbeat process, ready or exit, is that it is
  ready. If the first heartbeat exits before it is ready, the channel stays open forever, also
  when a later heartbeat is ready and the cell's presence is maintained.
\<close>

theorem ready_only_by_first_heartbeat:
  assumes "run (maintainer_step m) (maintainer_start w) ins st"
  shows "mt_ready st = Closed \<longleftrightarrow> List.find attempt_over ins = Some SawReady"
proof -
  have "mt_ready st' = Closed \<longleftrightarrow>
      mt_ready st = Closed \<or> (mt_ready_var st \<and> List.find attempt_over ins = Some SawReady)"
    if "run (maintainer_step m) st ins st'" "maintainer_inv st" for st ins st'
    using that
  proof (induction rule: run.induct)
    case (run_Cons st i st1 ins st')
    note step = ready_step [OF run_Cons.hyps(1) run_Cons.prems]
    have "maintainer_inv st1" by (rule maintainer_step_inv [OF run_Cons.hyps(1) run_Cons.prems])
    with run_Cons.IH step show ?case
      by (cases "mt_ready st"; cases "attempt_over i"; cases "i = SawReady")
        (auto simp: attempt_over_def)
  qed simp
  from this [OF assms maintainer_start_inv] show ?thesis by (simp add: maintainer_start_def)
qed

definition example_maintainer :: "unit Maintainer" where
  "example_maintainer =
     maintain_New
       \<lparr>mc_CellID = ''cell-1'', mc_RepAddress = '''', mc_RepUrl = '''', mc_Zone = ''z1'',
        mc_RetryInterval = 5, mc_RootFSProviders = [], mc_PreloadedRootFSes = [],
        mc_PlacementTags = [], mc_OptionalPlacementTags = []\<rparr>
       example_services (NewCellPresenceRunner example_presence_api) 15"

lemma example_ping: "eval (ping example_maintainer) w = None"
  by (simp add: ping_def example_maintainer_def maintain_New_def example_services_def)

lemma example_createHeartbeater: "\<exists>r. eval (createHeartbeater example_maintainer) w = Ret r"
  by (simp add: createHeartbeater_def example_maintainer_def maintain_New_def example_services_def
      NewCellPresenceRunner_def example_presence_api_def)

lemma example_wait_round:
  "mt_point (wait_round example_maintainer st) = HeartbeatStarting \<and>
   (\<exists>p. mt_process (wait_round example_maintainer st) = Some p \<and> hb_exit p = None)"
proof -
  obtain r where "eval (createHeartbeater example_maintainer)
      (exec (ping example_maintainer) (mt_world st)) = Ret r"
    using example_createHeartbeater by blast
  then show ?thesis by (simp add: wait_round_def example_ping)
qed

lemma example_wait_step:
  "mt_point st = Pinging \<Longrightarrow>
     maintainer_step example_maintainer st (WaitPing None) (wait_round example_maintainer st)"
  using wait_ping [of st example_maintainer] by (simp add: example_ping)

theorem ready_only_by_first_heartbeat_witness:
  "\<exists>st. run (maintainer_step example_maintainer) (maintainer_start example_world)
      [WaitPing None, Exits (Some json_error), SawExit (Some json_error), WaitPing None,
       BecomesReady, SawReady] st \<and>
    mt_point st = Heartbeating \<and> mt_ready st = Open"
proof -
  let ?s1 = "wait_round example_maintainer (maintainer_start example_world)"
  obtain p where p: "mt_process ?s1 = Some p" "hb_exit p = None" using example_wait_round by blast
  let ?s2 = "?s1\<lparr>mt_process := Some (p\<lparr>hb_exit := Some (Some json_error)\<rparr>)\<rparr>"
  let ?s3 = "heartbeat_returned (Some json_error) ?s2"
  let ?s4 = "wait_round example_maintainer ?s3"
  obtain q where q: "mt_process ?s4 = Some q" "hb_exit q = None" using example_wait_round by blast
  let ?s5 = "?s4\<lparr>mt_process := Some (q\<lparr>hb_ready := True\<rparr>)\<rparr>"
  let ?s6 = "?s5\<lparr>mt_point := Heartbeating\<rparr>"
  have "run (maintainer_step example_maintainer) (maintainer_start example_world)
      [WaitPing None, Exits (Some json_error), SawExit (Some json_error), WaitPing None,
       BecomesReady, SawReady] ?s6"
  proof (intro run_Cons)
    show "maintainer_step example_maintainer (maintainer_start example_world) (WaitPing None) ?s1"
      by (rule example_wait_step) (simp add: maintainer_start_def)
    show "maintainer_step example_maintainer ?s1 (Exits (Some json_error)) ?s2"
      by (rule exits [OF p])
    show "maintainer_step example_maintainer ?s2 (SawExit (Some json_error)) ?s3"
      by (rule saw_exit [where p = "p\<lparr>hb_exit := Some (Some json_error)\<rparr>"])
        (simp_all add: example_wait_round)
    show "maintainer_step example_maintainer ?s3 (WaitPing None) ?s4"
      by (rule example_wait_step) (simp add: heartbeat_returned_def)
    show "maintainer_step example_maintainer ?s4 BecomesReady ?s5"
      by (rule becomes_ready [OF q])
    show "maintainer_step example_maintainer ?s5 SawReady ?s6"
      by (rule saw_ready [where p = "q\<lparr>hb_ready := True\<rparr>"]) (simp_all add: example_wait_round on_ready_def)
  qed simp
  then show ?thesis
    using ready_only_by_first_heartbeat [of example_maintainer example_world]
    by (fastforce simp: attempt_over_def)
qed

section \<open>The heartbeat process and the result\<close>

lemma signal_or_exit_step:
  assumes "maintainer_step m p i q" "maintainer_inv p"
    and "mt_point p \<noteq> AwaitingExit" "mt_point p \<noteq> MaintainerReturned None"
    and "mt_point q = AwaitingExit \<or> mt_point q = MaintainerReturned None"
  shows "i = SignalReceived \<or> i = SawExit None"
  using assms
proof (induction rule: maintainer_step.induct)
  case (saw_exit st p e st')
  then show ?case by (cases "mt_point st") (auto simp: heartbeat_returned_def Let_def split: if_splits)
qed (auto simp: wait_round_def on_tick_def signal_heartbeat_def on_ready_def obind_eq_Ret Let_def
    split: outcome.splits option.splits if_splits)

lemma NewCellPresenceRunner_not_Fail: "NewCellPresenceRunner P p r l \<noteq> Fail err"
  by (simp add: NewCellPresenceRunner_def split: sum.split)

lemma createHeartbeater_fails:
  "eval (createHeartbeater m) s = Fail err \<Longrightarrow> m_serviceClient m = NewCellPresenceRunner P \<Longrightarrow>
     (GetTotalResources, Err err) \<in> set (trace (exec (createHeartbeater m) s))"
  by (auto simp: createHeartbeater_def NewCellPresenceRunner_not_Fail split: sum.splits)

lemma maintainer_trace_grows:
  assumes "maintainer_step m p i q"
  shows "\<exists>es. trace (mt_world q) = trace (mt_world p) @ es"
  using assms
proof (induction rule: maintainer_step.induct)
  case (received_signal st st')
  then show ?case
    by (cases "mt_point st") (auto simp: signal_heartbeat_def heartbeat_returned_def Let_def)
next
  case (saw_exit st p e st')
  then show ?case by (cases "mt_point st") (auto simp: heartbeat_returned_def Let_def)
next
  case (other_goroutine st w)
  then show ?case by (simp add: others_step_def)
qed (auto simp: wait_round_def on_tick_def signal_heartbeat_def on_ready_def obind_eq_Ret Let_def
    ping_def createHeartbeater_def split: outcome.split option.split sum.split)

lemma failed_step:
  assumes "maintainer_step m p i q" "m_serviceClient m = NewCellPresenceRunner P"
    and "mt_point p \<noteq> MaintainerReturned (Some err)" "mt_point q = MaintainerReturned (Some err)"
  shows "i = SignalReceived \<and> err = ErrSignaledWhileWaiting \<or>
    (GetTotalResources, Err err) \<in> set (trace (mt_world q))"
  using assms
proof (induction rule: maintainer_step.induct)
  case (wait_ping st)
  then show ?case
    using createHeartbeater_fails [of m "exec (ping m) (mt_world st)" err P]
    by (auto simp: wait_round_def Let_def split: outcome.splits if_splits)
next
  case (received_signal st st')
  then show ?case
    by (cases "mt_point st") (auto simp: signal_heartbeat_def heartbeat_returned_def Let_def)
next
  case (saw_exit st p e st')
  then show ?case by (cases "mt_point st") (auto simp: heartbeat_returned_def Let_def split: if_splits)
qed (auto simp: on_tick_def signal_heartbeat_def on_ready_def obind_eq_Ret Let_def
    split: option.splits if_splits)

lemma maintainer_success_seen:
  assumes "run (maintainer_step m) (maintainer_start w) ins st" "mt_point st = MaintainerReturned None"
  shows "SignalReceived \<in> set ins \<or> SawExit None \<in> set ins"
proof -
  have "list_ex (\<lambda>i. i = SignalReceived \<or> i = SawExit None) ins"
    by (rule run_enters [OF maintainer_run_inv [OF assms(1) maintainer_start_inv],
          where J = "\<lambda>st. mt_point st = AwaitingExit \<or> mt_point st = MaintainerReturned None"])
      (use assms(2) signal_or_exit_step in \<open>auto simp: maintainer_start_def\<close>)
  then show ?thesis by (auto simp: list_ex_iff)
qed

lemma maintainer_failure_seen:
  assumes "run (maintainer_step m) (maintainer_start w) ins st"
    and "m_serviceClient m = NewCellPresenceRunner P"
    and "mt_point st = MaintainerReturned (Some err)"
  shows "err = ErrSignaledWhileWaiting \<and> SignalReceived \<in> set ins \<or>
    (GetTotalResources, Err err) \<in> set (trace (mt_world st))"
proof (rule ccontr)
  let ?J = "\<lambda>st. mt_point st = MaintainerReturned (Some err) \<and>
    (GetTotalResources, Err err) \<notin> set (trace (mt_world st))"
  assume neg: "\<not> ?thesis"
  have "list_ex (\<lambda>i. i = SignalReceived \<and> err = ErrSignaledWhileWaiting) ins"
  proof (rule run_enters [OF assms(1), where J = ?J])
    fix p i q
    assume step: "maintainer_step m p i q" "\<not> ?J p" "?J q"
    then have "mt_point p \<noteq> MaintainerReturned (Some err)"
      using maintainer_trace_grows [OF step(1)] by auto
    from failed_step [OF step(1) assms(2) this] step(3)
    show "i = SignalReceived \<and> err = ErrSignaledWhileWaiting" by blast
  qed (use assms(3) neg in \<open>auto simp: maintainer_start_def\<close>)
  with neg show False by (auto simp: list_ex_iff)
qed

text \<open>
  C39: The maintainer never runs two heartbeats at once, and it does not return when the executor or
  the heartbeat fails: it starts a heartbeat only when the previous one has exited. When it
  returns without an error it has received a signal or the heartbeat exited without one; the
  only other results are that it was signalled while it waited for the executor, and an error
  of asking the executor for its resources. Closing the ready channel never panics.
\<close>

theorem maintainer_restarts_until_signalled:
  fixes m :: "'w Maintainer"
  assumes "m = maintain_New config S (NewCellPresenceRunner P) ttl"
    and "run (maintainer_step m) (maintainer_start w) ins st"
  shows "(mt_point st = Pinging \<or> mt_point st = WaitSleeping \<longrightarrow> dead (mt_process st)) \<and>
    (case mt_point st of
       MaintainerReturned None \<Rightarrow> SignalReceived \<in> set ins \<or> SawExit None \<in> set ins
     | MaintainerReturned (Some err) \<Rightarrow>
         err = ErrSignaledWhileWaiting \<and> SignalReceived \<in> set ins \<or>
         (GetTotalResources, Err err) \<in> set (trace (mt_world st))
     | _ \<Rightarrow> True) \<and>
    (mt_point st = HeartbeatStarting \<longrightarrow> (\<exists>st'. on_ready st = Ret st'))"
proof (intro conjI impI)
  have inv: "maintainer_inv st"
    using run_invariant [OF assms(2), of maintainer_inv] maintainer_start_inv maintainer_step_inv by blast
  show "dead (mt_process st)" if "mt_point st = Pinging \<or> mt_point st = WaitSleeping"
    using inv that by (auto simp: maintainer_inv_def)
  show "\<exists>st'. on_ready st = Ret st'" if "mt_point st = HeartbeatStarting"
    using inv that by (auto simp: maintainer_inv_def on_ready_def)
  have "m_serviceClient m = NewCellPresenceRunner P" by (simp add: assms(1) maintain_New_def)
  then show "case mt_point st of
       MaintainerReturned None \<Rightarrow> SignalReceived \<in> set ins \<or> SawExit None \<in> set ins
     | MaintainerReturned (Some err) \<Rightarrow>
         err = ErrSignaledWhileWaiting \<and> SignalReceived \<in> set ins \<or>
         (GetTotalResources, Err err) \<in> set (trace (mt_world st))
     | _ \<Rightarrow> True"
    using maintainer_success_seen [OF assms(2)] maintainer_failure_seen [OF assms(2)]
    by (auto split: maintainer_point.split option.split)
qed

theorem maintainer_restarts_until_signalled_witness:
  "\<exists>st. run (maintainer_step example_maintainer) (maintainer_start example_world)
      [WaitPing None, SignalReceived, Exits None, SawExit None] st \<and>
    mt_point st = MaintainerReturned None"
proof -
  let ?s1 = "wait_round example_maintainer (maintainer_start example_world)"
  obtain p where p: "mt_process ?s1 = Some p" "hb_exit p = None" using example_wait_round by blast
  let ?s2 = "(signal_heartbeat ?s1)\<lparr>mt_point := AwaitingExit\<rparr>"
  let ?p2 = "p\<lparr>hb_signalled := True\<rparr>" and ?p3 = "p\<lparr>hb_signalled := True, hb_exit := Some None\<rparr>"
  let ?s3 = "?s2\<lparr>mt_process := Some ?p3\<rparr>"
  let ?s4 = "heartbeat_returned None ?s3"
  have run: "run (maintainer_step example_maintainer) (maintainer_start example_world)
      [WaitPing None, SignalReceived, Exits None, SawExit None] ?s4"
  proof (intro run_Cons)
    show "maintainer_step example_maintainer (maintainer_start example_world) (WaitPing None) ?s1"
      by (rule example_wait_step) (simp add: maintainer_start_def)
    show "maintainer_step example_maintainer ?s1 SignalReceived ?s2"
      by (rule received_signal) (simp add: example_wait_round)
    show "maintainer_step example_maintainer ?s2 (Exits None) ?s3"
      using exits [of ?s2 ?p2 example_maintainer None] p by (simp add: signal_heartbeat_def)
    show "maintainer_step example_maintainer ?s3 (SawExit None) ?s4"
      by (rule saw_exit [where p = ?p3]) simp_all
  qed simp
  have "mt_point ?s4 = MaintainerReturned None" by (simp add: heartbeat_returned_def)
  with run maintainer_restarts_until_signalled [OF example_maintainer_def run] show ?thesis by blast
qed

end
