(* ===== verification/Rep_Main.thy ===== *)
theory Rep_Main
  imports Rep_Client Rep_Config Harmonizer Evacuation Maintain
begin

text \<open>
  The program \<open>cmd/rep/main.go\<close>: reading the configuration, building the servers, the
  presence and the loops, and listing them as the members of the process group. What other
  packages build is a field of a record \<open>main_api\<close>. \<open>logger.Fatal\<close> panics, which is the
  outcome \<open>Panic\<close>; \<open>os.Exit(1)\<close> is the outcome \<open>Fail\<close>. \<open>main\<close> is split at the process
  group: the definition \<open>main\<close> builds the list of members, and \<open>main_run\<close> runs them and ends
  the process. Running them is the business of \<open>grouper\<close>, so it is an argument there.
\<close>

section \<open>Foreign packages and the standard library\<close>

record ('e, 'c, 'r, 'w) main_api =
  config_DebugAddress :: "'e \<Rightarrow> string"
  config_LocketAddress :: "'e \<Rightarrow> string"
  ExecutorConfig_Validate :: "'e \<Rightarrow> bool"
  executorinit_Initialize :: "'e \<Rightarrow> string \<Rightarrow> go_error + 'w services \<times> string list"
  NewIngressClient :: "'e \<Rightarrow> go_error + 'w services"
  config_UseV2API :: "'e \<Rightarrow> bool"
  dropsonde_Initialize :: "string \<Rightarrow> string \<Rightarrow> go_error option"
  bbs_NewClient :: "string \<Rightarrow> 'w services"
  bbs_NewSecureClient ::
    "string \<Rightarrow> string \<Rightarrow> string \<Rightarrow> string \<Rightarrow> go_int \<Rightarrow> go_int \<Rightarrow> go_error + 'w services"
  consuladapter_Parse :: "string \<Rightarrow> go_error + string"
  NewTLSClientFromUrl :: "string \<Rightarrow> string \<Rightarrow> string \<Rightarrow> string \<Rightarrow> go_error + 'w consul"
  NewClientFromUrl :: "string \<Rightarrow> go_error + 'w consul"
  rata_NewRouter :: "Route list \<Rightarrow> 'w Handlers \<Rightarrow> go_error + 'r"
  localip_LocalIP :: "go_error + string"
  server_NewTLSConfig :: "string \<Rightarrow> string \<Rightarrow> string \<Rightarrow> go_error + 'c tls_Config"
  locket_NewClient :: "'e \<Rightarrow> go_error option"
  CellPresence_Marshal :: "CellPresence \<Rightarrow> go_error + string"
  locket_PRESENCE :: int
  locket_PresenceType :: string
  net_LookupPort :: "string \<Rightarrow> go_error + go_int"

definition or_fatal :: "go_error + 'a \<Rightarrow> 'a outcome" where
  "or_fatal r = (case r of Inl err \<Rightarrow> Panic | Inr x \<Rightarrow> Ret x)"

definition or_exit :: "go_error + 'a \<Rightarrow> 'a outcome" where
  "or_exit r = (case r of Inl err \<Rightarrow> Fail err | Inr x \<Rightarrow> Ret x)"

text \<open>\<open>net.SplitHostPort\<close>; only the port is used.\<close>

definition SplitHostPort :: "string \<Rightarrow> go_error + string" where
  "SplitHostPort hostport =
     (case cut_last (CHR '':'') hostport of
        None \<Rightarrow> Inl (ForeignError ''missing port in address'')
      | Some (before, port) \<Rightarrow>
          if HasPrefix hostport ''['' then
            (case cut (CHR '']'') hostport of
               None \<Rightarrow> Inl (ForeignError ''missing bracket in address'')
             | Some (host, rest) \<Rightarrow>
                 if rest \<noteq> CHR '':'' # port then
                   Inl (ForeignError (if HasPrefix rest '':'' then ''too many colons in address''
                                      else ''missing port in address''))
                 else if CHR ''['' \<in> set (tl hostport) \<or> CHR '']'' \<in> set rest then
                   Inl (ForeignError ''unexpected bracket in address'')
                 else Inr port)
          else if CHR '':'' \<in> set before then
            Inl (ForeignError ''too many colons in address'')
          else if CHR ''['' \<in> set hostport \<or> CHR '']'' \<in> set hostport then
            Inl (ForeignError ''unexpected bracket in address'')
          else Inr port)"

text \<open>
  \<open>uint64(d.Seconds())\<close>. The float64 sum of the seconds and the rest has the floor below,
  for durations from zero up to \<open>2\<^sup>2\<^sup>3\<close> seconds (97 days).
\<close>

definition duration_Seconds :: "int \<Rightarrow> uint64" where
  "duration_Seconds d = word_of_int (d div time_Second)"

text \<open>Integer division truncates towards zero.\<close>

definition go_div :: "int \<Rightarrow> int \<Rightarrow> int" where
  "go_div a b = sgn a * sgn b * (\<bar>a\<bar> div \<bar>b\<bar>)"

section \<open>Names and addresses\<close>

definition repHost :: "string \<Rightarrow> string" where
  "repHost cellID = ReplaceAll cellID (CHR ''_'') (CHR ''-'')"

definition repBaseHostName :: "string \<Rightarrow> string" where
  "repBaseHostName advertiseDomain = hd (Split advertiseDomain (CHR ''.''))"

definition repURL :: "string \<Rightarrow> string \<Rightarrow> string" where
  "repURL cellID advertiseDomain = repHost cellID @ ''.'' @ advertiseDomain"

text \<open>\<open>strings.Split(addr, ":")[1]\<close>\<close>

definition port_of :: "string \<Rightarrow> string outcome" where
  "port_of addr = (case Split addr (CHR '':'') of _ # port # _ \<Rightarrow> Ret port | _ \<Rightarrow> Panic)"

section \<open>Servers\<close>

definition getHandlers ::
  "wire \<Rightarrow> ('w Handlers \<Rightarrow> 'w Handlers) \<Rightarrow> 'w AuctionCellClient \<Rightarrow> 'w services \<Rightarrow> bool \<Rightarrow> bool \<Rightarrow>
     'w Handlers" where
  "getHandlers W ord auctionCellRep executorClient enableLegacyAPIServer isSecureServer =
     (if enableLegacyAPIServer \<and> \<not> isSecureServer then
        handlers_NewLegacy W ord auctionCellRep executorClient
      else handlers_New W auctionCellRep executorClient isSecureServer)"

definition getRoutes :: "bool \<Rightarrow> bool \<Rightarrow> Route list" where
  "getRoutes enableLegacyAPIServer isSecureServer =
     (if enableLegacyAPIServer \<and> \<not> isSecureServer then Routes else NewRoutes isSecureServer)"

record ('c, 'r) http_server =
  hs_address :: string
  hs_handler :: 'r
  hs_tlsConfig :: "'c tls_Config option"

text \<open>Iteration orders of the maps that are ranged over.\<close>

record 'w main_orders =
  ord_stacks :: "StackMap \<Rightarrow> StackMap"
  ord_providers :: "StackMap \<Rightarrow> StackMap"
  ord_handlers :: "'w Handlers \<Rightarrow> 'w Handlers"

definition server_rep ::
  "ext_api \<Rightarrow> 'w main_orders \<Rightarrow> 'w services \<Rightarrow> 'e RepConfig \<Rightarrow> 'w AuctionCellRep" where
  "server_rep M ords executorClient repConfig =
     auctioncellrep_New M (ord_providers ords) (CellID repConfig) (PreloadedRootFS repConfig)
       (SupportedProviders repConfig) (cfg_Zone repConfig) (GenerateGuid executorClient)
       executorClient (cfg_PlacementTags repConfig) (cfg_OptionalPlacementTags repConfig)"

definition initializeServer ::
  "('e, 'c, 'r, 'w) main_api \<Rightarrow> ext_api \<Rightarrow> wire \<Rightarrow> 'w main_orders \<Rightarrow> 'w services \<Rightarrow>
     'e RepConfig \<Rightarrow> bool \<Rightarrow> (('c, 'r) http_server \<times> string) outcome" where
  "initializeServer A M W ords executorClient repConfig secure =
     (let auctionCellRep = server_rep M ords executorClient repConfig;
          handlers = getHandlers W (ord_handlers ords) (auction_client M auctionCellRep)
            executorClient (EnableLegacyAPIServer repConfig) secure;
          routes = getRoutes (EnableLegacyAPIServer repConfig) secure
      in obind (or_fatal (rata_NewRouter A routes handlers)) (\<lambda>router.
         obind (or_fatal (localip_LocalIP A)) (\<lambda>ip.
         let listenAddress = (if secure then ListenAddrSecurable repConfig else ListenAddr repConfig)
         in obind (port_of listenAddress) (\<lambda>port.
            if secure \<and> cfg_RequireTLS repConfig then
              obind (or_fatal (server_NewTLSConfig A (ServerCertFile repConfig)
                  (ServerKeyFile repConfig) (cfg_CaCertFile repConfig))) (\<lambda>tlsConfig.
              Ret (\<lparr>hs_address = listenAddress, hs_handler = router, hs_tlsConfig = Some tlsConfig\<rparr>,
                   ''https://'' @ ip @ '':'' @ port))
            else
              Ret (\<lparr>hs_address = listenAddress, hs_handler = router, hs_tlsConfig = None\<rparr>,
                   ''http://'' @ ip @ '':'' @ port)))))"

section \<open>Presence\<close>

record locket_Resource =
  lr_Key :: string
  lr_Owner :: string
  lr_Value :: string
  lr_TypeCode :: int
  lr_Type :: string

record locket_presence =
  lp_resource :: locket_Resource
  lp_ttlInSeconds :: int
  lp_retryInterval :: int

datatype 'w presence_member = LocketPresence locket_presence | MaintainerPresence "'w Maintainer"

definition rep_url :: "'e RepConfig \<Rightarrow> bool \<Rightarrow> string outcome" where
  "rep_url repConfig secure =
     obind (port_of (ListenAddrSecurable repConfig)) (\<lambda>port.
       Ret ((if secure \<and> cfg_RequireTLS repConfig then ''https://'' else ''http://'') @
            repURL (CellID repConfig) (AdvertiseDomain repConfig) @ '':'' @ port))"

definition presence_of ::
  "'e RepConfig \<Rightarrow> string \<Rightarrow> string \<Rightarrow> string list \<Rightarrow> ExecutorResources \<Rightarrow> CellPresence" where
  "presence_of repConfig address repUrl preloadedRootFSes resources =
     \<lparr>cp_CellId = CellID repConfig, cp_RepAddress = address, cp_RepUrl = repUrl,
      cp_Zone = cfg_Zone repConfig,
      cp_Capacity = \<lparr>cc_MemoryMb = int32_of_int (er_MemoryMB resources),
        cc_DiskMb = int32_of_int (er_DiskMB resources),
        cc_Containers = int32_of_int (er_Containers resources)\<rparr>,
      cp_RootfsProviders = SupportedProviders repConfig,
      cp_PreloadedRootFSes = preloadedRootFSes,
      cp_PlacementTags = cfg_PlacementTags repConfig,
      cp_OptionalPlacementTags = cfg_OptionalPlacementTags repConfig\<rparr>"

definition initializeCellPresence ::
  "('e, 'c, 'r, 'w) main_api \<Rightarrow> 'e config_api \<Rightarrow> string \<Rightarrow>
     (CellPresence \<Rightarrow> int \<Rightarrow> int \<Rightarrow> presence_runner outcome) \<Rightarrow> 'w services \<Rightarrow> 'e RepConfig \<Rightarrow>
     string list \<Rightarrow> bool \<Rightarrow> ('w, 'w presence_member outcome) act" where
  "initializeCellPresence A D address serviceClient executorClient repConfig preloadedRootFSes secure =
     (case rep_url repConfig secure of
        Ret repUrl \<Rightarrow>
          if config_LocketAddress A (cfg_embedded repConfig) \<noteq> '''' then
            (case locket_NewClient A (cfg_embedded repConfig) of
               Some err \<Rightarrow> return Panic
             | None \<Rightarrow> do {
                 g \<leftarrow> draw (svc_NewV4 executorClient);
                 (case g of
                    Inl err \<Rightarrow> return Panic
                  | Inr guid \<Rightarrow> do {
                      r \<leftarrow> invoke GetTotalResources sum_reply (svc_TotalResources executorClient);
                      (case r of
                         Inl err \<Rightarrow> return Panic
                       | Inr resources \<Rightarrow>
                           return (obind (or_fatal (CellPresence_Marshal A
                             (presence_of repConfig address repUrl preloadedRootFSes resources)))
                             (\<lambda>payload. Ret (LocketPresence
                               \<lparr>lp_resource =
                                  \<lparr>lr_Key = CellID repConfig, lr_Owner = guid, lr_Value = payload,
                                   lr_TypeCode = locket_PRESENCE A,
                                   lr_Type = locket_PresenceType A\<rparr>,
                                lp_ttlInSeconds = go_div (LockTTL repConfig) time_Second,
                                lp_retryInterval = locket_RetryInterval D\<rparr>))))
                    })
               })
          else
            (let config =
               \<lparr>mc_CellID = CellID repConfig, mc_RepAddress = address, mc_RepUrl = repUrl,
                mc_Zone = cfg_Zone repConfig, mc_RetryInterval = LockRetryInterval repConfig,
                mc_RootFSProviders = SupportedProviders repConfig,
                mc_PreloadedRootFSes = preloadedRootFSes,
                mc_PlacementTags = cfg_PlacementTags repConfig,
                mc_OptionalPlacementTags = cfg_OptionalPlacementTags repConfig\<rparr>
             in return (Ret (MaintainerPresence
                  (maintain_New config executorClient serviceClient (LockTTL repConfig)))))
      | _ \<Rightarrow> return Panic)"

section \<open>Clients of other components\<close>

definition initializeBBSClient ::
  "('e, 'c, 'r, 'w) main_api \<Rightarrow> 'e RepConfig \<Rightarrow> 'w services outcome" where
  "initializeBBSClient A repConfig =
     obind (or_fatal (url_Parse (BBSAddress repConfig))) (\<lambda>bbsURL.
       if Scheme bbsURL \<noteq> ''https'' then Ret (bbs_NewClient A (BBSAddress repConfig))
       else or_fatal (bbs_NewSecureClient A (BBSAddress repConfig) (BBSCACertFile repConfig)
              (BBSClientCertFile repConfig) (BBSClientKeyFile repConfig)
              (BBSClientSessionCacheSize repConfig) (BBSMaxIdleConnsPerHost repConfig)))"

definition initializeConsulClient ::
  "('e, 'c, 'r, 'w) main_api \<Rightarrow> 'e RepConfig \<Rightarrow> 'w consul outcome" where
  "initializeConsulClient A repConfig =
     obind (or_fatal (consuladapter_Parse A (ConsulCluster repConfig))) (\<lambda>scheme.
       or_fatal (if scheme = ''https'' then
                   NewTLSClientFromUrl A (ConsulCluster repConfig) (ConsulCACert repConfig)
                     (ConsulClientCert repConfig) (ConsulClientKey repConfig)
                 else NewClientFromUrl A (ConsulCluster repConfig)))"

text \<open>
  Metrics of the process itself are emitted by a goroutine over the ingress client, or by
  dropsonde, whose error is only logged.
\<close>

datatype 'w emitter = RuntimeEmitter "'w services" | Dropsonde "go_error option"

definition dropsondeOrigin :: string where
  "dropsondeOrigin = ''rep''"

definition initializeDropsonde :: "('e, 'c, 'r, 'w) main_api \<Rightarrow> go_int \<Rightarrow> 'w emitter" where
  "initializeDropsonde A dropsondePort =
     (let dropsondeDestination = ''localhost:'' @ Itoa dropsondePort
      in Dropsonde (dropsonde_Initialize A dropsondeDestination dropsondeOrigin))"

definition initializeMetron ::
  "('e, 'c, 'r, 'w) main_api \<Rightarrow> 'e RepConfig \<Rightarrow> go_error + 'w services \<times> 'w emitter" where
  "initializeMetron A repConfig =
     (case NewIngressClient A (cfg_embedded repConfig) of
        Inl err \<Rightarrow> Inl err
      | Inr client \<Rightarrow>
          Inr (client,
               if config_UseV2API A (cfg_embedded repConfig) then RuntimeEmitter client
               else initializeDropsonde A (DropsondePort repConfig)))"

record registration =
  reg_Name :: string
  reg_Port :: go_int
  reg_CheckTTL :: string
  reg_Tags :: "string list"

definition initializeRegistrationRunner :: "'e RepConfig \<Rightarrow> go_int \<Rightarrow> registration" where
  "initializeRegistrationRunner repConfig port =
     \<lparr>reg_Name = repBaseHostName (AdvertiseDomain repConfig), reg_Port = port,
      reg_CheckTTL = ''3s'', reg_Tags = [repHost (CellID repConfig)]\<rparr>"

section \<open>main\<close>

datatype ('c, 'r, 'w) member =
    PresenceMember "'w presence_member"
  | ServerMember "('c, 'r) http_server"
  | CleanupMember "'w EvacuationCleanup"
  | BulkerMember "'w Bulker"
  | ConsumerMember "'w EventConsumer"
  | EvacuatorMember "'w Evacuator"
  | RegistrationMember registration
  | ExecutorMember
  | DebugMember string

text \<open>
  How the generator is scheduled: the iteration orders of its maps, the order in which its
  fetches run and report, and the subscription to the executor's events.
\<close>

record schedule =
  sch_orders :: range_orders
  sch_fetches :: "fetch list"
  sch_arrivals :: "fetch list"
  sch_subscription :: "go_error + executor_event list"

definition preloaded_names :: "'w main_orders \<Rightarrow> 'e RepConfig \<Rightarrow> string list" where
  "preloaded_names ords repConfig = map fst (ord_stacks ords (PreloadedRootFS repConfig))"

definition gardenHealthcheckRootFS :: "'e RepConfig \<Rightarrow> string list \<Rightarrow> string" where
  "gardenHealthcheckRootFS repConfig preloadedRootFSes =
     (case preloadedRootFSes of
        [] \<Rightarrow> ''''
      | stack # _ \<Rightarrow> (case map_of (PreloadedRootFS repConfig) stack of None \<Rightarrow> '''' | Some path \<Rightarrow> path))"

text \<open>\<open>main\<close> up to the client of the executor.\<close>

definition main_config ::
  "('e, 'c, 'r, 'w) main_api \<Rightarrow> 'e config_api \<Rightarrow> 'w main_orders \<Rightarrow> string \<Rightarrow> string \<Rightarrow>
     ('e RepConfig \<times> 'w services \<times> 'w services \<times> string list) outcome" where
  "main_config A D ords configFilePath zoneOverride =
     obind (or_fatal (NewRepConfig D configFilePath)) (\<lambda>repConfig.
     let repConfig = (if zoneOverride \<noteq> '''' then repConfig\<lparr>cfg_Zone := zoneOverride\<rparr> else repConfig);
         rootFS = gardenHealthcheckRootFS repConfig (preloaded_names ords repConfig)
     in if \<not> ExecutorConfig_Validate A (cfg_embedded repConfig) then Panic
        else if CellID repConfig = '''' then Fail (NewError ''-cellID must be specified'')
        else
          obind (or_exit (initializeMetron A repConfig)) (\<lambda>(metronClient, _).
          obind (or_exit (executorinit_Initialize A (cfg_embedded repConfig) rootFS))
            (\<lambda>(executorClient, executorMembers).
          Ret (repConfig, metronClient, executorClient, executorMembers))))"

text \<open>The members other than the presence, and the address of the plain server.\<close>

definition main_parts ::
  "('e, 'c, 'r, 'w) main_api \<Rightarrow> ext_api \<Rightarrow> wire \<Rightarrow> 'w main_orders \<Rightarrow> schedule \<Rightarrow>
     'e RepConfig \<Rightarrow> 'w services \<Rightarrow> 'w services \<Rightarrow>
     (string \<times> (string \<times> ('c, 'r, 'w) member) list) outcome" where
  "main_parts A M W ords sch repConfig metronClient executorClient =
     (let evacuator = NewEvacuator executorClient (CellID repConfig) (EvacuationTimeout repConfig)
            (EvacuationPollingInterval repConfig)
      in obind (initializeBBSClient A repConfig) (\<lambda>bbsClient.
         obind (initializeServer A M W ords executorClient repConfig False)
           (\<lambda>(httpServer, address).
         obind (initializeServer A M W ords executorClient repConfig True) (\<lambda>(httpsServer, _).
         let opGenerator = generator_iface (sch_orders sch) (sch_fetches sch) (sch_arrivals sch)
               (sch_subscription sch)
               (generator_New M (CellID repConfig) bbsClient executorClient
                 (duration_Seconds (EvacuationTimeout repConfig)));
             cleanup = NewEvacuationCleanup (CellID repConfig) bbsClient executorClient metronClient
         in obind (or_fatal (SplitHostPort (ListenAddr repConfig))) (\<lambda>portString.
            obind (or_fatal (net_LookupPort A portString)) (\<lambda>portNum.
            let registrationRunner = initializeRegistrationRunner repConfig portNum;
                bulker = NewBulker (PollingInterval repConfig) (EvacuationPollingInterval repConfig)
                  metronClient opGenerator
            in Ret (address,
                 [(''http_server'', ServerMember httpServer),
                  (''https_server'', ServerMember httpsServer),
                  (''evacuation-cleanup'', CleanupMember cleanup),
                  (''bulker'', BulkerMember bulker),
                  (''event-consumer'', ConsumerMember (NewEventConsumer opGenerator)),
                  (''evacuator'', EvacuatorMember evacuator),
                  (''registration-runner'', RegistrationMember registrationRunner)])))))))"

definition main ::
  "('e, 'c, 'r, 'w) main_api \<Rightarrow> 'e config_api \<Rightarrow> presence_api \<Rightarrow> ext_api \<Rightarrow> wire \<Rightarrow>
     'w main_orders \<Rightarrow> schedule \<Rightarrow> string \<Rightarrow> string \<Rightarrow>
     ('w, (string \<times> ('c, 'r, 'w) member) list outcome) act" where
  "main A D P M W ords sch configFilePath zoneOverride =
     (case main_config A D ords configFilePath zoneOverride of
        Ret (repConfig, metronClient, executorClient, executorMembers) \<Rightarrow>
          (case obind (initializeConsulClient A repConfig) (\<lambda>_.
             main_parts A M W ords sch repConfig metronClient executorClient) of
             Ret (address, parts) \<Rightarrow> do {
               p \<leftarrow> initializeCellPresence A D address (NewCellPresenceRunner P) executorClient
                      repConfig (preloaded_names ords repConfig) True;
               return (obind p (\<lambda>presence.
                 let members = map (\<lambda>name. (name, ExecutorMember)) executorMembers @
                       (''presence'', PresenceMember presence) # parts;
                     debugAddress = config_DebugAddress A (cfg_embedded repConfig)
                 in Ret (if debugAddress \<noteq> ''''
                         then (''debug-server'', DebugMember debugAddress) # members
                         else members)))
             }
           | Fail err \<Rightarrow> return (Fail err)
           | Panic \<Rightarrow> return Panic)
      | Fail err \<Rightarrow> return (Fail err)
      | Panic \<Rightarrow> return Panic)"

text \<open>
  The end of \<open>main\<close>: it waits for the group, exits with status 1 if the group failed, and
  returns otherwise. The deferred \<open>Cleanup\<close> of the executor's client runs when \<open>main\<close> returns
  or panics after it has the client, but not on \<open>os.Exit\<close>. The action \<open>monitor\<close> is what the
  group does until it ends; a panic of one of its goroutines ends the process in there.
\<close>

definition main_wait ::
  "((string \<times> ('c, 'r, 'w) member) list \<Rightarrow> ('w, go_error option) act) \<Rightarrow>
     (string \<times> ('c, 'r, 'w) member) list outcome \<Rightarrow> ('w, unit outcome) act" where
  "main_wait monitor started =
     (case started of
        Ret members \<Rightarrow> do {
          err \<leftarrow> monitor members;
          return (case err of Some e \<Rightarrow> Fail e | None \<Rightarrow> Ret ())
        }
      | Fail err \<Rightarrow> return (Fail err)
      | Panic \<Rightarrow> return Panic)"

definition main_run ::
  "('e, 'c, 'r, 'w) main_api \<Rightarrow> 'e config_api \<Rightarrow> presence_api \<Rightarrow> ext_api \<Rightarrow> wire \<Rightarrow>
     'w main_orders \<Rightarrow> schedule \<Rightarrow>
     ((string \<times> ('c, 'r, 'w) member) list \<Rightarrow> ('w, go_error option) act) \<Rightarrow> string \<Rightarrow> string \<Rightarrow>
     ('w, unit outcome) act" where
  "main_run A D P M W ords sch monitor configFilePath zoneOverride = do {
     started \<leftarrow> main A D P M W ords sch configFilePath zoneOverride;
     result \<leftarrow> main_wait monitor started;
     (case main_config A D ords configFilePath zoneOverride of
        Ret (repConfig, metronClient, executorClient, executorMembers) \<Rightarrow>
          (case result of
             Fail err \<Rightarrow> return result
           | _ \<Rightarrow> do {
               invoke Cleanup (\<lambda>_. OK) (svc_Cleanup executorClient);
               return result
             })
      | _ \<Rightarrow> return result)
   }"

section \<open>Routes and handlers\<close>

lemma handlers_New_simps:
  "handlers_New W rep S True =
     [(StateRoute, state_ServeHTTP W rep), (PerformRoute, perform_ServeHTTP W rep),
      (Sim_ResetRoute, reset_ServeHTTP rep), (StopLRPInstanceRoute, stop_lrp_ServeHTTP S),
      (CancelTaskRoute, cancel_task_ServeHTTP S)]"
  "handlers_New W rep S False = [(PingRoute, ping_ServeHTTP), (EvacuateRoute, evacuation_ServeHTTP)]"
  by (simp_all add: handlers_New_def route_names)

lemma handlers_NewLegacy_map_of:
  assumes "map_order ord"
  shows "map_of (handlers_NewLegacy W ord rep S) =
    map_of (handlers_New W rep S False) ++ map_of (handlers_New W rep S True)"
proof -
  have d: "distinct (map fst (handlers_New W rep S True))"
    by (simp add: handlers_New_simps route_names)
  show ?thesis
    by (simp add: handlers_NewLegacy_def map_of_fold_entries map_order_map_of [OF assms d])
qed

lemma distinct_fold_entries:
  "distinct (map fst m) \<Longrightarrow> distinct (map fst (fold (\<lambda>(k, v). AList.update k v) xs m))"
  by (induction xs arbitrary: m) (auto simp: distinct_update)

lemma getHandlers_distinct: "distinct (map fst (getHandlers W ord rep S legacy secure))"
  by (cases secure)
    (simp_all add: getHandlers_def handlers_NewLegacy_def handlers_New_simps route_names
      distinct_fold_entries)

lemma getHandlers_map_of:
  assumes "map_order ord"
  shows "map_of (getHandlers W ord rep S legacy secure) =
    (if secure then map_of (handlers_New W rep S True)
     else if legacy then map_of (handlers_New W rep S False) ++ map_of (handlers_New W rep S True)
     else map_of (handlers_New W rep S False))"
  by (simp add: getHandlers_def handlers_NewLegacy_map_of [OF assms])

text \<open>The handlers of a server that serves the secure routes.\<close>

lemma getHandlers_secure:
  assumes "map_order ord" "legacy \<or> secure"
  shows "map_of (getHandlers W ord rep S legacy secure) StateRoute = Some (state_ServeHTTP W rep)"
    "map_of (getHandlers W ord rep S legacy secure) PerformRoute = Some (perform_ServeHTTP W rep)"
    "map_of (getHandlers W ord rep S legacy secure) StopLRPInstanceRoute = Some (stop_lrp_ServeHTTP S)"
    "map_of (getHandlers W ord rep S legacy secure) CancelTaskRoute = Some (cancel_task_ServeHTTP S)"
    "map_of (getHandlers W ord rep S legacy secure) Sim_ResetRoute = Some (reset_ServeHTTP rep)"
  using assms(2) by (auto simp: getHandlers_map_of [OF assms(1)] handlers_New_simps route_names map_add_def)

lemma getHandlers_insecure:
  assumes "map_order ord" "\<not> secure"
  shows "map_of (getHandlers W ord rep S legacy secure) PingRoute = Some ping_ServeHTTP"
    "map_of (getHandlers W ord rep S legacy secure) EvacuateRoute = Some evacuation_ServeHTTP"
  using assms(2) by (auto simp: getHandlers_map_of [OF assms(1)] handlers_New_simps route_names map_add_def)

lemma handler_names:
  assumes "map_order ord"
  shows "fst ` set (getHandlers W ord rep S legacy secure) = route_Name ` set (getRoutes legacy secure)"
proof -
  have "fst ` set (getHandlers W ord rep S legacy secure) =
      dom (map_of (getHandlers W ord rep S legacy secure))"
    by (simp add: dom_map_of_conv_image_fst)
  also have "\<dots> = route_Name ` set (getRoutes legacy secure)"
    by (auto simp: getHandlers_map_of [OF assms] dom_map_of_conv_image_fst handlers_New_simps
        getRoutes_def Routes_def RoutesSecure_def RoutesInsecure_def NewRoutes_def)
  finally show ?thesis .
qed

text \<open>
  C40: The routes and the handlers of a server fit together, whether or not it is the secure
  one and whether or not the legacy endpoints are enabled: each route has a name, and a method
  and path, of its own, the handlers are exactly those of the routes' names, and the work of
  the auction is taken only by the secure server or with the legacy endpoints, while evacuation is
  started only at the other one.
\<close>

theorem routes_have_handlers:
  assumes "map_order ord"
  shows "distinct (map route_Name (getRoutes legacy secure)) \<and>
    distinct (map (\<lambda>r. (route_Method r, route_Path r)) (getRoutes legacy secure)) \<and>
    distinct (map fst (getHandlers W ord rep S legacy secure)) \<and>
    fst ` set (getHandlers W ord rep S legacy secure) = route_Name ` set (getRoutes legacy secure) \<and>
    (PerformRoute \<in> fst ` set (getHandlers W ord rep S legacy secure) \<longleftrightarrow> secure \<or> legacy) \<and>
    (EvacuateRoute \<in> fst ` set (getHandlers W ord rep S legacy secure) \<longleftrightarrow> \<not> secure)"
proof -
  note names = handler_names [OF assms, of W rep S legacy secure]
  note routes = getRoutes_def Routes_def RoutesSecure_def RoutesInsecure_def NewRoutes_def route_names
  have "PerformRoute \<in> set (map route_Name (getRoutes legacy secure)) \<longleftrightarrow> secure \<or> legacy"
    "EvacuateRoute \<in> set (map route_Name (getRoutes legacy secure)) \<longleftrightarrow> \<not> secure"
    by (simp_all add: routes del: set_map)
  moreover have "distinct (map route_Name (getRoutes legacy secure))"
    "distinct (map (\<lambda>r. (route_Method r, route_Path r)) (getRoutes legacy secure))"
    by (simp_all add: routes)
  ultimately show ?thesis
    unfolding names set_map by (intro conjI getHandlers_distinct refl) simp_all
qed

text \<open>The encoding that the example uses for the fields of \<open>models.ActualLRPKey\<close>.\<close>

definition example_wire :: wire where
  "example_wire = \<lparr>tag_ProcessGuid = ''process_guid'', tag_Index = ''index'', tag_Domain = ''domain'',
     empty_slice = (\<lambda>_. JNull)\<rparr>"

theorem routes_have_handlers_witness:
  "fst ` set (getHandlers example_wire rev (auction_client example_api example_rep)
       example_services True False) = route_Name ` set (getRoutes True False)"
  using routes_have_handlers [of rev True False example_wire "auction_client example_api example_rep"
      example_services] by simp

section \<open>The announced URL\<close>

lemma unreserved_safe:
  assumes "unreserved c"
  shows "c \<notin> set ''#?/@:%['' \<and> \<not> host_should_escape c"
  using assms by (auto simp: unreserved_def host_should_escape_def is_alpha_def is_digit_def)

lemma unescape_ok_plain:
  "list_all (\<lambda>c. c \<noteq> CHR ''%'' \<and> \<not> host_should_escape c) s \<Longrightarrow> unescape_ok encodeHost s"
  by (induction s) auto

lemma colon_in_host [simp]: "\<not> host_should_escape (CHR '':'')"
  by (simp add: host_should_escape_def)

lemma parseAuthority_plain:
  assumes "list_all unreserved host" "list_all unreserved port" "host \<noteq> []"
  shows "parseAuthority_ok (host @ CHR '':'' # port)"
proof -
  have safe: "c \<in> set host \<union> set port \<Longrightarrow> c \<notin> set ''#?/@:%['' \<and> \<not> host_should_escape c" for c
    using assms(1,2) unreserved_safe by (auto simp: list_all_iff)
  then have "cut (CHR ''@'') (rev (host @ CHR '':'' # port)) = None"
    by (intro cut_notin) auto
  moreover have "\<not> HasPrefix (host @ CHR '':'' # port) ''[''"
    using assms(3) safe by (cases host) (auto simp: HasPrefix_def)
  moreover have "unescape_ok encodeHost (host @ CHR '':'' # port)"
    using safe by (intro unescape_ok_plain) (auto simp: list_all_iff)
  ultimately show ?thesis by (simp add: parseAuthority_ok_def cut_last_def parseHost_ok_def)
qed

lemma getscheme_http:
  "getscheme (''http://'' @ s) = Some (''http'', ''//'' @ s)"
  "getscheme (''https://'' @ s) = Some (''https'', ''//'' @ s)"
  by (simp_all add: getscheme_def is_alpha_def is_digit_def)

lemma lower_http: "map to_lower ''http'' = ''http''" "map to_lower ''https'' = ''https''"
  by (simp_all add: to_lower_def)

lemma url_Parse_scheme:
  assumes "getscheme raw = Some (scheme, ''//'' @ rest)" "map to_lower scheme = scheme" "scheme \<noteq> []"
    and "CHR ''#'' \<notin> set raw" "CHR ''?'' \<notin> set rest" "CHR ''/'' \<notin> set rest" "parseAuthority_ok rest"
    and "raw \<noteq> ''*''"
  shows "url_Parse raw = Inr \<lparr>Scheme = scheme, Opaque = '''', RawQuery = ''''\<rparr>"
  using assms
  by (simp add: url_Parse_def parse_nofrag_def authority_and_path_ok_def HasPrefix_def cut_notin)

lemma url_Parse_http:
  assumes "list_all unreserved host" "list_all unreserved port" "host \<noteq> []"
  shows "\<exists>u. url_Parse ((if tls then ''https://'' else ''http://'') @ host @ '':'' @ port) = Inr u \<and>
    Scheme u = (if tls then ''https'' else ''http'')"
proof -
  have safe: "c \<notin> set ''#?/@''" if "c \<in> set (host @ CHR '':'' # port)" for c
    using that assms(1,2) unreserved_safe by (fastforce simp: list_all_iff)
  then have "CHR ''#'' \<notin> set (host @ CHR '':'' # port)" "CHR ''?'' \<notin> set (host @ CHR '':'' # port)"
    "CHR ''/'' \<notin> set (host @ CHR '':'' # port)"
    by fastforce+
  with url_Parse_scheme [OF getscheme_http(1) lower_http(1)]
    url_Parse_scheme [OF getscheme_http(2) lower_http(2)] parseAuthority_plain [OF assms]
  show ?thesis by (cases tls) simp_all
qed

lemma Split_host_port:
  "CHR '':'' \<notin> set host \<Longrightarrow> CHR '':'' \<notin> set port \<Longrightarrow> port_of (host @ CHR '':'' # port) = Ret port"
proof -
  have tail: "CHR '':'' \<notin> set s \<Longrightarrow> Split s (CHR '':'') = [s]" for s
    by (induction s) auto
  have "CHR '':'' \<notin> set host \<Longrightarrow> Split (host @ CHR '':'' # s) (CHR '':'') = host # Split s (CHR '':'')" for s
    by (induction host) auto
  with tail show "CHR '':'' \<notin> set host \<Longrightarrow> CHR '':'' \<notin> set port \<Longrightarrow> port_of (host @ CHR '':'' # port) = Ret port"
    by (simp add: port_of_def)
qed

lemma repURL_plain:
  assumes "list_all unreserved cellID" "list_all unreserved domain"
  shows "list_all unreserved (repURL cellID domain)" "repURL cellID domain \<noteq> []"
  using assms by (auto simp: repURL_def repHost_def ReplaceAll_def list_all_iff unreserved_def)

lemma initializeServer_secure:
  assumes "initializeServer A M W ords S repConfig True = Ret (server, address)"
  shows "hs_address server = ListenAddrSecurable repConfig"
    "hs_tlsConfig server \<noteq> None \<longleftrightarrow> cfg_RequireTLS repConfig"
  using assms by (auto simp: initializeServer_def Let_def obind_eq_Ret split: if_splits)

lemma main_config_Ret:
  assumes "main_config A D ords path zone = Ret (repConfig, metron, executor, names)"
  shows "CellID repConfig \<noteq> ''''" "stack_map_wf (PreloadedRootFS repConfig)"
  using assms config_wf [of D path]
  by (auto simp: main_config_def or_fatal_def Let_def obind_eq_Ret
      split: if_splits sum.splits)

text \<open>The URL that a presence announces: in its configuration, or in the payload it stores.\<close>

definition announces :: "('e, 'c, 'r, 'w) main_api \<Rightarrow> 'w presence_member \<Rightarrow> string \<Rightarrow> bool" where
  "announces A presence url =
     (case presence of
        MaintainerPresence m \<Rightarrow> mc_RepUrl (m_Config m) = url
      | LocketPresence lp \<Rightarrow>
          \<exists>p. CellPresence_Marshal A p = Inr (lr_Value (lp_resource lp)) \<and> cp_RepUrl p = url)"

lemma presence_of_url: "cp_RepUrl (presence_of repConfig address url names resources) = url"
  by (simp add: presence_of_def)

lemma presence_announces:
  assumes "eval (initializeCellPresence A D address serviceClient S repConfig names secure) s = Ret presence"
  shows "\<exists>url. rep_url repConfig secure = Ret url \<and> announces A presence url"
proof (cases "rep_url repConfig secure")
  case (Ret url)
  then show ?thesis
    using assms
    by (auto simp: initializeCellPresence_def announces_def maintain_New_def
        or_fatal_def obind_eq_Ret split: if_splits option.splits sum.splits) (blast intro: presence_of_url)
qed (use assms in \<open>simp_all add: initializeCellPresence_def\<close>)

lemma main_parts_Ret:
  assumes "main_parts A M W ords sch repConfig metron executor = Ret (address, parts)"
  obtains http https address' rest where
    "initializeServer A M W ords executor repConfig True = Ret (https, address')"
    "parts = (''http_server'', ServerMember http) # (''https_server'', ServerMember https) # rest"
    "''presence'' \<notin> fst ` set rest" "''https_server'' \<notin> fst ` set rest"
  using assms by (auto simp: main_parts_def Let_def obind_eq_Ret)

lemma main_RetE:
  assumes "eval (main A D P M W ords sch path zone) s = Ret members"
    and config: "main_config A D ords path zone = Ret (repConfig, metron, executor, names)"
  obtains presence http https address debug rest where
    "members = debug @ map (\<lambda>name. (name, ExecutorMember)) names @
       (''presence'', PresenceMember presence) # (''http_server'', ServerMember http) #
       (''https_server'', ServerMember https) # rest"
    "initializeServer A M W ords executor repConfig True = Ret (https, address)"
    "\<exists>url. rep_url repConfig True = Ret url \<and> announces A presence url"
    "fst ` set debug \<subseteq> {''debug-server''}" "''presence'' \<notin> fst ` set rest"
    "''https_server'' \<notin> fst ` set rest"
proof -
  obtain a parts where parts: "main_parts A M W ords sch repConfig metron executor = Ret (a, parts)"
    using assms by (auto simp: main_def obind_eq_Ret split: outcome.splits)
  obtain presence w where p: "eval (initializeCellPresence A D a (NewCellPresenceRunner P) executor
      repConfig (preloaded_names ords repConfig) True) w = Ret presence"
    and "members = (let members = map (\<lambda>name. (name, ExecutorMember)) names @
          (''presence'', PresenceMember presence) # parts;
        debugAddress = config_DebugAddress A (cfg_embedded repConfig)
      in if debugAddress \<noteq> '''' then (''debug-server'', DebugMember debugAddress) # members else members)"
    using assms parts by (auto simp: main_def obind_eq_Ret Let_def split: outcome.splits)
  then obtain debug where "members = debug @ map (\<lambda>name. (name, ExecutorMember)) names @
      (''presence'', PresenceMember presence) # parts" "fst ` set debug \<subseteq> {''debug-server''}"
    by (cases "config_DebugAddress A (cfg_embedded repConfig) = ''''")
      (fastforce simp: Let_def intro: that [of "[]"] that [of "[_]"])+
  then show thesis
    using main_parts_Ret [OF parts] presence_announces [OF p] that by metis
qed

text \<open>
  C15: The URL that the rep announces is the one its secure server serves. When \<open>main\<close> comes
  as far as the process group, the cell has an id and a proper map of root file systems; the
  announced URL has the host name of the cell and the port of the secure server, and its scheme is
  https exactly when that server uses TLS, which is when the configuration requires it.
  A client accepts that URL exactly when its TLS settings fit: it has certificates or requires
  TLS if the server uses it, and it does not require TLS if the server does not use it. This holds
  for listen addresses of the form \<open>host:port\<close> with no colon in the host, and for cell ids
  and domains of unreserved characters.
\<close>

theorem announced_url_is_served:
  assumes "eval (main A D P M W ords sch path zone) s = Ret members"
    and config: "main_config A D ords path zone = Ret (repConfig, metron, executor, names)"
    and presence: "(''presence'', PresenceMember presence) \<in> set members"
    and server: "(''https_server'', ServerMember https) \<in> set members"
    and listen: "ListenAddrSecurable repConfig = host @ '':'' @ port" "CHR '':'' \<notin> set host"
      "list_all unreserved port"
    and plain: "list_all unreserved (CellID repConfig)" "list_all unreserved (AdvertiseDomain repConfig)"
  shows "CellID repConfig \<noteq> '''' \<and> stack_map_wf (PreloadedRootFS repConfig) \<and>
    hs_address https = host @ '':'' @ port \<and>
    (hs_tlsConfig https \<noteq> None \<longleftrightarrow> cfg_RequireTLS repConfig) \<and>
    (\<exists>url. announces A presence url \<and>
       url = (if cfg_RequireTLS repConfig then ''https://'' else ''http://'') @
         repURL (CellID repConfig) (AdvertiseDomain repConfig) @ '':'' @ port \<and>
       (\<forall>tls address. pickURL tls address url = Inr url \<longleftrightarrow>
          (if cfg_RequireTLS repConfig then RequireTLS tls \<or> hasCreds tls else \<not> RequireTLS tls)))"
proof -
  obtain presence' http https' address debug rest where
    m: "members = debug @ map (\<lambda>name. (name, ExecutorMember)) names @
       (''presence'', PresenceMember presence') # (''http_server'', ServerMember http) #
       (''https_server'', ServerMember https') # rest"
    and https': "initializeServer A M W ords executor repConfig True = Ret (https', address)"
    and url: "\<exists>url. rep_url repConfig True = Ret url \<and> announces A presence' url"
    and names: "fst ` set debug \<subseteq> {''debug-server''}" "''presence'' \<notin> fst ` set rest"
      "''https_server'' \<notin> fst ` set rest"
    using assms(1) config by (rule main_RetE)
  have "presence' = presence" "https' = https"
    using presence server names by (auto simp: m rev_image_eqI)
  moreover have "CHR '':'' \<notin> set port"
    using listen(3) unreserved_safe by (fastforce simp: list_all_iff)
  then have "rep_url repConfig True = Ret ((if cfg_RequireTLS repConfig then ''https://'' else ''http://'') @
      repURL (CellID repConfig) (AdvertiseDomain repConfig) @ '':'' @ port)"
    using listen Split_host_port [of host port] by (simp add: rep_url_def)
  moreover note url_Parse_http [OF repURL_plain(1) [OF plain] listen(3) repURL_plain(2) [OF plain],
      of "cfg_RequireTLS repConfig"]
  ultimately show ?thesis
    using url initializeServer_secure [OF https'] main_config_Ret [OF config] listen(1)
    by (auto simp: pickURL_cases https_url_def bad_url_def)
qed

definition example_main_api :: "(unit, unit, unit, unit) main_api" where
  "example_main_api =
     \<lparr>config_DebugAddress = (\<lambda>_. ''''), config_LocketAddress = (\<lambda>_. ''''),
      ExecutorConfig_Validate = (\<lambda>_. True),
      executorinit_Initialize = (\<lambda>_ rootFS. Inr (example_services, [''garden''])),
      NewIngressClient = (\<lambda>_. Inr example_services),
      config_UseV2API = (\<lambda>_. False), dropsonde_Initialize = (\<lambda>_ _. None),
      bbs_NewClient = (\<lambda>_. example_services),
      bbs_NewSecureClient = (\<lambda>_ _ _ _ _ _. Inr example_services),
      consuladapter_Parse = (\<lambda>_. Inr ''http''),
      NewTLSClientFromUrl = (\<lambda>_ _ _ _. Inr example_consul),
      NewClientFromUrl = (\<lambda>_. Inr example_consul),
      rata_NewRouter = (\<lambda>routes handlers.
        if route_Name ` set routes \<subseteq> fst ` set handlers then Inr ()
        else Inl (ForeignError ''missing handler'')),
      localip_LocalIP = Inr ''10.0.0.1'',
      server_NewTLSConfig = (\<lambda>_ _ _. Inr \<lparr>tls_certs = (), tls_ClientSessionCache = None\<rparr>),
      locket_NewClient = (\<lambda>_. None),
      CellPresence_Marshal = (\<lambda>p. Inr (cp_RepUrl p)),
      locket_PRESENCE = 1, locket_PresenceType = ''presence'',
      net_LookupPort = (\<lambda>_. Inr 1800)\<rparr>"

definition example_orders :: "unit main_orders" where
  "example_orders = \<lparr>ord_stacks = id, ord_providers = id, ord_handlers = id\<rparr>"

definition cell_config_api :: "unit config_api" where
  "cell_config_api = example_config_api
     \<lparr>os_Open := (\<lambda>path. Inr (print_json (JObject [(''cell_id'', JString ''cell_z1'')])))\<rparr>"

definition cell_config :: "unit RepConfig" where
  "cell_config = (defaultConfig cell_config_api)\<lparr>CellID := ''cell_z1''\<rparr>"

lemma cell_config_read: "NewRepConfig cell_config_api ''rep.json'' = Inr cell_config"
proof -
  have "json_ok (JObject [(''cell_id'', JString ''cell_z1'')])"
    by (simp add: literal_ok del: utf8_valid.simps)
  moreover have "os_Open cell_config_api ''rep.json'' =
      Inr (print_json (JObject [(''cell_id'', JString ''cell_z1'')]))"
    by (simp add: cell_config_api_def)
  ultimately show ?thesis
    by (simp only: NewRepConfig_def Let_def sum.case decode_json_print option.case)
      (simp add: decode_struct_def find_field_def RepConfig_fields_def field_def decode_string_def
        cell_config_def)
qed

lemma cell_config_simps [simp]:
  "CellID cell_config = ''cell_z1''" "ListenAddr cell_config = ''0.0.0.0:1800''"
  "ListenAddrSecurable cell_config = ''0.0.0.0:1801''" "cfg_RequireTLS cell_config"
  "EnableLegacyAPIServer cell_config" "BBSAddress cell_config = ''''"
  "AdvertiseDomain cell_config = ''cell.service.cf.internal''"
  by (simp_all add: cell_config_def defaultConfig_def)

lemma example_main_config:
  "main_config example_main_api cell_config_api example_orders ''rep.json'' '''' =
     Ret (cell_config, example_services, example_services, [''garden''])"
  by (simp add: main_config_def cell_config_read or_fatal_def or_exit_def example_main_api_def
      initializeMetron_def)

lemma example_router: "rata_NewRouter example_main_api (getRoutes legacy secure)
    (getHandlers W (ord_handlers example_orders) rep S legacy secure) = Inr ()"
  using handler_names [of id W rep S legacy secure]
  by (simp add: example_main_api_def example_orders_def)

lemma example_server:
  "\<exists>server address. initializeServer example_main_api example_api example_wire example_orders
     example_services cell_config secure = Ret (server, address)"
  using Split_host_port [of "''0.0.0.0''" "''1800''"] Split_host_port [of "''0.0.0.0''" "''1801''"]
  by (cases secure; auto simp: initializeServer_def Let_def example_router or_fatal_def)
    (simp_all add: example_main_api_def)

definition example_schedule :: schedule where
  "example_schedule =
     \<lparr>sch_orders = \<lparr>ord_containers = id, ord_lrps = id, ord_tasks = id\<rparr>, sch_fetches = [],
      sch_arrivals = [], sch_subscription = Inr []\<rparr>"

definition example_main :: "(unit, (string \<times> (unit, unit, unit) member) list outcome) act" where
  "example_main = main example_main_api cell_config_api example_presence_api example_api
     example_wire example_orders example_schedule ''rep.json'' ''''"

lemma example_main_runs:
  "\<exists>members presence https. eval example_main example_world = Ret members \<and>
     (''presence'', PresenceMember presence) \<in> set members \<and>
     (''https_server'', ServerMember https) \<in> set members"
proof -
  obtain http a https a' where servers:
    "initializeServer example_main_api example_api example_wire example_orders example_services
       cell_config False = Ret (http, a)"
    "initializeServer example_main_api example_api example_wire example_orders example_services
       cell_config True = Ret (https, a')"
    using example_server by blast
  moreover have "initializeBBSClient example_main_api cell_config = Ret example_services"
    by (simp add: initializeBBSClient_def url_Parse_def parse_nofrag_def getscheme_def
        authority_and_path_ok_def HasPrefix_def colon_before_slash_def or_fatal_def
        example_main_api_def)
  moreover have "SplitHostPort ''0.0.0.0:1800'' = Inr ''1800''"
    by (simp add: SplitHostPort_def cut_last_def HasPrefix_def)
  ultimately obtain address parts where parts: "main_parts example_main_api example_api example_wire
      example_orders example_schedule cell_config example_services example_services = Ret (address, parts)"
    by (auto simp: main_parts_def Let_def or_fatal_def example_main_api_def)
  moreover have "initializeConsulClient example_main_api cell_config = Ret example_consul"
    by (simp add: initializeConsulClient_def or_fatal_def example_main_api_def)
  moreover obtain presence where "eval (initializeCellPresence example_main_api cell_config_api address
      (NewCellPresenceRunner example_presence_api) example_services cell_config
      (preloaded_names example_orders cell_config) True) example_world = Ret presence"
    using Split_host_port [of "''0.0.0.0''" "''1801''"]
    by (auto simp: initializeCellPresence_def rep_url_def example_main_api_def)
  ultimately have main: "\<exists>debug. eval example_main example_world = Ret (debug @
      (''garden'', ExecutorMember) # (''presence'', PresenceMember presence) # parts)"
    by (simp add: example_main_def main_def example_main_config Let_def)
  obtain http' https' address' rest where "parts = (''http_server'', ServerMember http') #
      (''https_server'', ServerMember https') # rest"
    using parts by (rule main_parts_Ret)
  with main show ?thesis by (auto intro: exI [of _ presence] exI [of _ https'])
qed

theorem announced_url_is_served_witness:
  "\<exists>members presence. eval example_main example_world = Ret members \<and>
     (''presence'', PresenceMember presence) \<in> set members \<and>
     announces example_main_api presence ''https://cell-z1.cell.service.cf.internal:1801''"
proof -
  obtain members presence https where m: "eval example_main example_world = Ret members"
    "(''presence'', PresenceMember presence) \<in> set members"
    "(''https_server'', ServerMember https) \<in> set members"
    using example_main_runs by blast
  have "list_all unreserved ''1801''" "list_all unreserved ''cell_z1''"
    "list_all unreserved ''cell.service.cf.internal''"
    by (simp_all add: unreserved_def is_alpha_def is_digit_def)
  then have "\<exists>url. announces example_main_api presence url \<and> url = ''https://'' @
      repURL ''cell_z1'' ''cell.service.cf.internal'' @ '':'' @ ''1801''"
    using announced_url_is_served [OF m(1) [unfolded example_main_def] example_main_config m(2,3),
        of "''0.0.0.0''" "''1801''"] by auto
  with m show ?thesis
    by (auto simp: repURL_def repHost_def ReplaceAll_def)
qed

section \<open>The end of the process\<close>

text \<open>An action that adds to the trace, and not the given call.\<close>

definition avoids :: "call \<Rightarrow> ('w, 'a) act \<Rightarrow> bool" where
  "avoids c m \<longleftrightarrow> (\<forall>s. \<exists>es. trace (exec m s) = trace s @ es \<and> c \<notin> fst ` set es)"

lemma avoids_return [simp]: "avoids c (return x)"
  by (simp add: avoids_def)

lemma avoids_draw [simp]: "avoids c (draw f)"
  by (simp add: avoids_def)

lemma avoids_invoke [simp]: "avoids c (invoke d rp f) \<longleftrightarrow> c \<noteq> d"
  by (simp add: avoids_def)

lemma avoids_bind [intro]:
  assumes "avoids c m" "\<And>x. avoids c (f x)"
  shows "avoids c (State_Monad.bind m f)"
  unfolding avoids_def
proof
  fix s
  obtain es where es: "trace (exec m s) = trace s @ es" "c \<notin> fst ` set es"
    using assms(1) unfolding avoids_def by blast
  obtain es' where es': "trace (exec (f (eval m s)) (exec m s)) = trace (exec m s) @ es'" "c \<notin> fst ` set es'"
    using assms(2) unfolding avoids_def by blast
  from es es' have "trace (exec (State_Monad.bind m f) s) = trace s @ es @ es' \<and> c \<notin> fst ` set (es @ es')"
    by auto
  then show "\<exists>es. trace (exec (State_Monad.bind m f) s) = trace s @ es \<and> c \<notin> fst ` set es" ..
qed

lemma avoidsE:
  assumes "avoids c m"
  obtains es where "trace (exec m s) = trace s @ es" "c \<notin> fst ` set es"
  using assms unfolding avoids_def by blast

lemma presence_avoids_Cleanup:
  "avoids Cleanup (initializeCellPresence A D address serviceClient S repConfig names secure)"
  unfolding initializeCellPresence_def
  by (auto simp: Let_def intro!: avoids_bind split: outcome.split option.split sum.split)

lemma main_avoids_Cleanup: "avoids Cleanup (main A D P M W ords sch path zone)"
  unfolding main_def
  by (auto intro!: avoids_bind presence_avoids_Cleanup split: outcome.split)

lemma never_Fail:
  "or_fatal r \<noteq> Fail err" "port_of addr \<noteq> Fail err"
  "obind x f = Fail err \<longleftrightarrow> x = Fail err \<or> (\<exists>y. x = Ret y \<and> f y = Fail err)"
  by (auto simp: or_fatal_def port_of_def split: sum.split list.split)
    (cases x; simp)+

lemma parts_never_Fail:
  "initializeBBSClient A repConfig \<noteq> Fail err" "initializeConsulClient A repConfig \<noteq> Fail err"
  "initializeServer A M W ords S repConfig secure \<noteq> Fail err"
  "main_parts A M W ords sch repConfig metron S \<noteq> Fail err"
  by (simp_all add: initializeBBSClient_def initializeConsulClient_def initializeServer_def
      main_parts_def never_Fail Let_def split: prod.split)

lemma presence_never_Fail:
  "eval (initializeCellPresence A D address serviceClient S repConfig names secure) s \<noteq> Fail err"
  by (auto simp: initializeCellPresence_def never_Fail Let_def
      split: outcome.split option.split sum.split)

text \<open>\<open>os.Exit\<close> is reached before there is an executor client, or not before the group ends.\<close>

lemma main_Fail_iff:
  "eval (main A D P M W ords sch path zone) s = Fail err \<longleftrightarrow>
     main_config A D ords path zone = Fail err"
  by (auto simp: main_def never_Fail parts_never_Fail presence_never_Fail Let_def
      split: outcome.split prod.split)

lemma zone_override:
  "gardenHealthcheckRootFS (c\<lparr>cfg_Zone := z\<rparr>) names = gardenHealthcheckRootFS c names"
  "preloaded_names ords (c\<lparr>cfg_Zone := z\<rparr>) = preloaded_names ords c"
  "initializeMetron A (c\<lparr>cfg_Zone := z\<rparr>) = initializeMetron A c"
  by (auto simp: gardenHealthcheckRootFS_def preloaded_names_def initializeMetron_def
      split: list.split sum.split)

lemma main_config_Fail_iff:
  "(\<exists>err. main_config A D ords path zone = Fail err) \<longleftrightarrow>
     (\<exists>c. NewRepConfig D path = Inr c \<and> ExecutorConfig_Validate A (cfg_embedded c) \<and>
        (CellID c = '''' \<or> (\<exists>err. NewIngressClient A (cfg_embedded c) = Inl err) \<or>
         (\<exists>err. executorinit_Initialize A (cfg_embedded c)
            (gardenHealthcheckRootFS c (preloaded_names ords c)) = Inl err)))"
proof (cases "NewRepConfig D path")
  case (Inr c)
  define r where "r = executorinit_Initialize A (cfg_embedded c)
    (gardenHealthcheckRootFS c (preloaded_names ords c))"
  have "(\<exists>err. main_config A D ords path zone = Fail err) \<longleftrightarrow>
      ExecutorConfig_Validate A (cfg_embedded c) \<and>
      (CellID c = '''' \<or> (\<exists>err. initializeMetron A c = Inl err) \<or> (\<exists>err. r = Inl err))"
    by (cases "initializeMetron A c"; cases r)
      (auto simp: main_config_def Inr or_fatal_def or_exit_def Let_def zone_override r_def [symmetric])
  then show ?thesis
    by (auto simp: Inr r_def initializeMetron_def split: sum.splits)
qed (simp add: main_config_def or_fatal_def)

lemma main_wait_avoids:
  "(\<And>members. avoids c (monitor members)) \<Longrightarrow> avoids c (main_wait monitor started)"
  unfolding main_wait_def by (auto intro!: avoids_bind split: outcome.split)

lemma main_wait_cases:
  "eval (main_wait monitor started) s = Ret () \<longleftrightarrow>
     (\<exists>members. started = Ret members \<and> eval (monitor members) s = None)"
  "eval (main_wait monitor started) s = Fail err \<longleftrightarrow>
     started = Fail err \<or> (\<exists>members. started = Ret members \<and> eval (monitor members) s = Some err)"
  by (auto simp: main_wait_def split: outcome.split option.split)

lemma main_run_result:
  "eval (main_run A D P M W ords sch monitor path zone) s =
     eval (main_wait monitor (eval (main A D P M W ords sch path zone) s))
       (exec (main A D P M W ords sch path zone) s)"
  by (simp add: main_run_def split: outcome.split prod.split)

lemma main_run_trace:
  "trace (exec (main_run A D P M W ords sch monitor path zone) s) =
     trace (exec (main_wait monitor (eval (main A D P M W ords sch path zone) s))
       (exec (main A D P M W ords sch path zone) s)) @
     (if (\<exists>x. main_config A D ords path zone = Ret x) \<and>
        (\<forall>err. eval (main_run A D P M W ords sch monitor path zone) s \<noteq> Fail err)
      then [(Cleanup, OK)] else [])"
  unfolding main_run_result by (auto simp: main_run_def split: outcome.split prod.split)

text \<open>
  C20: How the process ends, whatever the members of its group do that do not clean up the executor
  themselves. It returns exactly when it came as far as the group and the group ended
  without an error. It exits with status 1 exactly when a valid configuration lacks the cell id or
  the metrics client or the executor cannot be set up, or when the group ended with an error. The
  executor is cleaned up at most once, as the last thing that is done, and that is
  when it was set up and the process does not exit with status 1: a failed group leaves the
  executor as it is.
\<close>

theorem process_end:
  assumes "\<forall>members. avoids Cleanup (monitor members)"
  shows "(eval (main_run A D P M W ords sch monitor path zone) s = Ret () \<longleftrightarrow>
      (\<exists>members. eval (main A D P M W ords sch path zone) s = Ret members \<and>
         eval (monitor members) (exec (main A D P M W ords sch path zone) s) = None)) \<and>
    ((\<exists>err. eval (main_run A D P M W ords sch monitor path zone) s = Fail err) \<longleftrightarrow>
      (\<exists>c. NewRepConfig D path = Inr c \<and> ExecutorConfig_Validate A (cfg_embedded c) \<and>
         (CellID c = '''' \<or> (\<exists>err. NewIngressClient A (cfg_embedded c) = Inl err) \<or>
          (\<exists>err. executorinit_Initialize A (cfg_embedded c)
             (gardenHealthcheckRootFS c (preloaded_names ords c)) = Inl err))) \<or>
      (\<exists>members err. eval (main A D P M W ords sch path zone) s = Ret members \<and>
         eval (monitor members) (exec (main A D P M W ords sch path zone) s) = Some err)) \<and>
    (\<exists>es. Cleanup \<notin> fst ` set es \<and>
       trace (exec (main_run A D P M W ords sch monitor path zone) s) = trace s @ es @
         (if (\<exists>x. main_config A D ords path zone = Ret x) \<and>
            (\<forall>err. eval (main_run A D P M W ords sch monitor path zone) s \<noteq> Fail err)
          then [(Cleanup, OK)] else []))"
proof (intro conjI)
  show "\<exists>es. Cleanup \<notin> fst ` set es \<and>
      trace (exec (main_run A D P M W ords sch monitor path zone) s) = trace s @ es @
        (if (\<exists>x. main_config A D ords path zone = Ret x) \<and>
           (\<forall>err. eval (main_run A D P M W ords sch monitor path zone) s \<noteq> Fail err)
         then [(Cleanup, OK)] else [])"
  proof -
    let ?m = "main A D P M W ords sch path zone"
    obtain es where "trace (exec ?m s) = trace s @ es" "Cleanup \<notin> fst ` set es"
      by (rule avoidsE [OF main_avoids_Cleanup])
    moreover have "avoids Cleanup (main_wait monitor (eval ?m s))"
      using assms by (intro main_wait_avoids) blast
    then obtain es' where "trace (exec (main_wait monitor (eval ?m s)) (exec ?m s)) =
        trace (exec ?m s) @ es'" "Cleanup \<notin> fst ` set es'"
      by (rule avoidsE)
    ultimately show ?thesis
      by (intro exI [of _ "es @ es'"]) (auto simp: main_run_trace)
  qed
qed (unfold main_config_Fail_iff [of A D ords path zone, symmetric] main_run_result main_wait_cases
    main_Fail_iff, blast+)

theorem process_end_witness:
  "(\<exists>es. trace (exec (main_run example_main_api cell_config_api example_presence_api example_api
       example_wire example_orders example_schedule (\<lambda>_. return None) ''rep.json'' '''')
       example_world) = trace example_world @ es @ [(Cleanup, OK)]) \<and>
   (\<exists>err. eval (main_run example_main_api cell_config_api example_presence_api example_api
       example_wire example_orders example_schedule (\<lambda>_. return (Some (NewError ''member'')))
       ''rep.json'' '''') example_world = Fail err)"
proof -
  obtain members where members: "eval example_main example_world = Ret members"
    using example_main_runs by blast
  note m = members [unfolded example_main_def]
  have ok: "\<forall>members. avoids Cleanup ((\<lambda>_. return None) members)"
    "\<forall>members. avoids Cleanup ((\<lambda>_. return (Some (NewError ''member''))) members)"
    by simp_all
  note end1 = process_end [OF ok(1), of example_main_api cell_config_api example_presence_api example_api
      example_wire example_orders example_schedule "''rep.json''" "''''" example_world]
  note end2 = process_end [OF ok(2), of example_main_api cell_config_api example_presence_api example_api
      example_wire example_orders example_schedule "''rep.json''" "''''" example_world]
  show ?thesis
  proof
    from conjunct1 [OF end1] m have "eval (main_run example_main_api cell_config_api
        example_presence_api example_api example_wire example_orders example_schedule
        (\<lambda>_. return None) ''rep.json'' '''') example_world = Ret ()" by simp
    with conjunct2 [OF conjunct2 [OF end1]] show "\<exists>es. trace (exec (main_run example_main_api
        cell_config_api example_presence_api example_api example_wire example_orders
        example_schedule (\<lambda>_. return None) ''rep.json'' '''') example_world) =
        trace example_world @ es @ [(Cleanup, OK)]"
      by (auto simp: example_main_config)
  qed (use conjunct1 [OF conjunct2 [OF end2]] m in auto)
qed

end
