(* ===== verification/Remote_Cell.thy ===== *)
theory Remote_Cell
  imports Rep_Main
begin

text \<open>
  The client of \<open>client.go\<close> against the handlers of \<open>handlers\<close>: the lemmas by which a
  call through the client is the call of the cell behind the server. A call is followed from
  the encoding of its arguments over the route's handler to the decoding of the response.
\<close>

section \<open>Actions\<close>

lemma act_eqI: "(\<And>s. eval m s = eval n s) \<Longrightarrow> (\<And>s. exec m s = exec n s) \<Longrightarrow> m = n"
  by (cases m; cases n) (auto simp: eval_def exec_def fun_eq_iff prod_eq_iff)

section \<open>What comes back is part of what was sent\<close>

lemma failures_loop_set: "set (failures_loop m fs old) \<subseteq> snd ` set m \<union> set old"
proof (induction fs arbitrary: old)
  case (Cons f fs)
  show ?case
  proof (cases "map_of m (ar_Guid (af_Request f))")
    case None
    then show ?thesis using Cons.IH [of old] by simp
  next
    case (Some x)
    then have "x \<in> snd ` set m" by (metis map_of_SomeD image_eqI snd_conv)
    with Some Cons.IH [of "old @ [x]"] show ?thesis by auto
  qed
qed simp

lemma snd_set_update: "snd ` set (AList.update k v m) \<subseteq> insert v (snd ` set m)"
  by (induction m) auto

lemma snd_set_fold_update:
  "snd ` set (fold (\<lambda>x. AList.update (key x) (val x)) xs m) \<subseteq> val ` set xs \<union> snd ` set m"
proof (induction xs arbitrary: m)
  case (Cons x xs)
  from Cons.IH [of "AList.update (key x) (val x) m"] snd_set_update [of "key x" "val x" m]
  have "snd ` set (fold (\<lambda>x. AList.update (key x) (val x)) xs (AList.update (key x) (val x) m)) \<subseteq>
      val ` set xs \<union> insert (val x) (snd ` set m)"
    by (rule order_trans [OF _ Un_mono [OF order_refl]])
  then show ?case by simp
qed simp

lemma lrps_loop_subset:
  assumes "eval (lrpsToAllocationRequest M a lrps) s = (requests, lrpMap, unt)"
  shows "snd ` set lrpMap \<subseteq> set lrps" "set unt \<subseteq> set lrps"
proof -
  obtain placed unt' where "eval (lrps_loop M a lrps ([], [], [])) s = ([] @ map lrp_request placed,
      fold (\<lambda>(lrp, guid, path). AList.update guid lrp) placed [], [] @ unt')"
    and lrps: "mset lrps = mset (map fst placed) + mset unt'"
    using lrps_loop_result [of M a lrps "[]" "[]" "[]" s] by (elim exE conjE) (rule that)
  with assms have r: "lrpMap = fold (\<lambda>(lrp, guid, path). AList.update guid lrp) placed []" "unt = unt'"
    by (simp_all add: lrpsToAllocationRequest_def)
  have "set lrps = fst ` set placed \<union> set unt'"
    using arg_cong [OF lrps, of set_mset] by simp
  moreover have "snd ` set lrpMap \<subseteq> fst ` set placed"
    using snd_set_fold_update [of "\<lambda>x. fst (snd x)" fst placed "[]"] by (simp add: r(1) split_def)
  ultimately show "snd ` set lrpMap \<subseteq> set lrps" "set unt \<subseteq> set lrps"
    by (simp_all add: r(2)) blast
qed

lemma tasks_loop_subset:
  assumes "tasksToAllocationRequests M a tasks = (requests, taskMap, unt)"
  shows "snd ` set taskMap \<subseteq> set tasks" "set unt \<subseteq> set tasks"
proof -
  obtain placed unt' where "tasks_loop M a tasks ([], [], []) = ([] @ map task_request placed,
      fold (\<lambda>task. AList.update (TaskGuid task) task) tasks [], [] @ unt')"
    and tasks: "mset tasks = mset (map fst placed) + mset unt'"
    using tasks_loop_result [of M a tasks "[]" "[]" "[]"] by (elim exE conjE) (rule that)
  with assms have r: "taskMap = fold (\<lambda>task. AList.update (TaskGuid task) task) tasks []" "unt = unt'"
    by (simp_all add: tasksToAllocationRequests_def)
  show "snd ` set taskMap \<subseteq> set tasks"
    using snd_set_fold_update [of TaskGuid "\<lambda>x. x" tasks "[]"] by (simp add: r(1))
  show "set unt \<subseteq> set tasks"
    using arg_cong [OF tasks, of set_mset] by (simp add: r(2))
qed

lemma perform_lrps_subset: "set (eval (perform_lrps M a lrps) s) \<subseteq> set lrps"
proof -
  obtain requests lrpMap unt where t: "eval (lrpsToAllocationRequest M a lrps) s = (requests, lrpMap, unt)"
    by (metis prod_cases3)
  have "set (failures_loop lrpMap fs unt) \<subseteq> set lrps" for fs
    using lrps_loop_subset [OF t] failures_loop_set [of lrpMap fs unt] by blast
  then show ?thesis by (cases unt) (simp_all add: perform_lrps_def t Let_def split: sum.split)
qed

lemma perform_tasks_subset: "set (eval (perform_tasks M a tasks) s) \<subseteq> set tasks"
proof -
  obtain requests taskMap failed where t: "tasksToAllocationRequests M a tasks = (requests, taskMap, failed)"
    by (metis prod_cases3)
  have "set (failures_loop taskMap fs failed) \<subseteq> set tasks" for fs
    using tasks_loop_subset [OF t]
      failures_loop_set [of taskMap fs failed] by blast
  then show ?thesis by (cases failed) (simp_all add: perform_tasks_def t Let_def split: sum.split)
qed

lemma Perform_subset:
  obtains failed where "eval (Perform M a work) s = Inr failed"
    "set (work_LRPs failed) \<subseteq> set (work_LRPs work)" "set (work_Tasks failed) \<subseteq> set (work_Tasks work)"
proof (cases "Evacuating_now (evac s)")
  case True
  then show ?thesis using that [of work] by (simp add: Perform_def)
next
  case False
  let ?l = "if length (work_LRPs work) > 0 then perform_lrps M a (work_LRPs work) else return []"
  let ?t = "if length (work_Tasks work) > 0 then perform_tasks M a (work_Tasks work) else return []"
  have "set (eval ?l s) \<subseteq> set (work_LRPs work)" "set (eval ?t (exec ?l s)) \<subseteq> set (work_Tasks work)"
    using perform_lrps_subset [of M a] perform_tasks_subset [of M a] by auto
  moreover have "eval (Perform M a work) s =
      Inr \<lparr>work_LRPs = eval ?l s, work_Tasks = eval ?t (exec ?l s)\<rparr>"
    using False by (simp add: Perform_def)
  ultimately show ?thesis using that by fastforce
qed

lemma Perform_work_ok:
  assumes "work_ok work"
  shows "\<exists>failed. eval (Perform M a work) s = Inr failed \<and> work_ok failed"
proof (rule Perform_subset [of M a work s])
  fix failed
  assume "eval (Perform M a work) s = Inr failed"
    "set (work_LRPs failed) \<subseteq> set (work_LRPs work)" "set (work_Tasks failed) \<subseteq> set (work_Tasks work)"
  with assms show ?thesis by (auto simp: work_ok_def list_all_iff)
qed

section \<open>Delivered requests\<close>

lemma newClient_simps [simp]:
  "rc_client (newClient hc sc address) = hc" "rc_stateClient (newClient hc sc address) = sc"
  "rc_routes (newClient hc sc address) = Routes" "rc_address (newClient hc sc address) = address"
  by (simp_all add: newClient_def)

definition route_of :: "string \<Rightarrow> Route" where
  "route_of name = the (List.find (\<lambda>r. route_Name r = name) Routes)"

lemmas Routes_defs = Routes_def RoutesSecure_def RoutesInsecure_def NewRoutes_def route_names

lemma Routes_params:
  "path_params ''/state'' = []" "path_params ''/work'' = []" "path_params ''/sim/reset'' = []"
  "path_params ''/v1/lrps/:process_guid/instances/:instance_guid/stop'' = [''process_guid'', ''instance_guid'']"
  "path_params ''/v1/tasks/:task_guid/cancel'' = [''task_guid'']"
  by (simp_all add: path_params_def HasPrefix_def)

lemma route_of_simps:
  "route_of StateRoute \<in> set Routes \<and> route_Name (route_of StateRoute) = StateRoute \<and>
     path_params (route_Path (route_of StateRoute)) = []"
  "route_of PerformRoute \<in> set Routes \<and> route_Name (route_of PerformRoute) = PerformRoute \<and>
     path_params (route_Path (route_of PerformRoute)) = []"
  "route_of Sim_ResetRoute \<in> set Routes \<and> route_Name (route_of Sim_ResetRoute) = Sim_ResetRoute \<and>
     path_params (route_Path (route_of Sim_ResetRoute)) = []"
  "route_of StopLRPInstanceRoute \<in> set Routes \<and>
     route_Name (route_of StopLRPInstanceRoute) = StopLRPInstanceRoute \<and>
     path_params (route_Path (route_of StopLRPInstanceRoute)) = [''process_guid'', ''instance_guid'']"
  "route_of CancelTaskRoute \<in> set Routes \<and> route_Name (route_of CancelTaskRoute) = CancelTaskRoute \<and>
     path_params (route_Path (route_of CancelTaskRoute)) = [''task_guid'']"
  by (simp_all add: route_of_def Routes_defs Routes_params)

lemma deliversE:
  assumes "delivers early H (newClient hc sc address) hs"
    and "route_of name \<in> set Routes \<and> route_Name (route_of name) = name \<and>
      path_params (route_Path (route_of name)) = pps"
    and "set pps \<subseteq> fst ` set params" "filter (\<lambda>(k, _). k \<in> set pps) params = given"
    and "list_all (plain \<circ> snd) given"
  obtains req where "rata_CreateRequest H address Routes name params body = Inr req"
    "http_Do H hc req = serve early hs name given body" "http_Do H sc req = serve early hs name given body"
    "http_Do H hc (request_Header_Set H k v req) = serve early hs name given body"
proof -
  have "in_path (route_Path (route_of name)) params = given"
    using assms(2,4) by (simp add: in_path_def)
  with assms obtain req where "rata_CreateRequest H address Routes name params body = Inr req \<and>
     (\<forall>x \<in> {hc, sc}. \<forall>k v. http_Do H x req = serve early hs name given body \<and>
        http_Do H x (request_Header_Set H k v req) = serve early hs name given body)"
    unfolding delivers_def newClient_simps by metis
  with that show thesis by simp
qed

lemma writer_simps [simp]:
  "response_of (WriteHeader code new_writer) = \<lparr>hr_StatusCode = code, hr_Body = ('''', None)\<rparr>"
  "response_of (rw_Write bytes new_writer) = \<lparr>hr_StatusCode = 200, hr_Body = (bytes, None)\<rparr>"
  "response_of (rw_Write bytes (WriteHeader code new_writer)) =
     \<lparr>hr_StatusCode = code, hr_Body = (bytes, None)\<rparr>"
  "response_of new_writer = \<lparr>hr_StatusCode = 200, hr_Body = ('''', None)\<rparr>"
  by (simp_all add: response_of_def WriteHeader_def rw_Write_def new_writer_def Let_def)

subsection \<open>Perform\<close>

lemma serve_perform:
  assumes W: "wire_ok W" "work_ok work" and h: "map_of hs PerformRoute = Some (perform_ServeHTTP W rep)"
  shows "serve early hs PerformRoute [] (print_json (marshal_Work W work)) =
    do {
      result \<leftarrow> ac_Perform rep work;
      return (Inr (case result of
          Inl err \<Rightarrow> \<lparr>hr_StatusCode = StatusInternalServerError, hr_Body = ('''', None)\<rparr>
        | Inr failedWork \<Rightarrow>
            \<lparr>hr_StatusCode = 200, hr_Body = (encode_json (marshal_Work W failedWork), None)\<rparr>))
    }"
  using json_ok_Work [OF W] unmarshal_marshal_Work [OF W(1), of work]
  by (intro act_eqI) (simp_all add: serve_def h perform_ServeHTTP_def split: sum.split)

subsection \<open>State\<close>

text \<open>The same cell to the auction: the states differ at most in how the providers are stored.\<close>

definition same_cell :: "CellState \<Rightarrow> CellState \<Rightarrow> bool" where
  "same_cell st st' \<longleftrightarrow> st' = st\<lparr>RootFSProviders_of := RootFSProviders_of st'\<rparr> \<and>
     (\<forall>u. RootFSProviders_Match (RootFSProviders_of st') u = RootFSProviders_Match (RootFSProviders_of st) u)"

lemma same_cell_decisions:
  assumes "same_cell st st'"
  shows "MatchRootFS st' rootfs = MatchRootFS st rootfs" "ResourceMatch st' res = ResourceMatch st res"
    "MatchVolumeDrivers st' drivers = MatchVolumeDrivers st drivers"
    "MatchPlacementTags st' desired = MatchPlacementTags st desired"
proof -
  obtain q where q: "st' = st\<lparr>RootFSProviders_of := q\<rparr>"
    "\<And>u. RootFSProviders_Match q u = RootFSProviders_Match (RootFSProviders_of st) u"
    using assms by (metis same_cell_def)
  then show "MatchRootFS st' rootfs = MatchRootFS st rootfs" "ResourceMatch st' res = ResourceMatch st res"
    "MatchVolumeDrivers st' drivers = MatchVolumeDrivers st drivers"
    "MatchPlacementTags st' desired = MatchPlacementTags st desired"
    by (simp_all add: MatchRootFS_def ResourceMatch_def MatchVolumeDrivers_def MatchPlacementTags_def
        split: sum.split)
qed

lemma serve_state:
  assumes "map_of hs StateRoute = Some (state_ServeHTTP W rep)"
  shows "serve early hs StateRoute [] '''' =
    do {
      result \<leftarrow> ac_State rep;
      return (Inr (case result of
          Inl err \<Rightarrow> \<lparr>hr_StatusCode = StatusInternalServerError, hr_Body = ('''', None)\<rparr>
        | Inr (st, healthy) \<Rightarrow>
            \<lparr>hr_StatusCode = (if healthy then 200 else StatusServiceUnavailable),
             hr_Body = (encode_json (marshal_CellState W st), None)\<rparr>))
    }"
  by (intro act_eqI) (simp_all add: serve_def assms state_ServeHTTP_def Let_def split: sum.split prod.split)

lemma state_reply:
  assumes "wire_ok W" "state_ok st" "RootFSProviders_wf (RootFSProviders_of st)"
  obtains st' where "parse_json (encode_json (marshal_CellState W st)) = Some (marshal_CellState W st)"
    "unmarshal_CellState W (marshal_CellState W st) = Inr st'" "same_cell st st'"
proof -
  obtain q where "RootFSProviders_UnmarshalJSON (marshal_RootFSProviders (RootFSProviders_of st)) = Inr q"
    "\<forall>u. RootFSProviders_Match q u = RootFSProviders_Match (RootFSProviders_of st) u"
    using unmarshal_marshal_match [OF assms(3)] by blast
  with json_ok_CellState [OF assms(1,2)] unmarshal_marshal_CellState [OF assms(1)] show thesis
    by (intro that [of "st\<lparr>RootFSProviders_of := q\<rparr>"]) (simp_all add: same_cell_def)
qed

subsection \<open>Stopping, cancelling and resetting\<close>

lemma form_value_simps [simp]:
  "form_value params (CHR '':'' # name) = (case map_of params name of None \<Rightarrow> '''' | Some v \<Rightarrow> v)"
  by (simp add: form_value_def)

lemma serve_stop:
  assumes "map_of hs StopLRPInstanceRoute = Some (stop_lrp_ServeHTTP S)"
    and "plain (ProcessGuid key)" "plain (InstanceGuid instanceKey)"
  shows "serve early hs StopLRPInstanceRoute [(''process_guid'', ProcessGuid key),
      (''instance_guid'', InstanceGuid instanceKey)] '''' =
    do {
      err \<leftarrow> invoke (StopContainer (InstanceGuid instanceKey)) err_reply
        (svc_StopContainer S (InstanceGuid instanceKey));
      return (Inr \<lparr>hr_StatusCode = (if err = None then StatusAccepted else StatusInternalServerError),
        hr_Body = ('''', None)\<rparr>)
    }"
  using assms
  by (intro act_eqI)
    (simp_all add: serve_def stop_lrp_ServeHTTP_def plain_def Let_def
      LRPContainerGuid_def)

lemma client_stop_eq:
  assumes "delivers early H (newClient hc sc address) hs"
    and "map_of hs StopLRPInstanceRoute = Some (stop_lrp_ServeHTTP S)"
    and "plain (ProcessGuid key)" "plain (InstanceGuid instanceKey)"
  shows "StopLRPInstance H (newClient hc sc address) key instanceKey =
    do {
      err \<leftarrow> invoke (StopContainer (InstanceGuid instanceKey)) err_reply
        (svc_StopContainer S (InstanceGuid instanceKey));
      return (if err = None then None else Some (http_error StatusInternalServerError))
    }"
proof -
  obtain req where "rata_CreateRequest H address Routes StopLRPInstanceRoute
      (stopParamsFromLRP key instanceKey) '''' = Inr req"
    "http_Do H hc (request_Header_Set H ''Content-Type'' ''application/json'' req) =
       serve early hs StopLRPInstanceRoute [(''process_guid'', ProcessGuid key),
         (''instance_guid'', InstanceGuid instanceKey)] ''''"
    by (rule deliversE [OF assms(1) route_of_simps(4), of "stopParamsFromLRP key instanceKey"
        "[(''process_guid'', ProcessGuid key), (''instance_guid'', InstanceGuid instanceKey)]"])
      (use assms(3,4) in \<open>simp_all add: stopParamsFromLRP_def\<close>)
  then show ?thesis
    by (intro act_eqI) (simp_all add: StopLRPInstance_def serve_stop [OF assms(2-4)] status_codes)
qed

lemma client_cancel_eq:
  assumes "delivers early H (newClient hc sc address) hs"
    and h: "map_of hs CancelTaskRoute = Some (cancel_task_ServeHTTP S)" and "plain taskGuid"
  shows "CancelTask H (newClient hc sc address) taskGuid =
    do {
      (if early then do {
         invoke (DeleteContainer taskGuid) err_reply (svc_DeleteContainer S taskGuid);
         return ()
       } else return ());
      return None
    }"
proof -
  obtain req where "rata_CreateRequest H address Routes CancelTaskRoute [(''task_guid'', taskGuid)]
      '''' = Inr req"
    "http_Do H hc req = serve early hs CancelTaskRoute [(''task_guid'', taskGuid)] ''''"
    by (rule deliversE [OF assms(1) route_of_simps(5), of "[(''task_guid'', taskGuid)]"
        "[(''task_guid'', taskGuid)]"])
      (use assms(3) in simp_all)
  then show ?thesis
    by (intro act_eqI)
      (simp_all add: CancelTask_def serve_def h cancel_task_ServeHTTP_def Let_def status_codes)
qed

subsection \<open>Evacuation\<close>

lemma do_Evacuate_simps [simp]:
  "eval do_Evacuate s = ()" "evacuated (evac (exec do_Evacuate s)) = Closed"
  "trace (exec do_Evacuate s) = trace s" "crashed (exec do_Evacuate s) = crashed s"
  "ext (exec do_Evacuate s) = ext s"
  using Evacuate_Ret [of "evac s"] by (auto simp: do_Evacuate_def eval_def exec_def)

lemma serve_evacuate:
  assumes "map_of hs EvacuateRoute = Some evacuation_ServeHTTP"
  shows "eval (serve early hs EvacuateRoute params body) s =
      Inr \<lparr>hr_StatusCode = StatusAccepted,
        hr_Body = (print_json (JObject [(''ping_path'', JString ''/ping'')]), None)\<rparr>"
    "exec (serve early hs EvacuateRoute params body) s = exec do_Evacuate s"
  using assms
  by (simp_all add: serve_def evacuation_ServeHTTP_def Let_def response_of_def Header_Set_def
      WriteHeader_def rw_Write_def new_writer_def marshal_map_def)

section \<open>The cell as the handlers see it\<close>

text \<open>
  What the interface \<open>AuctionCellClient\<close> promises to the handlers and so to the clients:
  \<open>Perform\<close> does not fail and returns work that can be printed if the given work can,
  \<open>State\<close> reports well-formed rootfs providers, and a cell cannot be reset.
\<close>

locale auction_cell =
  fixes rep :: "'w AuctionCellClient"
  assumes perform_returns:
      "work_ok work \<Longrightarrow> \<exists>failed. eval (ac_Perform rep work) s = Inr failed \<and> work_ok failed"
    and state_providers:
      "eval (ac_State rep) s = Inr (st, healthy) \<Longrightarrow> RootFSProviders_wf (RootFSProviders_of st)"
    and no_reset: "\<exists>err. ac_Reset rep = Some err"
begin

lemma client_perform:
  assumes "wire_ok W" "work_ok work" "delivers early H (newClient hc sc address) hs"
    and "map_of hs PerformRoute = Some (perform_ServeHTTP W rep)"
  shows "client_Perform W H (newClient hc sc address) work = ac_Perform rep work"
proof -
  obtain req where req: "rata_CreateRequest H address Routes PerformRoute []
      (print_json (marshal_Work W work)) = Inr req"
    "http_Do H hc req = serve early hs PerformRoute [] (print_json (marshal_Work W work))"
    by (rule deliversE [OF assms(3) route_of_simps(2), of "[]" "[]"]) simp_all
  have reply: "decode_json (encode_json (marshal_Work W failed)) = Some (marshal_Work W failed) \<and>
      unmarshal_Work W (marshal_Work W failed) = Inr failed"
    if "eval (ac_Perform rep work) s = Inr failed" for s failed
    using perform_returns [OF assms(2), of s] that json_ok_Work [OF assms(1), of failed]
      unmarshal_marshal_Work [OF assms(1), of failed] by auto
  show ?thesis
  proof (rule act_eqI)
    fix s
    obtain failed where "eval (ac_Perform rep work) s = Inr failed"
      using perform_returns [OF assms(2)] by blast
    with reply [OF this] show
      "eval (client_Perform W H (newClient hc sc address) work) s = eval (ac_Perform rep work) s"
      by (simp add: client_Perform_def req serve_perform [OF assms(1,2,4)] StatusOK_def)
    show "exec (client_Perform W H (newClient hc sc address) work) s = exec (ac_Perform rep work) s"
      by (simp add: client_Perform_def req serve_perform [OF assms(1,2,4)])
  qed
qed

lemma client_state:
  assumes "wire_ok W" "delivers early H (newClient hc sc address) hs"
    and h: "map_of hs StateRoute = Some (state_ServeHTTP W rep)"
    and ok: "case eval (ac_State rep) s of Inl err \<Rightarrow> True | Inr (st, healthy) \<Rightarrow> state_ok st"
  shows "exec (client_State W H (newClient hc sc address)) s = exec (ac_State rep) s"
    "case eval (ac_State rep) s of
       Inl err \<Rightarrow> eval (client_State W H (newClient hc sc address)) s =
         Inl (unexpected_status StatusInternalServerError)
     | Inr (st, False) \<Rightarrow> eval (client_State W H (newClient hc sc address)) s =
         Inl (unexpected_status StatusServiceUnavailable)
     | Inr (st, True) \<Rightarrow> (\<exists>st'. eval (client_State W H (newClient hc sc address)) s = Inr st' \<and>
         same_cell st st')"
proof -
  obtain req where req: "rata_CreateRequest H address Routes StateRoute [] '''' = Inr req"
    "http_Do H sc req = serve early hs StateRoute [] ''''"
    by (rule deliversE [OF assms(2) route_of_simps(1), of "[]" "[]"]) simp_all
  note defs = client_State_def req serve_state [OF h] status_codes ReadAll_def
  show "exec (client_State W H (newClient hc sc address)) s = exec (ac_State rep) s"
    by (simp add: defs)
  have "\<exists>st'. (case parse_json (encode_json (marshal_CellState W st)) of
        None \<Rightarrow> Inl json_error | Some j \<Rightarrow> unmarshal_CellState W j) = Inr st' \<and> same_cell st st'"
    if "eval (ac_State rep) s = Inr (st, True)" for st
    using state_reply [OF assms(1), of st] ok that state_providers [OF that]
    by (metis option.simps(5) old.sum.simps(6) case_prod_conv)
  then show "case eval (ac_State rep) s of
       Inl err \<Rightarrow> eval (client_State W H (newClient hc sc address)) s =
         Inl (unexpected_status StatusInternalServerError)
     | Inr (st, False) \<Rightarrow> eval (client_State W H (newClient hc sc address)) s =
         Inl (unexpected_status StatusServiceUnavailable)
     | Inr (st, True) \<Rightarrow> (\<exists>st'. eval (client_State W H (newClient hc sc address)) s = Inr st' \<and>
         same_cell st st')"
    by (auto simp: defs split: sum.split prod.split bool.split)
qed

lemma client_reset:
  assumes "delivers early H (newClient hc sc address) hs"
    and h: "map_of hs Sim_ResetRoute = Some (reset_ServeHTTP rep)"
  shows "client_Reset H (newClient hc sc address) =
    return (Some (unexpected_status StatusInternalServerError))"
proof -
  obtain req where "rata_CreateRequest H address Routes Sim_ResetRoute [] '''' = Inr req"
    "http_Do H hc req = serve early hs Sim_ResetRoute [] ''''"
    by (rule deliversE [OF assms(1) route_of_simps(3), of "[]" "[]"]) simp_all
  moreover obtain err where "ac_Reset rep = Some err" using no_reset by blast
  ultimately show ?thesis
    by (intro act_eqI)
      (simp_all add: client_Reset_def serve_def h reset_ServeHTTP_def status_codes)
qed

end

lemma update_RootFSProviders_wf:
  "RootFSProviders_wf p \<Longrightarrow> provider_wf v \<Longrightarrow> RootFSProviders_wf (AList.update k v p)"
proof -
  assume p: "RootFSProviders_wf p" "provider_wf v"
  have "set (AList.update k v p) \<subseteq> insert (k, v) (set p)" by (induction p) auto
  with p show ?thesis by (auto simp: RootFSProviders_wf_def distinct_update list_all_iff)
qed

lemma rootFSProviders_wf: "RootFSProviders_wf (rootFSProviders M ord stacks arbitrary)"
proof -
  have "RootFSProviders_wf p \<Longrightarrow>
      RootFSProviders_wf (fold (\<lambda>scheme. AList.update scheme (Some ArbitraryRootFSProvider)) schemes p)"
    for p schemes
    by (induction schemes arbitrary: p) (simp_all add: update_RootFSProviders_wf)
  then show ?thesis
    by (simp add: rootFSProviders_def Let_def update_RootFSProviders_wf RootFSProviders_wf_def [of "[]"])
qed

lemma auction_State_providers:
  "eval (auction_State M a) s = Inr (st, healthy) \<Longrightarrow> RootFSProviders_of st = a_rootFSProviders a"
  by (auto simp: auction_State_def NewCellState_def split: sum.splits prod.splits)

interpretation cell: auction_cell
  "auction_client M (auctioncellrep_New M ord cellID stacks arbitrary zone gen S tags optTags)"
  for M ord cellID stacks arbitrary zone gen S tags optTags
proof
  fix work s
  assume "work_ok work"
  then show "\<exists>failed. eval (ac_Perform (auction_client M (auctioncellrep_New M ord cellID stacks
      arbitrary zone gen S tags optTags)) work) s = Inr failed \<and> work_ok failed"
    by (simp add: auction_client_def Perform_work_ok)
next
  fix s st healthy
  assume "eval (ac_State (auction_client M (auctioncellrep_New M ord cellID stacks arbitrary zone
      gen S tags optTags))) s = Inr (st, healthy)"
  then have "RootFSProviders_of st = rootFSProviders M ord stacks arbitrary"
    using auction_State_providers by (fastforce simp: auction_client_def auctioncellrep_New_def)
  then show "RootFSProviders_wf (RootFSProviders_of st)" by (simp add: rootFSProviders_wf)
qed (simp add: auction_client_def auction_Reset_def)

lemma auction_State_evacuating:
  assumes "Evacuating_now (evac s)" "eval (auction_State M a) s = Inr (st, healthy)"
  shows "Evacuating st"
  using assms by (auto simp: auction_State_def NewCellState_def split: sum.splits prod.splits)

section \<open>An example\<close>

lemma example_state:
  "\<exists>st. eval (auction_State example_api example_rep) example_world = Inr (st, True) \<and> state_ok st"
proof -
  obtain st where st: "eval (auction_State example_api example_rep) example_world = Inr (st, True)"
    "LRPs st = [NewLRP example_key (state_resource (example_container StateReserved)) no_constraint]"
    "Tasks st = List.map_filter container_task [example_container StateReserved]"
    "VolumeDrivers st = [''nfs'']" "RootFSProviders_of st = a_rootFSProviders example_rep"
    "Zone st = a_zone example_rep" "PlacementTags st = a_placementTags example_rep"
    "OptionalPlacementTags st = a_optionalPlacementTags example_rep"
    using state_reported [OF example_answers, of example_api example_world] example_containers by auto
  have "List.map_filter container_task [example_container StateReserved] = []"
    by (simp add: map_filter_def container_task_def example_tags_def tag_defs tag_get_simps)
  with st show ?thesis
    by (simp add: state_ok_def lrp_ok_def placement_ok_def NewLRP_def no_constraint_def example_key_def
        example_rep_def auctioncellrep_New_def rootFSProviders_def provider_ok_def
        RootFSProviders_ok_def example_api_def NewFixedSetRootFSProvider_def NewStringSet_def
        literal_ok del: utf8_valid.simps)
qed

end
