(* ===== verification/Spec2Isabelle.thy ===== *)
theory Spec2Isabelle
  imports Scoring Remote_Cell
begin

text \<open>
  A model of the rep, the part of a Diego cell that reports the cell's capacity to the auction,
  takes on the work it wins, and keeps the BBS (the record of desired and actual work) and the
  executor (the containers) in agreement.

  \<^bold>\<open>The program.\<close> The auctioneer asks each cell for its state and sends it the work it has
  won (\<open>client.go\<close>, \<open>routes.go\<close>, \<open>handlers\<close>, \<open>auctioncellrep\<close>, with the types and
  the placement rules of \<open>resources.go\<close>, \<open>rootfs_providers.go\<close> and \<open>scoring.go\<close>).
  The bulker and the event consumer (\<open>harmonizer\<close>) ask the generator (\<open>generator\<close>)
  for operations, periodically and on executor events. An operation processes one container,
  LRP or task: it calls the BBS and the executor by the state of the container
  (\<open>generator/internal\<close>, \<open>conversion_helpers.go\<close>). A request to evacuate closes a channel
  (\<open>evacuation/evacuation_context\<close>) on which the evacuator waits for the containers to
  go away (\<open>evacuation\<close>). The maintainer (\<open>maintain\<close>) keeps the cell's presence.
  \<open>cmd/rep\<close> reads the configuration and puts the parts together.

  \<^bold>\<open>The theories.\<close>
  \<^item> \<open>Rep_Prelude\<close>: Go integers at their width, errors, outcomes (a value, an error or a
    panic), maps that are ranged over in an arbitrary order, the collections of simp rules.
  \<^item> \<open>Go_Std\<close>, \<open>Go_JSON\<close>, \<open>Go_JSON_Text\<close>: what the code uses of \<open>strconv\<close>,
    \<open>strings\<close>, \<open>net/url\<close> and \<open>encoding/json\<close>, with a parser and a printer of JSON text
    that are inverse to each other.
  \<^item> \<open>Rep_Foreign\<close>: the types of the packages \<open>models\<close> and \<open>executor\<close>; their
    functions are the record \<open>ext_api\<close>, a parameter of the definitions.
  \<^item> \<open>RootFS_Providers\<close>, \<open>Resources\<close>, \<open>Scoring\<close>, \<open>Conversion\<close>: the files of
    the package \<open>rep\<close> of those names; \<open>Wire_Format\<close>: the JSON form of \<open>Work\<close> and
    \<open>CellState\<close>.
  \<^item> \<open>Evacuation_Context\<close>: the latch; \<open>Rep_World\<close>: the world in which the code runs (the
    state of the services, the trace of the calls with their replies, the latch) and actions on it
    in the state monad; \<open>Protocol\<close>: runs of labelled step relations, and what an action's
    calls look like as a run; \<open>Example_Cell\<close>: services for the examples.
  \<^item> \<open>Container_Delegate\<close>, \<open>LRP_Processors\<close>, \<open>Task_Processor\<close>, \<open>Operations\<close>,
    \<open>Generator\<close>: \<open>generator\<close> and \<open>generator/internal\<close>, one definition for each
    method; \<open>LRP_Protocol\<close>: the protocol that the LRP processors follow.
  \<^item> \<open>Auction_Cell_Rep\<close>: \<open>auctioncellrep\<close>; \<open>Harmonizer\<close>: \<open>harmonizer\<close>;
    \<open>Evacuation\<close>: \<open>evacuation\<close>; \<open>Cell_Presence\<close>, \<open>Maintain\<close>: \<open>maintain\<close>. The
    loops around a \<open>select\<close> are step relations whose labels are the events received;
    goroutines that run beside them are further steps, in the cleanup one for each call.
  \<^item> \<open>Handlers\<close>: \<open>routes.go\<close> and \<open>handlers\<close>; \<open>Rep_Client\<close>: \<open>client.go\<close>;
    \<open>Rep_Config\<close>: \<open>cmd/rep/config\<close>; \<open>Rep_Main\<close>: \<open>cmd/rep/main.go\<close>;
    \<open>Remote_Cell\<close>: the client against the handlers.

  \<^bold>\<open>Interfaces.\<close> What a component relies on is a locale, interpreted on the component that
  provides it: \<open>container_delegate\<close> (used by the processors), \<open>ordinary_processor\<close>,
  \<open>evacuation_processor\<close> and \<open>task_processor\<close> (the processors over any delegate),
  \<open>container_processor\<close> and \<open>container_operation\<close> (what the operations rely on),
  \<open>generator_contract\<close> (the generator for the bulker), \<open>auction_cell\<close> (the cell for the
  handlers and the clients), \<open>embedded\<close> (fields of embedded structs in JSON).

  \<^bold>\<open>What is shown.\<close>
  \<^item> The calls of processing a container are a run of an explicit protocol, from which the
    safety properties follow: containers run only for claimed LRPs and for tasks
    that this cell started, processing an LRP on an evacuating cell reports it and takes nothing
    on (tasks are processed as before), a completed container is reported and then deleted, a live
    one is deleted only for a cause.
  \<^item> A batch has exactly one operation for each container, LRP and task, for every
    scheduling and every order of the maps; executing an operation touches only its own. A
    synchronisation brings the records of the BBS that have no container in line.
  \<^item> Placement never overcommits a cell, \<open>Perform\<close> splits the work into placed and failed,
    the work that was placed is the work that is claimed and run (this theory), an
    advertised rootfs has a path. The scores rank cells as intended, up to the rounding of
    \<open>float64\<close>.
  \<^item> The loops: the event consumer terminates, the bulker switches on evacuation,
    the evacuator completes only on an empty cell, the cleanup waits and fails only for the BBS
    or the timer, the maintainer restarts.
  \<^item> Over HTTP a cell behaves as it does locally (this theory), clients and announced URLs
    respect the TLS settings, configurations and JSON forms are read as they were written; how
    the process ends, and that a failed exit skips the clean-up of the executor.

  \<^bold>\<open>Bounds and fuel.\<close> The JSON parser recurses with a fuel of twice the length of the text plus
  one; \<open>Go_JSON_Text\<close> shows that more fuel changes nothing and that this is enough for every
  printed value. All other recursions are structural or have a termination proof. Go's \<open>int\<close>
  is a 64-bit word and \<open>int32\<close> a 32-bit one; durations and clocks are unbounded integers, and
  the evacuation timeout in seconds is exact up to 97 days. The arithmetic of \<open>float64\<close> is a
  parameter of the scores; what is assumed of it is the rounding error of IEEE 754 (\<open>Scoring\<close>),
  and a rounding to 53 places satisfies it.

  \<^bold>\<open>Not modelled.\<close> Logging; memory and data races (mutexes make a method one step);
  the functions of other packages, which are parameters (the BBS, the executor, consul, locket,
  \<open>rata\<close>, the HTTP transport, \<open>ifrit\<close> groups, whose named assumptions are in the
  statements). In \<open>main.go\<close> the loggers, the clock and the default timeout of
  \<open>cfhttp\<close>, and how \<open>grouper\<close> runs the members, which is an argument. The fakes that
  \<open>counterfeiter\<close> generates: they are test doubles, whose methods record their arguments and
  return what the test told them to, and no part of the rep is made of them. The test runner, which
  starts the binary in the integration tests, and the \<open>package.go\<close> files, which hold no code.
\<close>

section \<open>The cell behind its HTTP interface\<close>

lemma CreateClient_newClient:
  assumes "CreateClient factory address url = Inr c"
  obtains used where "c = newClient (cf_httpClient factory) (cf_stateClient factory) used"
  using assms by (auto simp: CreateClient_def split: sum.splits)

text \<open>
  C4: Work sent to a cell over HTTP is the work done there. The client that the factory creates,
  talking to a server of the cell that serves the auction's routes, returns from \<open>Perform\<close> exactly
  what \<open>Perform\<close> of the cell returns for the same work, with the same calls of the executor: the
  work arrives unchanged, the work that could not be placed comes back unchanged, and no error
  is added on the way. The names in the work have to be valid UTF-8.
\<close>

theorem remote_perform:
  assumes "CreateClient factory address url = Inr c" "map_order ord" "legacy \<or> secure"
    and "wire_ok W" "work_ok work"
    and a: "a = auctioncellrep_New M ord' cellID stacks arbitrary zone gen S tags optTags"
    and "delivers early H c (getHandlers W ord (auction_client M a) S legacy secure)"
  shows "client_Perform W H c work = Perform M a work"
proof -
  obtain used where "c = newClient (cf_httpClient factory) (cf_stateClient factory) used"
    using assms(1) by (rule CreateClient_newClient)
  with assms show ?thesis
    using cell.client_perform [OF assms(4,5) _ getHandlers_secure(2) [OF assms(2,3)]]
    by (auto simp: a auction_client_def)
qed

definition example_server :: "unit Handlers" where
  "example_server = getHandlers example_wire rev (auction_client example_api example_rep)
     example_services True False"

definition example_factory :: "unit clientFactory" where
  "example_factory =
     \<lparr>cf_httpClient = plain_client, cf_stateClient = plain_client,
      cf_tlsConfig = \<lparr>RequireTLS = False, CertFile = '''', KeyFile = '''', CaCertFile = '''',
        ClientCacheSize = 0\<rparr>\<rparr>"

definition example_client :: "unit rep_client" where
  "example_client = newClient plain_client plain_client ''10.0.0.1:1800''"

lemma example_wire_ok: "wire_ok example_wire"
  by (simp add: wire_ok_def example_wire_def literal_ok del: utf8_valid.simps)

lemma example_created: "CreateClient example_factory ''10.0.0.1:1800'' '''' = Inr example_client"
  by (simp add: CreateClient_def pickURL_def example_factory_def hasCreds_def example_client_def)

lemma example_delivers: "delivers early (loopback early example_server) example_client example_server"
  unfolding example_client_def by (rule loopback_delivers)

lemma example_work_ok: "work_ok example_work"
  by (simp add: work_ok_def example_work_def lrp_ok_def task_ok_def placement_ok_def NewLRP_def NewTask_def
      NewPlacementConstraint_def example_key_def literal_ok del: utf8_valid.simps)

theorem remote_perform_witness:
  "client_Perform example_wire (loopback True example_server) example_client example_work =
     Perform example_api example_rep example_work"
  using remote_perform [OF example_created _ _ example_wire_ok example_work_ok example_rep_def
      example_delivers [of True, unfolded example_server_def]]
  by (simp add: example_server_def)

text \<open>
  C14: The state of a cell read over HTTP is the state the cell reports. If the cell is healthy,
  the client returns a state that is equal but for the representation of its rootfs
  providers, and that decides like the original on every rootfs, resource, volume driver and
  placement tag. If the cell is not healthy or cannot tell its state, the client returns an
  error with the status 503 or 500. In every case the calls of the executor are those
  of the cell's \<open>State\<close>.
\<close>

theorem remote_state:
  assumes "CreateClient factory address url = Inr c" "map_order ord" "legacy \<or> secure" "wire_ok W"
    and a: "a = auctioncellrep_New M ord' cellID stacks arbitrary zone gen S tags optTags"
    and "delivers early H c (getHandlers W ord (auction_client M a) S legacy secure)"
    and ok: "case eval (auction_State M a) s of Inl err \<Rightarrow> True | Inr (st, healthy) \<Rightarrow> state_ok st"
  shows "exec (client_State W H c) s = exec (auction_State M a) s \<and>
    (case eval (auction_State M a) s of
       Inl err \<Rightarrow> eval (client_State W H c) s = Inl (unexpected_status StatusInternalServerError)
     | Inr (st, False) \<Rightarrow> eval (client_State W H c) s = Inl (unexpected_status StatusServiceUnavailable)
     | Inr (st, True) \<Rightarrow>
         (\<exists>st'. eval (client_State W H c) s = Inr st' \<and>
            st' = st\<lparr>RootFSProviders_of := RootFSProviders_of st'\<rparr> \<and>
            (\<forall>rootfs. MatchRootFS st' rootfs = MatchRootFS st rootfs) \<and>
            (\<forall>res. ResourceMatch st' res = ResourceMatch st res) \<and>
            (\<forall>drivers. MatchVolumeDrivers st' drivers = MatchVolumeDrivers st drivers) \<and>
            (\<forall>desired. MatchPlacementTags st' desired = MatchPlacementTags st desired)))"
proof -
  obtain used where c: "c = newClient (cf_httpClient factory) (cf_stateClient factory) used"
    using assms(1) by (rule CreateClient_newClient)
  have ac: "ac_State (auction_client M a) = auction_State M a" by (simp add: auction_client_def)
  note eq = cell.client_state [OF assms(4) assms(6) [unfolded c a] getHandlers_secure(1) [OF assms(2,3)],
      folded a c, unfolded ac, OF ok]
  have "\<exists>st'. eval (client_State W H c) s = Inr st' \<and> st' = st\<lparr>RootFSProviders_of := RootFSProviders_of st'\<rparr> \<and>
      (\<forall>rootfs. MatchRootFS st' rootfs = MatchRootFS st rootfs) \<and>
      (\<forall>res. ResourceMatch st' res = ResourceMatch st res) \<and>
      (\<forall>drivers. MatchVolumeDrivers st' drivers = MatchVolumeDrivers st drivers) \<and>
      (\<forall>desired. MatchPlacementTags st' desired = MatchPlacementTags st desired)"
    if "eval (auction_State M a) s = Inr (st, True)" for st
  proof -
    obtain st' where st': "eval (client_State W H c) s = Inr st'" "same_cell st st'"
      using eq(2) \<open>eval (auction_State M a) s = Inr (st, True)\<close> by auto
    from this(2) have "st' = st\<lparr>RootFSProviders_of := RootFSProviders_of st'\<rparr>" by (simp add: same_cell_def)
    with st'(1) same_cell_decisions [OF st'(2)] show ?thesis by blast
  qed
  with eq show ?thesis by (auto split: sum.splits prod.splits bool.splits)
qed

theorem remote_state_witness:
  "\<exists>st st'. eval (auction_State example_api example_rep) example_world = Inr (st, True) \<and>
     eval (client_State example_wire (loopback False example_server) example_client) example_world = Inr st' \<and>
     (\<forall>rootfs. MatchRootFS st' rootfs = MatchRootFS st rootfs)"
proof -
  obtain st where st: "eval (auction_State example_api example_rep) example_world = Inr (st, True)"
    "state_ok st"
    using example_state by blast
  show ?thesis
    using remote_state [OF example_created _ _ example_wire_ok example_rep_def
        example_delivers [of False, unfolded example_server_def], of example_world] st
    by (auto simp: example_server_def)
qed

text \<open>
  C17: What the BBS asks of a cell over HTTP reaches the executor. Stopping an LRP instance is
  one call that stops the container of that instance, and its failure is reported as the
  status 500; cancelling a task is accepted at once, and the deletion of the task's container is
  the one call that it starts, which may come before or after the response; a reset is
  refused without any call, as the cell is not a simulated one. The guids have to be of
  unreserved characters, as they are parts of the path.
\<close>

theorem remote_stop_cancel_reset:
  assumes "CreateClient factory address url = Inr c" "map_order ord" "legacy \<or> secure"
    and "delivers early H c (getHandlers W ord (auction_client M a) S legacy secure)"
    and a: "a = auctioncellrep_New M ord' cellID stacks arbitrary zone gen S tags optTags"
    and "plain (ProcessGuid key)" "plain (InstanceGuid instanceKey)" "plain taskGuid"
  shows "eval (StopLRPInstance H c key instanceKey) s =
      (if fst (svc_StopContainer S (InstanceGuid instanceKey) (ext s)) = None then None
       else Some (http_error StatusInternalServerError)) \<and>
    map fst (calls (StopLRPInstance H c key instanceKey) s) = [StopContainer (InstanceGuid instanceKey)] \<and>
    eval (CancelTask H c taskGuid) s = None \<and>
    map fst (calls (CancelTask H c taskGuid) s) = (if early then [DeleteContainer taskGuid] else []) \<and>
    client_Reset H c = return (Some (unexpected_status StatusInternalServerError))"
proof -
  obtain used where c: "c = newClient (cf_httpClient factory) (cf_stateClient factory) used"
    using assms(1) by (rule CreateClient_newClient)
  note d = assms(4) [unfolded c] and h = getHandlers_secure [OF assms(2,3)]
  show ?thesis
    unfolding c client_stop_eq [OF d h(3) assms(6,7)] client_cancel_eq [OF d h(4) assms(8)]
      cell.client_reset [OF d [unfolded a] h(5)]
    by (simp add: calls_bind)
qed

theorem remote_stop_cancel_reset_witness:
  "eval (StopLRPInstance (loopback True example_server) example_client example_key
       \<lparr>InstanceGuid = ''ig'', CellId = ''cell''\<rparr>) example_world = None \<and>
   map fst (calls (CancelTask (loopback True example_server) example_client ''tg'') example_world) =
     [DeleteContainer ''tg'']"
proof -
  have "plain (ProcessGuid example_key)" "plain ''ig''" "plain ''tg''"
    by (simp_all add: plain_def example_key_def unreserved_def is_alpha_def)
  then show ?thesis
    using remote_stop_cancel_reset [OF example_created _ _
        example_delivers [of True, unfolded example_server_def] example_rep_def, of example_key
        "\<lparr>InstanceGuid = ''ig'', CellId = ''cell''\<rparr>" "''tg''" example_world]
    by (simp add: example_server_def example_services_def)
qed

section \<open>From the auction to the container\<close>

text \<open>
  C5: What the auction places is what the cell takes on. When \<open>Perform\<close> asks the executor for a
  container and that container, still reserved, is processed by a cell that is
  not evacuating, the first call to the BBS is for the very work that was sent: the claim of the
  LRP's process guid and index under the container's guid, or the start of the task of
  that guid. If the container of an LRP is then run, it is run under its own guid and told the
  LRP's instance guid and index. The keys of the LRPs have to be valid.
\<close>

theorem placed_work_is_taken_on:
  assumes "silent (a_generateInstanceGuid a)"
    and "(AllocateContainers reqs, r) \<in> set (calls (Perform M a work) s)" "req \<in> set reqs"
    and "c_Guid c = ar_Guid req" "c_Tags c = ar_Tags req" "c_State c = StateReserved"
    and "\<forall>lrp \<in> set (work_LRPs work). ActualLRPKey_Validate M (lrp_Key lrp) = None"
    and "ActualLRPInstanceKey_Validate M \<lparr>InstanceGuid = c_Guid c, CellId = cellID\<rparr> = None"
    and "\<not> Evacuating_now (evac s')" "fst (svc_GetContainer S (c_Guid c) (ext s')) = Inr c"
  shows "\<exists>x r es. calls (op_Execute (operationFromContainer (generator_New M cellID B S ttl) (c_Guid c))) s' =
      (GetContainer (c_Guid c), OK) # (x, r) # es \<and>
    ((\<exists>lrp \<in> set (work_LRPs work).
        x = claim_call (lrp_Key lrp) \<lparr>InstanceGuid = c_Guid c, CellId = cellID\<rparr> \<and>
        (\<forall>rq r. (RunContainer rq, r) \<in> set es \<longrightarrow> rq_Guid rq = c_Guid c \<and>
           (\<exists>rest. ri_Env (rq_RunInfo rq) =
              lrp_env (lrp_Key lrp) \<lparr>InstanceGuid = c_Guid c, CellId = cellID\<rparr> @ rest))) \<or>
     (\<exists>task \<in> set (work_Tasks work). TaskGuid task = c_Guid c \<and> x = StartTask (TaskGuid task) cellID))"
proof -
  obtain s'' where evac: "\<not> Evacuating_now (evac s'')" and calls:
    "calls (op_Execute (operationFromContainer (generator_New M cellID B S ttl) (c_Guid c))) s' =
      (GetContainer (c_Guid c), OK) #
      (if tag_get (c_Tags c) LifecycleTag = LRPLifecycle
       then calls (lrpProcessor_Process (NewLRPProcessor M B (NewContainerDelegate S) cellID ttl) c) s''
       else if tag_get (c_Tags c) LifecycleTag = TaskLifecycle
       then calls (taskProcessor_Process M (NewTaskProcessor B (NewContainerDelegate S) cellID) c) s''
       else [])"
    using container_op_calls [OF assms(10), of M cellID B ttl] assms(9) by metis
  from perform_requests [OF assms(1-3)] consider
    (lrp) lrp guid path where "lrp \<in> set (work_LRPs work)" "req = lrp_request (lrp, guid, path)"
  | (task) task path where "task \<in> set (work_Tasks work)" "req = task_request (task, path)"
    unfolding request_for_def by blast
  then show ?thesis
  proof cases
    case lrp
    then have guid: "guid = c_Guid c" using assms(4) by (simp add: lrp_request_Guid)
    note keys = lrp_tags_keys [of M lrp c guid path cellID, OF _ _ assms(8) [folded guid]]
    from lrp assms(5,7) have "tag_get (c_Tags c) LifecycleTag = LRPLifecycle"
      "ActualLRPKeyFromTags M (c_Tags c) = Inr (lrp_Key lrp)"
      "ActualLRPInstanceKeyFromContainer M c cellID = Inr \<lparr>InstanceGuid = c_Guid c, CellId = cellID\<rparr>"
      using keys by (simp_all add: guid)
    with reserved_lrp_calls [OF evac assms(6) this(2,3), of B S ttl] lrp(1) show ?thesis
      unfolding calls by auto
  next
    case task
    then have "TaskGuid task = c_Guid c" "tag_get (c_Tags c) LifecycleTag = TaskLifecycle"
      using assms(4,5) by (simp_all add: task_request_Guid task_request_def tag_defs tag_get_simps)
    moreover have "TaskLifecycle \<noteq> LRPLifecycle" by (simp add: tag_defs)
    moreover have "active c" using assms(6) by (simp add: active_def)
    ultimately show ?thesis
      using active_task_calls [of c M B S cellID s''] task(1) unfolding calls by auto
  qed
qed


definition placed_guid :: string where
  "placed_guid = ''6ba7b810-9dad-41d1-80b4-00c0''"

definition placed_request :: AllocationRequest where
  "placed_request = lrp_request (hd (work_LRPs example_work), placed_guid, ''/rootfs'')"

definition placed_container :: Container where
  "placed_container =
     (example_container StateReserved)\<lparr>c_Guid := placed_guid, c_Tags := ar_Tags placed_request\<rparr>"

definition placed_services :: "unit services" where
  "placed_services = example_services\<lparr>svc_GetContainer := (\<lambda>g w. (Inr placed_container, w))\<rparr>"

lemma placed_container_simps:
  "c_Guid placed_container = placed_guid" "c_Tags placed_container = ar_Tags placed_request"
  "c_State placed_container = StateReserved" "ar_Guid placed_request = placed_guid"
  by (simp_all add: placed_container_def placed_request_def lrp_request_Guid)

lemma placed_call:
  "(AllocateContainers [placed_request], Refused []) \<in>
     set (calls (Perform example_api example_rep example_work) example_world)"
  by (simp add: Perform_def calls_def example_rep_def auctioncellrep_New_def example_work_def
      NewLRP_def NewTask_def NewPlacementConstraint_def perform_lrps_def perform_tasks_def
      lrpsToAllocationRequest_def tasksToAllocationRequests_def GenerateGuid_def example_path
      example_services_def alloc_reply_def Let_def placed_request_def lrp_request_def placed_guid_def
      LRPContainerGuid_def)

theorem placed_work_is_taken_on_witness:
  "\<exists>r es. calls (op_Execute (operationFromContainer (generator_New example_api ''cell'' example_services
       placed_services 600) placed_guid)) example_world =
     (GetContainer placed_guid, OK) #
     (claim_call example_key \<lparr>InstanceGuid = placed_guid, CellId = ''cell''\<rparr>, r) # es"
proof -
  have "silent (a_generateInstanceGuid example_rep)"
    by (simp add: example_rep_def auctioncellrep_New_def GenerateGuid_silent)
  moreover have work: "\<forall>lrp \<in> set (work_LRPs example_work). lrp_Key lrp = example_key"
    "\<forall>task \<in> set (work_Tasks example_work). TaskGuid task = ''tg''"
    by (simp_all add: example_work_def NewLRP_def NewTask_def)
  moreover have "ActualLRPKey_Validate example_api example_key = None"
    "ActualLRPInstanceKey_Validate example_api \<lparr>InstanceGuid = placed_guid, CellId = ''cell''\<rparr> = None"
    by (simp_all add: example_api_def example_key_def placed_guid_def nonblank_def)
  moreover have "fst (svc_GetContainer placed_services placed_guid (ext example_world)) = Inr placed_container"
    by (simp add: placed_services_def)
  moreover have "placed_guid \<noteq> ''tg''" by (simp add: placed_guid_def)
  ultimately show ?thesis
    using placed_work_is_taken_on [of example_rep "[placed_request]" "Refused []" example_api example_work
        example_world placed_request placed_container "''cell''" example_world placed_services
        example_services 600] placed_call
    by (auto simp: placed_container_simps)
qed

section \<open>Evacuation across the components\<close>

text \<open>
  C6: A request to evacuate takes effect at once and for good. The plain server answers it with
  202 and the path to ping. From then on, whatever other goroutines do, \<open>Perform\<close> gives back all
  work that it is sent, without a call; \<open>State\<close> reports an evacuating cell; the evacuator and the
  bulker find the notification channel closed; and any processing of the container of an LRP
  that begins then claims, starts and runs nothing. Tasks that are already on the cell are not
  affected: their containers are processed exactly as on a cell that does not evacuate, so a
  task with a reserved container is still started and run. Nothing is said of processing that
  had begun before the request.
\<close>

theorem evacuate_request_takes_effect:
  assumes "map_order ord"
    and "others_step (exec (serve early (getHandlers W ord rep S legacy False) EvacuateRoute [] '''') s) s'"
  shows "(\<exists>body. eval (serve early (getHandlers W ord rep S legacy False) EvacuateRoute [] '''') s =
        Inr \<lparr>hr_StatusCode = StatusAccepted, hr_Body = (body, None)\<rparr> \<and>
        parse_json body = Some (JObject [(''ping_path'', JString ''/ping'')])) \<and>
    eval (Perform M a work) s' = Inr work \<and> calls (Perform M a work) s' = [] \<and>
    (case eval (auction_State M a) s' of Inl err \<Rightarrow> True | Inr (st, healthy) \<Rightarrow> Evacuating st) \<and>
    EvacuateNotify (evac s') = Closed \<and>
    list_all (\<lambda>(cl, r). \<not> takes_work cl) (calls (lrpProcessor_Process
      (NewLRPProcessor M B (NewContainerDelegate S) cellID ttl) container) s') \<and>
    calls (taskProcessor_Process M (NewTaskProcessor B (NewContainerDelegate S) cellID) container) s' =
    calls (taskProcessor_Process M (NewTaskProcessor B (NewContainerDelegate S) cellID) container)
      (s'\<lparr>evac := evacuation_context_New\<rparr>)"
proof -
  note h = getHandlers_insecure(2) [OF assms(1), of False W rep S legacy, simplified]
  have "json_ok (JObject [(''ping_path'', JString ''/ping'')])"
    by (simp add: literal_ok del: utf8_valid.simps)
  then have "parse_json (print_json (JObject [(''ping_path'', JString ''/ping'')])) =
      Some (JObject [(''ping_path'', JString ''/ping'')])"
    by (rule parse_json_print)
  moreover have evac: "Evacuating_now (evac s')"
    using assms(2) by (simp add: serve_evacuate [OF h] others_step_def)
  moreover have "case eval (auction_State M a) s' of Inl err \<Rightarrow> True | Inr (st, healthy) \<Rightarrow> Evacuating st"
    using auction_State_evacuating [OF evac] by (auto split: sum.split prod.split)
  moreover have "eval (Perform M a work) s' = Inr work" "calls (Perform M a work) s' = []"
    using evac by (simp_all add: Perform_def calls_def)
  ultimately show ?thesis
    using evacuating_takes_none [OF evac, where M = M and B = B and S = S and cellID = cellID and
        ttl = ttl and c = container]
      ignores_evac_calls [OF task_Process_ignores_evac
        [where p = "NewTaskProcessor B (NewContainerDelegate S) cellID" and S = S and M = M and
          c = container],
        where s = s' and x = evacuation_context_New]
    by (simp add: serve_evacuate [OF h] EvacuateNotify_def NewTaskProcessor_def del: print_json.simps)
qed

theorem evacuate_request_takes_effect_witness:
  "eval (Perform example_api example_rep example_work)
     (exec (serve False example_server EvacuateRoute [] '''') example_world) = Inr example_work"
  using evacuate_request_takes_effect [of rev False example_wire "auction_client example_api example_rep"
      example_services True example_world
      "exec (serve False example_server EvacuateRoute [] '''') example_world"]
  by (simp add: example_server_def others_step_def)

end
